(* ===== verification/Prelude.thy ===== *)
theory Prelude
  imports Main "HOL-Library.AList" "HOL-Library.Sublist" "HOL-Library.Code_Target_Numeral"
begin

text \<open>
  Shared vocabulary of the development: the collections its automation uses, Python
  dictionaries as association lists (insertion order is kept, as in CPython), the contract
  of a dictionary as a locale, and Python truth on optional strings.
\<close>

section \<open>Collections\<close>

named_theorems run_simps "equations that execute an io computation one step"
named_theorems keeps_rules "rules that an io computation keeps a part of the world"
named_theorems sends_rules "rules on the requests an io computation sends"
named_theorems returns_rules "rules on the values an io computation returns"
named_theorems preserves_rules "rules that an io computation preserves a property of the world"
named_theorems text_simps "equations of the Python string functions"

section \<open>Dictionaries\<close>

type_synonym ('k, 'v) dict = "('k \<times> 'v) list"

text \<open>
  \<open>d.get(k)\<close> is \<^term>\<open>map_of d k\<close>; \<open>d[k] = v\<close> keeps the position of a key that is present and
  appends a new one; \<open>d.pop(k, None)\<close> removes it; \<open>d.update(e)\<close> stores the items of \<open>e\<close> in order.
\<close>

abbreviation dict_get :: "('k, 'v) dict \<Rightarrow> 'k \<Rightarrow> 'v option" where
  "dict_get d k \<equiv> map_of d k"

definition dict_set :: "'k \<Rightarrow> 'v \<Rightarrow> ('k, 'v) dict \<Rightarrow> ('k, 'v) dict" where
  "dict_set k v d = AList.update k v d"

definition dict_del :: "'k \<Rightarrow> ('k, 'v) dict \<Rightarrow> ('k, 'v) dict" where
  "dict_del k d = filter (\<lambda>p. fst p \<noteq> k) d"

definition dict_values :: "('k, 'v) dict \<Rightarrow> 'v list" where
  "dict_values d = map snd d"

definition dict_update :: "('k, 'v) dict \<Rightarrow> ('k, 'v) dict \<Rightarrow> ('k, 'v) dict" where
  "dict_update d e = fold (\<lambda>(k, v). dict_set k v) e d"

definition dict_wf :: "('k, 'v) dict \<Rightarrow> bool" where
  "dict_wf d = distinct (map fst d)"

lemma dict_get_set [simp]: "dict_get (dict_set k v d) k' = (if k' = k then Some v else dict_get d k')"
  by (simp add: dict_set_def AList.update_conv')

lemma dict_get_del [simp]: "dict_get (dict_del k d) k' = (if k' = k then None else dict_get d k')"
  by (induction d) (auto simp: dict_del_def)

lemma dict_wf_Nil [simp]: "dict_wf []"
  by (simp add: dict_wf_def)

lemma dict_wf_set [simp]: "dict_wf d \<Longrightarrow> dict_wf (dict_set k v d)"
  by (simp add: dict_wf_def dict_set_def AList.distinct_update)

lemma dict_wf_del [simp]: "dict_wf d \<Longrightarrow> dict_wf (dict_del k d)"
  by (induction d) (auto simp: dict_wf_def dict_del_def)

lemma dict_set_keys: "fst ` set (dict_set k v d) = insert k (fst ` set d)"
  by (simp add: dict_set_def AList.dom_update)

lemma dict_values_iff: "dict_wf d \<Longrightarrow> v \<in> set (dict_values d) \<longleftrightarrow> (\<exists>k. dict_get d k = Some v)"
  by (auto simp: dict_values_def dict_wf_def) (force intro: map_of_is_SomeI)

lemma dict_set_fresh: "dict_get d k = None \<Longrightarrow> dict_set k v d = d @ [(k, v)]"
  by (induction d) (auto simp: dict_set_def split: if_splits)

lemma dict_set_triv: "dict_get d k = Some v \<Longrightarrow> dict_set k v d = d"
  by (simp add: dict_set_def AList.update_triv)

lemma dict_set_twice: "dict_set k w (dict_set k v d) = dict_set k w d"
  by (induction d) (auto simp: dict_set_def)

lemma dict_values_fresh: "dict_get d k = None \<Longrightarrow> dict_values (dict_set k v d) = dict_values d @ [v]"
  by (simp add: dict_set_fresh dict_values_def)

lemma dict_set_length: "dict_get d k = Some v' \<Longrightarrow> length (dict_set k v d) = length d"
  by (induction d) (auto simp: dict_set_def split: if_splits)

subsection \<open>The contract of a dictionary\<close>

text \<open>
  What the stores rely on: a lookup returns what was stored last under that key, and an
  operation on one key leaves every other key alone.
\<close>

locale dictionary =
  fixes getd :: "'d \<Rightarrow> 'k \<Rightarrow> 'v option"
    and setd :: "'k \<Rightarrow> 'v \<Rightarrow> 'd \<Rightarrow> 'd"
    and deld :: "'k \<Rightarrow> 'd \<Rightarrow> 'd"
    and wfd :: "'d \<Rightarrow> bool"
  assumes get_set: "getd (setd k v d) k' = (if k' = k then Some v else getd d k')"
    and get_del: "getd (deld k d) k' = (if k' = k then None else getd d k')"
    and wf_set: "wfd d \<Longrightarrow> wfd (setd k v d)"
    and wf_del: "wfd d \<Longrightarrow> wfd (deld k d)"
begin

lemma get_same: "getd (setd k v d) k = Some v"
  by (simp add: get_set)

lemma get_other: "k' \<noteq> k \<Longrightarrow> getd (setd k v d) k' = getd d k'"
  by (simp add: get_set)

lemma overwrite: "getd (setd k w (setd k v d)) = getd (setd k w d)"
  by (auto simp: get_set)

lemma commute: "k \<noteq> l \<Longrightarrow> getd (setd k v (setd l w d)) = getd (setd l w (setd k v d))"
  by (auto simp: get_set)

lemma del_set: "getd (deld k (setd k v d)) = getd (deld k d)"
  by (auto simp: get_set get_del)

text \<open>A key that some chain of writes never touches keeps its value.\<close>

lemma fold_set_frame:
  "k \<notin> fst ` set ps \<Longrightarrow> getd (fold (\<lambda>(l, v). setd l v) ps d) k = getd d k"
  by (induction ps arbitrary: d) (auto simp: get_set)

lemma fold_set_wf: "wfd d \<Longrightarrow> wfd (fold (\<lambda>(l, v). setd l v) ps d)"
  by (induction ps arbitrary: d) (auto simp: wf_set)

end

interpretation pydict: dictionary "\<lambda>d k. map_of d k" dict_set dict_del dict_wf
  by unfold_locales auto

lemma dict_update_frame: "k \<notin> fst ` set e \<Longrightarrow> dict_get (dict_update d e) k = dict_get d k"
  unfolding dict_update_def by (rule pydict.fold_set_frame)

lemma dict_update_wf: "dict_wf d \<Longrightarrow> dict_wf (dict_update d e)"
  unfolding dict_update_def by (rule pydict.fold_set_wf)

section \<open>Optional strings\<close>

text \<open>\<open>x or y\<close> on strings and on \<open>str | None\<close>; \<open>x or None\<close>.\<close>

definition str_or :: "string \<Rightarrow> string \<Rightarrow> string" where
  "str_or x y = (if x = [] then y else x)"

definition opt_str_or :: "string option \<Rightarrow> string \<Rightarrow> string" where
  "opt_str_or x y = (case x of None \<Rightarrow> y | Some s \<Rightarrow> if s = [] then y else s)"

definition or_none :: "string \<Rightarrow> string option" where
  "or_none x = (if x = [] then None else Some x)"

lemma or_none_simps [simp]: "or_none [] = None" "x \<noteq> [] \<Longrightarrow> or_none x = Some x"
  by (simp_all add: or_none_def)

section \<open>Lists\<close>

lemma find_filter_hd: "find P xs = (case filter P xs of [] \<Rightarrow> None | x # _ \<Rightarrow> Some x)"
  by (induction xs) auto

lemma find_app_Some: "find P (xs @ y # ys) = Some y" if "\<forall>x\<in>set xs. \<not> P x" "P y"
  using that by (induction xs) auto

lemma list_all_set_mono: "list_all P xs \<Longrightarrow> (\<And>x. P x \<Longrightarrow> Q x) \<Longrightarrow> list_all Q xs"
  by (simp add: list_all_iff)

end
