(* ===== verification/PyStr.thy ===== *)
theory PyStr
  imports Prelude
begin

text \<open>
  The Python \<open>str\<close> operations the program uses. A \<open>string\<close> here is a Python \<open>str\<close> whose code points
  are below 256 (a \<open>char\<close> is its code point); on that range the character classes below are the
  Unicode ones CPython uses. Literals of the source outside that range (dashes, arrows) are written
  as their UTF-8 bytes, and no operation of this theory is applied to them by the program.
\<close>

section \<open>Character classes\<close>

abbreviation ord :: "char \<Rightarrow> nat" where
  "ord c \<equiv> of_char c"

definition c_alpha :: "char \<Rightarrow> bool" where
  "c_alpha c = (let n = ord c in (65 \<le> n \<and> n \<le> 90) \<or> (97 \<le> n \<and> n \<le> 122) \<or>
     n = 170 \<or> n = 181 \<or> n = 186 \<or> (192 \<le> n \<and> n \<noteq> 215 \<and> n \<noteq> 247))"

definition c_digit :: "char \<Rightarrow> bool" where
  "c_digit c = (48 \<le> ord c \<and> ord c \<le> 57)"

definition c_numeric :: "char \<Rightarrow> bool" where
  "c_numeric c = (let n = ord c in c_digit c \<or> n = 178 \<or> n = 179 \<or> n = 185 \<or>
     n = 188 \<or> n = 189 \<or> n = 190)"

definition c_upper :: "char \<Rightarrow> bool" where
  "c_upper c = (let n = ord c in (65 \<le> n \<and> n \<le> 90) \<or> (192 \<le> n \<and> n \<le> 222 \<and> n \<noteq> 215))"

definition c_lower :: "char \<Rightarrow> bool" where
  "c_lower c = (let n = ord c in (97 \<le> n \<and> n \<le> 122) \<or> n = 170 \<or> n = 181 \<or> n = 186 \<or>
     (223 \<le> n \<and> n \<noteq> 247))"

definition c_space :: "char \<Rightarrow> bool" where
  "c_space c = (let n = ord c in (9 \<le> n \<and> n \<le> 13) \<or> (28 \<le> n \<and> n \<le> 32) \<or> n = 133 \<or> n = 160)"

section \<open>Predicates and transformations of a string\<close>

definition isalnum :: "string \<Rightarrow> bool" where
  "isalnum s = (s \<noteq> [] \<and> list_all (\<lambda>c. c_alpha c \<or> c_numeric c) s)"

definition islower :: "string \<Rightarrow> bool" where
  "islower s = (list_all (\<lambda>c. \<not> c_upper c) s \<and> list_ex c_lower s)"

definition isidentifier :: "string \<Rightarrow> bool" where
  "isidentifier s = (case s of [] \<Rightarrow> False
     | c # cs \<Rightarrow> (c_alpha c \<or> c = CHR ''_'') \<and>
         list_all (\<lambda>c. c_alpha c \<or> c_digit c \<or> c = CHR ''_'' \<or> ord c = 183) cs)"

definition lower_char :: "char \<Rightarrow> char" where
  "lower_char c = (if c_upper c then char_of (ord c + 32) else c)"

definition lower :: "string \<Rightarrow> string" where
  "lower s = map lower_char s"

definition strip :: "string \<Rightarrow> string" where
  "strip s = rev (dropWhile c_space (rev (dropWhile c_space s)))"

definition rstrip_char :: "char \<Rightarrow> string \<Rightarrow> string" where
  "rstrip_char c s = rev (dropWhile (\<lambda>x. x = c) (rev s))"

definition remove_char :: "char \<Rightarrow> string \<Rightarrow> string" where
  "remove_char c s = filter (\<lambda>x. x \<noteq> c) s"

definition startswith :: "string \<Rightarrow> string \<Rightarrow> bool" where
  "startswith s p = (take (length p) s = p)"

fun split_on :: "char \<Rightarrow> string \<Rightarrow> string list" where
  "split_on c [] = [[]]"
| "split_on c (x # xs) =
     (if x = c then [] # split_on c xs
      else case split_on c xs of [] \<Rightarrow> [[x]] | y # ys \<Rightarrow> (x # y) # ys)"

fun join :: "string \<Rightarrow> string list \<Rightarrow> string" where
  "join sep [] = []"
| "join sep [x] = x"
| "join sep (x # xs) = x @ sep @ join sep xs"

text \<open>\<open>s.replace(old, new, 1)\<close>.\<close>

fun replace_first :: "string \<Rightarrow> string \<Rightarrow> string \<Rightarrow> string" where
  "replace_first old new s =
     (if startswith s old then new @ drop (length old) s
      else case s of [] \<Rightarrow> [] | c # cs \<Rightarrow> c # replace_first old new cs)"

declare replace_first.simps [simp del]

text \<open>\<open>s.replace(old, new)\<close> for a non-empty \<open>old\<close>; the number counts the characters still to skip.\<close>

fun replace_from :: "string \<Rightarrow> string \<Rightarrow> nat \<Rightarrow> string \<Rightarrow> string" where
  "replace_from old new k [] = []"
| "replace_from old new (Suc k) (c # cs) = replace_from old new k cs"
| "replace_from old new 0 (c # cs) =
     (if startswith (c # cs) old then new @ replace_from old new (length old - 1) cs
      else c # replace_from old new 0 cs)"

definition replace_all :: "string \<Rightarrow> string \<Rightarrow> string \<Rightarrow> string" where
  "replace_all old new s = replace_from old new 0 s"

text \<open>
  \<open>s.capitalize()\<close>; the title case of the micro sign and of y with diaeresis is outside the range of
  \<open>char\<close>, and those two are left as they are.
\<close>

definition title_char :: "char \<Rightarrow> string" where
  "title_char c = (let n = ord c in if n = 223 then ''Ss''
     else if (97 \<le> n \<and> n \<le> 122) \<or> (224 \<le> n \<and> n \<le> 254 \<and> n \<noteq> 247) then [char_of (n - 32)] else [c])"

definition capitalize :: "string \<Rightarrow> string" where
  "capitalize s = (case s of [] \<Rightarrow> [] | c # cs \<Rightarrow> title_char c @ lower cs)"

section \<open>Decimal numbers\<close>

definition digit :: "nat \<Rightarrow> char" where
  "digit n = char_of (48 + n)"

fun dec :: "nat \<Rightarrow> string" where
  "dec n = (if n < 10 then [digit n] else dec (n div 10) @ [digit (n mod 10)])"

declare dec.simps [simp del]

definition dec_int :: "int \<Rightarrow> string" where
  "dec_int i = (if i < 0 then CHR ''-'' # dec (nat (- i)) else dec (nat i))"

text \<open>The value of a string of ASCII digits.\<close>

definition undec :: "string \<Rightarrow> nat" where
  "undec s = foldl (\<lambda>n c. 10 * n + (ord c - 48)) 0 s"

text \<open>A text between single quotes, as in \<open>f"'{name}'"\<close>, and \<open>repr(s)\<close>.\<close>

definition squoted :: "string \<Rightarrow> string" where
  "squoted s = CHR 0x27 # s @ [CHR 0x27]"

definition hex_lower :: "nat \<Rightarrow> char" where
  "hex_lower n = char_of (if n < 10 then 48 + n else 87 + n)"

definition repr_char :: "char \<Rightarrow> char \<Rightarrow> string" where
  "repr_char q c = (let n = ord c in
     if c = q \<or> n = 92 then [CHR 0x5C, c]
     else if n = 10 then [CHR 0x5C, CHR ''n''] else if n = 13 then [CHR 0x5C, CHR ''r'']
     else if n = 9 then [CHR 0x5C, CHR ''t'']
     else if n < 32 \<or> (127 \<le> n \<and> n \<le> 160) \<or> n = 173
     then [CHR 0x5C, CHR ''x'', hex_lower (n div 16), hex_lower (n mod 16)]
     else [c])"

definition repr_str :: "string \<Rightarrow> string" where
  "repr_str s = (let q = (if CHR 0x27 \<in> set s \<and> CHR 0x22 \<notin> set s then CHR 0x22 else CHR 0x27)
     in q # concat (map (repr_char q) s) @ [q])"

text \<open>The UTF-8 bytes of the dashes the messages of the program contain.\<close>

definition en_dash :: string where
  "en_dash = [CHR 0xE2, CHR 0x80, CHR 0x93]"

definition em_dash :: string where
  "em_dash = [CHR 0xE2, CHR 0x80, CHR 0x94]"

section \<open>Percent encoding\<close>

text \<open>The UTF-8 bytes of a code point below 256, and \<open>urllib.parse.quote(value, safe='')\<close>.\<close>

definition utf8 :: "char \<Rightarrow> nat list" where
  "utf8 c = (if ord c < 128 then [ord c] else [192 + ord c div 64, 128 + ord c mod 64])"

definition quote_safe :: "nat \<Rightarrow> bool" where
  "quote_safe n = ((65 \<le> n \<and> n \<le> 90) \<or> (97 \<le> n \<and> n \<le> 122) \<or> (48 \<le> n \<and> n \<le> 57) \<or>
     n = 95 \<or> n = 46 \<or> n = 45 \<or> n = 126)"

definition hex_digit :: "nat \<Rightarrow> char" where
  "hex_digit n = char_of (if n < 10 then 48 + n else 55 + n)"

definition quote_byte :: "nat \<Rightarrow> string" where
  "quote_byte n = (if quote_safe n then [char_of n]
     else [CHR ''%'', hex_digit (n div 16), hex_digit (n mod 16)])"

definition quote :: "string \<Rightarrow> string" where
  "quote s = concat (map quote_byte (concat (map utf8 s)))"

text \<open>The inverse, used only to state that nothing is lost.\<close>

definition hex_value :: "char \<Rightarrow> nat" where
  "hex_value c = (if ord c < 58 then ord c - 48 else ord c - 55)"

fun pct_bytes :: "string \<Rightarrow> nat list" where
  "pct_bytes [] = []"
| "pct_bytes (c # cs) =
     (if c = CHR ''%'' then (case cs of a # b # ds \<Rightarrow> (16 * hex_value a + hex_value b) # pct_bytes ds | _ \<Rightarrow> [])
      else ord c # pct_bytes cs)"

fun utf8_decode :: "nat list \<Rightarrow> string" where
  "utf8_decode [] = []"
| "utf8_decode (b # bs) =
     (if b < 128 then char_of b # utf8_decode bs
      else case bs of [] \<Rightarrow> [] | d # ds \<Rightarrow> char_of ((b - 192) * 64 + (d - 128)) # utf8_decode ds)"

definition unquote :: "string \<Rightarrow> string" where
  "unquote s = utf8_decode (pct_bytes s)"

section \<open>Lemmas\<close>

subsection \<open>Characters and finite checks\<close>

lemma ord_less: "ord c < 256"
  by simp

lemma take_bit_8 [simp]: "n < 256 \<Longrightarrow> take_bit 8 n = (n::nat)"
  by (simp add: take_bit_nat_eq_self)

lemma all_chars_finite:
  assumes "\<And>n::nat. n < 256 \<Longrightarrow> P (char_of n)"
  shows "P c"
  using assms [of "ord c"] by simp

lemma char_of_inject_256: "m < 256 \<Longrightarrow> n < 256 \<Longrightarrow> char_of (m::nat) = char_of n \<longleftrightarrow> m = n"
  by (simp add: char_of_eq_iff)

lemma ord_char_of_256 [simp]: "n < 256 \<Longrightarrow> ord (char_of n) = (n::nat)"
  by simp

text \<open>A fact about every byte is a finite computation.\<close>

lemma byte_check: "list_all P [0..<256] \<Longrightarrow> n < 256 \<Longrightarrow> P n"
  by (simp add: list_all_iff)

subsection \<open>Percent encoding loses nothing and never yields a slash\<close>

lemma hex_value_digit: "n < 16 \<Longrightarrow> hex_value (hex_digit n) = n"
  by (simp add: hex_value_def hex_digit_def)

lemma pct_bytes_quote_byte: "n < 256 \<Longrightarrow> pct_bytes (quote_byte n @ s) = n # pct_bytes s"
proof (cases "quote_safe n")
  case True
  assume "n < 256"
  moreover from True have "n \<noteq> 37" by (auto simp: quote_safe_def)
  ultimately have "char_of n \<noteq> CHR ''%''"
    by (auto simp: char_of_eq_iff)
  with True \<open>n < 256\<close> show ?thesis by (simp add: quote_byte_def)
next
  case False
  assume "n < 256"
  then have "16 * (n div 16) + n mod 16 = n" "n div 16 < 16" "n mod 16 < 16" by simp_all
  with False show ?thesis by (simp add: quote_byte_def hex_value_digit)
qed

lemma pct_bytes_quote_bytes: "list_all (\<lambda>n. n < 256) bs \<Longrightarrow> pct_bytes (concat (map quote_byte bs)) = bs"
  by (induction bs) (simp_all add: pct_bytes_quote_byte)

lemma utf8_bytes: "list_all (\<lambda>n. n < 256) (utf8 c)"
proof -
  have "ord c div 64 < 4" using ord_less [of c] by linarith
  moreover have "ord c mod 64 < 64" by simp
  ultimately show ?thesis using ord_less [of c] by (simp add: utf8_def del: mod_less_divisor)
qed

lemma utf8_decode_utf8: "utf8_decode (utf8 c @ bs) = c # utf8_decode bs"
proof (cases "ord c < 128")
  case False
  have "(ord c div 64) * 64 + ord c mod 64 = ord c" by simp
  with False show ?thesis by (simp add: utf8_def)
qed (simp add: utf8_def)

lemma utf8_decode_all: "utf8_decode (concat (map utf8 s)) = s"
  by (induction s) (simp_all add: utf8_decode_utf8)

lemma utf8_all_bytes: "list_all (\<lambda>n. n < 256) (concat (map utf8 s))"
  by (induction s) (simp_all add: utf8_bytes)

lemma unquote_quote: "unquote (quote s) = s"
  by (simp add: unquote_def quote_def pct_bytes_quote_bytes utf8_all_bytes utf8_decode_all)

lemma quote_inject: "quote s = quote t \<longleftrightarrow> s = t"
  by (metis unquote_quote)

definition path_safe :: "char \<Rightarrow> bool" where
  "path_safe c = (c = CHR ''%'' \<or> quote_safe (ord c))"

lemma hex_digit_safe: "n < 16 \<Longrightarrow> path_safe (hex_digit n)"
  by (auto simp: path_safe_def hex_digit_def quote_safe_def)

lemma quote_byte_safe: "n < 256 \<Longrightarrow> list_all path_safe (quote_byte n)"
proof (cases "quote_safe n")
  case False
  assume "n < 256"
  then have "n div 16 < 16" "n mod 16 < 16" by simp_all
  with False show ?thesis by (simp add: quote_byte_def hex_digit_safe) (simp add: path_safe_def)
qed (simp add: quote_byte_def path_safe_def)

lemma quote_bytes_safe: "list_all (\<lambda>n. n < 256) bs \<Longrightarrow> list_all path_safe (concat (map quote_byte bs))"
  by (induction bs) (simp_all add: quote_byte_safe)

lemma quote_path_safe: "list_all path_safe (quote s)"
  unfolding quote_def by (rule quote_bytes_safe) (rule utf8_all_bytes)

lemma quote_no_slash: "CHR ''/'' \<notin> set (quote s)"
proof -
  have "\<not> path_safe CHR ''/''" by (simp add: path_safe_def quote_safe_def)
  with quote_path_safe [of s] show ?thesis by (auto simp: list_all_iff)
qed

subsection \<open>Decimal numbers\<close>

lemma dec_nonempty: "dec n \<noteq> []"
  by (subst dec.simps) simp

lemma undec_append: "undec (s @ [c]) = 10 * undec s + (ord c - 48)"
  by (simp add: undec_def)

lemma undec_dec: "undec (dec n) = n"
proof (induction n rule: dec.induct)
  case (1 n)
  show ?case
  proof (cases "n < 10")
    case True
    then show ?thesis by (simp add: dec.simps [of n] undec_def digit_def)
  next
    case False
    with 1 show ?thesis by (simp add: dec.simps [of n] undec_append digit_def)
  qed
qed

lemma dec_inject: "dec m = dec n \<longleftrightarrow> m = n"
  by (metis undec_dec)

lemma dec_digits: "list_all c_digit (dec n)"
proof (induction n rule: dec.induct)
  case (1 n)
  have d: "m < 10 \<Longrightarrow> c_digit (digit m)" for m
    by (simp add: digit_def c_digit_def)
  with 1 show ?case by (subst dec.simps) (simp add: d)
qed

lemma length_dec: "n < 10 ^ Suc k \<Longrightarrow> length (dec n) \<le> Suc k"
proof (induction k arbitrary: n)
  case 0
  then show ?case by (simp add: dec.simps)
next
  case (Suc k)
  then have "n div 10 < 10 ^ Suc k" by (simp add: less_mult_imp_div_less)
  with Suc.IH have "length (dec (n div 10)) \<le> Suc k" by blast
  then show ?case by (simp add: dec.simps [of n])
qed

lemma hd_dec: "n \<noteq> 0 \<Longrightarrow> hd (dec n) \<noteq> CHR ''0''"
proof (induction n rule: dec.induct)
  case (1 n)
  show ?case
  proof (cases "n < 10")
    case True
    with 1 have "ord (digit n) \<noteq> ord CHR ''0''" by (simp add: digit_def)
    with True show ?thesis by (auto simp: dec.simps [of n])
  next
    case False
    with 1 show ?thesis by (simp add: dec.simps [of n] dec_nonempty)
  qed
qed

subsection \<open>Splitting and joining\<close>

lemma split_on_nonempty: "split_on c s \<noteq> []"
  by (induction s) (auto split: list.split)

lemma split_on_no_sep: "c \<notin> set s \<Longrightarrow> split_on c s = [s]"
  by (induction s) auto

lemma split_on_sep: "c \<notin> set s \<Longrightarrow> split_on c (s @ c # t) = s # split_on c t"
  by (induction s) auto

lemma join_Cons: "xs \<noteq> [] \<Longrightarrow> join sep (x # xs) = x @ sep @ join sep xs"
  by (cases xs) simp_all

lemma join_split_on: "join [c] (split_on c s) = s"
proof (induction s)
  case (Cons x xs)
  obtain y ys where s: "split_on c xs = y # ys"
    using split_on_nonempty [of c xs] by (cases "split_on c xs") auto
  with Cons show ?case by (cases ys) auto
qed simp

lemma split_on_join:
  "xs \<noteq> [] \<Longrightarrow> \<forall>x\<in>set xs. c \<notin> set x \<Longrightarrow> split_on c (join [c] xs) = xs"
proof (induction xs)
  case (Cons x xs)
  then show ?case
    by (cases "xs = []") (simp_all add: split_on_no_sep join_Cons split_on_sep)
qed simp

lemma startswith_append [simp]: "startswith (p @ s) p"
  by (simp add: startswith_def)

lemma startswith_drop: "startswith s p \<Longrightarrow> s = p @ drop (length p) s"
  unfolding startswith_def by (metis append_take_drop_id)

lemma rstrip_char_last: "rstrip_char c s = [] \<or> last (rstrip_char c s) \<noteq> c"
  using hd_dropWhile [of "\<lambda>x. x = c" "rev s"]
  by (cases "dropWhile (\<lambda>x. x = c) (rev s)") (auto simp: rstrip_char_def)

lemma rstrip_char_id: "s = [] \<or> last s \<noteq> c \<Longrightarrow> rstrip_char c s = s"
  by (cases s rule: rev_cases) (auto simp: rstrip_char_def)

lemma replace_first_prefix: "replace_first old new (old @ s) = new @ s"
  by (simp add: replace_first.simps [of old new "old @ s"] startswith_def)

end
