(* ===== verification/PyJson.thy ===== *)
theory PyJson
  imports PyStr
begin

text \<open>
  JSON documents as the Python values \<open>json.loads\<close> makes of them (objects are dictionaries in
  document order), with the Python operations the program applies to such a value: \<open>bool(v)\<close>,
  \<open>type(v).__name__\<close>, iteration, and \<open>float(v)\<close> with IEEE double rounding.
\<close>

section \<open>Values\<close>

text \<open>A finite double is \<open>m * 2 ^ e\<close>; the three others are the infinities and not-a-number.\<close>

datatype pyfloat = Finite int int | PosInf | NegInf | NaN

datatype json =
    JNull
  | JBool bool
  | JInt int
  | JFloat pyfloat
  | JStr string
  | JArr "json list"
  | JObj "(string \<times> json) list"

definition type_name :: "json \<Rightarrow> string" where
  "type_name v = (case v of JNull \<Rightarrow> ''NoneType'' | JBool _ \<Rightarrow> ''bool'' | JInt _ \<Rightarrow> ''int''
     | JFloat _ \<Rightarrow> ''float'' | JStr _ \<Rightarrow> ''str'' | JArr _ \<Rightarrow> ''list'' | JObj _ \<Rightarrow> ''dict'')"

fun float_zero :: "pyfloat \<Rightarrow> bool" where
  "float_zero (Finite m e) = (m = 0)"
| "float_zero _ = False"

definition truth :: "json \<Rightarrow> bool" where
  "truth v = (case v of JNull \<Rightarrow> False | JBool b \<Rightarrow> b | JInt i \<Rightarrow> i \<noteq> 0
     | JFloat f \<Rightarrow> \<not> float_zero f | JStr s \<Rightarrow> s \<noteq> [] | JArr xs \<Rightarrow> xs \<noteq> [] | JObj ps \<Rightarrow> ps \<noteq> [])"

text \<open>\<open>v or w\<close>.\<close>

definition jor :: "json \<Rightarrow> json \<Rightarrow> json" where
  "jor v w = (if truth v then v else w)"

lemma truth_simps [simp]:
  "truth JNull = False" "truth (JBool b) = b" "truth (JStr s) = (s \<noteq> [])"
  "truth (JArr xs) = (xs \<noteq> [])" "truth (JObj ps) = (ps \<noteq> [])" "truth (JInt i) = (i \<noteq> 0)"
  by (simp_all add: truth_def)

section \<open>Text of a value\<close>

text \<open>
  \<open>repr(v)\<close> and \<open>str(v)\<close>. The shortest round-trip digits of a double are the parameter \<open>fr\<close>.
\<close>

fun py_repr :: "(pyfloat \<Rightarrow> string) \<Rightarrow> json \<Rightarrow> string" where
  "py_repr fr JNull = ''None''"
| "py_repr fr (JBool b) = (if b then ''True'' else ''False'')"
| "py_repr fr (JInt i) = dec_int i"
| "py_repr fr (JFloat f) = fr f"
| "py_repr fr (JStr s) = repr_str s"
| "py_repr fr (JArr xs) = ''['' @ join '', '' (map (py_repr fr) xs) @ '']''"
| "py_repr fr (JObj ps) = ''{'' @ join '', '' (map (\<lambda>(k, v). repr_str k @ '': '' @ py_repr fr v) ps) @ ''}''"

definition py_str :: "(pyfloat \<Rightarrow> string) \<Rightarrow> json \<Rightarrow> string" where
  "py_str fr v = (case v of JStr s \<Rightarrow> s | _ \<Rightarrow> py_repr fr v)"

text \<open>A list or a dictionary is not hashable, so it cannot be put in a set or looked up in one.\<close>

definition hashable :: "json \<Rightarrow> bool" where
  "hashable v = (case v of JArr _ \<Rightarrow> False | JObj _ \<Rightarrow> False | _ \<Rightarrow> True)"

section \<open>Integers as doubles\<close>

text \<open>
  \<open>float(i)\<close> rounds to the nearest double, ties to the even mantissa, and raises
  \<open>OverflowError\<close> (\<^const>\<open>None\<close>) when the rounded value reaches \<open>2 ^ 1024\<close>.
\<close>

fun bit_length :: "nat \<Rightarrow> nat" where
  "bit_length n = (if n = 0 then 0 else Suc (bit_length (n div 2)))"

declare bit_length.simps [simp del]

definition round_shift :: "nat \<Rightarrow> nat \<Rightarrow> nat" where
  "round_shift n k = (let q = n div 2 ^ k; r = n mod 2 ^ k in
     if 2 * r < 2 ^ k \<or> (2 * r = 2 ^ k \<and> even q) then q else Suc q)"

definition float_of_nat :: "nat \<Rightarrow> pyfloat option" where
  "float_of_nat n = (let b = bit_length n in
     if b \<le> 53 then Some (Finite (int n) 0)
     else let k = b - 53; m = round_shift n k in
       if 2 ^ 1024 \<le> m * 2 ^ k then None else Some (Finite (int m) (int k)))"

definition negate_float :: "pyfloat \<Rightarrow> pyfloat" where
  "negate_float f = (case f of Finite m e \<Rightarrow> Finite (- m) e | PosInf \<Rightarrow> NegInf | NegInf \<Rightarrow> PosInf | NaN \<Rightarrow> NaN)"

definition float_of_int :: "int \<Rightarrow> pyfloat option" where
  "float_of_int i = (if i < 0 then map_option negate_float (float_of_nat (nat (- i)))
     else float_of_nat (nat i))"

section \<open>Lemmas\<close>

lemma bit_length_le: "n < 2 ^ k \<Longrightarrow> bit_length n \<le> k"
proof (induction k arbitrary: n)
  case 0
  then show ?case by (simp add: bit_length.simps)
next
  case (Suc k)
  then have "n div 2 < 2 ^ k" by auto
  with Suc.IH show ?case by (subst bit_length.simps) auto
qed

lemma bit_length_bound: "n < 2 ^ bit_length n"
proof (induction n rule: bit_length.induct)
  case (1 n)
  show ?case
  proof (cases "n = 0")
    case False
    with 1 have "n div 2 < 2 ^ bit_length (n div 2)" by simp
    with False show ?thesis by (simp add: bit_length.simps [of n])
  qed (simp add: bit_length.simps)
qed

text \<open>Every integer of at most 53 bits is exact.\<close>

lemma float_of_nat_exact: "n < 2 ^ 53 \<Longrightarrow> float_of_nat n = Some (Finite (int n) 0)"
  by (simp add: float_of_nat_def bit_length_le Let_def)

lemma float_of_int_exact: "\<bar>i\<bar> < 2 ^ 53 \<Longrightarrow> float_of_int i = Some (Finite i 0)"
proof -
  assume i: "\<bar>i\<bar> < 2 ^ 53"
  have "nat \<bar>i\<bar> < nat (2 ^ 53)" using i by (subst nat_less_eq_zless) auto
  then have "nat \<bar>i\<bar> < 2 ^ 53" by simp
  then show ?thesis
    by (cases "i < 0") (simp_all add: float_of_int_def float_of_nat_exact negate_float_def)
qed

text \<open>The rounding error is at most half a unit of the last place.\<close>

lemma round_shift_error: "2 * \<bar>int (round_shift n k) * 2 ^ k - int n\<bar> \<le> 2 ^ k"
proof -
  define q r where "q = n div 2 ^ k" and "r = n mod 2 ^ k"
  have nn: "n = q * 2 ^ k + r" unfolding q_def r_def by (rule div_mult_mod_eq [symmetric])
  have n: "int n = int q * 2 ^ k + int r" by (subst nn) simp
  have r: "r < 2 ^ k" by (simp add: r_def)
  then have r': "int r < 2 ^ k" by (metis of_nat_less_iff of_nat_numeral of_nat_power)
  show ?thesis
  proof (cases "2 * r < 2 ^ k \<or> (2 * r = 2 ^ k \<and> even q)")
    case True
    then have "2 * r \<le> 2 ^ k" by auto
    then have "2 * int r \<le> 2 ^ k" by (metis of_nat_le_iff of_nat_mult of_nat_numeral of_nat_power)
    moreover from True have "round_shift n k = q" by (auto simp: round_shift_def Let_def q_def r_def)
    ultimately show ?thesis by (simp add: n)
  next
    case False
    then have "2 ^ k \<le> 2 * r" by auto
    then have "2 ^ k \<le> 2 * int r" by (metis of_nat_le_iff of_nat_mult of_nat_numeral of_nat_power)
    moreover from False have "round_shift n k = Suc q" by (auto simp: round_shift_def Let_def q_def r_def)
    ultimately show ?thesis using r' by (simp add: n algebra_simps)
  qed
qed

end
