(* ===== verification/Models.thy ===== *)
theory Models
  imports PyJson
begin

text \<open>
  The data of the IoT Bridge API: the settings of \<open>app/config.py\<close>, the request and response models
  of \<open>app/models.py\<close>, and the layouts of the JSON stores documented in \<open>clients/join_key_store.py\<close>
  and \<open>clients/join_store.py\<close>. A time stamp is an \<open>instant\<close>: the microseconds since the epoch in
  UTC, which \<open>isoformat\<close> and \<open>fromisoformat\<close> map to text and back.
\<close>

type_synonym instant = int

section \<open>Settings\<close>

record settings =
  step_ca_url :: string
  step_ca_fingerprint :: string
  step_ca_provisioner_name :: string
  step_ca_provisioner_password :: string
  thingsboard_url :: string
  thingsboard_sysadmin_email :: string
  thingsboard_sysadmin_password :: string
  hawkbit_url :: string
  hawkbit_user :: string
  hawkbit_password :: string
  wireguard_config_dir :: string
  wg_subnet :: string
  wg_server_ip :: string
  wg_server_url :: string
  wg_port :: int
  tsdb_host :: string
  tsdb_port :: int
  tsdb_database :: string
  tsdb_telegraf_password :: string
  step_ca_verify_tls :: bool
  keycloak_url :: string
  external_url :: string
  portal_session_secret :: string
  portal_oidc_secret :: string
  portal_tenants_json :: string
  rabbitmq_mgmt_url :: string
  rabbitmq_admin_user :: string
  rabbitmq_admin_password :: string
  keycloak_admin_user :: string
  keycloak_admin_password :: string
  step_ca_admin_provisioner :: string
  step_ca_admin_password :: string
  step_ca_sub_ca_provisioner :: string
  step_ca_sub_ca_password :: string
  join_requests_db_path :: string
  join_keys_db_path :: string

definition default_settings :: settings where
  "default_settings = \<lparr>
     step_ca_url = ''https://step-ca:9000'',
     step_ca_fingerprint = '''',
     step_ca_provisioner_name = ''iot-bridge'',
     step_ca_provisioner_password = ''changeme'',
     thingsboard_url = ''http://thingsboard:9090'',
     thingsboard_sysadmin_email = ''sysadmin@thingsboard.org'',
     thingsboard_sysadmin_password = ''sysadmin'',
     hawkbit_url = ''http://hawkbit:8070/hawkbit'',
     hawkbit_user = ''admin'',
     hawkbit_password = ''admin'',
     wireguard_config_dir = ''/wg-config'',
     wg_subnet = ''10.13.13.0/24'',
     wg_server_ip = ''10.13.13.1'',
     wg_server_url = ''localhost'',
     wg_port = 51820,
     tsdb_host = ''timescaledb'',
     tsdb_port = 5432,
     tsdb_database = ''cdm'',
     tsdb_telegraf_password = '''',
     step_ca_verify_tls = True,
     keycloak_url = ''http://keycloak:8080/auth'',
     external_url = ''http://localhost:8888'',
     portal_session_secret = ''change-this-portal-session-secret'',
     portal_oidc_secret = ''changeme'',
     portal_tenants_json = ''{\"cdm\": {\"name\": \"CDM Platform\"}, \"tenant1\": {\"name\": \"Acme Devices GmbH\"}, \"tenant2\": {\"name\": \"Beta Industries Ltd\"}}'',
     rabbitmq_mgmt_url = ''http://rabbitmq:15672'',
     rabbitmq_admin_user = ''admin'',
     rabbitmq_admin_password = ''changeme'',
     keycloak_admin_user = ''admin'',
     keycloak_admin_password = ''changeme'',
     step_ca_admin_provisioner = ''cdm-admin@cdm.local'',
     step_ca_admin_password = ''changeme'',
     step_ca_sub_ca_provisioner = ''tenant-sub-ca-signer'',
     step_ca_sub_ca_password = ''changeme'',
     join_requests_db_path = ''/data/join_requests.json'',
     join_keys_db_path = ''/data/join_keys.json''\<rparr>"

section \<open>Enrollment\<close>

record enrollment_request =
  er_csr :: string
  er_device_name :: string
  er_device_type :: string
  er_wg_public_key :: "string option"

record enrollment_response =
  es_certificate :: string
  es_ca_chain :: string
  es_wireguard_ip :: string
  es_wireguard_config :: string

section \<open>ThingsBoard webhooks\<close>

record thingsboard_webhook_event =
  ev_msgType :: string
  ev_metadata :: "(string, json) dict"
  ev_data :: json

record webhook_response =
  wr_status :: string
  wr_device_id :: "string option"
  wr_wireguard_ip :: "string option"
  wr_reason :: "string option"

record telemetry_webhook_response =
  tr_status :: string
  tr_device_id :: "string option"
  tr_tenant_id :: "string option"
  tr_points_written :: nat
  tr_reason :: "string option"

text \<open>
  A row handed to \<open>write_metrics\<close>, whose \<open>tags\<close> are always \<open>{"raw_type": t}\<close>, and the record that
  is inserted into \<open>device_telemetry\<close>.
\<close>

record metric_row =
  mr_tenant_id :: string
  mr_device_id :: string
  mr_metric_name :: string
  mr_value :: "pyfloat option"
  mr_raw_type :: string

record telemetry_record =
  te_time :: instant
  te_tenant_id :: string
  te_device_id :: string
  te_metric_name :: string
  te_value :: "pyfloat option"
  te_tags :: string

section \<open>JOIN workflow\<close>

text \<open>The pattern \<open>^[a-z0-9][a-z0-9-]{0,61}[a-z0-9]$\<close> of \<open>TenantPrepareRequest.tenant_id\<close>.\<close>

definition pattern_edge :: "char \<Rightarrow> bool" where
  "pattern_edge c = ((97 \<le> ord c \<and> ord c \<le> 122) \<or> c_digit c)"

definition tenant_id_pattern :: "string \<Rightarrow> bool" where
  "tenant_id_pattern s = (2 \<le> length s \<and> length s \<le> 63 \<and> pattern_edge (hd s) \<and> pattern_edge (last s) \<and>
     list_all (\<lambda>c. pattern_edge c \<or> c = CHR ''-'') s)"

record tenant_prepare_request =
  pq_tenant_id :: string
  pq_display_name :: string

record tenant_prepare_response =
  pr_tenant_id :: string
  pr_display_name :: string
  pr_join_key :: string
  pr_expires_at :: string

record join_handshake_payload =
  hp_sub_ca_csr :: string
  hp_wg_pubkey :: string
  hp_keycloak_url :: string
  hp_mqtt_bridge_csr :: string

record join_handshake_response =
  hr_tenant_id :: string
  hr_status :: string
  hr_signed_cert :: string
  hr_root_ca_cert :: string
  hr_rabbitmq_url :: "string option"
  hr_rabbitmq_vhost :: "string option"
  hr_rabbitmq_user :: "string option"
  hr_mqtt_bridge_cert :: "string option"
  hr_cdm_idp_client_id :: "string option"
  hr_cdm_idp_client_secret :: "string option"
  hr_cdm_discovery_url :: "string option"

record join_request_payload =
  jp_display_name :: string
  jp_sub_ca_csr :: string
  jp_wg_pubkey :: string
  jp_keycloak_url :: string
  jp_mqtt_bridge_csr :: string

record join_status_response =
  js_tenant_id :: string
  js_status :: string
  js_signed_cert :: "string option"
  js_root_ca_cert :: "string option"
  js_rabbitmq_url :: "string option"
  js_rabbitmq_vhost :: "string option"
  js_rabbitmq_user :: "string option"
  js_mqtt_bridge_cert :: "string option"
  js_cdm_idp_client_id :: "string option"
  js_cdm_idp_client_secret :: "string option"
  js_cdm_discovery_url :: "string option"
  js_wg_server_pubkey :: "string option"
  js_wg_server_endpoint :: "string option"
  js_wg_client_ip :: "string option"
  js_rejected_reason :: "string option"

section \<open>Entries of the stores\<close>

datatype key_status = Open | Used | Revoked | Expired

definition key_status_text :: "key_status \<Rightarrow> string" where
  "key_status_text s = (case s of Open \<Rightarrow> ''open'' | Used \<Rightarrow> ''used'' | Revoked \<Rightarrow> ''revoked'' | Expired \<Rightarrow> ''expired'')"

record key_entry =
  ke_key :: string
  ke_tenant_id :: string
  ke_display_name :: string
  ke_status :: key_status
  ke_created_at :: instant
  ke_expires_at :: instant
  ke_used_at :: "instant option"

datatype join_status = Pending | Approved | Rejected

definition join_status_text :: "join_status \<Rightarrow> string" where
  "join_status_text s = (case s of Pending \<Rightarrow> ''pending'' | Approved \<Rightarrow> ''approved'' | Rejected \<Rightarrow> ''rejected'')"

text \<open>
  The three certificates of an entry are stored as step-ca returned them, so they are JSON values;
  \<^const>\<open>JNull\<close> is \<open>None\<close>.
\<close>

record join_entry =
  je_tenant_id :: string
  je_display_name :: string
  je_sub_ca_csr :: string
  je_mqtt_bridge_csr :: string
  je_wg_pubkey :: string
  je_keycloak_url :: string
  je_status :: join_status
  je_requested_at :: instant
  je_approved_at :: "instant option"
  je_rejected_at :: "instant option"
  je_rejected_reason :: "string option"
  je_signed_cert :: json
  je_root_ca_cert :: json
  je_rabbitmq_url :: "string option"
  je_rabbitmq_vhost :: "string option"
  je_rabbitmq_user :: "string option"
  je_mqtt_bridge_cert :: json
  je_cdm_idp_client_id :: "string option"
  je_cdm_idp_client_secret :: "string option"
  je_cdm_discovery_url :: "string option"
  je_wg_server_pubkey :: "string option"
  je_wg_server_endpoint :: "string option"
  je_wg_client_ip :: "string option"

type_synonym key_store = "(string, key_entry) dict"
type_synonym join_requests = "(string, join_entry) dict"

end
