(* ===== verification/Base64.thy ===== *)
theory Base64
  imports PyStr
begin

text \<open>
  The part of Python's \<open>base64\<close> module the program uses on JWT segments and fingerprints:
  \<open>b64decode\<close> and \<open>urlsafe_b64decode\<close> in their default, non-strict mode (characters outside the
  alphabet are skipped, decoding stops at a complete pad sequence), and \<open>urlsafe_b64encode\<close>.
  Bytes are natural numbers below 256.
\<close>

section \<open>The alphabet\<close>

definition b64_char :: "nat \<Rightarrow> char" where
  "b64_char n = (if n < 26 then char_of (65 + n) else if n < 52 then char_of (71 + n)
     else if n < 62 then char_of (n - 4) else if n = 62 then CHR ''+'' else CHR ''/'')"

definition b64_value :: "char \<Rightarrow> nat option" where
  "b64_value c = (let n = ord c in
     if 65 \<le> n \<and> n \<le> 90 then Some (n - 65) else if 97 \<le> n \<and> n \<le> 122 then Some (n - 71)
     else if 48 \<le> n \<and> n \<le> 57 then Some (n + 4)
     else if c = CHR ''+'' then Some 62 else if c = CHR ''/'' then Some 63 else None)"

section \<open>Encoding\<close>

fun b64encode :: "nat list \<Rightarrow> string" where
  "b64encode [] = []"
| "b64encode [a] = [b64_char (a div 4), b64_char (a mod 4 * 16), CHR ''='', CHR ''='']"
| "b64encode [a, b] = [b64_char (a div 4), b64_char (a mod 4 * 16 + b div 16),
     b64_char (b mod 16 * 4), CHR ''='']"
| "b64encode (a # b # c # r) = b64_char (a div 4) # b64_char (a mod 4 * 16 + b div 16) #
     b64_char (b mod 16 * 4 + c div 64) # b64_char (c mod 64) # b64encode r"

definition to_urlsafe :: "char \<Rightarrow> char" where
  "to_urlsafe c = (if c = CHR ''+'' then CHR ''-'' else if c = CHR ''/'' then CHR ''_'' else c)"

definition from_urlsafe :: "char \<Rightarrow> char" where
  "from_urlsafe c = (if c = CHR ''-'' then CHR ''+'' else if c = CHR ''_'' then CHR ''/'' else c)"

definition urlsafe_b64encode :: "nat list \<Rightarrow> string" where
  "urlsafe_b64encode bs = map to_urlsafe (b64encode bs)"

section \<open>Decoding\<close>

text \<open>
  \<open>a2b q l p s\<close> is \<open>binascii.a2b_base64\<close> at quad position \<open>q\<close> with the left-over bits \<open>l\<close> and \<open>p\<close>
  pads seen; \<^const>\<open>None\<close> is \<open>binascii.Error\<close> (incorrect padding).
\<close>

fun a2b :: "nat \<Rightarrow> nat \<Rightarrow> nat \<Rightarrow> string \<Rightarrow> nat list option" where
  "a2b q l p [] = (if q = 0 then Some [] else None)"
| "a2b q l p (c # cs) =
     (if c = CHR ''='' then
        (if 2 \<le> q \<and> 4 \<le> q + Suc p then Some [] else a2b q l (if 2 \<le> q then Suc p else p) cs)
      else case b64_value c of None \<Rightarrow> a2b q l p cs
       | Some v \<Rightarrow>
           if q = 0 then a2b 1 v 0 cs
           else if q = 1 then map_option ((#) (l * 4 + v div 16)) (a2b 2 (v mod 16) 0 cs)
           else if q = 2 then map_option ((#) (l * 16 + v div 4)) (a2b 3 (v mod 4) 0 cs)
           else map_option ((#) (l * 64 + v)) (a2b 0 0 0 cs))"

definition is_ascii :: "string \<Rightarrow> bool" where
  "is_ascii s = list_all (\<lambda>c. ord c < 128) s"

definition b64decode :: "string \<Rightarrow> nat list option" where
  "b64decode s = (if is_ascii s then a2b 0 0 0 s else None)"

definition urlsafe_b64decode :: "string \<Rightarrow> nat list option" where
  "urlsafe_b64decode s = (if is_ascii s then a2b 0 0 0 (map from_urlsafe s) else None)"

section \<open>Lemmas\<close>

lemma b64_value_char: "n < 64 \<Longrightarrow> b64_value (b64_char n) = Some n"
proof -
  have "list_all (\<lambda>n. b64_value (b64_char n) = Some n) [0..<64]" by code_simp
  then show "n < 64 \<Longrightarrow> ?thesis" by (simp add: list_all_iff)
qed

lemma b64_char_facts: "n < 64 \<Longrightarrow> b64_char n \<noteq> CHR ''='' \<and> ord (b64_char n) < 128 \<and>
    from_urlsafe (to_urlsafe (b64_char n)) = b64_char n"
proof -
  have "list_all (\<lambda>n. b64_char n \<noteq> CHR ''='' \<and> ord (b64_char n) < 128 \<and>
    from_urlsafe (to_urlsafe (b64_char n)) = b64_char n) [0..<64]" by code_simp
  then show "n < 64 \<Longrightarrow> ?thesis" by (simp add: list_all_iff)
qed

lemma b64_char_no_dot: "n < 64 \<Longrightarrow> b64_char n \<noteq> CHR ''.''"
proof
  assume "n < 64" "b64_char n = CHR ''.''"
  then have "b64_value CHR ''.'' = Some n" using b64_value_char by metis
  then show False by (simp add: b64_value_def)
qed

lemma b64_char_not_pad [simp]: "n < 64 \<Longrightarrow> b64_char n \<noteq> CHR ''=''"
  by (simp add: b64_char_facts)

lemma sextets:
  assumes "a < 256" "b < 256" "c < (256::nat)"
  shows "a div 4 < 64" "a mod 4 * 16 + b div 16 < 64" "b mod 16 * 4 + c div 64 < 64" "c mod 64 < 64"
    "a mod 4 * 16 < 64" "b mod 16 * 4 < 64"
  using assms by auto

lemma regroup:
  "(a::nat) div 4 * 4 + (a mod 4 * 16 + b div 16) div 16 = a" if "b < 256" for a b
  using that by auto

text \<open>
  The encoded text without its pads, of which the JWT segments and the fingerprint consist; with
  any number of pads that completes the last quad it decodes to the bytes.
\<close>

definition unpadded :: "nat list \<Rightarrow> string" where
  "unpadded bs = rstrip_char CHR ''='' (b64encode bs)"

fun b64_body :: "nat list \<Rightarrow> string" where
  "b64_body [] = []"
| "b64_body [a] = [b64_char (a div 4), b64_char (a mod 4 * 16)]"
| "b64_body [a, b] = [b64_char (a div 4), b64_char (a mod 4 * 16 + b div 16), b64_char (b mod 16 * 4)]"
| "b64_body (a # b # c # r) = b64_char (a div 4) # b64_char (a mod 4 * 16 + b div 16) #
     b64_char (b mod 16 * 4 + c div 64) # b64_char (c mod 64) # b64_body r"

definition is_bytes :: "nat list \<Rightarrow> bool" where
  "is_bytes bs = list_all (\<lambda>b. b < 256) bs"

lemma b64_body_no_pad: "is_bytes bs \<Longrightarrow> CHR ''='' \<notin> set (b64_body bs)"
  by (induction bs rule: b64_body.induct) (auto simp: is_bytes_def sextets dest!: sym [of "CHR ''=''"])

lemma b64_body_no_dot: "is_bytes bs \<Longrightarrow> CHR ''.'' \<notin> set (b64_body bs)"
  by (induction bs rule: b64_body.induct) (auto simp: is_bytes_def sextets b64_char_no_dot dest!: sym [of "CHR ''.''"])

lemma b64_body_props: "is_bytes bs \<Longrightarrow> list_all (\<lambda>c. ord c < 128 \<and> from_urlsafe (to_urlsafe c) = c) (b64_body bs)"
  by (induction bs rule: b64_body.induct) (auto simp: is_bytes_def sextets b64_char_facts)

lemma b64encode_body: "b64encode bs = b64_body bs @ replicate ((3 - length bs mod 3) mod 3) CHR ''=''"
proof (induction bs rule: b64_body.induct)
  case (4 a b c r)
  have "length (a # b # c # r) mod 3 = length r mod 3" by simp
  with 4 show ?case by simp
qed (simp_all add: numeral_2_eq_2)

lemma length_b64_body_mod: "length (b64_body bs) mod 4 = (if length bs mod 3 = 0 then 0 else length bs mod 3 + 1)"
proof (induction bs rule: b64_body.induct)
  case (4 a b c r)
  have "length (a # b # c # r) mod 3 = length r mod 3" by simp
  moreover have "length (b64_body (a # b # c # r)) mod 4 = length (b64_body r) mod 4" by simp
  ultimately show ?case using 4 by simp
qed simp_all

text \<open>Decoding a body followed by enough pads.\<close>

lemma a2b_body:
  assumes "is_bytes bs" "(length (b64_body bs) + k) mod 4 = 0 \<or> 4 \<le> length (b64_body bs) mod 4 + k"
  shows "a2b 0 0 0 (b64_body bs @ replicate k CHR ''='') = Some bs"
  using assms
proof (induction bs rule: b64_body.induct)
  case 1
  show ?case by (induction k) (auto simp: )
next
  case (2 a)
  from 2(2) have "(2 + k) mod 4 = 0 \<or> 4 \<le> 2 + k" by simp
  then have "2 \<le> k" by presburger
  then obtain j where k: "k = Suc (Suc j)" by (metis add_2_eq_Suc le_Suc_ex)
  from 2 have "a < 256" by (simp add: is_bytes_def)
  with k show ?case by (simp add: b64_value_char sextets regroup [where b = 0, simplified])
next
  case (3 a b)
  have "length (b64_body [a, b]) = 3" by simp
  with 3(2) have "(3 + k) mod 4 = 0 \<or> 4 \<le> 3 mod 4 + k" by metis
  then have "1 \<le> k" by presburger
  then obtain j where k: "k = Suc j" by (cases k) auto
  from 3 have "a < 256" "b < 256" by (simp_all add: is_bytes_def)
  moreover from this have "(a mod 4 * 16 + b div 16) mod 16 * 16 + b mod 16 * 4 div 4 = b" by simp
  ultimately show ?case using k by (simp add: b64_value_char sextets regroup)
next
  case (4 a b c r)
  from 4 have h: "a < 256" "b < 256" "c < 256" "is_bytes r" by (simp_all add: is_bytes_def)
  moreover from this have "(a mod 4 * 16 + b div 16) mod 16 * 16 + (b mod 16 * 4 + c div 64) div 4 = b"
    "(b mod 16 * 4 + c div 64) mod 4 * 64 + c mod 64 = c" by simp_all
  moreover have "a2b 0 0 0 (b64_body r @ replicate k CHR ''='') = Some r"
    using 4 h by (intro 4(1)) (auto simp: mod_add_left_eq)
  ultimately show ?case by (simp add: b64_value_char sextets regroup)
qed

lemma ascii_urlsafe: "ord c < 128 \<Longrightarrow> ord (to_urlsafe c) < 128"
  by (simp add: to_urlsafe_def)

lemma map_from_to_body: "is_bytes bs \<Longrightarrow> map from_urlsafe (map to_urlsafe (b64_body bs)) = b64_body bs"
  using b64_body_props [of bs] by (simp add: list_all_iff map_idI)

lemma is_ascii_body: "is_bytes bs \<Longrightarrow> is_ascii (map to_urlsafe (b64_body bs))"
  using b64_body_props [of bs] by (auto simp: is_ascii_def list_all_iff ascii_urlsafe)

lemma urlsafe_b64decode_body:
  assumes "is_bytes bs" "(length (b64_body bs) + k) mod 4 = 0 \<or> 4 \<le> length (b64_body bs) mod 4 + k"
  shows "urlsafe_b64decode (map to_urlsafe (b64_body bs) @ replicate k CHR ''='') = Some bs"
proof -
  have "from_urlsafe CHR ''='' = CHR ''=''" by (simp add: from_urlsafe_def)
  moreover have "is_ascii (replicate k CHR ''='')" by (simp add: is_ascii_def list_all_iff)
  ultimately show ?thesis
    using a2b_body [OF assms] is_ascii_body [OF assms(1)] map_from_to_body [OF assms(1)]
    by (simp add: urlsafe_b64decode_def is_ascii_def)
qed

text \<open>The plain decoder skips the two URL-safe characters instead of reading them as 62 and 63.\<close>

lemma a2b_skips: "b64_value x = None \<Longrightarrow> x \<noteq> CHR ''='' \<Longrightarrow> a2b q l p (remove_char x s) = a2b q l p s"
  by (induction q l p s rule: a2b.induct) (auto simp: remove_char_def split: option.split)

lemma b64decode_skips:
  assumes "x = CHR ''-'' \<or> x = CHR ''_''"
  shows "b64decode (remove_char x s) = b64decode s"
proof -
  from assms have x: "b64_value x = None" "x \<noteq> CHR ''=''" "ord x < 128"
    by (auto simp: b64_value_def)
  have "is_ascii (remove_char x s) = is_ascii s"
    using x(3) by (auto simp: is_ascii_def remove_char_def list_all_iff)
  then show ?thesis using a2b_skips [OF x(1,2)] by (simp add: b64decode_def)
qed

text \<open>Every decoded byte takes more than one of the characters that stand for a value.\<close>

definition value_chars :: "string \<Rightarrow> nat" where
  "value_chars s = length (filter (\<lambda>c. b64_value c \<noteq> None) s)"

lemma value_chars_Cons: "value_chars (c # cs) = (if b64_value c = None then value_chars cs else Suc (value_chars cs))"
  by (simp add: value_chars_def)

lemma a2b_length: "a2b q l p s = Some out \<Longrightarrow> q < 4 \<Longrightarrow> 4 * (length out + (q - 1)) \<le> 3 * (q + value_chars s)"
proof (induction s arbitrary: q l p out)
  case Nil
  then show ?case by (simp split: if_splits)
next
  case (Cons c cs)
  show ?case
  proof (cases "c = CHR ''=''")
    case True
    have "b64_value c = None" by (simp add: True b64_value_def)
    with Cons.prems Cons.IH True show ?thesis
      by (auto simp: value_chars_Cons split: if_splits)
  next
    case c: False
    show ?thesis
    proof (cases "b64_value c")
      case None
      with Cons.prems Cons.IH c show ?thesis by (simp add: value_chars_Cons)
    next
      case (Some v)
      consider "q = 0" | "q = 1" | "q = 2" | "q = 3" using Cons.prems(2) by linarith
      then show ?thesis
      proof cases
        case 1
        with Cons.prems(1) c Some have "a2b 1 v 0 cs = Some out" by simp
        from Cons.IH [OF this] 1 Some show ?thesis by (simp add: value_chars_Cons)
      next
        case 2
        with Cons.prems(1) c Some obtain x o' where "out = x # o'" "a2b 2 (v mod 16) 0 cs = Some o'" by auto
        from Cons.IH [OF this(2)] this(1) 2 Some show ?thesis by (simp add: value_chars_Cons)
      next
        case 3
        with Cons.prems(1) c Some obtain x o' where "out = x # o'" "a2b 3 (v mod 4) 0 cs = Some o'" by auto
        from Cons.IH [OF this(2)] this(1) 3 Some show ?thesis by (simp add: value_chars_Cons)
      next
        case 4
        with Cons.prems(1) c Some obtain x o' where "out = x # o'" "a2b 0 0 0 cs = Some o'" by auto
        from Cons.IH [OF this(2)] this(1) 4 Some show ?thesis by (simp add: value_chars_Cons)
      qed
    qed
  qed
qed

lemma value_chars_append: "value_chars (s @ t) = value_chars s + value_chars t"
  by (simp add: value_chars_def)

lemma value_chars_pads: "value_chars (replicate k CHR ''='') = 0"
  by (simp add: value_chars_def b64_value_def)

lemma length_b64_body: "length (b64_body bs) = (4 * length bs + 2) div 3"
  by (induction bs rule: b64_body.induct) (simp_all add: unpadded_def)

text \<open>
  So the plain decoder never reads back a payload whose URL-safe text contains one of the two
  characters it skips, however it is padded.
\<close>

lemma b64decode_urlsafe_wrong:
  assumes "x \<in> set (map to_urlsafe (b64_body bs))" "x = CHR ''-'' \<or> x = CHR ''_''"
  shows "b64decode (map to_urlsafe (b64_body bs) @ replicate k CHR ''='') \<noteq> Some bs"
proof
  let ?u = "map to_urlsafe (b64_body bs)"
  assume "b64decode (?u @ replicate k CHR ''='') = Some bs"
  then have "a2b 0 0 0 (?u @ replicate k CHR ''='') = Some bs" by (simp add: b64decode_def split: if_splits)
  from a2b_length [OF this] have 1: "4 * length bs \<le> 3 * value_chars ?u"
    by (simp add: value_chars_append value_chars_pads)
  have "b64_value x = None" using assms(2) by (auto simp: b64_value_def)
  then have "value_chars ?u < length ?u"
    unfolding value_chars_def using assms(1) by (intro length_filter_less [of x]) auto
  then show False using 1 by (simp add: length_b64_body)
qed

lemma b64decode_plain_right:
  assumes "is_bytes bs" "(length (b64_body bs) + k) mod 4 = 0 \<or> 4 \<le> length (b64_body bs) mod 4 + k"
    "CHR ''-'' \<notin> set (map to_urlsafe (b64_body bs))" "CHR ''_'' \<notin> set (map to_urlsafe (b64_body bs))"
  shows "b64decode (map to_urlsafe (b64_body bs) @ replicate k CHR ''='') = Some bs"
proof -
  let ?u = "map to_urlsafe (b64_body bs)"
  have "from_urlsafe x = x" if "x \<in> set (?u @ replicate k CHR ''='')" for x
  proof -
    from that have "x \<in> set ?u \<or> x = CHR ''=''" by (auto simp del: set_map)
    with assms(3,4) show ?thesis by (auto simp: from_urlsafe_def simp del: set_map)
  qed
  then have "map from_urlsafe (?u @ replicate k CHR ''='') = ?u @ replicate k CHR ''=''"
    by (intro map_idI)
  then have "urlsafe_b64decode (?u @ replicate k CHR ''='') = b64decode (?u @ replicate k CHR ''='')"
    unfolding urlsafe_b64decode_def b64decode_def by (rule arg_cong)
  with urlsafe_b64decode_body [OF assms(1,2)] show ?thesis by (simp only: )
qed

text \<open>A segment of a JWT: the URL-safe text without its padding.\<close>

definition jwt_segment :: "nat list \<Rightarrow> string" where
  "jwt_segment bs = rstrip_char CHR ''='' (urlsafe_b64encode bs)"

lemma rstrip_char_replicate: "CHR ''='' \<notin> set s \<Longrightarrow> rstrip_char CHR ''='' (s @ replicate k CHR ''='') = s"
  by (cases s rule: rev_cases) (auto simp: rstrip_char_def dropWhile_append)

lemma jwt_segment_body:
  assumes "is_bytes bs"
  shows "jwt_segment bs = map to_urlsafe (b64_body bs)"
proof -
  have "to_urlsafe CHR ''='' = CHR ''=''" by (simp add: to_urlsafe_def)
  moreover have "CHR ''='' \<notin> set (map to_urlsafe (b64_body bs))"
    using b64_body_no_pad [OF assms] by (auto simp: to_urlsafe_def split: if_splits)
  ultimately show ?thesis
    using rstrip_char_replicate by (simp add: jwt_segment_def urlsafe_b64encode_def b64encode_body)
qed

end
