(* ===== verification/PyFloat.thy ===== *)
theory PyFloat
  imports PyJson
begin

text \<open>
  The double arithmetic of the program: the quotient of two integers, a product with an integer,
  \<open>round(x, 2)\<close> and the value of a decimal text, each rounded to the nearest double, ties to
  even, as CPython computes them. Exponents are bounded where a number is read from a text
  (\<open>decimal_float\<close> in JsonText) and not here, where the values are far from the limits of the format; a
  zero has no sign.
\<close>

section \<open>Rounding\<close>

definition half_even :: "nat \<Rightarrow> nat \<Rightarrow> nat" where
  "half_even n d = (let q = n div d; r = n mod d in
     if 2 * r < d \<or> (2 * r = d \<and> even q) then q else Suc q)"

definition scale_num :: "nat \<Rightarrow> int \<Rightarrow> nat" where
  "scale_num n e = n * 2 ^ nat (- e)"

definition scale_den :: "nat \<Rightarrow> int \<Rightarrow> nat" where
  "scale_den d e = d * 2 ^ nat e"

text \<open>The exponent for which \<open>n / d / 2 ^ e\<close> has 53 bits before the point.\<close>

definition float_exponent :: "nat \<Rightarrow> nat \<Rightarrow> int" where
  "float_exponent n d = (let e = int (bit_length n) - int (bit_length d) - 53 in
     if scale_num n e < 2 ^ 53 * scale_den d e then e else e + 1)"

definition nearest_nat :: "nat \<Rightarrow> nat \<Rightarrow> pyfloat" where
  "nearest_nat n d = (if n = 0 then Finite 0 0
     else let e = float_exponent n d in Finite (int (half_even (scale_num n e) (scale_den d e))) e)"

definition nearest :: "int \<Rightarrow> nat \<Rightarrow> pyfloat" where
  "nearest z d = (if z < 0 then negate_float (nearest_nat (nat (- z)) d) else nearest_nat (nat z) d)"

definition half_even_int :: "int \<Rightarrow> nat \<Rightarrow> int" where
  "half_even_int z d = (if z < 0 then - int (half_even (nat (- z)) d) else int (half_even (nat z) d))"

text \<open>\<open>x * k\<close> for a positive integer \<open>k\<close>, and \<open>round(x, 2)\<close>.\<close>

definition float_times :: "pyfloat \<Rightarrow> int \<Rightarrow> pyfloat" where
  "float_times x k = (case x of Finite m e \<Rightarrow> nearest (m * k * 2 ^ nat e) (2 ^ nat (- e)) | _ \<Rightarrow> x)"

definition round2 :: "pyfloat \<Rightarrow> pyfloat" where
  "round2 x = (case x of Finite m e \<Rightarrow> nearest (half_even_int (m * 100 * 2 ^ nat e) (2 ^ nat (- e))) 100 | _ \<Rightarrow> x)"

end
