(* ===== verification/JsonText.thy ===== *)
theory JsonText
  imports PyFloat
begin

text \<open>
  The \<open>json\<close> module: \<open>json.loads\<close> of a text; \<open>json.dumps\<close> is in JsonPrint.
  The scanner and the parser are those of CPython: the text is cut into tokens, and the tokens drive a
  machine with a stack of the arrays and objects that are open. A document whose result is not a value of this
  model (a character beyond code point 255, a negative zero) is neither accepted nor refused, but \<open>Beyond\<close>.
  The limit of CPython on the depth of nesting is left out.
\<close>

section \<open>Numbers\<close>

text \<open>\<open>float(s)\<close> for the decimal number \<open>n * 10 ^ k\<close>, with the range of an IEEE double.\<close>

definition decimal_float :: "nat \<Rightarrow> int \<Rightarrow> pyfloat" where
  "decimal_float n k = (let num = n * 10 ^ nat k; den = 10 ^ nat (- k) in
     if num = 0 then Finite 0 0
     else let e = max (float_exponent num den) (- 1074); m = half_even (scale_num num e) (scale_den den e) in
       if 971 < e \<or> (e = 971 \<and> m = 2 ^ 53) then PosInf else Finite (int m) e)"

text \<open>The optional fraction and the optional exponent of a number, each with the rest of the text.\<close>

definition scan_frac :: "string \<Rightarrow> string \<times> string" where
  "scan_frac s = (case s of c # r \<Rightarrow> (let ds = takeWhile c_digit r in
       if c = CHR ''.'' \<and> ds \<noteq> [] then (ds, dropWhile c_digit r) else ([], s)) | [] \<Rightarrow> ([], s))"

definition scan_exp :: "string \<Rightarrow> int option \<times> string" where
  "scan_exp s = (case s of [] \<Rightarrow> (None, s)
     | c # r \<Rightarrow> (let neg = (r \<noteq> [] \<and> hd r = CHR ''-''); t = (if r \<noteq> [] \<and> hd r \<in> {CHR ''-'', CHR ''+''} then tl r else r);
           ds = takeWhile c_digit t; x = int (undec ds) in
         if (c = CHR ''e'' \<or> c = CHR ''E'') \<and> ds \<noteq> [] then (Some (if neg then - x else x), dropWhile c_digit t) else (None, s)))"

section \<open>Tokens\<close>

datatype token = TOpenObj | TCloseObj | TOpenArr | TCloseArr | TComma | TColon | TStr string | TAtom json | TBad | TBeyond

text \<open>An integer of more than 4300 digits is refused by \<open>int(s)\<close>.\<close>

definition number_token :: "bool \<Rightarrow> string \<Rightarrow> string \<Rightarrow> int option \<Rightarrow> token" where
  "number_token neg ds fr ex = (if fr = [] \<and> ex = None
     then if length ds > 4300 then TBad else TAtom (JInt (if neg then - int (undec ds) else int (undec ds)))
     else let f = decimal_float (undec (ds @ fr)) ((case ex of None \<Rightarrow> 0 | Some x \<Rightarrow> x) - int (length fr)) in
       if neg then if float_zero f then TBeyond else TAtom (JFloat (negate_float f)) else TAtom (JFloat f))"

definition scan_number :: "string \<Rightarrow> (token \<times> string) option" where
  "scan_number s = (let neg = (s \<noteq> [] \<and> hd s = CHR ''-''); t = (if neg then tl s else s); all = takeWhile c_digit t in
     if all = [] then None
     else let ds = (if hd all = CHR ''0'' then [CHR ''0''] else all) in
       case scan_frac (drop (length ds) t) of (fr, r1) \<Rightarrow> (case scan_exp r1 of (ex, r2) \<Rightarrow>
         Some (number_token neg ds fr ex, r2)))"

definition json_words :: "(string \<times> json) list" where
  "json_words = [(''null'', JNull), (''true'', JBool True), (''false'', JBool False), (''NaN'', JFloat NaN),
     (''Infinity'', JFloat PosInf), (''-Infinity'', JFloat NegInf)]"

definition scan_atom :: "string \<Rightarrow> (token \<times> string) option" where
  "scan_atom s = (case find (\<lambda>p. startswith s (fst p)) json_words of
     Some p \<Rightarrow> Some (TAtom (snd p), drop (length (fst p)) s) | None \<Rightarrow> scan_number s)"

text \<open>The rest of a string literal after its opening quote.\<close>

datatype scanned = Scanned string string | BadString | BeyondString

definition push_char :: "char \<Rightarrow> scanned \<Rightarrow> scanned" where
  "push_char c x = (case x of Scanned s r \<Rightarrow> Scanned (c # s) r | _ \<Rightarrow> x)"

definition is_hex :: "char \<Rightarrow> bool" where
  "is_hex c = (let n = ord c in (48 \<le> n \<and> n \<le> 57) \<or> (65 \<le> n \<and> n \<le> 70) \<or> (97 \<le> n \<and> n \<le> 102))"

definition hex_val :: "char \<Rightarrow> nat" where
  "hex_val c = (let n = ord c in if n < 58 then n - 48 else if n < 71 then n - 55 else n - 87)"

definition unescape :: "char \<Rightarrow> char option" where
  "unescape d = map_of [(CHR 0x22, CHR 0x22), (CHR 0x5C, CHR 0x5C), (CHR ''/'', CHR ''/''), (CHR ''b'', CHR 0x08),
     (CHR ''f'', CHR 0x0C), (CHR ''n'', CHR 0x0A), (CHR ''r'', CHR 0x0D), (CHR ''t'', CHR 0x09)] d"

fun scan_string :: "string \<Rightarrow> scanned" where
  "scan_string [] = BadString"
| "scan_string (c # cs) =
     (if c = CHR 0x22 then Scanned [] cs
      else if c = CHR 0x5C then (case cs of [] \<Rightarrow> BadString
        | d # ds \<Rightarrow> if d = CHR ''u'' then (case ds of h1 # h2 # h3 # h4 # es \<Rightarrow>
              if list_all is_hex [h1, h2, h3, h4]
              then let n = ((hex_val h1 * 16 + hex_val h2) * 16 + hex_val h3) * 16 + hex_val h4 in
                if n < 256 then push_char (char_of n) (scan_string es) else BeyondString
              else BadString
            | _ \<Rightarrow> BadString)
          else (case unescape d of None \<Rightarrow> BadString | Some x \<Rightarrow> push_char x (scan_string ds)))
      else if ord c < 32 then BadString else push_char c (scan_string cs))"

lemma push_char_eq: "push_char c x = Scanned s r \<longleftrightarrow> (\<exists>s'. x = Scanned s' r \<and> s = c # s')"
  by (auto simp: push_char_def split: scanned.splits)

lemma scan_string_length: "scan_string s = Scanned t r \<Longrightarrow> length r < length s"
proof (induction s arbitrary: t rule: length_induct)
  case (1 s)
  have ih: "length r < length s" if "scan_string y = Scanned u r" "length y < length s" for y u
    using 1(1) that by (meson less_trans)
  show ?case
  proof (cases s)
    case (Cons c cs)
    have "\<exists>y u. scan_string y = Scanned u r \<and> length y < length s \<or> r = cs"
      using 1(2) by (auto simp: Cons push_char_eq Let_def split: if_splits list.splits option.splits; metis less_Suc_eq less_SucI)
    with ih show ?thesis by (auto simp: Cons)
  qed (use 1(2) in simp)
qed

lemma scan_frac_length: "scan_frac s = (f, r) \<Longrightarrow> length r \<le> length s"
  by (auto simp: scan_frac_def Let_def split: list.splits if_splits intro: le_SucI length_dropWhile_le)

lemma scan_exp_length: "scan_exp s = (x, r) \<Longrightarrow> length r \<le> length s"
proof (cases s)
  case (Cons c cs)
  assume "scan_exp s = (x, r)"
  moreover have "length (dropWhile c_digit cs) \<le> length s" "length (dropWhile c_digit (tl cs)) \<le> length s"
    using length_dropWhile_le [of c_digit cs] length_dropWhile_le [of c_digit "tl cs"] by (simp_all add: Cons)
  ultimately show ?thesis by (auto simp: Cons scan_exp_def Let_def split: if_splits)
qed (simp add: scan_exp_def)

lemma scan_number_length: "scan_number s = Some (t, r) \<Longrightarrow> length r < length s"
proof -
  assume h: "scan_number s = Some (t, r)"
  define neg u where "neg = (s \<noteq> [] \<and> hd s = CHR ''-'')" and "u = (if neg then tl s else s)"
  define ds where "ds = (if hd (takeWhile c_digit u) = CHR ''0'' then [CHR ''0''] else takeWhile c_digit u)"
  obtain fs r1 ex r2 where f: "scan_frac (drop (length ds) u) = (fs, r1)" "scan_exp r1 = (ex, r2)" by fastforce
  have "scan_number s = (if takeWhile c_digit u = [] then None else Some (number_token neg ds fs ex, r2))"
    unfolding scan_number_def Let_def neg_def [symmetric] u_def [symmetric] ds_def [symmetric] using f by simp
  with h have ne: "takeWhile c_digit u \<noteq> []" and r: "r = r2" by (auto split: if_splits)
  from ne have "u \<noteq> []" "ds \<noteq> []" by (auto simp: ds_def)
  then have "length (drop (length ds) u) < length u" by simp
  moreover have "length u \<le> length s" by (simp add: u_def)
  ultimately show ?thesis using scan_frac_length [OF f(1)] scan_exp_length [OF f(2)] r by simp
qed

lemma scan_atom_length: "scan_atom s = Some (t, r) \<Longrightarrow> length r < length s"
proof -
  assume h: "scan_atom s = Some (t, r)"
  show ?thesis
  proof (cases "find (\<lambda>p. startswith s (fst p)) json_words")
    case None
    with h show ?thesis by (auto simp: scan_atom_def dest: scan_number_length)
  next
    case (Some p)
    then have p: "p \<in> set json_words" "startswith s (fst p)" by (auto simp: find_Some_iff)
    then have "fst p \<noteq> []" by (auto simp: json_words_def)
    with p(2) have "s \<noteq> []" by (auto simp: startswith_def)
    with Some h \<open>fst p \<noteq> []\<close> show ?thesis by (auto simp: scan_atom_def)
  qed
qed

definition json_space :: "char \<Rightarrow> bool" where
  "json_space c = (c = CHR '' '' \<or> c = CHR 0x09 \<or> c = CHR 0x0A \<or> c = CHR 0x0D)"

definition punctuation :: "char \<Rightarrow> token option" where
  "punctuation c = map_of [(CHR ''{'', TOpenObj), (CHR ''}'', TCloseObj), (CHR ''['', TOpenArr), (CHR '']'', TCloseArr),
     (CHR '','', TComma), (CHR '':'', TColon)] c"

function tokenize :: "string \<Rightarrow> token list" where
  "tokenize [] = []"
| "tokenize (c # cs) = (if json_space c then tokenize cs
     else case punctuation c of Some t \<Rightarrow> t # tokenize cs
     | None \<Rightarrow> if c = CHR 0x22
         then (case scan_string cs of Scanned s r \<Rightarrow> TStr s # tokenize r | BadString \<Rightarrow> [TBad] | BeyondString \<Rightarrow> [TBeyond])
         else (case scan_atom (c # cs) of None \<Rightarrow> [TBad] | Some (t, r) \<Rightarrow> t # tokenize r))"
  by pat_completeness auto
termination by (relation "measure length") (auto dest: scan_string_length scan_atom_length intro: less_SucI)

section \<open>The parser\<close>

text \<open>An open array holds its elements so far, in reverse; an open object its pairs and the key whose value is next.\<close>

datatype frame = InArr "json list" | InObj "(string \<times> json) list" string

datatype expecting = Value | First | FirstKey | Key "(string \<times> json) list" | Colon "(string \<times> json) list" string | After json

fun start_value :: "token \<Rightarrow> frame list \<Rightarrow> (frame list \<times> expecting) option" where
  "start_value (TAtom j) st = Some (st, After j)"
| "start_value (TStr s) st = Some (st, After (JStr s))"
| "start_value TOpenArr st = Some (st, First)"
| "start_value TOpenObj st = Some (st, FirstKey)"
| "start_value _ st = None"

fun token_step :: "token \<Rightarrow> frame list \<Rightarrow> expecting \<Rightarrow> (frame list \<times> expecting) option" where
  "token_step t st Value = start_value t st"
| "token_step t st First = (if t = TCloseArr then Some (st, After (JArr [])) else start_value t (InArr [] # st))"
| "token_step t st FirstKey = (case t of TCloseObj \<Rightarrow> Some (st, After (JObj [])) | TStr k \<Rightarrow> Some (st, Colon [] k) | _ \<Rightarrow> None)"
| "token_step t st (Key ps) = (case t of TStr k \<Rightarrow> Some (st, Colon ps k) | _ \<Rightarrow> None)"
| "token_step t st (Colon ps k) = (if t = TColon then Some (InObj ps k # st, Value) else None)"
| "token_step t [] (After j) = None"
| "token_step t (InArr xs # st) (After j) = (case t of TComma \<Rightarrow> Some (InArr (j # xs) # st, Value)
     | TCloseArr \<Rightarrow> Some (st, After (JArr (rev (j # xs)))) | _ \<Rightarrow> None)"
| "token_step t (InObj ps k # st) (After j) = (case t of TComma \<Rightarrow> Some (st, Key (dict_set k j ps))
     | TCloseObj \<Rightarrow> Some (st, After (JObj (dict_set k j ps))) | _ \<Rightarrow> None)"

fun parse_tokens :: "token list \<Rightarrow> frame list \<Rightarrow> expecting \<Rightarrow> json option" where
  "parse_tokens [] st x = (case (st, x) of ([], After j) \<Rightarrow> Some j | _ \<Rightarrow> None)"
| "parse_tokens (t # ts) st x = (case token_step t st x of None \<Rightarrow> None | Some (st', x') \<Rightarrow> parse_tokens ts st' x')"

datatype document = Doc json | NotJson | Beyond

text \<open>\<open>json.loads(s)\<close>.\<close>

definition json_loads :: "string \<Rightarrow> document" where
  "json_loads s = (let ts = tokenize s in if TBeyond \<in> set ts then Beyond
     else case parse_tokens ts [] Value of None \<Rightarrow> NotJson | Some j \<Rightarrow> Doc j)"

lemma json_loads_examples:
  "json_loads ''{\"a\": [1, -20, true], \"b\": {}}'' = Doc (JObj [(''a'', JArr [JInt 1, JInt (-20), JBool True]), (''b'', JObj [])])"
  "json_loads ''[1, 2'' = NotJson" "json_loads ''01'' = NotJson" "json_loads ''[1,]'' = NotJson" "json_loads '' '' = NotJson"
  "json_loads ''2.50'' = Doc (JFloat (Finite 5629499534213120 (- 51)))"
  by code_simp+

end
