(* ===== verification/JsonPrint.thy ===== *)
theory JsonPrint
  imports JsonText
begin

text \<open>
  \<open>json.dumps\<close>, and that \<open>json.loads\<close> reads back what it writes: for every document without doubles, whose
  integers are short enough for \<open>int\<close> and whose objects are dictionaries. The proof follows the two halves of
  the parser: the tokens of a text, and the value of the tokens.
\<close>

section \<open>Printing\<close>

definition hex4 :: "nat \<Rightarrow> string" where
  "hex4 n = [hex_lower (n div 4096 mod 16), hex_lower (n div 256 mod 16), hex_lower (n div 16 mod 16), hex_lower (n mod 16)]"

text \<open>The characters that are escaped by a letter.\<close>

definition short_escapes :: "(char \<times> char) list" where
  "short_escapes = [(CHR 0x22, CHR 0x22), (CHR 0x5C, CHR 0x5C), (CHR 0x08, CHR ''b''), (CHR 0x0C, CHR ''f''),
     (CHR 0x0A, CHR ''n''), (CHR 0x0D, CHR ''r''), (CHR 0x09, CHR ''t'')]"

definition escape_char :: "bool \<Rightarrow> char \<Rightarrow> string" where
  "escape_char ensure_ascii c = (case map_of short_escapes c of Some d \<Rightarrow> [CHR 0x5C, d]
     | None \<Rightarrow> if ord c < 32 \<or> (ensure_ascii \<and> 127 \<le> ord c) then [CHR 0x5C, CHR ''u''] @ hex4 (ord c) else [c])"

definition quote_json :: "bool \<Rightarrow> string \<Rightarrow> string" where
  "quote_json a s = CHR 0x22 # concat (map (escape_char a) s) @ [CHR 0x22]"

text \<open>\<open>indent\<close> is \<^const>\<open>None\<close> or the number of blanks of a level.\<close>

definition new_line :: "nat option \<Rightarrow> nat \<Rightarrow> string" where
  "new_line indent level = (case indent of None \<Rightarrow> [] | Some k \<Rightarrow> CHR ''\<newline>'' # replicate (k * level) CHR '' '')"

definition item_sep :: "nat option \<Rightarrow> nat \<Rightarrow> string" where
  "item_sep indent level = (case indent of None \<Rightarrow> '', '' | Some k \<Rightarrow> '','' @ new_line indent level)"

definition float_text :: "(pyfloat \<Rightarrow> string) \<Rightarrow> pyfloat \<Rightarrow> string" where
  "float_text fr f = (case f of NaN \<Rightarrow> ''NaN'' | PosInf \<Rightarrow> ''Infinity'' | NegInf \<Rightarrow> ''-Infinity'' | Finite _ _ \<Rightarrow> fr f)"

text \<open>\<open>json.dumps(v, indent=indent, ensure_ascii=a)\<close>; the digits of a double are the parameter \<open>fr\<close>.\<close>

fun dumps_at :: "(pyfloat \<Rightarrow> string) \<Rightarrow> bool \<Rightarrow> nat option \<Rightarrow> nat \<Rightarrow> json \<Rightarrow> string" where
  "dumps_at fr a ind l JNull = ''null''"
| "dumps_at fr a ind l (JBool b) = (if b then ''true'' else ''false'')"
| "dumps_at fr a ind l (JInt i) = dec_int i"
| "dumps_at fr a ind l (JFloat f) = float_text fr f"
| "dumps_at fr a ind l (JStr s) = quote_json a s"
| "dumps_at fr a ind l (JArr xs) = (if xs = [] then ''[]''
     else ''['' @ new_line ind (Suc l) @ join (item_sep ind (Suc l)) (map (dumps_at fr a ind (Suc l)) xs) @ new_line ind l @ '']'')"
| "dumps_at fr a ind l (JObj ps) = (if ps = [] then ''{}''
     else ''{'' @ new_line ind (Suc l) @
       join (item_sep ind (Suc l)) (map (\<lambda>(k, v). quote_json a k @ '': '' @ dumps_at fr a ind (Suc l) v) ps) @
       new_line ind l @ ''}'')"

definition json_dumps :: "(pyfloat \<Rightarrow> string) \<Rightarrow> bool \<Rightarrow> nat option \<Rightarrow> json \<Rightarrow> string" where
  "json_dumps fr a ind j = dumps_at fr a ind 0 j"

lemma json_dumps_example:
  "json_dumps (\<lambda>_. []) True (Some 2) (JObj [(''a'', JArr [JInt 1, JNull]), (''b'', JStr [CHR 0xE9])]) =
     ''{\<newline>  \"a\": [\<newline>    1,\<newline>    null\<newline>  ],\<newline>  \"b\": \"'' @ [CHR 0x5C] @ ''u00e9\"\<newline>}''"
  by code_simp

section \<open>What is read back\<close>

fun plain_json :: "json \<Rightarrow> bool" where
  "plain_json (JInt i) = (length (dec (nat \<bar>i\<bar>)) \<le> 4300)"
| "plain_json (JFloat f) = False"
| "plain_json (JArr xs) = list_all plain_json xs"
| "plain_json (JObj ps) = (dict_wf ps \<and> list_all (\<lambda>(k, v). plain_json v) ps)"
| "plain_json _ = True"

section \<open>Strings\<close>

lemma hex_lower_facts: "n < 16 \<Longrightarrow> is_hex (hex_lower n) \<and> hex_val (hex_lower n) = n"
proof -
  assume "n < 16"
  moreover have "list_all (\<lambda>n. is_hex (hex_lower n) \<and> hex_val (hex_lower n) = n) [0..<16]" by code_simp
  ultimately show ?thesis by (simp add: list_all_iff)
qed

lemma scan_escaped: "scan_string (escape_char a c @ s) = push_char c (scan_string s)"
proof (cases "map_of short_escapes c")
  case (Some d)
  then show ?thesis by (auto simp: escape_char_def short_escapes_def unescape_def split: if_splits)
next
  case None
  then have c: "c \<noteq> CHR 0x22" "c \<noteq> CHR 0x5C" by (auto simp: short_escapes_def split: if_splits)
  show ?thesis
  proof (cases "ord c < 32 \<or> (a \<and> 127 \<le> ord c)")
    case True
    define n where "n = ord c"
    have n: "n < 256" "char_of n = c" by (simp_all add: n_def)
    have h: "n div 16 < 16" "n mod 16 < 16" using n(1) by (simp_all add: less_mult_imp_div_less)
    have v: "hex_val (hex_lower (n div 16)) * 16 + hex_val (hex_lower (n mod 16)) = n"
      by (simp add: hex_lower_facts [OF h(1)] hex_lower_facts [OF h(2)])
    have "hex4 n = [hex_lower 0, hex_lower 0, hex_lower (n div 16), hex_lower (n mod 16)]"
      using n(1) h(1) by (simp add: hex4_def)
    moreover have "is_hex (hex_lower 0)" "hex_val (hex_lower 0) = 0" using hex_lower_facts [of 0] by simp_all
    ultimately show ?thesis
      using None True v n hex_lower_facts [OF h(1)] hex_lower_facts [OF h(2)]
      by (simp add: escape_char_def Let_def n_def [symmetric] del: char_of_take_bit_eq)
  next
    case False
    with None c show ?thesis by (auto simp: escape_char_def)
  qed
qed

lemma scan_quoted: "scan_string (concat (map (escape_char a) s) @ CHR 0x22 # r) = Scanned s r"
  by (induction s) (simp_all add: scan_escaped push_char_def del: scan_string.simps(2), simp)

lemma lex_quoted: "tokenize (quote_json a s @ r) = TStr s # tokenize r"
  by (simp add: quote_json_def json_space_def punctuation_def scan_quoted)

section \<open>Words and numbers\<close>

text \<open>What follows a value in a printed document.\<close>

definition value_end :: "string \<Rightarrow> bool" where
  "value_end r \<longleftrightarrow> r = [] \<or> hd r \<in> {CHR '','', CHR '']'', CHR ''}'', CHR ''\<newline>''}"

lemma value_end_simps [simp]: "value_end []" "value_end (CHR '','' # r)" "value_end (CHR '']'' # r)" "value_end (CHR ''}'' # r)"
  "value_end (CHR ''\<newline>'' # r)"
  by (simp_all add: value_end_def)

lemma lex_word:
  "tokenize (''null'' @ r) = TAtom JNull # tokenize r" "tokenize (''true'' @ r) = TAtom (JBool True) # tokenize r" "tokenize (''false'' @ r) = TAtom (JBool False) # tokenize r"
  by (simp_all add: json_space_def punctuation_def scan_atom_def json_words_def startswith_def)

lemma number_end:
  assumes "value_end r"
  shows "scan_frac r = ([], r)" "scan_exp r = (None, r)" "takeWhile c_digit (ds @ r) = takeWhile c_digit ds"
proof -
  have d: "r = [] \<or> \<not> c_digit (hd r)" using assms by (auto simp: value_end_def c_digit_def)
  then show "takeWhile c_digit (ds @ r) = takeWhile c_digit ds" by (cases r) (auto simp: takeWhile_append takeWhile_eq_all_conv [THEN iffD2])
  show "scan_frac r = ([], r)" "scan_exp r = (None, r)"
    using assms by (auto simp: value_end_def scan_frac_def scan_exp_def Let_def split: list.splits)
qed

lemma scan_number_dec:
  assumes "value_end r"
  shows "scan_number (dec n @ r) = Some (number_token False (dec n) [] None, r)"
    "scan_number (CHR ''-'' # dec n @ r) = Some (number_token True (dec n) [] None, r)"
proof -
  have c0: "c_digit CHR ''0''" by code_simp
  have w: "takeWhile c_digit (dec n) = dec n" using dec_digits [of n] by (simp add: takeWhile_eq_all_conv list_all_iff)
  have z: "hd (dec n) = CHR ''0'' \<Longrightarrow> dec n = ''0''" using hd_dec [of n] by (cases "n = 0") (auto simp: dec.simps [of 0] digit_def)
  have m: "hd (dec n @ r) \<noteq> CHR ''-''" using dec_digits [of n] dec_nonempty [of n]
    by (cases "dec n") (auto simp: c_digit_def)
  note facts = number_end(3) [OF assms] w dec_nonempty number_end(1,2) [OF assms]
  show "scan_number (dec n @ r) = Some (number_token False (dec n) [] None, r)"
    unfolding scan_number_def Let_def using m z by (cases "hd (dec n) = CHR ''0''") (simp_all add: facts c0)
  show "scan_number (CHR ''-'' # dec n @ r) = Some (number_token True (dec n) [] None, r)"
    unfolding scan_number_def Let_def using z by (cases "hd (dec n) = CHR ''0''") (simp_all add: facts c0)
qed

lemma scan_atom_dec:
  assumes "value_end r"
  shows "scan_atom (dec n @ r) = Some (number_token False (dec n) [] None, r)"
    "scan_atom (CHR ''-'' # dec n @ r) = Some (number_token True (dec n) [] None, r)"
proof -
  obtain c cs where d: "dec n = c # cs" "c_digit c" using dec_digits [of n] dec_nonempty [of n] by (cases "dec n") auto
  then have "c \<noteq> CHR ''n''" "c \<noteq> CHR ''t''" "c \<noteq> CHR ''f''" "c \<noteq> CHR ''N''" "c \<noteq> CHR ''I''" "c \<noteq> CHR ''-''"
    by (auto simp: c_digit_def)
  then show "scan_atom (dec n @ r) = Some (number_token False (dec n) [] None, r)"
    "scan_atom (CHR ''-'' # dec n @ r) = Some (number_token True (dec n) [] None, r)"
    using scan_number_dec [OF assms, of n] by (simp_all add: scan_atom_def json_words_def startswith_def d(1))
qed

lemma lex_int:
  assumes "value_end r" "length (dec (nat \<bar>i\<bar>)) \<le> 4300"
  shows "tokenize (dec_int i @ r) = TAtom (JInt i) # tokenize r"
proof (cases "i < 0")
  case True
  then show ?thesis
    using assms(2) scan_atom_dec(2) [OF assms(1), of "nat (- i)"]
    by (simp add: dec_int_def json_space_def punctuation_def number_token_def undec_dec)
next
  case False
  obtain c cs where d: "dec (nat i) = c # cs" "c_digit c" using dec_digits [of "nat i"] dec_nonempty [of "nat i"] by (cases "dec (nat i)") auto
  then have "\<not> json_space c" "punctuation c = None" "c \<noteq> CHR 0x22"
    by (auto simp: c_digit_def json_space_def punctuation_def)
  with False assms(2) scan_atom_dec(1) [OF assms(1), of "nat i"] d show ?thesis
    by (simp add: dec_int_def number_token_def undec_dec [of "nat i", unfolded d(1)])
qed

section \<open>Documents\<close>

fun sep_tokens :: "token list list \<Rightarrow> token list" where
  "sep_tokens [] = []"
| "sep_tokens [x] = x"
| "sep_tokens (x # xs) = x @ TComma # sep_tokens xs"

lemma sep_tokens_Cons: "xs \<noteq> [] \<Longrightarrow> sep_tokens (x # xs) = x @ TComma # sep_tokens xs"
  by (cases xs) simp_all

fun tokens_of :: "json \<Rightarrow> token list" where
  "tokens_of (JStr s) = [TStr s]"
| "tokens_of (JArr xs) = TOpenArr # sep_tokens (map tokens_of xs) @ [TCloseArr]"
| "tokens_of (JObj ps) = TOpenObj # sep_tokens (map (\<lambda>(k, v). TStr k # TColon # tokens_of v) ps) @ [TCloseObj]"
| "tokens_of j = [TAtom j]"

lemma lex_new_line: "tokenize (new_line ind l @ r) = tokenize r"
proof -
  have "tokenize (replicate k CHR '' '' @ r) = tokenize r" for k by (induction k) (simp_all add: json_space_def)
  then show ?thesis by (simp add: new_line_def json_space_def split: option.split)
qed

lemma lex_item_sep: "tokenize (item_sep ind l @ r) = TComma # tokenize r"
proof (cases ind)
  case (Some k)
  then have "item_sep ind l @ r = CHR '','' # new_line ind l @ r" by (simp add: item_sep_def)
  then show ?thesis by (simp add: lex_new_line json_space_def punctuation_def)
qed (simp add: item_sep_def json_space_def punctuation_def)

lemma lex_punctuation:
  "tokenize (CHR ''['' # r) = TOpenArr # tokenize r" "tokenize (CHR '']'' # r) = TCloseArr # tokenize r" "tokenize (CHR ''{'' # r) = TOpenObj # tokenize r"
  "tokenize (CHR ''}'' # r) = TCloseObj # tokenize r" "tokenize (CHR '':'' # r) = TColon # tokenize r" "tokenize (CHR '' '' # r) = tokenize r"
  by (simp_all add: json_space_def punctuation_def)

lemma value_end_sep: "value_end (item_sep ind l @ r)" "value_end (new_line ind l @ CHR '']'' # r)" "value_end (new_line ind l @ CHR ''}'' # r)"
  by (simp_all add: item_sep_def new_line_def split: option.split)

lemma lex_items:
  assumes "\<And>x r. x \<in> set xs \<Longrightarrow> value_end r \<Longrightarrow> tokenize (f x @ r) = g x @ tokenize r" "xs \<noteq> []" "value_end r"
  shows "tokenize (join (item_sep ind l) (map f xs) @ r) = sep_tokens (map g xs) @ tokenize r"
  using assms
proof (induction xs)
  case (Cons x xs)
  show ?case
  proof (cases "xs = []")
    case True
    with Cons.prems show ?thesis by simp
  next
    case False
    have "tokenize (f x @ item_sep ind l @ join (item_sep ind l) (map f xs) @ r) =
        g x @ TComma # tokenize (join (item_sep ind l) (map f xs) @ r)"
      using Cons.prems(1) [of x] value_end_sep(1) by (simp add: lex_item_sep)
    with Cons.IH Cons.prems False show ?thesis by (simp add: join_Cons sep_tokens_Cons)
  qed
qed simp

lemma lex_dumps: "plain_json j \<Longrightarrow> value_end r \<Longrightarrow> tokenize (dumps_at fr a ind l j @ r) = tokens_of j @ tokenize r"
proof (induction j arbitrary: l r)
  case (JArr xs)
  show ?case
  proof (cases "xs = []")
    case False
    have "tokenize (join (item_sep ind (Suc l)) (map (dumps_at fr a ind (Suc l)) xs) @ new_line ind l @ CHR '']'' # r) =
        sep_tokens (map tokens_of xs) @ tokenize (new_line ind l @ CHR '']'' # r)"
      using JArr False by (intro lex_items) (auto simp: list_all_iff value_end_sep)
    with False show ?thesis by (simp add: lex_new_line lex_punctuation del: tokenize.simps)
  qed (simp add: lex_punctuation del: tokenize.simps)
next
  case (JObj ps)
  show ?case
  proof (cases "ps = []")
    case False
    have "tokenize (join (item_sep ind (Suc l)) (map (\<lambda>(k, v). quote_json a k @ '': '' @ dumps_at fr a ind (Suc l) v) ps) @
          new_line ind l @ CHR ''}'' # r) =
        sep_tokens (map (\<lambda>(k, v). TStr k # TColon # tokens_of v) ps) @ tokenize (new_line ind l @ CHR ''}'' # r)"
    proof (intro lex_items)
      fix p and r :: string
      assume "p \<in> set ps" "value_end r"
      moreover obtain k v where "p = (k, v)" by fastforce
      ultimately show "tokenize ((case p of (k, v) \<Rightarrow> quote_json a k @ '': '' @ dumps_at fr a ind (Suc l) v) @ r) =
          (case p of (k, v) \<Rightarrow> TStr k # TColon # tokens_of v) @ tokenize r"
        using JObj.IH [of p v r "Suc l"] JObj.prems(1) by (auto simp: lex_quoted lex_punctuation list_all_iff simp del: tokenize.simps)
    qed (simp_all add: False value_end_sep)
    with False show ?thesis by (simp add: lex_new_line lex_punctuation del: tokenize.simps)
  qed (simp add: lex_punctuation del: tokenize.simps)
qed (auto simp: lex_word lex_int lex_quoted lex_punctuation simp del: tokenize.simps append.simps)

section \<open>Parsing the tokens of a document\<close>

lemma first_value: "parse_tokens (tokens_of j @ ts) st First = parse_tokens (tokens_of j @ ts) (InArr [] # st) Value"
  by (cases j) simp_all

lemma parse_items:
  assumes "\<And>x ts st. x \<in> set xs \<Longrightarrow> parse_tokens (tokens_of x @ ts) st Value = parse_tokens ts st (After x)" "xs \<noteq> []"
  shows "parse_tokens (sep_tokens (map tokens_of xs) @ TCloseArr # ts) (InArr acc # st) Value = parse_tokens ts st (After (JArr (rev acc @ xs)))"
  using assms
proof (induction xs arbitrary: acc)
  case (Cons x xs)
  show ?case
  proof (cases "xs = []")
    case False
    with Cons show ?thesis by (simp add: sep_tokens_Cons)
  qed (simp add: Cons.prems)
qed simp

lemma parse_members:
  assumes "\<And>k v ts st. (k, v) \<in> set ps \<Longrightarrow> parse_tokens (tokens_of v @ ts) st Value = parse_tokens ts st (After v)"
    "dict_wf (acc @ ps)" "ps \<noteq> []"
  shows "parse_tokens (sep_tokens (map (\<lambda>(k, v). TStr k # TColon # tokens_of v) ps) @ TCloseObj # ts) st (Key acc) =
    parse_tokens ts st (After (JObj (acc @ ps)))"
  using assms
proof (induction ps arbitrary: acc)
  case (Cons p ps)
  obtain k v where p: "p = (k, v)" by fastforce
  have "dict_get acc k = None" using Cons.prems(2) by (auto simp: p dict_wf_def map_of_eq_None_iff)
  then have s: "dict_set k v acc = acc @ [(k, v)]" by (rule dict_set_fresh)
  note v = Cons.prems(1) [of k v]
  show ?case
  proof (cases "ps = []")
    case True
    with v s show ?thesis by (simp add: p)
  next
    case False
    have "parse_tokens (sep_tokens (map (\<lambda>(k, v). TStr k # TColon # tokens_of v) ps) @ TCloseObj # ts) st (Key (acc @ [(k, v)])) =
        parse_tokens ts st (After (JObj ((acc @ [(k, v)]) @ ps)))"
      by (rule Cons.IH) (use Cons.prems False p in auto)
    with v s False show ?thesis by (simp add: p sep_tokens_Cons)
  qed
qed simp

lemma first_member: "ps \<noteq> [] \<Longrightarrow> parse_tokens (sep_tokens (map (\<lambda>(k, v). TStr k # TColon # tokens_of v) ps) @ ts) st FirstKey =
    parse_tokens (sep_tokens (map (\<lambda>(k, v). TStr k # TColon # tokens_of v) ps) @ ts) st (Key [])"
  by (cases ps; cases "tl ps") auto

lemma parse_document: "plain_json j \<Longrightarrow> parse_tokens (tokens_of j @ ts) st Value = parse_tokens ts st (After j)"
proof (induction j arbitrary: ts st)
  case (JArr xs)
  show ?case
  proof (cases xs)
    case (Cons x ys)
    have "parse_tokens (sep_tokens (map tokens_of xs) @ TCloseArr # ts) (InArr [] # st) Value = parse_tokens ts st (After (JArr (rev [] @ xs)))"
      using JArr Cons by (intro parse_items) (auto simp: list_all_iff)
    moreover have "parse_tokens (sep_tokens (map tokens_of xs) @ us) st First = parse_tokens (sep_tokens (map tokens_of xs) @ us) (InArr [] # st) Value" for us
      using first_value [of x "TComma # sep_tokens (map tokens_of ys) @ us"] first_value [of x us] by (cases ys) (simp_all add: Cons)
    ultimately show ?thesis by simp
  qed simp
next
  case (JObj ps)
  show ?case
  proof (cases "ps = []")
    case False
    have "parse_tokens (sep_tokens (map (\<lambda>(k, v). TStr k # TColon # tokens_of v) ps) @ TCloseObj # ts) st (Key []) =
        parse_tokens ts st (After (JObj ([] @ ps)))"
    proof (intro parse_members)
      fix k v ts st
      assume "(k, v) \<in> set ps"
      then show "parse_tokens (tokens_of v @ ts) st Value = parse_tokens ts st (After v)"
        using JObj.IH [of "(k, v)" v] JObj.prems by (auto simp: list_all_iff)
    qed (use JObj.prems False in simp_all)
    with first_member [OF False, of "TCloseObj # ts" st] show ?thesis by simp
  qed simp
qed simp_all

lemma set_sep_tokens: "set (sep_tokens xs) \<subseteq> insert TComma (\<Union> (set ` set xs))"
  by (induction xs rule: sep_tokens.induct) auto

lemma no_beyond: "TBeyond \<notin> set (tokens_of j)"
proof (induction j)
  case (JArr xs)
  then show ?case using set_sep_tokens [of "map tokens_of xs"] by auto
next
  case (JObj ps)
  have "TBeyond \<notin> set (tokens_of v)" if "(k, v) \<in> set ps" for k v
    using that JObj.IH [of "(k, v)" v] by simp
  then show ?case using set_sep_tokens [of "map (\<lambda>(k, v). TStr k # TColon # tokens_of v) ps"] by fastforce
qed simp_all

text \<open>\<open>json.loads(json.dumps(v))\<close> is \<open>v\<close>, however it is indented and escaped.\<close>

lemma loads_dumps: "plain_json j \<Longrightarrow> json_loads (json_dumps fr a ind j) = Doc j"
  using lex_dumps [of j "[]" fr a ind 0] parse_document [of j "[]" "[]"] no_beyond [of j]
  by (simp add: json_loads_def json_dumps_def)

section \<open>Files\<close>

text \<open>
  \<open>Path.write_text\<close> and \<open>Path.read_text\<close>: the text is written as UTF-8, and universal newlines are translated
  when it is read. A document has no carriage return of its own, so nothing changes.
\<close>

fun universal_newlines :: "string \<Rightarrow> string" where
  "universal_newlines [] = []"
| "universal_newlines (c # cs) = (if c = CHR 0x0D
     then CHR 0x0A # universal_newlines (if cs \<noteq> [] \<and> hd cs = CHR 0x0A then tl cs else cs)
     else c # universal_newlines cs)"

definition write_text :: "string \<Rightarrow> nat list" where
  "write_text s = concat (map utf8 s)"

definition read_text :: "nat list \<Rightarrow> string" where
  "read_text bs = universal_newlines (utf8_decode bs)"

lemma universal_newlines_id: "CHR 0x0D \<notin> set s \<Longrightarrow> universal_newlines s = s"
  by (induction s) auto

lemma read_write_text: "CHR 0x0D \<notin> set s \<Longrightarrow> read_text (write_text s) = s"
  by (simp add: read_text_def write_text_def utf8_decode_all universal_newlines_id)

text \<open>No control character but the line feed is written as it is.\<close>

definition no_control :: "string \<Rightarrow> bool" where
  "no_control s \<longleftrightarrow> (\<forall>c\<in>set s. 32 \<le> ord c \<or> c = CHR 0x0A)"

lemma no_control_simps [simp]: "no_control []" "no_control (c # s) \<longleftrightarrow> (32 \<le> ord c \<or> c = CHR 0x0A) \<and> no_control s"
  "no_control (s @ t) \<longleftrightarrow> no_control s \<and> no_control t"
  by (auto simp: no_control_def)

lemma no_control_join: "no_control sep \<Longrightarrow> (\<And>x. x \<in> set xs \<Longrightarrow> no_control x) \<Longrightarrow> no_control (join sep xs)"
  by (induction sep xs rule: join.induct) auto

lemma layout_no_control: "no_control (new_line ind l)" "no_control (item_sep ind l)"
  by (auto simp: new_line_def item_sep_def no_control_def split: option.split)

lemma escape_no_control: "no_control (escape_char a c)"
proof (cases "map_of short_escapes c")
  case (Some d)
  then show ?thesis by (auto simp: escape_char_def short_escapes_def split: if_splits)
next
  case None
  have "32 \<le> ord (hex_lower n)" if "n < 16" for n
  proof -
    have "list_all (\<lambda>n. 32 \<le> ord (hex_lower n)) [0..<16]" by code_simp
    with that show ?thesis by (simp add: list_all_iff)
  qed
  then have "no_control (hex4 n)" for n by (simp add: hex4_def)
  with None show ?thesis by (simp add: escape_char_def)
qed

lemma quote_no_control: "no_control (quote_json a s)"
  using escape_no_control by (induction s) (simp_all add: quote_json_def)

lemma dumps_no_control: "plain_json j \<Longrightarrow> no_control (dumps_at fr a ind l j)"
proof (induction j arbitrary: l)
  case (JInt i)
  have "no_control (dec n)" for n using dec_digits [of n] by (auto simp: no_control_def list_all_iff c_digit_def)
  then show ?case by (simp add: dec_int_def)
next
  case (JArr xs)
  have "no_control (join (item_sep ind (Suc l)) (map (dumps_at fr a ind (Suc l)) xs))"
    by (rule no_control_join [OF layout_no_control(2)]) (use JArr in \<open>auto simp: list_all_iff\<close>)
  then show ?case by (simp add: layout_no_control)
next
  case (JObj ps)
  have "no_control (join (item_sep ind (Suc l)) (map (\<lambda>(k, v). quote_json a k @ '': '' @ dumps_at fr a ind (Suc l) v) ps))"
  proof (rule no_control_join [OF layout_no_control(2)])
    fix x
    assume "x \<in> set (map (\<lambda>(k, v). quote_json a k @ '': '' @ dumps_at fr a ind (Suc l) v) ps)"
    then obtain k v where "(k, v) \<in> set ps" "x = quote_json a k @ '': '' @ dumps_at fr a ind (Suc l) v" by auto
    with JObj.IH [of "(k, v)" v "Suc l"] JObj.prems quote_no_control [of a k] show "no_control x" by (auto simp: list_all_iff)
  qed
  then show ?case by (simp add: layout_no_control)
qed (use quote_no_control in auto)

lemma dumps_no_null: "plain_json j \<Longrightarrow> CHR 0x00 \<notin> set (json_dumps fr a ind j)"
  and dumps_no_return: "plain_json j \<Longrightarrow> CHR 0x0D \<notin> set (json_dumps fr a ind j)"
  using dumps_no_control [of j fr a ind 0] by (auto simp: json_dumps_def no_control_def)

lemma document_file: "plain_json j \<Longrightarrow> json_loads (read_text (write_text (json_dumps fr a ind j))) = Doc j"
  by (simp add: read_write_text dumps_no_return loads_dumps)

end
