(* ===== verification/Sha256.thy ===== *)
theory Sha256
  imports "HOL-Library.Word"
begin

unbundle bit_operations_syntax

text \<open>
  \<open>hashlib.sha256(b).digest()\<close>, the secure hash of FIPS 180-4, on lists of bytes.
\<close>

section \<open>Words\<close>

definition rotr :: "nat \<Rightarrow> 32 word \<Rightarrow> 32 word" where
  "rotr n x = drop_bit n x OR push_bit (32 - n) x"

definition small_sigma0 :: "32 word \<Rightarrow> 32 word" where
  "small_sigma0 x = rotr 7 x XOR rotr 18 x XOR drop_bit 3 x"

definition small_sigma1 :: "32 word \<Rightarrow> 32 word" where
  "small_sigma1 x = rotr 17 x XOR rotr 19 x XOR drop_bit 10 x"

definition big_sigma0 :: "32 word \<Rightarrow> 32 word" where
  "big_sigma0 x = rotr 2 x XOR rotr 13 x XOR rotr 22 x"

definition big_sigma1 :: "32 word \<Rightarrow> 32 word" where
  "big_sigma1 x = rotr 6 x XOR rotr 11 x XOR rotr 25 x"

definition hash_choice :: "32 word \<Rightarrow> 32 word \<Rightarrow> 32 word \<Rightarrow> 32 word" where
  "hash_choice x y z = (x AND y) XOR ((NOT x) AND z)"

definition hash_majority :: "32 word \<Rightarrow> 32 word \<Rightarrow> 32 word \<Rightarrow> 32 word" where
  "hash_majority x y z = (x AND y) XOR (x AND z) XOR (y AND z)"

definition round_constants :: "32 word list" where
  "round_constants = [
    1116352408, 1899447441, 3049323471, 3921009573, 961987163, 1508970993, 2453635748,
    2870763221, 3624381080, 310598401, 607225278, 1426881987, 1925078388, 2162078206,
    2614888103, 3248222580, 3835390401, 4022224774, 264347078, 604807628, 770255983,
    1249150122, 1555081692, 1996064986, 2554220882, 2821834349, 2952996808, 3210313671,
    3336571891, 3584528711, 113926993, 338241895, 666307205, 773529912, 1294757372,
    1396182291, 1695183700, 1986661051, 2177026350, 2456956037, 2730485921, 2820302411,
    3259730800, 3345764771, 3516065817, 3600352804, 4094571909, 275423344, 430227734,
    506948616, 659060556, 883997877, 958139571, 1322822218, 1537002063, 1747873779,
    1955562222, 2024104815, 2227730452, 2361852424, 2428436474, 2756734187, 3204031479,
    3329325298]"

text \<open>They are the first 32 bits of the fractional parts of the cube roots of the first 64 primes.\<close>

definition cube_root_bits :: "int \<Rightarrow> int \<Rightarrow> bool" where
  "cube_root_bits p k = (case find (\<lambda>c. p < (c + 1) ^ 3) [1..7] of None \<Rightarrow> False
     | Some c \<Rightarrow> (c * 2 ^ 32 + k) ^ 3 \<le> p * 2 ^ 96 \<and> p * 2 ^ 96 < (c * 2 ^ 32 + k + 1) ^ 3)"

lemma round_constants_cube_roots:
  "list_all2 cube_root_bits (filter (\<lambda>p. list_all (\<lambda>d. p \<le> d \<or> p mod d \<noteq> 0) [2, 3, 5, 7, 11, 13, 17]) [2..311])
     (map uint round_constants)"
  by code_simp

record hash_state =
  sh_a :: "32 word"
  sh_b :: "32 word"
  sh_c :: "32 word"
  sh_d :: "32 word"
  sh_e :: "32 word"
  sh_f :: "32 word"
  sh_g :: "32 word"
  sh_h :: "32 word"

definition initial_state :: hash_state where
  "initial_state = \<lparr>sh_a = 0x6a09e667, sh_b = 0xbb67ae85, sh_c = 0x3c6ef372, sh_d = 0xa54ff53a,
     sh_e = 0x510e527f, sh_f = 0x9b05688c, sh_g = 0x1f83d9ab, sh_h = 0x5be0cd19\<rparr>"

section \<open>Padding\<close>

text \<open>Big-endian bytes of a number, and the words of a byte list.\<close>

fun bytes_be :: "nat \<Rightarrow> nat \<Rightarrow> nat list" where
  "bytes_be 0 n = []"
| "bytes_be (Suc k) n = bytes_be k (n div 256) @ [n mod 256]"

definition hash_padding :: "nat list \<Rightarrow> nat list" where
  "hash_padding bs = bs @ [128] @ replicate ((119 - length bs mod 64) mod 64) 0 @ bytes_be 8 (8 * length bs)"

fun words_be :: "nat list \<Rightarrow> 32 word list" where
  "words_be (a # b # c # d # bs) = of_nat (((a * 256 + b) * 256 + c) * 256 + d) # words_be bs"
| "words_be _ = []"

section \<open>Compression\<close>

text \<open>The schedule in reverse: the newest word first.\<close>

fun hash_schedule :: "nat \<Rightarrow> 32 word list \<Rightarrow> 32 word list" where
  "hash_schedule 0 ws = ws"
| "hash_schedule (Suc n) ws = hash_schedule n
     ((small_sigma1 (ws ! 1) + ws ! 6 + small_sigma0 (ws ! 14) + ws ! 15) # ws)"

definition hash_round :: "32 word \<times> 32 word \<Rightarrow> hash_state \<Rightarrow> hash_state" where
  "hash_round kw s = (case kw of (k, w) \<Rightarrow>
     let t1 = sh_h s + big_sigma1 (sh_e s) + hash_choice (sh_e s) (sh_f s) (sh_g s) + k + w;
         t2 = big_sigma0 (sh_a s) + hash_majority (sh_a s) (sh_b s) (sh_c s) in
     \<lparr>sh_a = t1 + t2, sh_b = sh_a s, sh_c = sh_b s, sh_d = sh_c s, sh_e = sh_d s + t1, sh_f = sh_e s, sh_g = sh_f s, sh_h = sh_g s\<rparr>)"

definition add_states :: "hash_state \<Rightarrow> hash_state \<Rightarrow> hash_state" where
  "add_states s t = \<lparr>sh_a = sh_a s + sh_a t, sh_b = sh_b s + sh_b t, sh_c = sh_c s + sh_c t, sh_d = sh_d s + sh_d t,
     sh_e = sh_e s + sh_e t, sh_f = sh_f s + sh_f t, sh_g = sh_g s + sh_g t, sh_h = sh_h s + sh_h t\<rparr>"

definition hash_compress :: "32 word list \<Rightarrow> hash_state \<Rightarrow> hash_state" where
  "hash_compress block s = add_states s (fold hash_round (zip round_constants (rev (hash_schedule 48 (rev block)))) s)"

fun hash_blocks :: "nat \<Rightarrow> 32 word list \<Rightarrow> hash_state \<Rightarrow> hash_state" where
  "hash_blocks 0 ws s = s"
| "hash_blocks (Suc n) ws s = hash_blocks n (drop 16 ws) (hash_compress (take 16 ws) s)"

definition state_words :: "hash_state \<Rightarrow> 32 word list" where
  "state_words s = [sh_a s, sh_b s, sh_c s, sh_d s, sh_e s, sh_f s, sh_g s, sh_h s]"

definition sha256 :: "nat list \<Rightarrow> nat list" where
  "sha256 bs = (let ws = words_be (hash_padding bs) in
     concat (map (\<lambda>w. bytes_be 4 (unat w)) (state_words (hash_blocks (length ws div 16) ws initial_state))))"

section \<open>Facts\<close>

lemma bytes_be_facts: "length (bytes_be k n) = k \<and> list_all (\<lambda>b. b < 256) (bytes_be k n)"
  by (induction k arbitrary: n) simp_all

text \<open>A digest has 32 bytes.\<close>

lemma sha256_digest: "length (sha256 bs) = 32 \<and> list_all (\<lambda>b. b < 256) (sha256 bs)"
  by (simp add: sha256_def Let_def state_words_def bytes_be_facts)

text \<open>The padded message consists of whole hash_blocks.\<close>

lemma hash_padding_length: "length (hash_padding bs) mod 64 = 0"
proof -
  define q r where "q = length bs div 64" and "r = length bs mod 64"
  have n: "length bs = 64 * q + r" "r < 64" by (simp_all add: q_def r_def)
  have "length (hash_padding bs) = 64 * q + (r + 9 + (119 - r) mod 64)" by (simp add: hash_padding_def bytes_be_facts n r_def [symmetric] ac_simps)
  moreover have "r + 9 + (119 - r) mod 64 = (if r \<le> 55 then 64 else 128)"
  proof (cases "r \<le> 55")
    case True
    then have "119 - r = 64 + (55 - r)" by simp
    then have "(119 - r) mod 64 = (55 - r) mod 64" by (simp only: mod_add_self1)
    then show ?thesis using True by simp
  next
    case False
    with n(2) show ?thesis by simp
  qed
  ultimately show ?thesis by simp
qed


text \<open>The first round of the message \<open>abc\<close>, as in the examples of the standard.\<close>

lemma first_round_abc:
  "hash_round (round_constants ! 0, 0x61626380) initial_state =
     \<lparr>sh_a = 0x5d6aebcd, sh_b = 0x6a09e667, sh_c = 0xbb67ae85, sh_d = 0x3c6ef372,
      sh_e = 0xfa2a4622, sh_f = 0x510e527f, sh_g = 0x9b05688c, sh_h = 0x1f83d9ab\<rparr>"
  by (simp add: hash_round_def initial_state_def round_constants_def Let_def big_sigma0_def big_sigma1_def hash_choice_def
      hash_majority_def rotr_def)

end
