(* ===== verification/World.thy ===== *)
theory World
  imports Models Base64 JsonPrint Sha256
begin

text \<open>
  The execution model of the service: what a handler reads from outside (\<open>env\<close>), what it changes
  (\<open>world\<close>), and the computations \<open>'a io\<close> that handlers and clients are. A computation takes the
  environment and the world and returns an exception or a value, and the new world; the world keeps
  its changes when an exception is raised, as in Python.

  Everything that is not code of the repository is a field of the environment: the answers of the
  HTTP services (a function of all requests sent before and of the request itself, so a service may
  have any behaviour and any state), the clock, the random source, and the third-party X.509, JOSE
  and PostgreSQL libraries. A request that is sent is recorded in the trace of the world.
\<close>

section \<open>Exceptions\<close>

datatype exn =
    HTTPException int string
  | StepCAError string
  | HawkBitError string
  | RabbitMQError string
  | TimescaleDBError string
  | WireGuardError string
  | RequestError string
  | HTTPStatusError string
  | RuntimeError string
  | KeyError string
  | ValueError string
  | TypeError string
  | AttributeError string
  | IndexError string
  | OverflowError string
  | PostgresError string
  | SystemExit string
  | OtherException string

text \<open>
  \<open>str(exc)\<close>, which is what an exception holds here (for a \<open>KeyError\<close> the \<open>repr\<close> of its argument).
  The messages are Python's, except those of the JSON parser, of \<open>raise_for_status\<close> and of Pydantic,
  which are shortened.
\<close>

definition exn_str :: "exn \<Rightarrow> string" where
  "exn_str x = (case x of HTTPException c d \<Rightarrow> dec_int c @ '': '' @ d
     | StepCAError m \<Rightarrow> m | HawkBitError m \<Rightarrow> m | RabbitMQError m \<Rightarrow> m | TimescaleDBError m \<Rightarrow> m
     | WireGuardError m \<Rightarrow> m | RequestError m \<Rightarrow> m | HTTPStatusError m \<Rightarrow> m | RuntimeError m \<Rightarrow> m
     | KeyError m \<Rightarrow> m | ValueError m \<Rightarrow> m | TypeError m \<Rightarrow> m | AttributeError m \<Rightarrow> m
     | IndexError m \<Rightarrow> m | OverflowError m \<Rightarrow> m | PostgresError m \<Rightarrow> m | SystemExit m \<Rightarrow> m | OtherException m \<Rightarrow> m)"

section \<open>Requests and responses\<close>

datatype meth = GET | POST | PUT | DELETE

datatype auth = NoAuth | Basic string string | Bearer string

datatype body = NoBody | JsonBody json | FormBody "(string \<times> string) list"

record request =
  rq_meth :: meth
  rq_url :: string
  rq_auth :: auth
  rq_body :: body
  rq_verify :: bool

text \<open>A response; \<open>rs_json\<close> is the parsed body, \<^const>\<open>None\<close> when it is not JSON.\<close>

record response =
  rs_status :: int
  rs_json :: "json option"
  rs_text :: string
  rs_location :: "string option"

datatype outcome = Answer response | NetFailure string | ClientFailure string

definition is_success :: "response \<Rightarrow> bool" where
  "is_success r = (200 \<le> rs_status r \<and> rs_status r \<le> 299)"

text \<open>A parsed certificate signing request: its DER bytes and whether its signature verifies.\<close>

record csr =
  csr_der :: "nat list"
  csr_signature_valid :: bool

section \<open>Environment and world\<close>

record env =
  e_settings :: settings
  e_http :: "request list \<Rightarrow> request \<Rightarrow> outcome"
  e_now :: "nat \<Rightarrow> instant"
  e_random :: "nat \<Rightarrow> nat"
  e_load_csr :: "string \<Rightarrow> string + csr"
  e_decrypt_jwk :: "json \<Rightarrow> string \<Rightarrow> exn + json"
  e_jwt_signed :: "json \<Rightarrow> json \<Rightarrow> json \<Rightarrow> exn + string"
  e_json_beyond :: "nat list \<Rightarrow> json option"
  e_float_repr :: "pyfloat \<Rightarrow> string"
  e_pool :: "string \<Rightarrow> exn option"
  e_insert :: "telemetry_record list \<Rightarrow> exn option"

record world =
  w_trace :: "request list"
  w_ticks :: nat
  w_draws :: nat
  w_session :: "(string, json) dict"
  w_keys :: "key_store option"
  w_joins :: "join_requests option"
  w_peers :: "(string, string) dict option"
  w_wg_conf :: "string option"
  w_server_pubkey :: "string option"
  w_telemetry :: "telemetry_record list"
  w_open_pools :: nat

type_synonym 'a io = "env \<Rightarrow> world \<Rightarrow> (exn + 'a) \<times> world"

definition empty_world :: world where
  "empty_world = \<lparr>w_trace = [], w_ticks = 0, w_draws = 0, w_session = [], w_keys = None,
     w_joins = None, w_peers = None, w_wg_conf = None, w_server_pubkey = None, w_telemetry = [],
     w_open_pools = 0\<rparr>"

section \<open>Computations\<close>

definition ret :: "'a \<Rightarrow> 'a io" where
  "ret a = (\<lambda>e w. (Inr a, w))"

definition raise :: "exn \<Rightarrow> 'a io" where
  "raise x = (\<lambda>e w. (Inl x, w))"

definition bnd :: "'a io \<Rightarrow> ('a \<Rightarrow> 'b io) \<Rightarrow> 'b io" where
  "bnd m f = (\<lambda>e w. case m e w of (Inl x, w') \<Rightarrow> (Inl x, w') | (Inr a, w') \<Rightarrow> f a e w')"

definition thn :: "'a io \<Rightarrow> 'b io \<Rightarrow> 'b io" where
  "thn m k = bnd m (\<lambda>_. k)"

text \<open>\<open>try: m except ...: h\<close>; a handler that does not match re-raises.\<close>

definition try_except :: "'a io \<Rightarrow> (exn \<Rightarrow> 'a io) \<Rightarrow> 'a io" where
  "try_except m h = (\<lambda>e w. case m e w of (Inl x, w') \<Rightarrow> h x e w' | (Inr a, w') \<Rightarrow> (Inr a, w'))"

definition asks :: "(env \<Rightarrow> 'a) \<Rightarrow> 'a io" where
  "asks f = (\<lambda>e w. (Inr (f e), w))"

definition gets :: "(world \<Rightarrow> 'a) \<Rightarrow> 'a io" where
  "gets f = (\<lambda>e w. (Inr (f w), w))"

definition modify :: "(world \<Rightarrow> world) \<Rightarrow> unit io" where
  "modify f = (\<lambda>e w. (Inr (), f w))"

definition lift_sum :: "exn + 'a \<Rightarrow> 'a io" where
  "lift_sum r = (case r of Inl x \<Rightarrow> raise x | Inr a \<Rightarrow> ret a)"

text \<open>\<open>get_settings()\<close>, cached by \<open>lru_cache\<close>; \<open>datetime.now(UTC)\<close>; \<open>int(time.time())\<close>.\<close>

definition get_settings :: "settings io" where
  "get_settings = asks e_settings"

definition now_utc :: "instant io" where
  "now_utc = (\<lambda>e w. (Inr (e_now e (w_ticks w)), w\<lparr>w_ticks := Suc (w_ticks w)\<rparr>))"

definition time_seconds :: "int io" where
  "time_seconds = bnd now_utc (\<lambda>t. ret (t div 1000000))"

text \<open>\<open>secrets.randbelow(n)\<close>, and \<open>secrets.choice\<close> applied \<open>k\<close> times to an alphabet.\<close>

definition randbelow :: "nat \<Rightarrow> nat io" where
  "randbelow n = (\<lambda>e w. (Inr (e_random e (w_draws w) mod n), w\<lparr>w_draws := Suc (w_draws w)\<rparr>))"

fun choices :: "string \<Rightarrow> nat \<Rightarrow> string io" where
  "choices alphabet 0 = ret []"
| "choices alphabet (Suc k) = bnd (randbelow (length alphabet)) (\<lambda>i.
     bnd (choices alphabet k) (\<lambda>cs. ret (alphabet ! i # cs)))"

fun random_bytes :: "nat \<Rightarrow> nat list io" where
  "random_bytes 0 = ret []"
| "random_bytes (Suc k) = bnd (randbelow 256) (\<lambda>b. bnd (random_bytes k) (\<lambda>bs. ret (b # bs)))"

text \<open>\<open>secrets.token_urlsafe(32)\<close>.\<close>

definition token_urlsafe :: "string io" where
  "token_urlsafe = bnd (random_bytes 32) (\<lambda>bs.
     ret (rstrip_char CHR ''='' (urlsafe_b64encode bs)))"

text \<open>One HTTP exchange: the request is sent, then answered, or the client raises.\<close>

definition http :: "request \<Rightarrow> response io" where
  "http r = (\<lambda>e w. let w' = w\<lparr>w_trace := w_trace w @ [r]\<rparr> in
     case e_http e (w_trace w) r of Answer p \<Rightarrow> (Inr p, w')
       | NetFailure m \<Rightarrow> (Inl (RequestError m), w')
       | ClientFailure m \<Rightarrow> (Inl (OtherException m), w'))"

definition resp_json :: "response \<Rightarrow> json io" where
  "resp_json r = (case rs_json r of None \<Rightarrow> raise (ValueError ''Expecting value'') | Some j \<Rightarrow> ret j)"

definition raise_for_status :: "response \<Rightarrow> unit io" where
  "raise_for_status r = (if is_success r then ret ()
     else raise (HTTPStatusError (''HTTP status '' @ dec_int (rs_status r))))"

section \<open>Reading JSON\<close>

text \<open>
  \<open>json.loads\<close> of a text and of bytes. Bytes that are not the UTF-8 of code points between 1 and 255 (another
  encoding, or characters that a string of the model cannot hold) and documents that are not values of
  the model are left to the environment.
\<close>

fun latin_text :: "nat list \<Rightarrow> string option" where
  "latin_text [] = Some []"
| "latin_text (b # bs) = (if 0 < b \<and> b < 128 then map_option (Cons (char_of b)) (latin_text bs)
     else if b = 194 \<or> b = 195 then (case bs of [] \<Rightarrow> None
       | d # ds \<Rightarrow> if 128 \<le> d \<and> d < 192 then map_option (Cons (char_of ((b - 192) * 64 + (d - 128)))) (latin_text ds) else None)
     else None)"

definition loads_text :: "env \<Rightarrow> string \<Rightarrow> json option" where
  "loads_text e s = (case json_loads s of Doc j \<Rightarrow> Some j | NotJson \<Rightarrow> None | Beyond \<Rightarrow> e_json_beyond e (write_text s))"

definition loads_bytes :: "env \<Rightarrow> nat list \<Rightarrow> json option" where
  "loads_bytes e bs = (case latin_text bs of None \<Rightarrow> e_json_beyond e bs | Some s \<Rightarrow> loads_text e s)"

lemma latin_text_write: "CHR 0x00 \<notin> set s \<Longrightarrow> latin_text (write_text s) = Some s"
proof (induction s)
  case (Cons c s)
  have "ord c < 256" by (rule ord_less)
  then have "\<not> ord c < 128 \<Longrightarrow> ord c div 64 = 2 \<or> ord c div 64 = 3" by linarith
  moreover have "ord c div 64 * 64 + ord c mod 64 = ord c" by simp
  moreover have "0 < ord c"
  proof (rule ccontr)
    assume "\<not> 0 < ord c"
    then have "c = char_of (0 :: nat)" by (metis char_of_char gr0I)
    moreover have "char_of (0 :: nat) = CHR 0x00" by code_simp
    ultimately show False using Cons.prems by simp
  qed
  ultimately show ?case using Cons by (auto simp: write_text_def utf8_def)
qed (simp add: write_text_def)

lemma loads_bytes_document: "plain_json j \<Longrightarrow> loads_bytes e (write_text (json_dumps fr a ind j)) = Some j"
  by (simp add: loads_bytes_def loads_text_def latin_text_write dumps_no_null loads_dumps)

section \<open>Dynamic access to JSON values\<close>

text \<open>\<open>v.get(k, d)\<close>, \<open>v[k]\<close>, \<open>v[0]\<close> and \<open>for x in v\<close>, with the errors Python raises on other types.\<close>

definition no_subscript :: "json \<Rightarrow> string" where
  "no_subscript v = squoted (type_name v) @ '' object is not subscriptable''"

definition jget :: "json \<Rightarrow> string \<Rightarrow> json \<Rightarrow> json io" where
  "jget v k d = (case v of JObj ps \<Rightarrow> ret (case dict_get ps k of None \<Rightarrow> d | Some x \<Rightarrow> x)
     | _ \<Rightarrow> raise (AttributeError (squoted (type_name v) @ '' object has no attribute '' @ squoted ''get'')))"

definition jindex :: "json \<Rightarrow> string \<Rightarrow> json io" where
  "jindex v k = (case v of JObj ps \<Rightarrow> (case dict_get ps k of None \<Rightarrow> raise (KeyError (repr_str k)) | Some x \<Rightarrow> ret x)
     | JArr _ \<Rightarrow> raise (TypeError ''list indices must be integers or slices, not str'')
     | JStr _ \<Rightarrow> raise (TypeError (''string indices must be integers, not '' @ squoted ''str''))
     | _ \<Rightarrow> raise (TypeError (no_subscript v)))"

definition jfirst :: "json \<Rightarrow> json io" where
  "jfirst v = (case v of JArr [] \<Rightarrow> raise (IndexError ''list index out of range'') | JArr (x # _) \<Rightarrow> ret x
     | JStr [] \<Rightarrow> raise (IndexError ''string index out of range'') | JStr (c # _) \<Rightarrow> ret (JStr [c])
     | JObj _ \<Rightarrow> raise (KeyError ''0'')
     | _ \<Rightarrow> raise (TypeError (no_subscript v)))"

definition jiter :: "json \<Rightarrow> json list io" where
  "jiter v = (case v of JArr xs \<Rightarrow> ret xs | JObj ps \<Rightarrow> ret (map (\<lambda>p. JStr (fst p)) ps)
     | JStr s \<Rightarrow> ret (map (\<lambda>c. JStr [c]) s)
     | _ \<Rightarrow> raise (TypeError (squoted (type_name v) @ '' object is not iterable'')))"

text \<open>Validation of a value against a Pydantic field of type \<open>str\<close>, and of type \<open>str | None\<close>.\<close>

definition as_str :: "json \<Rightarrow> string io" where
  "as_str v = (case v of JStr s \<Rightarrow> ret s | _ \<Rightarrow> raise (ValueError ''Input should be a valid string''))"

definition as_opt_str :: "json \<Rightarrow> string option io" where
  "as_opt_str v = (if v = JNull then ret None else bnd (as_str v) (\<lambda>s. ret (Some s)))"

text \<open>\<open>str(v)\<close>; \<open>set(v)\<close> of a JSON value, as the list of its elements; \<open>v in S\<close> for a set of strings.\<close>

definition str_of :: "json \<Rightarrow> string io" where
  "str_of v = asks (\<lambda>e. py_str (e_float_repr e) v)"

definition set_of :: "json \<Rightarrow> json list io" where
  "set_of v = bnd (jiter v) (\<lambda>xs. if list_all hashable xs then ret xs
     else raise (TypeError ''unhashable type''))"

definition in_strings :: "json \<Rightarrow> string set \<Rightarrow> bool io" where
  "in_strings v S = (if hashable v then ret (\<exists>s\<in>S. v = JStr s) else raise (TypeError ''unhashable type''))"

text \<open>The loops of the program over such values: keep the elements a test accepts; is there one.\<close>

fun filter_io :: "('a \<Rightarrow> bool io) \<Rightarrow> 'a list \<Rightarrow> 'a list io" where
  "filter_io p [] = ret []"
| "filter_io p (x # xs) = bnd (p x) (\<lambda>b. bnd (filter_io p xs) (\<lambda>ys. ret (if b then x # ys else ys)))"

fun any_io :: "('a \<Rightarrow> bool io) \<Rightarrow> 'a list \<Rightarrow> bool io" where
  "any_io p [] = ret False"
| "any_io p (x # xs) = bnd (p x) (\<lambda>b. if b then ret True else any_io p xs)"

fun map_io :: "('a \<Rightarrow> 'b io) \<Rightarrow> 'a list \<Rightarrow> 'b list io" where
  "map_io f [] = ret []"
| "map_io f (x # xs) = bnd (f x) (\<lambda>y. bnd (map_io f xs) (\<lambda>ys. ret (y # ys)))"

end
