(* ===== verification/IOLogic.thy ===== *)
theory IOLogic
  imports World
begin

text \<open>
  Reasoning about computations: equations that execute them, the frame predicate \<open>keeps\<close> (a part of
  the world does not change, whatever the services answer and whatever is raised), the predicate
  \<open>sends\<close> on the requests a computation adds to the trace, and Hoare triples with one postcondition
  for a value and one for an exception. The contract of an operation that only talks to a service
  is the locale \<open>service_call\<close>.
\<close>

section \<open>Execution\<close>

lemma run_basic [run_simps]:
  "ret a e w = (Inr a, w)"
  "raise x e w = (Inl x, w)"
  "asks f e w = (Inr (f e), w)"
  "gets g e w = (Inr (g w), w)"
  "modify h e w = (Inr (), h w)"
  "get_settings e w = (Inr (e_settings e), w)"
  "now_utc e w = (Inr (e_now e (w_ticks w)), w\<lparr>w_ticks := Suc (w_ticks w)\<rparr>)"
  by (simp_all add: ret_def raise_def asks_def gets_def modify_def get_settings_def now_utc_def)

lemma bnd_value: "m e w = (Inr a, w') \<Longrightarrow> bnd m f e w = f a e w'"
  by (simp add: bnd_def)

lemma bnd_raise: "m e w = (Inl x, w') \<Longrightarrow> bnd m f e w = (Inl x, w')"
  by (simp add: bnd_def)

lemma run_bnd_ret [run_simps]: "bnd (ret a) f = f a"
  by (simp add: bnd_def ret_def)

lemma run_bnd_raise [run_simps]: "bnd (raise x) f = raise x"
  by (simp add: bnd_def raise_def fun_eq_iff)

lemma run_bnd_asks [run_simps]: "bnd (asks h) f e w = f (h e) e w"
  by (simp add: bnd_def asks_def)

lemma run_bnd_gets [run_simps]: "bnd (gets h) f e w = f (h w) e w"
  by (simp add: bnd_def gets_def)

lemma run_bnd_modify [run_simps]: "bnd (modify h) f e w = f () e (h w)"
  by (simp add: bnd_def modify_def)

lemma run_bnd_settings [run_simps]: "bnd get_settings f e w = f (e_settings e) e w"
  by (simp add: get_settings_def run_bnd_asks)

lemma run_bnd_now [run_simps]:
  "bnd now_utc f e w = f (e_now e (w_ticks w)) e (w\<lparr>w_ticks := Suc (w_ticks w)\<rparr>)"
  by (simp add: bnd_def now_utc_def)

lemma run_thn [run_simps]: "thn m k = bnd m (\<lambda>_. k)"
  by (simp add: thn_def)

lemma run_try_ret [run_simps]: "try_except (ret a) h = ret a"
  by (simp add: try_except_def ret_def fun_eq_iff)

lemma run_try_raise [run_simps]: "try_except (raise x) h = h x"
  by (simp add: try_except_def raise_def fun_eq_iff)

lemma try_value: "m e w = (Inr a, w') \<Longrightarrow> try_except m h e w = (Inr a, w')"
  by (simp add: try_except_def)

lemma try_exn: "m e w = (Inl x, w') \<Longrightarrow> try_except m h e w = h x e w'"
  by (simp add: try_except_def)

lemma bnd_assoc: "bnd (bnd m f) g = bnd m (\<lambda>a. bnd (f a) g)"
  by (auto simp: bnd_def fun_eq_iff split: prod.split sum.split)

lemma bnd_ret [simp]: "bnd m ret = m"
  by (auto simp: bnd_def ret_def fun_eq_iff split: prod.split sum.split)

lemma http_answer: "e_http e (w_trace w) r = Answer p \<Longrightarrow> http r e w = (Inr p, w\<lparr>w_trace := w_trace w @ [r]\<rparr>)"
  by (simp add: http_def)

lemma http_net: "e_http e (w_trace w) r = NetFailure m \<Longrightarrow>
    http r e w = (Inl (RequestError m), w\<lparr>w_trace := w_trace w @ [r]\<rparr>)"
  by (simp add: http_def)

lemma http_cases:
  assumes "http r e w = (res, w')"
  obtains (answer) p where "e_http e (w_trace w) r = Answer p" "res = Inr p" "w' = w\<lparr>w_trace := w_trace w @ [r]\<rparr>"
  | (net) m where "e_http e (w_trace w) r = NetFailure m" "res = Inl (RequestError m)" "w' = w\<lparr>w_trace := w_trace w @ [r]\<rparr>"
  | (client) m where "e_http e (w_trace w) r = ClientFailure m" "res = Inl (OtherException m)" "w' = w\<lparr>w_trace := w_trace w @ [r]\<rparr>"
  using assms by (auto simp: http_def Let_def split: outcome.splits)

lemma run_if: "(if b then m else k) e w = (if b then m e w else k e w)"
  by simp

lemma bnd_split: "P (bnd m f e w) \<longleftrightarrow>
   (\<forall>x w'. m e w = (Inl x, w') \<longrightarrow> P (Inl x, w')) \<and> (\<forall>a w'. m e w = (Inr a, w') \<longrightarrow> P (f a e w'))"
  by (auto simp: bnd_def split: prod.split sum.split)

lemma bnd_InrE:
  assumes "bnd m f e w = (Inr b, w'')"
  obtains a w' where "m e w = (Inr a, w')" "f a e w' = (Inr b, w'')"
  using assms by (auto simp: bnd_def split: prod.splits sum.splits)

lemma bnd_InlE:
  assumes "bnd m f e w = (Inl x, w'')"
  obtains "m e w = (Inl x, w'')" | a w' where "m e w = (Inr a, w')" "f a e w' = (Inl x, w'')"
  using assms by (auto simp: bnd_def split: prod.splits sum.splits)

lemma try_cases: "try_except m h e w = (r, w'') \<Longrightarrow>
    (\<exists>a. m e w = (Inr a, w'') \<and> r = Inr a) \<or> (\<exists>x w'. m e w = (Inl x, w') \<and> h x e w' = (r, w''))"
  by (auto simp: try_except_def split: prod.splits sum.splits)

section \<open>What a computation keeps\<close>

definition keeps :: "(world \<Rightarrow> 'b) \<Rightarrow> 'a io \<Rightarrow> bool" where
  "keeps g m = (\<forall>e w. g (snd (m e w)) = g w)"

lemma keepsD: "keeps g m \<Longrightarrow> m e w = (r, w') \<Longrightarrow> g w' = g w"
  unfolding keeps_def by (metis snd_conv)

lemma keeps_pure [keeps_rules]:
  "keeps g (ret a)" "keeps g (raise x)" "keeps g (asks h)" "keeps g (gets h')" "keeps g get_settings"
  by (simp_all add: keeps_def run_simps)

lemma keeps_bnd [keeps_rules]: "keeps g m \<Longrightarrow> (\<And>a. keeps g (f a)) \<Longrightarrow> keeps g (bnd m f)"
  by (auto simp: keeps_def bnd_def split: prod.split sum.split) (metis snd_conv)+

lemma keeps_thn [keeps_rules]: "keeps g m \<Longrightarrow> keeps g k \<Longrightarrow> keeps g (thn m k)"
  by (simp add: thn_def keeps_bnd)

lemma keeps_try [keeps_rules]: "keeps g m \<Longrightarrow> (\<And>x. keeps g (h x)) \<Longrightarrow> keeps g (try_except m h)"
  by (auto simp: keeps_def try_except_def split: prod.split sum.split) (metis snd_conv)+

lemma keeps_if [keeps_rules]: "keeps g m \<Longrightarrow> keeps g k \<Longrightarrow> keeps g (if b then m else k)"
  by simp

lemma keeps_option [keeps_rules]:
  "keeps g m \<Longrightarrow> (\<And>a. keeps g (f a)) \<Longrightarrow> keeps g (case x of None \<Rightarrow> m | Some a \<Rightarrow> f a)"
  by (cases x) simp_all

lemma keeps_sum [keeps_rules]:
  "(\<And>a. keeps g (l a)) \<Longrightarrow> (\<And>b. keeps g (r b)) \<Longrightarrow> keeps g (case x of Inl a \<Rightarrow> l a | Inr b \<Rightarrow> r b)"
  by (cases x) simp_all

lemma keeps_prod [keeps_rules]: "(\<And>a b. keeps g (f a b)) \<Longrightarrow> keeps g (case p of (a, b) \<Rightarrow> f a b)"
  by (cases p) simp

lemma keeps_prod_nested [keeps_rules]:
  "(\<And>a b. keeps g (f a b x)) \<Longrightarrow> keeps g ((case p of (a, b) \<Rightarrow> f a b) x)"
  by (cases p) simp

lemma keeps_let [keeps_rules]: "(\<And>x. keeps g (f x)) \<Longrightarrow> keeps g (let x = t in f x)"
  by simp

lemma keeps_list [keeps_rules]:
  "keeps g m \<Longrightarrow> (\<And>a as. keeps g (f a as)) \<Longrightarrow> keeps g (case xs of [] \<Rightarrow> m | a # as \<Rightarrow> f a as)"
  by (cases xs) simp_all

lemma keeps_exn [keeps_rules]:
  assumes "\<And>a b. keeps g (f1 a b)" "\<And>a. keeps g (f2 a)" "\<And>a. keeps g (f3 a)" "\<And>a. keeps g (f4 a)"
    "\<And>a. keeps g (f5 a)" "\<And>a. keeps g (f6 a)" "\<And>a. keeps g (f7 a)" "\<And>a. keeps g (f8 a)"
    "\<And>a. keeps g (f9 a)" "\<And>a. keeps g (f10 a)" "\<And>a. keeps g (f11 a)" "\<And>a. keeps g (f12 a)"
    "\<And>a. keeps g (f13 a)" "\<And>a. keeps g (f14 a)" "\<And>a. keeps g (f15 a)" "\<And>a. keeps g (f16 a)"
    "\<And>a. keeps g (f17 a)" "\<And>a. keeps g (f18 a)"
  shows "keeps g (case_exn f1 f2 f3 f4 f5 f6 f7 f8 f9 f10 f11 f12 f13 f14 f15 f16 f17 f18 x)"
  using assms by (cases x) simp_all

lemma keeps_json [keeps_rules]:
  assumes "keeps g m" "\<And>a. keeps g (f1 a)" "\<And>a. keeps g (f2 a)" "\<And>a. keeps g (f3 a)"
    "\<And>a. keeps g (f4 a)" "\<And>a. keeps g (f5 a)" "\<And>a. keeps g (f6 a)"
  shows "keeps g (case_json m f1 f2 f3 f4 f5 f6 j)"
  using assms by (cases j) simp_all

lemma keeps_now: "(\<And>w n. g (w\<lparr>w_ticks := n\<rparr>) = g w) \<Longrightarrow> keeps g now_utc"
  by (simp add: keeps_def now_utc_def)

lemma keeps_randbelow: "(\<And>w n. g (w\<lparr>w_draws := n\<rparr>) = g w) \<Longrightarrow> keeps g (randbelow n)"
  by (simp add: keeps_def randbelow_def)

lemma keeps_http: "(\<And>w t. g (w\<lparr>w_trace := t\<rparr>) = g w) \<Longrightarrow> keeps g (http r)"
  by (simp add: keeps_def http_def Let_def split: outcome.split)

lemma keeps_modify: "(\<And>w. g (f w) = g w) \<Longrightarrow> keeps g (modify f)"
  by (simp add: keeps_def modify_def)

lemma pure_world: "keeps (\<lambda>w. w) m \<Longrightarrow> m e w = (r, w') \<Longrightarrow> w' = w"
  by (rule keepsD [of "\<lambda>w. w"])

lemma pure_bnd_value:
  "keeps (\<lambda>w. w) m \<Longrightarrow> bnd m f e w = (r, w') \<Longrightarrow> w' = w \<or> (\<exists>a. m e w = (Inr a, w) \<and> f a e w = (r, w'))"
  by (cases "m e w"; cases "fst (m e w)") (auto simp: bnd_def dest: pure_world)

lemma keeps_compose: "keeps g m \<Longrightarrow> keeps (\<lambda>w. f (g w)) m"
  by (simp add: keeps_def)

lemma keeps_lift [keeps_rules]: "keeps g (lift_sum r)"
  by (simp add: lift_sum_def keeps_rules split: sum.split)

lemma keeps_json_ops [keeps_rules]:
  "keeps g (jget v k d)" "keeps g (jindex v k)" "keeps g (jfirst v)" "keeps g (jiter v)"
  "keeps g (resp_json r)" "keeps g (raise_for_status r)" "keeps g (as_str v)"
  unfolding jget_def jindex_def jfirst_def jiter_def resp_json_def raise_for_status_def as_str_def
  by (auto intro!: keeps_rules split: json.split list.split option.split)

lemma keeps_values [keeps_rules]: "keeps g (str_of v)" "keeps g (set_of v)" "keeps g (in_strings v S)"
  "keeps g (as_opt_str v)"
  unfolding as_opt_str_def str_of_def set_of_def in_strings_def by (intro keeps_rules)+

lemma keeps_filter_io [keeps_rules]: "(\<And>x. keeps g (p x)) \<Longrightarrow> keeps g (filter_io p xs)"
  by (induction xs) (auto intro!: keeps_rules)

lemma keeps_any_io [keeps_rules]: "(\<And>x. keeps g (p x)) \<Longrightarrow> keeps g (any_io p xs)"
  by (induction xs) (auto intro!: keeps_rules)

lemma keeps_map_io [keeps_rules]: "(\<And>x. keeps g (f x)) \<Longrightarrow> keeps g (map_io f xs)"
  by (induction xs) (auto intro!: keeps_rules)

lemma keeps_choices [keeps_rules]: "(\<And>w n. g (w\<lparr>w_draws := n\<rparr>) = g w) \<Longrightarrow> keeps g (choices al k)"
  by (induction k) (auto intro!: keeps_rules keeps_randbelow)

lemma keeps_random_bytes [keeps_rules]: "(\<And>w n. g (w\<lparr>w_draws := n\<rparr>) = g w) \<Longrightarrow> keeps g (random_bytes k)"
  by (induction k) (auto intro!: keeps_rules keeps_randbelow)

lemma keeps_token [keeps_rules]: "(\<And>w n. g (w\<lparr>w_draws := n\<rparr>) = g w) \<Longrightarrow> keeps g token_urlsafe"
  unfolding token_urlsafe_def by (auto intro!: keeps_rules)

lemma keeps_time [keeps_rules]: "(\<And>w n. g (w\<lparr>w_ticks := n\<rparr>) = g w) \<Longrightarrow> keeps g time_seconds"
  unfolding time_seconds_def by (auto intro!: keeps_rules keeps_now)

text \<open>Everything a handler stores: the world without the trace, the clock and the random source.\<close>

definition stores :: "world \<Rightarrow> world" where
  "stores w = w\<lparr>w_trace := [], w_ticks := 0, w_draws := 0\<rparr>"

lemma stores_simps [simp]:
  "stores (w\<lparr>w_trace := t\<rparr>) = stores w" "stores (w\<lparr>w_ticks := n\<rparr>) = stores w"
  "stores (w\<lparr>w_draws := n\<rparr>) = stores w"
  by (simp_all add: stores_def)

lemma keeps_stores [keeps_rules]:
  "keeps stores now_utc" "keeps stores (randbelow n)" "keeps stores (http r)"
  by (simp_all add: keeps_now keeps_randbelow keeps_http)

lemma stores_fields:
  assumes "stores w' = stores w"
  shows "w_session w' = w_session w" "w_keys w' = w_keys w" "w_joins w' = w_joins w"
    "w_peers w' = w_peers w" "w_wg_conf w' = w_wg_conf w" "w_server_pubkey w' = w_server_pubkey w"
    "w_telemetry w' = w_telemetry w" "w_open_pools w' = w_open_pools w"
  using arg_cong [OF assms, of w_session] arg_cong [OF assms, of w_keys] arg_cong [OF assms, of w_joins]
    arg_cong [OF assms, of w_peers] arg_cong [OF assms, of w_wg_conf]
    arg_cong [OF assms, of w_server_pubkey] arg_cong [OF assms, of w_telemetry]
    arg_cong [OF assms, of w_open_pools]
  by (simp_all add: stores_def)


lemma keeps_stores_time [keeps_rules]: "keeps stores time_seconds"
  by (simp add: keeps_time)

section \<open>The requests a computation sends\<close>

definition sends :: "(request \<Rightarrow> bool) \<Rightarrow> 'a io \<Rightarrow> bool" where
  "sends S m = (\<forall>e w. \<exists>rs. w_trace (snd (m e w)) = w_trace w @ rs \<and> list_all S rs)"

lemma sendsE:
  assumes "sends S m" "m e w = (r, w')"
  obtains rs where "w_trace w' = w_trace w @ rs" "list_all S rs"
  using assms unfolding sends_def by (metis snd_conv)

lemma sends_mono: "sends S m \<Longrightarrow> (\<And>r. S r \<Longrightarrow> T r) \<Longrightarrow> sends T m"
  unfolding sends_def by (meson list_all_set_mono)

lemma sends_nothing: "keeps w_trace m \<Longrightarrow> sends S m"
  by (auto simp: sends_def keeps_def intro!: exI [of _ "[]"])

lemma sends_False_keeps: "sends (\<lambda>_. False) m \<Longrightarrow> keeps w_trace m"
proof -
  assume s: "sends (\<lambda>_. False) m"
  have "w_trace (snd (m e w)) = w_trace w" for e w
  proof -
    from s obtain rs where "w_trace (snd (m e w)) = w_trace w @ rs" "list_all (\<lambda>_. False) rs"
      unfolding sends_def by blast
    then show ?thesis by (cases rs) auto
  qed
  then show ?thesis by (simp add: keeps_def)
qed

lemma sends_pure [sends_rules]:
  "sends S (ret a)" "sends S (raise x)" "sends S (asks h)" "sends S (gets h')" "sends S get_settings"
  "sends S now_utc" "sends S (randbelow n)" "sends S (lift_sum r)" "sends S (jget v k d)"
  "sends S (jindex v k)" "sends S (jfirst v)" "sends S (jiter v)" "sends S (resp_json p)"
  "sends S (raise_for_status p)" "sends S (as_str v)" "sends S (choices al j)" "sends S (random_bytes j)"
  "sends S token_urlsafe" "sends S time_seconds" "sends S (str_of v)" "sends S (set_of v)"
  "sends S (in_strings v T)" "sends S (as_opt_str v)"
  by (rule sends_nothing, simp add: keeps_rules keeps_now keeps_randbelow)+

lemma sends_modify [sends_rules]: "(\<And>w. w_trace (f w) = w_trace w) \<Longrightarrow> sends S (modify f)"
  by (rule sends_nothing) (simp add: keeps_modify)

lemma sends_http [sends_rules]: "S r \<Longrightarrow> sends S (http r)"
  by (auto simp: sends_def http_def Let_def split: outcome.split intro!: exI [of _ "[r]"])

lemma sends_bnd [sends_rules]:
  assumes m: "sends S m" and f: "\<And>a. sends S (f a)"
  shows "sends S (bnd m f)"
  unfolding sends_def
proof (intro allI)
  fix e w
  obtain r w' where r: "m e w = (r, w')" by fastforce
  from sendsE [OF m r] obtain rs where rs: "w_trace w' = w_trace w @ rs" "list_all S rs" by blast
  show "\<exists>rs. w_trace (snd (bnd m f e w)) = w_trace w @ rs \<and> list_all S rs"
  proof (cases r)
    case (Inl x)
    with r rs show ?thesis by (auto simp: bnd_raise)
  next
    case (Inr a)
    obtain r'' w'' where f': "f a e w' = (r'', w'')" by fastforce
    from sendsE [OF f f'] obtain qs where "w_trace w'' = w_trace w' @ qs" "list_all S qs" by blast
    with r rs Inr f' show ?thesis by (auto simp: bnd_value intro!: exI [of _ "rs @ qs"])
  qed
qed

lemma try_as_bnd: "try_except m h = (\<lambda>e w. case m e w of (Inl x, w') \<Rightarrow> h x e w' | (Inr a, w') \<Rightarrow> ret a e w')"
  by (auto simp: try_except_def ret_def fun_eq_iff split: prod.split sum.split)

lemma sends_try [sends_rules]:
  assumes m: "sends S m" and h: "\<And>x. sends S (h x)"
  shows "sends S (try_except m h)"
  unfolding sends_def
proof (intro allI)
  fix e w
  obtain r w' where r: "m e w = (r, w')" by fastforce
  from sendsE [OF m r] obtain rs where rs: "w_trace w' = w_trace w @ rs" "list_all S rs" by blast
  show "\<exists>rs. w_trace (snd (try_except m h e w)) = w_trace w @ rs \<and> list_all S rs"
  proof (cases r)
    case (Inr x)
    with r rs show ?thesis by (auto simp: try_value)
  next
    case (Inl a)
    obtain r'' w'' where h': "h a e w' = (r'', w'')" by fastforce
    from sendsE [OF h h'] obtain qs where "w_trace w'' = w_trace w' @ qs" "list_all S qs" by blast
    with r rs Inl h' show ?thesis by (auto simp: try_exn intro!: exI [of _ "rs @ qs"])
  qed
qed

lemma sends_thn [sends_rules]: "sends S m \<Longrightarrow> sends S k \<Longrightarrow> sends S (thn m k)"
  by (simp add: thn_def sends_bnd)

lemma sends_if [sends_rules]:
  "(b \<Longrightarrow> sends S m) \<Longrightarrow> (\<not> b \<Longrightarrow> sends S k) \<Longrightarrow> sends S (if b then m else k)"
  by simp

lemma sends_option [sends_rules]:
  "sends S m \<Longrightarrow> (\<And>a. x = Some a \<Longrightarrow> sends S (f a)) \<Longrightarrow> sends S (case x of None \<Rightarrow> m | Some a \<Rightarrow> f a)"
  by (cases x) simp_all

lemma sends_sum [sends_rules]:
  "(\<And>a. sends S (l a)) \<Longrightarrow> (\<And>b. sends S (r b)) \<Longrightarrow> sends S (case x of Inl a \<Rightarrow> l a | Inr b \<Rightarrow> r b)"
  by (cases x) simp_all

lemma sends_prod [sends_rules]: "(\<And>a b. sends S (f a b)) \<Longrightarrow> sends S (case p of (a, b) \<Rightarrow> f a b)"
  by (cases p) simp

lemma sends_prod_nested [sends_rules]:
  "(\<And>a b. sends S (f a b x)) \<Longrightarrow> sends S ((case p of (a, b) \<Rightarrow> f a b) x)"
  by (cases p) simp

lemma sends_let [sends_rules]: "(\<And>x. x = t \<Longrightarrow> sends S (f x)) \<Longrightarrow> sends S (let x = t in f x)"
  by simp

lemma sends_list [sends_rules]:
  "sends S m \<Longrightarrow> (\<And>a as. sends S (f a as)) \<Longrightarrow> sends S (case xs of [] \<Rightarrow> m | a # as \<Rightarrow> f a as)"
  by (cases xs) simp_all

lemma sends_exn [sends_rules]:
  assumes "\<And>a b. sends S (f1 a b)" "\<And>a. sends S (f2 a)" "\<And>a. sends S (f3 a)" "\<And>a. sends S (f4 a)"
    "\<And>a. sends S (f5 a)" "\<And>a. sends S (f6 a)" "\<And>a. sends S (f7 a)" "\<And>a. sends S (f8 a)"
    "\<And>a. sends S (f9 a)" "\<And>a. sends S (f10 a)" "\<And>a. sends S (f11 a)" "\<And>a. sends S (f12 a)"
    "\<And>a. sends S (f13 a)" "\<And>a. sends S (f14 a)" "\<And>a. sends S (f15 a)" "\<And>a. sends S (f16 a)"
    "\<And>a. sends S (f17 a)" "\<And>a. sends S (f18 a)"
  shows "sends S (case_exn f1 f2 f3 f4 f5 f6 f7 f8 f9 f10 f11 f12 f13 f14 f15 f16 f17 f18 x)"
  using assms by (cases x) simp_all

lemma sends_json [sends_rules]:
  assumes "sends S m" "\<And>a. sends S (f1 a)" "\<And>a. sends S (f2 a)" "\<And>a. sends S (f3 a)"
    "\<And>a. sends S (f4 a)" "\<And>a. sends S (f5 a)" "\<And>a. sends S (f6 a)"
  shows "sends S (case_json m f1 f2 f3 f4 f5 f6 j)"
  using assms by (cases j) simp_all

lemma sends_loops [sends_rules]:
  "(\<And>x. sends S (p x)) \<Longrightarrow> sends S (filter_io p xs)"
  "(\<And>x. sends S (p x)) \<Longrightarrow> sends S (any_io p xs)"
  "(\<And>x. sends S (f x)) \<Longrightarrow> sends S (map_io f ys)"
proof -
  show "(\<And>x. sends S (p x)) \<Longrightarrow> sends S (filter_io p xs)" by (induction xs) (auto intro!: sends_rules)
  show "(\<And>x. sends S (p x)) \<Longrightarrow> sends S (any_io p xs)" by (induction xs) (auto intro!: sends_rules)
  show "(\<And>x. sends S (f x)) \<Longrightarrow> sends S (map_io f ys)" by (induction ys) (auto intro!: sends_rules)
qed

text \<open>
  \<open>sends_in e S m\<close>: the same for one environment, so that \<open>S\<close> may speak of the tokens it signs. In
  a sequence the continuation is only asked about the values the first part can return.
\<close>

definition sends_in :: "env \<Rightarrow> (request \<Rightarrow> bool) \<Rightarrow> 'a io \<Rightarrow> bool" where
  "sends_in e S m = (\<forall>w. \<exists>rs. w_trace (snd (m e w)) = w_trace w @ rs \<and> list_all S rs)"

lemma sends_inE:
  assumes "sends_in e S m" "m e w = (r, w')"
  obtains rs where "w_trace w' = w_trace w @ rs" "list_all S rs"
  using assms unfolding sends_in_def by (metis snd_conv)

lemma sends_inI:
  assumes "\<And>w r w'. m e w = (r, w') \<Longrightarrow> \<exists>rs. w_trace w' = w_trace w @ rs \<and> list_all S rs"
  shows "sends_in e S m"
  using assms unfolding sends_in_def by (metis prod.collapse)

lemma sends_in_all: "(\<And>e. sends_in e S m) \<Longrightarrow> sends S m"
  by (simp add: sends_in_def sends_def)

lemma sends_in_weaken: "sends_in e S m \<Longrightarrow> (\<And>r. S r \<Longrightarrow> T r) \<Longrightarrow> sends_in e T m"
  unfolding sends_in_def by (meson list_all_set_mono)

lemma sends_everywhere: "sends S m \<Longrightarrow> (\<And>r. S r \<Longrightarrow> T r) \<Longrightarrow> sends_in e T m"
  unfolding sends_in_def sends_def by (meson list_all_set_mono)

lemma sends_in_nothing: "sends (\<lambda>_. False) m \<Longrightarrow> sends_in e S m"
  by (erule sends_everywhere) simp

lemma sends_in_bnd:
  assumes m: "sends_in e S m" and f: "\<And>w a w'. m e w = (Inr a, w') \<Longrightarrow> sends_in e S (f a)"
  shows "sends_in e S (bnd m f)"
proof (rule sends_inI)
  fix w r2 w2 assume b: "bnd m f e w = (r2, w2)"
  obtain r w1 where r: "m e w = (r, w1)" by fastforce
  from sends_inE [OF m r] obtain rs where rs: "w_trace w1 = w_trace w @ rs" "list_all S rs" by blast
  show "\<exists>rs. w_trace w2 = w_trace w @ rs \<and> list_all S rs"
  proof (cases r)
    case (Inl x)
    with b r rs show ?thesis by (auto simp: bnd_raise)
  next
    case (Inr a)
    then have "f a e w1 = (r2, w2)" using b r by (simp add: bnd_value)
    with f Inr r obtain qs where "w_trace w2 = w_trace w1 @ qs" "list_all S qs" by (metis sends_inE)
    with rs show ?thesis by (intro exI [of _ "rs @ qs"]) simp
  qed
qed

lemma sends_in_try:
  assumes m: "sends_in e S m" and h: "\<And>x. sends_in e S (h x)"
  shows "sends_in e S (try_except m h)"
proof (rule sends_inI)
  fix w r2 w2 assume b: "try_except m h e w = (r2, w2)"
  obtain r w1 where r: "m e w = (r, w1)" by fastforce
  from sends_inE [OF m r] obtain rs where rs: "w_trace w1 = w_trace w @ rs" "list_all S rs" by blast
  show "\<exists>rs. w_trace w2 = w_trace w @ rs \<and> list_all S rs"
  proof (cases r)
    case (Inr a)
    with b r rs show ?thesis by (auto simp: try_value)
  next
    case (Inl x)
    then have "h x e w1 = (r2, w2)" using b r by (simp add: try_exn)
    with h obtain qs where "w_trace w2 = w_trace w1 @ qs" "list_all S qs" by (metis sends_inE)
    with rs show ?thesis by (intro exI [of _ "rs @ qs"]) simp
  qed
qed

lemma sends_in_prod: "(\<And>a b. p = (a, b) \<Longrightarrow> sends_in e S (f a b)) \<Longrightarrow> sends_in e S (case p of (a, b) \<Rightarrow> f a b)"
  by (cases p) simp

section \<open>Invariants\<close>

text \<open>\<open>preserves P m\<close>: started where \<open>P\<close> holds, \<open>m\<close> ends where \<open>P\<close> holds, with a value or an exception.\<close>

definition preserves :: "(world \<Rightarrow> bool) \<Rightarrow> 'a io \<Rightarrow> bool" where
  "preserves P m = (\<forall>e w. P w \<longrightarrow> P (snd (m e w)))"

lemma preservesD: "preserves P m \<Longrightarrow> m e w = (r, w') \<Longrightarrow> P w \<Longrightarrow> P w'"
  unfolding preserves_def by (metis snd_conv)

lemma preservesI: "(\<And>e w r w'. P w \<Longrightarrow> m e w = (r, w') \<Longrightarrow> P w') \<Longrightarrow> preserves P m"
  unfolding preserves_def by (metis prod.collapse)

lemma preserves_keeps: "keeps g m \<Longrightarrow> (\<And>w w'. g w' = g w \<Longrightarrow> P w \<Longrightarrow> P w') \<Longrightarrow> preserves P m"
  unfolding preserves_def keeps_def by blast

lemma preserves_bnd [preserves_rules]:
  "preserves P m \<Longrightarrow> (\<And>a. preserves P (f a)) \<Longrightarrow> preserves P (bnd m f)"
  by (auto simp: preserves_def bnd_def split: prod.split sum.split) (metis snd_conv)+

lemma preserves_thn [preserves_rules]: "preserves P m \<Longrightarrow> preserves P k \<Longrightarrow> preserves P (thn m k)"
  by (simp add: thn_def preserves_bnd)

lemma preserves_try [preserves_rules]:
  "preserves P m \<Longrightarrow> (\<And>x. preserves P (h x)) \<Longrightarrow> preserves P (try_except m h)"
  by (auto simp: preserves_def try_except_def split: prod.split sum.split) (metis snd_conv)+

lemma preserves_pure [preserves_rules]:
  "preserves P (ret a)" "preserves P (raise x)" "preserves P (asks h)" "preserves P (gets h')"
  "preserves P get_settings" "preserves P (lift_sum r)" "preserves P (as_str v)" "preserves P (as_opt_str v)"
  "preserves P (str_of v)"
  by (rule preserves_keeps [of "\<lambda>w. w"]; simp add: keeps_rules)+

lemma preserves_case [preserves_rules]:
  "preserves P m \<Longrightarrow> preserves P k \<Longrightarrow> preserves P (if b then m else k)"
  "preserves P m \<Longrightarrow> (\<And>a. preserves P (f a)) \<Longrightarrow> preserves P (case x of None \<Rightarrow> m | Some a \<Rightarrow> f a)"
  "(\<And>a b. preserves P (g a b)) \<Longrightarrow> preserves P (case p of (a, b) \<Rightarrow> g a b)"
  "(\<And>a. preserves P (l a)) \<Longrightarrow> (\<And>b. preserves P (r b)) \<Longrightarrow> preserves P (case y of Inl a \<Rightarrow> l a | Inr b \<Rightarrow> r b)"
  by (simp_all split: option.split prod.split sum.split)

section \<open>Hoare triples\<close>

text \<open>
  \<open>hoare e P m Q X\<close>: started in a world satisfying \<open>P\<close>, \<open>m\<close> ends with a value and a world in \<open>Q\<close>
  or with an exception and a world in \<open>X\<close>.
\<close>

definition hoare :: "env \<Rightarrow> (world \<Rightarrow> bool) \<Rightarrow> 'a io \<Rightarrow> ('a \<Rightarrow> world \<Rightarrow> bool) \<Rightarrow> (exn \<Rightarrow> world \<Rightarrow> bool) \<Rightarrow> bool" where
  "hoare e P m Q X = (\<forall>w. P w \<longrightarrow> (case m e w of (Inl x, w') \<Rightarrow> X x w' | (Inr a, w') \<Rightarrow> Q a w'))"

lemma hoare_value: "hoare e P m Q X \<Longrightarrow> P w \<Longrightarrow> m e w = (Inr a, w') \<Longrightarrow> Q a w'"
  by (fastforce simp: hoare_def)

lemma hoare_exn: "hoare e P m Q X \<Longrightarrow> P w \<Longrightarrow> m e w = (Inl x, w') \<Longrightarrow> X x w'"
  by (fastforce simp: hoare_def)

lemma hoareI:
  assumes "\<And>w a w'. P w \<Longrightarrow> m e w = (Inr a, w') \<Longrightarrow> Q a w'"
    and "\<And>w x w'. P w \<Longrightarrow> m e w = (Inl x, w') \<Longrightarrow> X x w'"
  shows "hoare e P m Q X"
  using assms by (auto simp: hoare_def split: prod.split sum.split)

lemma hoare_weaken:
  "hoare e P m Q X \<Longrightarrow> (\<And>w. P' w \<Longrightarrow> P w) \<Longrightarrow> (\<And>a w. Q a w \<Longrightarrow> Q' a w) \<Longrightarrow> (\<And>x w. X x w \<Longrightarrow> X' x w) \<Longrightarrow>
    hoare e P' m Q' X'"
  by (rule hoareI) (blast dest: hoare_value hoare_exn)+

lemma hoare_ret: "(\<And>w. P w \<Longrightarrow> Q a w) \<Longrightarrow> hoare e P (ret a) Q X"
  by (simp add: hoare_def ret_def)

lemma hoare_raise: "(\<And>w. P w \<Longrightarrow> X x w) \<Longrightarrow> hoare e P (raise x) Q X"
  by (simp add: hoare_def raise_def)

lemma hoare_bnd: "hoare e P m R X \<Longrightarrow> (\<And>a. hoare e (R a) (f a) Q X) \<Longrightarrow> hoare e P (bnd m f) Q X"
  by (rule hoareI) (blast elim: bnd_InrE bnd_InlE dest: hoare_value hoare_exn)+

lemma hoare_try:
  "hoare e P m Q Y \<Longrightarrow> (\<And>x. hoare e (Y x) (h x) Q X) \<Longrightarrow> hoare e P (try_except m h) Q X"
  by (rule hoareI) (blast dest: try_cases hoare_value hoare_exn)+

lemma keeps_hoare: "keeps g m \<Longrightarrow> hoare e (\<lambda>w. g w = v) m (\<lambda>_ w. g w = v) (\<lambda>_ w. g w = v)"
  by (rule hoareI) (metis keepsD)+

section \<open>The values a computation returns\<close>

text \<open>\<open>returns P m\<close>: every value \<open>m\<close> returns satisfies \<open>P\<close>.\<close>

definition returns :: "('a \<Rightarrow> bool) \<Rightarrow> 'a io \<Rightarrow> bool" where
  "returns P m = (\<forall>e w a w'. m e w = (Inr a, w') \<longrightarrow> P a)"

lemma returnsD: "returns P m \<Longrightarrow> m e w = (Inr a, w') \<Longrightarrow> P a"
  unfolding returns_def by blast

lemma returns_ret [returns_rules]: "P a \<Longrightarrow> returns P (ret a)"
  by (simp add: returns_def ret_def)

lemma returns_raise [returns_rules]: "returns P (raise x)"
  by (simp add: returns_def raise_def)

lemma returns_bnd [returns_rules]: "(\<And>a. returns P (f a)) \<Longrightarrow> returns P (bnd m f)"
  unfolding returns_def bnd_def by (fastforce split: prod.splits sum.splits)

lemma returns_bnd_value: "returns Q m \<Longrightarrow> (\<And>a. Q a \<Longrightarrow> returns P (f a)) \<Longrightarrow> returns P (bnd m f)"
  unfolding returns_def bnd_def by (fastforce split: prod.splits sum.splits)

lemma returns_try [returns_rules]: "returns P m \<Longrightarrow> (\<And>x. returns P (h x)) \<Longrightarrow> returns P (try_except m h)"
  unfolding returns_def try_except_def by (fastforce split: prod.splits sum.splits)

lemma returns_case [returns_rules]:
  "returns P m \<Longrightarrow> returns P k \<Longrightarrow> returns P (if b then m else k)"
  "(\<And>a b. returns P (g a b)) \<Longrightarrow> returns P (case p of (a, b) \<Rightarrow> g a b)"
  "(\<And>a b. returns P (g' a b y)) \<Longrightarrow> returns P ((case p of (a, b) \<Rightarrow> g' a b) y)"
  by (simp_all split: prod.split)

lemma bnd_returns: "bnd m f e w = (Inr b, w') \<Longrightarrow> m e w = (Inr a, w1) \<Longrightarrow> returns P (f a) \<Longrightarrow> P b"
  by (simp add: bnd_value returnsD)

lemma returns_option [returns_rules]:
  "returns P m \<Longrightarrow> (\<And>a. x = Some a \<Longrightarrow> returns P (f a)) \<Longrightarrow> returns P (case x of None \<Rightarrow> m | Some a \<Rightarrow> f a)"
  by (cases x) simp_all

text \<open>A loop returns one value per element, each the result of its body.\<close>

lemma map_io_values:
  assumes "map_io f xs e w = (Inr ys, w')"
  shows "list_all2 (\<lambda>x y. \<exists>v v'. f x e v = (Inr y, v')) xs ys"
  using assms
proof (induction xs arbitrary: ys w)
  case (Cons x xs)
  then obtain y w1 zs where "f x e w = (Inr y, w1)" "map_io f xs e w1 = (Inr zs, w')" "ys = y # zs"
    by (auto elim!: bnd_InrE simp: run_simps)
  with Cons.IH show ?case by auto
qed (simp add: run_simps)

lemma returns_map_io: "(\<And>x. returns P (f x)) \<Longrightarrow> returns (list_all P) (map_io f xs)"
  unfolding returns_def by (fastforce dest!: map_io_values simp: list_all2_conv_all_nth list_all_length)

lemma returns_as_str: "(\<And>s. v = JStr s \<Longrightarrow> returns P (f s)) \<Longrightarrow> returns P (bnd (as_str v) f)"
  by (rule returns_bnd_value [of "\<lambda>s. v = JStr s"]) (auto simp: as_str_def returns_def run_simps split: json.splits)

section \<open>Operations of a service client\<close>

text \<open>
  What a handler relies on when it calls an operation of a client: whatever the service answers,
  the operation stores nothing, and the requests it sends in an environment \<open>e\<close> are of the kind \<open>K e\<close>.
\<close>

locale scoped_call =
  fixes call :: "'a io" and K :: "env \<Rightarrow> request \<Rightarrow> bool"
  assumes call_stores: "keeps stores call"
    and call_scope: "sends_in e (K e) call"
begin

lemma frame: "call e w = (r, w') \<Longrightarrow> stores w' = stores w"
  by (rule keepsD [OF call_stores])

lemma keys_kept: "keeps w_keys call"
  using call_stores unfolding keeps_def by (blast intro: stores_fields)

lemma joins_kept: "keeps w_joins call"
  using call_stores unfolding keeps_def by (blast intro: stores_fields)

lemma peers_kept: "keeps w_peers call"
  using call_stores unfolding keeps_def by (blast intro: stores_fields)

lemma session_kept: "keeps w_session call"
  using call_stores unfolding keeps_def by (blast intro: stores_fields)

lemma wg_kept: "keeps w_wg_conf call" "keeps w_server_pubkey call" "keeps w_telemetry call"
  using call_stores unfolding keeps_def by (blast intro: stores_fields)+

lemma new_requests: "call e w = (r, w') \<Longrightarrow> \<exists>rs. w_trace w' = w_trace w @ rs \<and> list_all (K e) rs"
  using call_scope by (blast elim: sends_inE)

lemma history_kept: "call e w = (r, w') \<Longrightarrow> prefix (w_trace w) (w_trace w')"
  by (blast dest: new_requests intro: prefixI)

lemma call_logs: "sends (\<lambda>_. True) call"
  by (rule sends_in_all) (rule sends_in_weaken [OF call_scope], simp)

end

text \<open>Most operations send the same kind \<open>S\<close> of requests in every environment; sequences of them do, too.\<close>

locale service_call =
  fixes call :: "'a io" and S :: "request \<Rightarrow> bool"
  assumes stores_nothing: "keeps stores call"
    and call_sends: "sends S call"

sublocale service_call \<subseteq> scoped_call call "\<lambda>_. S"
  using stores_nothing call_sends by (intro scoped_call.intro sends_everywhere)

context service_call
begin

lemma then_call: "(\<And>a. service_call (f a) S) \<Longrightarrow> service_call (bnd call f) S"
  using stores_nothing call_sends
  by (intro service_call.intro keeps_bnd sends_bnd) (auto simp: service_call_def)

end

lemma service_callI: "keeps stores m \<Longrightarrow> sends S m \<Longrightarrow> service_call m S"
  by (rule service_call.intro)

lemma scoped_callI: "keeps stores m \<Longrightarrow> (\<And>e. sends_in e (K e) m) \<Longrightarrow> scoped_call m K"
  by (rule scoped_call.intro)

end
