(* ===== verification/JsonStore.thy ===== *)
theory JsonStore
  imports IOLogic
begin

text \<open>
  The contract of a store kept in one JSON file: loading returns what was saved last, or the empty
  dictionary when the file is missing, and saving replaces the whole file and touches nothing else.
  The two stores of the program (\<open>join_key_store.py\<close>, \<open>join_store.py\<close>) are the interpretations; what
  their operations have in common, updating one entry, is proved here once.
\<close>

locale json_store =
  fixes loadm :: "(string, 'v) dict io"
    and savem :: "(string, 'v) dict \<Rightarrow> unit io"
    and content :: "world \<Rightarrow> (string, 'v) dict"
    and rest :: "world \<Rightarrow> world"
  assumes load_run: "loadm e w = (Inr (content w), w)"
    and save_result: "savem d e w = (Inr (), snd (savem d e w))"
    and save_content: "content (snd (savem d e w)) = d"
    and save_rest: "rest (snd (savem d e w)) = rest w"
begin

lemma load_bnd: "bnd loadm f e w = f (content w) e w"
  by (simp add: bnd_value [OF load_run])

lemma save_thn: "thn (savem d) k e w = k e (snd (savem d e w))"
  by (simp add: thn_def bnd_value [OF save_result])

lemma load_after_save: "bnd (savem d) (\<lambda>_. loadm) e w = (Inr d, snd (savem d e w))"
  by (simp add: bnd_value [OF save_result] load_run save_content)

lemma keeps_load: "keeps g loadm"
  by (simp add: keeps_def load_run)

lemma keeps_save: "(\<And>w w'. rest w' = rest w \<Longrightarrow> g w' = g w) \<Longrightarrow> keeps g (savem d)"
  unfolding keeps_def using save_rest by blast

text \<open>One entry is stored: it is there afterwards, and the others are as before.\<close>

lemma store_entry:
  assumes "thn (savem (dict_set k v (content w))) m e w = (r, w')" "keeps content m"
  shows "content w' = dict_set k v (content w)"
  using assms(1) keepsD [OF assms(2), of e "snd (savem (dict_set k v (content w)) e w)" r w']
  by (simp add: save_thn save_content)

lemma store_wf: "dict_wf (content w) \<Longrightarrow> dict_wf (content (snd (savem (dict_set k v (content w)) e w)))"
  by (simp add: save_content)

end

end
