(* ===== verification/JoinKeys.thy ===== *)
theory JoinKeys
  imports JsonStore
begin

text \<open>
  \<open>app/clients/join_key_store.py\<close>: the single-use keys with which a tenant joins. The store
  is \<open>w_keys\<close>; loading and saving never suspend the event loop, so \<open>validate_and_consume\<close> is one step.
  The life of a key is the step relation \<open>key_step\<close>.
\<close>

section \<open>Operations\<close>

definition join_key_ttl_hours :: int where
  "join_key_ttl_hours = 7 * 24"

definition hours :: "int \<Rightarrow> int" where
  "hours h = h * 3600 * 1000000"

definition key_alphabet :: string where
  "key_alphabet = ''ABCDEFGHIJKLMNOPQRSTUVWXYZ'' @ ''0123456789''"

fun key_groups :: "nat \<Rightarrow> string list io" where
  "key_groups 0 = ret []"
| "key_groups (Suc n) = bnd (choices key_alphabet 4) (\<lambda>g. bnd (key_groups n) (\<lambda>gs. ret (g # gs)))"

definition generate_join_key :: "string io" where
  "generate_join_key = bnd (key_groups 4) (\<lambda>groups. ret (join ''-'' groups))"

definition load_keys :: "key_store io" where
  "load_keys = gets (\<lambda>w. case w_keys w of None \<Rightarrow> [] | Some d \<Rightarrow> d)"

definition save_keys :: "key_store \<Rightarrow> unit io" where
  "save_keys data = modify (\<lambda>w. w\<lparr>w_keys := Some data\<rparr>)"

definition new_key_entry :: "string \<Rightarrow> string \<Rightarrow> string \<Rightarrow> instant \<Rightarrow> key_entry" where
  "new_key_entry key tenant_id display_name now =
     \<lparr>ke_key = key, ke_tenant_id = tenant_id, ke_display_name = display_name, ke_status = Open,
      ke_created_at = now, ke_expires_at = now + hours join_key_ttl_hours, ke_used_at = None\<rparr>"

definition create_key :: "string \<Rightarrow> string \<Rightarrow> string io" where
  "create_key tenant_id display_name = bnd generate_join_key (\<lambda>key. bnd now_utc (\<lambda>now.
     bnd load_keys (\<lambda>keys.
       thn (save_keys (dict_set key (new_key_entry key tenant_id display_name now) keys)) (ret key))))"

definition not_open_error :: "key_status \<Rightarrow> exn" where
  "not_open_error s = ValueError (''JOIN key is '' @ repr_str (key_status_text s) @ '' '' @ en_dash @
     '' each key may only be used once.'')"

definition validate_and_consume :: "string \<Rightarrow> key_entry io" where
  "validate_and_consume key = bnd load_keys (\<lambda>keys. case dict_get keys key of
       None \<Rightarrow> raise (KeyError (repr_str (''JOIN key not found: '' @ repr_str key)))
     | Some entry \<Rightarrow>
         if ke_status entry \<noteq> Open then raise (not_open_error (ke_status entry))
         else bnd now_utc (\<lambda>now.
           if now > ke_expires_at entry
           then thn (save_keys (dict_set key (entry\<lparr>ke_status := Expired\<rparr>) keys))
                  (raise (ValueError ''JOIN key has expired.''))
           else bnd now_utc (\<lambda>used_at.
             let entry = entry\<lparr>ke_status := Used, ke_used_at := Some used_at\<rparr> in
             thn (save_keys (dict_set key entry keys)) (ret entry))))"

section \<open>The store\<close>

definition keys :: "world \<Rightarrow> key_store" where
  "keys w = (case w_keys w of None \<Rightarrow> [] | Some d \<Rightarrow> d)"

definition but_keys :: "world \<Rightarrow> world" where
  "but_keys w = w\<lparr>w_keys := None, w_ticks := 0, w_draws := 0\<rparr>"

interpretation key_file: json_store load_keys save_keys keys but_keys
  by unfold_locales (simp_all add: load_keys_def save_keys_def keys_def but_keys_def run_simps)

lemma keys_simps [simp]:
  "keys (w\<lparr>w_ticks := n\<rparr>) = keys w" "keys (w\<lparr>w_draws := n\<rparr>) = keys w" "keys (w\<lparr>w_trace := t\<rparr>) = keys w"
  "keys (w\<lparr>w_keys := Some d\<rparr>) = d" "keys (w\<lparr>w_joins := j\<rparr>) = keys w"
  by (simp_all add: keys_def)

lemma keeps_but_keys:
  "keeps but_keys (create_key t d)" "keeps but_keys (validate_and_consume k)"
proof -
  have s: "keeps but_keys (save_keys d)" for d by (rule key_file.keeps_save) simp
  have n: "keeps but_keys now_utc" by (rule keeps_now) (simp add: but_keys_def)
  have g: "keeps but_keys (key_groups j)" for j
    by (induction j) (auto intro!: keeps_rules simp: but_keys_def)
  show "keeps but_keys (create_key t d)"
    unfolding create_key_def generate_join_key_def
    by (intro keeps_rules s n g key_file.keeps_load)
  show "keeps but_keys (validate_and_consume k)"
    unfolding validate_and_consume_def by (intro keeps_rules s n key_file.keeps_load)
qed

lemma keys_send_nothing [sends_rules]: "sends S (create_key t d)" "sends S (validate_and_consume k)"
proof -
  have "keeps w_trace (m :: 'a io)" if "keeps but_keys m" for m
    using keeps_compose [OF that, of w_trace] by (simp add: but_keys_def)
  then show "sends S (create_key t d)" "sends S (validate_and_consume k)"
    by (blast intro: sends_nothing keeps_but_keys)+
qed

section \<open>Generated keys\<close>

lemma choices_run: "\<exists>cs n. choices al k e w = (Inr cs, w\<lparr>w_draws := n\<rparr>) \<and> length cs = k \<and> (al \<noteq> [] \<longrightarrow> set cs \<subseteq> set al)"
proof (induction k arbitrary: w)
  case 0
  show ?case by (auto simp: run_simps intro!: exI [of _ "w_draws w"])
next
  case (Suc k)
  obtain cs n where "choices al k e (w\<lparr>w_draws := Suc (w_draws w)\<rparr>) = (Inr cs, w\<lparr>w_draws := n\<rparr>)"
    "length cs = k" "al \<noteq> [] \<longrightarrow> set cs \<subseteq> set al"
    using Suc.IH [of "w\<lparr>w_draws := Suc (w_draws w)\<rparr>"] by auto
  then show ?case by (auto simp: bnd_def randbelow_def run_simps)
qed

definition key_format :: "string \<Rightarrow> bool" where
  "key_format k \<longleftrightarrow> (\<exists>gs. k = join ''-'' gs \<and> length gs = 4 \<and>
     (\<forall>g\<in>set gs. length g = 4 \<and> set g \<subseteq> set key_alphabet))"

lemma key_groups_run: "\<exists>gs n. key_groups k e w = (Inr gs, w\<lparr>w_draws := n\<rparr>) \<and> length gs = k \<and>
    (\<forall>g\<in>set gs. length g = 4 \<and> set g \<subseteq> set key_alphabet)"
proof (induction k arbitrary: w)
  case 0
  show ?case by (auto simp: run_simps intro!: exI [of _ "w_draws w"])
next
  case (Suc k)
  obtain g n where g: "choices key_alphabet 4 e w = (Inr g, w\<lparr>w_draws := n\<rparr>)" "length g = 4"
    "set g \<subseteq> set key_alphabet"
    using choices_run [of key_alphabet 4 e w] by (auto simp: key_alphabet_def)
  obtain gs m where "key_groups k e (w\<lparr>w_draws := n\<rparr>) = (Inr gs, w\<lparr>w_draws := m\<rparr>)" "length gs = k"
    "\<forall>g\<in>set gs. length g = 4 \<and> set g \<subseteq> set key_alphabet"
    using Suc.IH [of "w\<lparr>w_draws := n\<rparr>"] by auto
  with g show ?case by (auto simp: bnd_def run_simps)
qed

lemma generate_run: "\<exists>k n. generate_join_key e w = (Inr k, w\<lparr>w_draws := n\<rparr>) \<and> key_format k"
proof -
  obtain gs n where "key_groups 4 e w = (Inr gs, w\<lparr>w_draws := n\<rparr>)" "length gs = 4"
    "\<forall>g\<in>set gs. length g = 4 \<and> set g \<subseteq> set key_alphabet"
    using key_groups_run [of 4 e w] by auto
  then show ?thesis
    by (auto simp: generate_join_key_def bnd_def run_simps key_format_def intro!: exI [of _ n] exI [of _ gs])
qed

lemma key_format_length:
  assumes "key_format k"
  shows "length k = 19"
proof -
  from assms obtain gs where k: "k = join ''-'' gs" "length gs = 4" "\<forall>g\<in>set gs. length g = 4"
    by (auto simp: key_format_def)
  then obtain a b c d where "gs = [a, b, c, d]"
    by (auto simp: numeral_eq_Suc length_Suc_conv)
  with k show ?thesis by simp
qed

text \<open>\<open>create_key\<close> stores an open entry that expires after seven days, and never fails.\<close>

lemma create_key_run:
  obtains k n where "create_key t d e w = (Inr k, w\<lparr>w_draws := n, w_ticks := Suc (w_ticks w),
      w_keys := Some (dict_set k (new_key_entry k t d (e_now e (w_ticks w))) (keys w))\<rparr>)" "key_format k"
proof -
  obtain k n where g: "generate_join_key e w = (Inr k, w\<lparr>w_draws := n\<rparr>)" "key_format k"
    using generate_run by blast
  show ?thesis
    by (rule that [OF _ g(2)])
      (simp add: create_key_def bnd_value [where m = generate_join_key, OF g(1)] run_simps key_file.load_bnd key_file.save_thn
        save_keys_def)
qed

section \<open>Consumption\<close>

definition key_status_at :: "world \<Rightarrow> string \<Rightarrow> key_status option" where
  "key_status_at w k = map_option ke_status (dict_get (keys w) k)"

lemma key_status_simps [simp]:
  "key_status_at (w\<lparr>w_keys := Some d\<rparr>) k = map_option ke_status (dict_get d k)"
  by (simp add: key_status_at_def keys_def)

lemma key_status_cong: "w_keys w' = w_keys w \<Longrightarrow> key_status_at w' k = key_status_at w k"
  by (simp add: key_status_at_def keys_def)

text \<open>The branches of \<open>validate_and_consume\<close>.\<close>

lemma consume_missing: "dict_get (keys w) k = None \<Longrightarrow>
    validate_and_consume k e w = (Inl (KeyError (repr_str (''JOIN key not found: '' @ repr_str k))), w)"
  by (simp add: validate_and_consume_def key_file.load_bnd run_simps)

lemma consume_closed: "dict_get (keys w) k = Some ent \<Longrightarrow> ke_status ent \<noteq> Open \<Longrightarrow>
    validate_and_consume k e w = (Inl (not_open_error (ke_status ent)), w)"
  by (simp add: validate_and_consume_def key_file.load_bnd run_simps)

lemma consume_expired:
  assumes "dict_get (keys w) k = Some ent" "ke_status ent = Open" "ke_expires_at ent < e_now e (w_ticks w)"
  shows "validate_and_consume k e w = (Inl (ValueError ''JOIN key has expired.''),
    w\<lparr>w_ticks := Suc (w_ticks w), w_keys := Some (dict_set k (ent\<lparr>ke_status := Expired\<rparr>) (keys w))\<rparr>)"
  using assms by (simp add: validate_and_consume_def key_file.load_bnd key_file.save_thn run_simps save_keys_def)

lemma consume_valid:
  assumes "dict_get (keys w) k = Some ent" "ke_status ent = Open" "e_now e (w_ticks w) \<le> ke_expires_at ent"
  defines "used \<equiv> ent\<lparr>ke_status := Used, ke_used_at := Some (e_now e (Suc (w_ticks w)))\<rparr>"
  shows "validate_and_consume k e w = (Inr used,
    w\<lparr>w_ticks := Suc (Suc (w_ticks w)), w_keys := Some (dict_set k used (keys w))\<rparr>)"
  using assms by (simp add: validate_and_consume_def key_file.load_bnd key_file.save_thn run_simps
      save_keys_def Let_def)

lemma consume_cases:
  assumes "validate_and_consume k e w = (r, w')"
  obtains (missing) "dict_get (keys w) k = None" "r = Inl (KeyError (repr_str (''JOIN key not found: '' @ repr_str k)))" "w' = w"
  | (closed) ent where "dict_get (keys w) k = Some ent" "ke_status ent \<noteq> Open"
      "r = Inl (not_open_error (ke_status ent))" "w' = w"
  | (expired) ent where "dict_get (keys w) k = Some ent" "ke_status ent = Open"
      "ke_expires_at ent < e_now e (w_ticks w)" "r = Inl (ValueError ''JOIN key has expired.'')"
      "w' = w\<lparr>w_ticks := Suc (w_ticks w), w_keys := Some (dict_set k (ent\<lparr>ke_status := Expired\<rparr>) (keys w))\<rparr>"
  | (used) ent where "dict_get (keys w) k = Some ent" "ke_status ent = Open"
      "e_now e (w_ticks w) \<le> ke_expires_at ent"
      "r = Inr (ent\<lparr>ke_status := Used, ke_used_at := Some (e_now e (Suc (w_ticks w)))\<rparr>)"
      "w' = w\<lparr>w_ticks := Suc (Suc (w_ticks w)), w_keys := Some (dict_set k
         (ent\<lparr>ke_status := Used, ke_used_at := Some (e_now e (Suc (w_ticks w)))\<rparr>) (keys w))\<rparr>"
proof (cases "dict_get (keys w) k")
  case None
  with assms show ?thesis by (auto simp: consume_missing intro: that(1))
next
  case (Some ent)
  consider "ke_status ent \<noteq> Open" | "ke_status ent = Open" "ke_expires_at ent < e_now e (w_ticks w)"
    | "ke_status ent = Open" "e_now e (w_ticks w) \<le> ke_expires_at ent" by linarith
  then show ?thesis
  proof cases
    case 1
    with Some assms show ?thesis by (auto simp: consume_closed intro: that(2))
  next
    case 2
    with Some assms show ?thesis by (intro that(3)) (auto simp: consume_expired)
  next
    case 3
    with Some assms show ?thesis by (intro that(4)) (auto simp: consume_valid)
  qed
qed

text \<open>Whatever the result, the entries of other keys stay, and an entry only leaves the status open.\<close>

lemma consume_frame:
  assumes "validate_and_consume k e w = (r, w')"
  shows "k' \<noteq> k \<Longrightarrow> dict_get (keys w') k' = dict_get (keys w) k'"
    and "key_status_at w k' = Some s \<Longrightarrow> s \<noteq> Open \<Longrightarrow> dict_get (keys w') k' = dict_get (keys w) k'"
  using assms by (cases rule: consume_cases; auto simp: key_status_at_def)+

section \<open>Invariant and life of a key\<close>

definition keys_ok :: "world \<Rightarrow> bool" where
  "keys_ok w \<longleftrightarrow> dict_wf (keys w) \<and> (\<forall>k ent. dict_get (keys w) k = Some ent \<longrightarrow>
     ke_key ent = k \<and> ke_expires_at ent = ke_created_at ent + hours join_key_ttl_hours \<and>
     (ke_status ent = Used \<longleftrightarrow> ke_used_at ent \<noteq> None))"

lemma keys_ok_set:
  assumes "keys_ok w" "ke_key ent = k" "ke_expires_at ent = ke_created_at ent + hours join_key_ttl_hours"
    "ke_status ent = Used \<longleftrightarrow> ke_used_at ent \<noteq> None" "keys w' = dict_set k ent (keys w)"
  shows "keys_ok w'"
  using assms by (simp add: keys_ok_def)

lemma create_preserves_ok: "keys_ok w \<Longrightarrow> create_key t d e w = (r, w') \<Longrightarrow> keys_ok w'"
proof -
  assume ok: "keys_ok w" and run: "create_key t d e w = (r, w')"
  obtain k n where c: "create_key t d e w = (Inr k, w\<lparr>w_draws := n, w_ticks := Suc (w_ticks w),
      w_keys := Some (dict_set k (new_key_entry k t d (e_now e (w_ticks w))) (keys w))\<rparr>)"
    by (rule create_key_run)
  show ?thesis
    by (rule keys_ok_set [OF ok, where ent = "new_key_entry k t d (e_now e (w_ticks w))" and k = k])
      (use c run in \<open>auto simp: new_key_entry_def\<close>)
qed

lemma consume_preserves_ok:
  assumes ok: "keys_ok w" and run: "validate_and_consume k e w = (r, w')"
  shows "keys_ok w'"
  using run
proof (cases rule: consume_cases)
  case (expired ent)
  from ok expired(1,2) have "ke_used_at ent = None"
    unfolding keys_ok_def by (metis key_status.distinct(1) not_None_eq)
  then show ?thesis
    by (rule_tac keys_ok_set [OF ok, where ent = "ent\<lparr>ke_status := Expired\<rparr>" and k = k])
      (use ok expired in \<open>auto simp: keys_ok_def\<close>)
next
  case (used ent)
  show ?thesis
    by (rule keys_ok_set [OF ok, where ent = "ent\<lparr>ke_status := Used, ke_used_at := Some (e_now e (Suc (w_ticks w)))\<rparr>" and k = k])
      (use ok used in \<open>auto simp: keys_ok_def\<close>)
qed (use ok in auto)

text \<open>
  What can happen between two uses of the key \<open>k\<close>: some key is presented, another key is generated,
  or something happens that does not touch the key file. (The generator draws 16 characters of an
  alphabet of 36 and does not look for a key that is there already; a collision would replace the
  entry.)
\<close>

inductive key_step :: "env \<Rightarrow> string \<Rightarrow> world \<Rightarrow> world \<Rightarrow> bool" for e k where
  present: "validate_and_consume k' e w = (r, w') \<Longrightarrow> key_step e k w w'"
| generate: "create_key t d e w = (Inr k', w') \<Longrightarrow> k' \<noteq> k \<Longrightarrow> key_step e k w w'"
| elsewhere: "w_keys w' = w_keys w \<Longrightarrow> key_step e k w w'"

inductive_cases key_stepE: "key_step e k w w'"

lemma step_keeps_closed:
  assumes "key_step e k w w'" "key_status_at w k = Some s" "s \<noteq> Open"
  shows "dict_get (keys w') k = dict_get (keys w) k"
  using assms(1)
proof (cases rule: key_step.cases)
  case (present k' r)
  then show ?thesis using assms(2,3) by (rule consume_frame(2))
next
  case (generate t d k')
  then show ?thesis by (rule_tac create_key_run [of t d e w]) auto
next
  case elsewhere
  then show ?thesis by (simp add: keys_def)
qed

lemma steps_keep_closed:
  assumes "(key_step e k)\<^sup>*\<^sup>* w w'" "key_status_at w k = Some s" "s \<noteq> Open"
  shows "dict_get (keys w') k = dict_get (keys w) k"
  using assms(1)
proof (induction rule: rtranclp_induct)
  case (step y z)
  then have "key_status_at y k = Some s" using assms(2) by (simp add: key_status_at_def)
  from step_keeps_closed [OF step(2) this assms(3)] step(3) show ?case by simp
qed simp

section \<open>Properties\<close>

text \<open>A JOIN key is single-use: once it was accepted, then after any number of key presentations,
  generations of other keys and unrelated steps, presenting it again fails and changes nothing.\<close>

theorem key_single_use:
  assumes "validate_and_consume k e w = (Inr ent, w1)" "(key_step e k)\<^sup>*\<^sup>* w1 w2"
  shows "validate_and_consume k e w2 = (Inl (not_open_error Used), w2)"
proof -
  obtain ent' where u: "dict_get (keys w1) k = Some ent'" "ke_status ent' = Used"
    using assms(1) by (cases rule: consume_cases) auto
  then have "dict_get (keys w2) k = Some ent'"
    using steps_keep_closed [OF assms(2)] by (simp add: key_status_at_def)
  with u show ?thesis by (simp add: consume_closed)
qed

text \<open>C22. A key is accepted exactly when the store has it, its status is open and the clock has not passed
  its expiry; then the entry is marked used, and every other entry is as before.\<close>

theorem key_accepted_iff:
  "(\<exists>used w'. validate_and_consume k e w = (Inr used, w') \<and> dict_get (keys w') k = Some used \<and>
      ke_status used = Used \<and> ke_tenant_id used = t \<and> (\<forall>k'. k' \<noteq> k \<longrightarrow> dict_get (keys w') k' = dict_get (keys w) k'))
   \<longleftrightarrow> (\<exists>ent. dict_get (keys w) k = Some ent \<and> ke_status ent = Open \<and> e_now e (w_ticks w) \<le> ke_expires_at ent \<and>
      ke_tenant_id ent = t)" (is "?L \<longleftrightarrow> ?R")
proof
  assume ?L
  then obtain used w' where r: "validate_and_consume k e w = (Inr used, w')" "ke_tenant_id used = t" by blast
  from r(1) show ?R by (cases rule: consume_cases) (use r(2) in auto)
next
  assume ?R
  then show ?L by (auto simp: consume_valid)
qed

text \<open>A fresh key is accepted for seven days, for the tenant it was made for, and refused and marked
  expired after that.\<close>

theorem fresh_key_valid_seven_days:
  assumes "create_key t d e w = (Inr k, w1)"
  shows "if e_now e (w_ticks w1) \<le> e_now e (w_ticks w) + 7 * 24 * 3600 * 1000000
    then \<exists>ent w2. validate_and_consume k e w1 = (Inr ent, w2) \<and> ke_tenant_id ent = t \<and> ke_display_name ent = d
    else fst (validate_and_consume k e w1) = Inl (ValueError ''JOIN key has expired.'') \<and>
      key_status_at (snd (validate_and_consume k e w1)) k = Some Expired"
proof -
  obtain n where w1: "w1 = w\<lparr>w_draws := n, w_ticks := Suc (w_ticks w),
      w_keys := Some (dict_set k (new_key_entry k t d (e_now e (w_ticks w))) (keys w))\<rparr>"
    using assms by (rule_tac create_key_run [of t d e w]) auto
  then have g: "dict_get (keys w1) k = Some (new_key_entry k t d (e_now e (w_ticks w)))" by simp
  show ?thesis
    using consume_valid [OF g] consume_expired [OF g]
    by (simp add: new_key_entry_def hours_def join_key_ttl_hours_def)
qed

text \<open>A generated key has the format \<open>XXXX-YYYY-ZZZZ-WWWW\<close> over upper-case letters and digits, whatever
  the random source returns, and it is stored as an open key of the tenant.\<close>

theorem create_key_format:
  "\<exists>k w'. create_key t d e w = (Inr k, w') \<and> key_format k \<and> length k = 19 \<and>
     dict_get (keys w') k = Some (new_key_entry k t d (e_now e (w_ticks w))) \<and> but_keys w' = but_keys w"
proof -
  obtain k n where r: "create_key t d e w = (Inr k, w\<lparr>w_draws := n, w_ticks := Suc (w_ticks w),
      w_keys := Some (dict_set k (new_key_entry k t d (e_now e (w_ticks w))) (keys w))\<rparr>)" "key_format k"
    by (rule create_key_run)
  then show ?thesis by (simp add: key_format_length but_keys_def)
qed

text \<open>Generating and presenting keys keep the key file well-formed: one entry per key, filed under the
  key it holds, expiring seven days after its creation, with a time of use exactly when it is used.\<close>

theorem key_file_invariant:
  assumes "keys_ok w"
  shows "keys_ok (snd (create_key t d e w)) \<and> keys_ok (snd (validate_and_consume k e w))"
  using assms by (auto intro: create_preserves_ok consume_preserves_ok prod.collapse [symmetric])

end
