(* ===== verification/RabbitMQ.thy ===== *)
theory RabbitMQ
  imports IOLogic
begin

text \<open>
  \<open>app/clients/rabbitmq.py\<close>: the client of RabbitMQ's management API, which gives every tenant a
  vHost, a user and the permissions of that user on that vHost. Each operation is a
  \<open>service_call\<close>; the requests of a tenant's provisioning never name another tenant.
\<close>

record rabbitmq_client =
  rmq_base :: string
  rmq_auth :: auth

definition new_rabbitmq_client :: "string \<Rightarrow> string \<Rightarrow> string \<Rightarrow> rabbitmq_client" where
  "new_rabbitmq_client mgmt_url admin_user admin_password =
     \<lparr>rmq_base = rstrip_char CHR ''/'' mgmt_url @ ''/api'', rmq_auth = Basic admin_user admin_password\<rparr>"

text \<open>\<open>_enc\<close>: \<open>quote(value, safe="")\<close>.\<close>

definition enc :: "string \<Rightarrow> string" where
  "enc value = quote value"

definition rmq_request :: "rabbitmq_client \<Rightarrow> meth \<Rightarrow> string \<Rightarrow> body \<Rightarrow> request" where
  "rmq_request c m path b = \<lparr>rq_meth = m, rq_url = rmq_base c @ path, rq_auth = rmq_auth c,
     rq_body = b, rq_verify = False\<rparr>"

definition rmq_raise_for_status :: "response \<Rightarrow> string \<Rightarrow> unit io" where
  "rmq_raise_for_status resp action = (if \<not> is_success resp
     then raise (RabbitMQError (''RabbitMQ API: '' @ action @ '' failed with HTTP '' @
       dec_int (rs_status resp) @ '': '' @ take 200 (rs_text resp)))
     else ret ())"

section \<open>Virtual hosts\<close>

definition list_vhosts :: "rabbitmq_client \<Rightarrow> json io" where
  "list_vhosts c = bnd (http (rmq_request c GET ''/vhosts'' NoBody)) (\<lambda>resp.
     thn (rmq_raise_for_status resp ''list vhosts'') (resp_json resp))"

definition vhost_put :: "rabbitmq_client \<Rightarrow> string \<Rightarrow> request" where
  "vhost_put c name = rmq_request c PUT (''/vhosts/'' @ enc name)
     (JsonBody (JObj [(''description'', JStr (''Tenant vHost: '' @ name))]))"

definition create_vhost :: "rabbitmq_client \<Rightarrow> string \<Rightarrow> unit io" where
  "create_vhost c name = bnd (http (vhost_put c name)) (\<lambda>resp.
     if rs_status resp \<notin> {201, 204}
     then rmq_raise_for_status resp (''create vhost '' @ squoted name) else ret ())"

definition vhost_delete :: "rabbitmq_client \<Rightarrow> string \<Rightarrow> request" where
  "vhost_delete c name = rmq_request c DELETE (''/vhosts/'' @ enc name) NoBody"

definition delete_vhost :: "rabbitmq_client \<Rightarrow> string \<Rightarrow> unit io" where
  "delete_vhost c name = bnd (http (vhost_delete c name)) (\<lambda>resp.
     if rs_status resp \<notin> {204, 404}
     then rmq_raise_for_status resp (''delete vhost '' @ squoted name) else ret ())"

section \<open>Users and permissions\<close>

definition list_users :: "rabbitmq_client \<Rightarrow> json io" where
  "list_users c = bnd (http (rmq_request c GET ''/users'' NoBody)) (\<lambda>resp.
     thn (rmq_raise_for_status resp ''list users'') (resp_json resp))"

definition user_put :: "rabbitmq_client \<Rightarrow> string \<Rightarrow> string \<Rightarrow> string \<Rightarrow> request" where
  "user_put c username password tags = rmq_request c PUT (''/users/'' @ enc username)
     (JsonBody (JObj [(''password'', JStr password), (''tags'', JStr tags)]))"

definition create_user :: "rabbitmq_client \<Rightarrow> string \<Rightarrow> string \<Rightarrow> string \<Rightarrow> unit io" where
  "create_user c username password tags = bnd (http (user_put c username password tags)) (\<lambda>resp.
     if rs_status resp \<notin> {201, 204}
     then rmq_raise_for_status resp (''create user '' @ squoted username) else ret ())"

definition user_delete :: "rabbitmq_client \<Rightarrow> string \<Rightarrow> request" where
  "user_delete c username = rmq_request c DELETE (''/users/'' @ enc username) NoBody"

definition delete_user :: "rabbitmq_client \<Rightarrow> string \<Rightarrow> unit io" where
  "delete_user c username = bnd (http (user_delete c username)) (\<lambda>resp.
     if rs_status resp \<notin> {204, 404}
     then rmq_raise_for_status resp (''delete user '' @ squoted username) else ret ())"

definition permissions_put :: "rabbitmq_client \<Rightarrow> string \<Rightarrow> string \<Rightarrow> request" where
  "permissions_put c username vhost = rmq_request c PUT
     (''/permissions/'' @ enc vhost @ ''/'' @ enc username)
     (JsonBody (JObj [(''configure'', JStr ''.*''), (''write'', JStr ''.*''), (''read'', JStr ''.*'')]))"

definition set_permissions :: "rabbitmq_client \<Rightarrow> string \<Rightarrow> string \<Rightarrow> unit io" where
  "set_permissions c username vhost = bnd (http (permissions_put c username vhost)) (\<lambda>resp.
     if rs_status resp \<notin> {201, 204}
     then rmq_raise_for_status resp (''set permissions for '' @ squoted username @ '' on '' @ squoted vhost)
     else ret ())"

definition get_user_permissions :: "rabbitmq_client \<Rightarrow> string \<Rightarrow> json io" where
  "get_user_permissions c username =
     bnd (http (rmq_request c GET (''/users/'' @ enc username @ ''/permissions'') NoBody)) (\<lambda>resp.
       if rs_status resp = 404 then ret (JArr [])
       else thn (rmq_raise_for_status resp (''get permissions for '' @ squoted username)) (resp_json resp))"

section \<open>A tenant\<close>

definition provision_tenant :: "rabbitmq_client \<Rightarrow> string \<Rightarrow> string \<Rightarrow> unit io" where
  "provision_tenant c tenant_id password =
     thn (create_vhost c tenant_id)
    (thn (create_user c tenant_id password ''none'')
         (set_permissions c tenant_id tenant_id))"

definition deprovision_tenant :: "rabbitmq_client \<Rightarrow> string \<Rightarrow> unit io" where
  "deprovision_tenant c tenant_id = thn (delete_vhost c tenant_id) (delete_user c tenant_id)"

section \<open>The requests of the client\<close>

lemma keeps_rmq_raise [keeps_rules]: "keeps g (rmq_raise_for_status p a)"
  unfolding rmq_raise_for_status_def by (intro keeps_rules)

lemma sends_rmq_raise [sends_rules]: "sends S (rmq_raise_for_status p a)"
  by (rule sends_nothing) (rule keeps_rmq_raise)

interpretation rmq_list: service_call "list_vhosts c" "\<lambda>r. r = rmq_request c GET ''/vhosts'' NoBody" for c
  by (rule service_callI) (auto simp: list_vhosts_def intro!: keeps_rules sends_rules)

interpretation rmq_vhost: service_call "create_vhost c n" "\<lambda>r. r = vhost_put c n" for c n
  by (rule service_callI) (auto simp: create_vhost_def intro!: keeps_rules sends_rules)

interpretation rmq_user: service_call "create_user c u p t" "\<lambda>r. r = user_put c u p t" for c u p t
  by (rule service_callI) (auto simp: create_user_def intro!: keeps_rules sends_rules)

interpretation rmq_perm: service_call "set_permissions c u v" "\<lambda>r. r = permissions_put c u v" for c u v
  by (rule service_callI) (auto simp: set_permissions_def intro!: keeps_rules sends_rules)

interpretation rmq_del_vhost: service_call "delete_vhost c n" "\<lambda>r. r = vhost_delete c n" for c n
  by (rule service_callI) (auto simp: delete_vhost_def intro!: keeps_rules sends_rules)

interpretation rmq_del_user: service_call "delete_user c n" "\<lambda>r. r = user_delete c n" for c n
  by (rule service_callI) (auto simp: delete_user_def intro!: keeps_rules sends_rules)

text \<open>The requests that set up a vHost, and a user with permissions on it; those that remove both.\<close>

definition tenant_requests :: "rabbitmq_client \<Rightarrow> string \<Rightarrow> string \<Rightarrow> string \<Rightarrow> string \<Rightarrow> request list" where
  "tenant_requests c vhost user password tags =
     [vhost_put c vhost, user_put c user password tags, permissions_put c user vhost]"

definition setup_tenant :: "rabbitmq_client \<Rightarrow> string \<Rightarrow> string \<Rightarrow> string \<Rightarrow> unit io" where
  "setup_tenant c vhost user password =
     thn (create_vhost c vhost) (thn (create_user c user password ''none'') (set_permissions c user vhost))"

lemma provision_is_setup: "provision_tenant c t p = setup_tenant c t t p"
  by (simp add: provision_tenant_def setup_tenant_def)

interpretation rmq_setup: service_call "setup_tenant c v u p"
    "\<lambda>r. r \<in> set (tenant_requests c v u p ''none'')" for c v u p
proof (rule service_callI)
  show "keeps stores (setup_tenant c v u p)"
    unfolding setup_tenant_def
    by (intro keeps_rules rmq_vhost.call_stores rmq_user.call_stores rmq_perm.call_stores)
  show "sends (\<lambda>r. r \<in> set (tenant_requests c v u p ''none'')) (setup_tenant c v u p)"
    unfolding setup_tenant_def tenant_requests_def
    by (intro sends_rules sends_mono [OF rmq_vhost.call_sends] sends_mono [OF rmq_user.call_sends]
        sends_mono [OF rmq_perm.call_sends]) auto
qed

interpretation rmq_remove: service_call "deprovision_tenant c t"
    "\<lambda>r. r = vhost_delete c t \<or> r = user_delete c t" for c t
proof (rule service_callI)
  show "keeps stores (deprovision_tenant c t)"
    unfolding deprovision_tenant_def
    by (intro keeps_rules rmq_del_vhost.call_stores rmq_del_user.call_stores)
  show "sends (\<lambda>r. r = vhost_delete c t \<or> r = user_delete c t) (deprovision_tenant c t)"
    unfolding deprovision_tenant_def
    by (intro sends_rules sends_mono [OF rmq_del_vhost.call_sends] sends_mono [OF rmq_del_user.call_sends]) auto
qed

text \<open>A PUT that returns was accepted, and was the only request.\<close>

lemma put_outcome:
  assumes "bnd (http r) (\<lambda>resp. if rs_status resp \<notin> {201, 204} then rmq_raise_for_status resp a else ret ()) e w = (Inr u, w')"
  shows "\<exists>p. e_http e (w_trace w) r = Answer p \<and> is_success p" and "w' = w\<lparr>w_trace := w_trace w @ [r]\<rparr>"
proof -
  from assms obtain p w1 where h: "http r e w = (Inr p, w1)"
    and k: "(if rs_status p \<notin> {201, 204} then rmq_raise_for_status p a else ret ()) e w1 = (Inr u, w')"
    by (elim bnd_InrE)
  from k have w': "w' = w1" and ok: "is_success p"
    by (auto simp: rmq_raise_for_status_def run_simps is_success_def split: if_splits)
  from h show "\<exists>p. e_http e (w_trace w) r = Answer p \<and> is_success p" and "w' = w\<lparr>w_trace := w_trace w @ [r]\<rparr>"
    using ok w' by (auto elim: http_cases)
qed

text \<open>When the set-up returns, exactly its three requests were sent, in this order, and all were accepted.\<close>

lemma setup_tenant_value:
  assumes "setup_tenant c v u p e w = (Inr x, w')"
  shows "w' = w\<lparr>w_trace := w_trace w @ tenant_requests c v u p ''none''\<rparr>"
    and "list_all (\<lambda>i. \<exists>a. e_http e (w_trace w @ take i (tenant_requests c v u p ''none''))
           (tenant_requests c v u p ''none'' ! i) = Answer a \<and> is_success a) [0..<3]"
proof -
  from assms obtain x1 x2 w1 w2 where s: "create_vhost c v e w = (Inr x1, w1)"
    "create_user c u p ''none'' e w1 = (Inr x2, w2)" "set_permissions c u v e w2 = (Inr x, w')"
    unfolding setup_tenant_def run_thn by (elim bnd_InrE)
  note a = put_outcome [OF s(1) [unfolded create_vhost_def]] and b = put_outcome [OF s(2) [unfolded create_user_def]]
    and d = put_outcome [OF s(3) [unfolded set_permissions_def]]
  show "w' = w\<lparr>w_trace := w_trace w @ tenant_requests c v u p ''none''\<rparr>"
    using a(2) b(2) d(2) by (simp add: tenant_requests_def)
  show "list_all (\<lambda>i. \<exists>a. e_http e (w_trace w @ take i (tenant_requests c v u p ''none''))
      (tenant_requests c v u p ''none'' ! i) = Answer a \<and> is_success a) [0..<3]"
    using a b d by (simp add: tenant_requests_def upt_rec numeral_eq_Suc)
qed

text \<open>The requests for different tenants go to different resources.\<close>

lemma enc_inject: "enc a = enc b \<longleftrightarrow> a = b"
  by (simp add: enc_def quote_inject)

lemma slash_split_inject:
  "CHR ''/'' \<notin> set a \<Longrightarrow> CHR ''/'' \<notin> set c \<Longrightarrow> a @ ''/'' @ b = c @ ''/'' @ d \<longleftrightarrow> a = c \<and> b = d"
  by (auto simp: append_eq_append_conv2 append_eq_Cons_conv Cons_eq_append_conv)

lemma enc_no_slash: "CHR ''/'' \<notin> set (enc a)"
  by (simp add: enc_def quote_no_slash)

lemma tenant_urls_inject:
  "rq_url (vhost_put c v) = rq_url (vhost_put c v') \<longleftrightarrow> v = v'"
  "rq_url (user_put c u p t) = rq_url (user_put c u' p' t') \<longleftrightarrow> u = u'"
  "rq_url (permissions_put c u v) = rq_url (permissions_put c u' v') \<longleftrightarrow> u = u' \<and> v = v'"
  using slash_split_inject [OF enc_no_slash enc_no_slash, of v "enc u" v' "enc u'"]
  by (auto simp: vhost_put_def user_put_def permissions_put_def rmq_request_def enc_inject)

end
