(* ===== verification/StepCA.thy ===== *)
theory StepCA
  imports IOLogic
begin

text \<open>
  \<open>app/clients/step_ca.py\<close>: the two clients of step-ca. \<open>StepCAClient\<close> signs device certificates with
  the configured JWK provisioner; \<open>StepCAAdminClient\<close> manages provisioners and signs the Sub-CA of a
  tenant. A client caches the decrypted provisioner key, so the operations that load it return the
  client they leave behind. Decrypting the key (JWE), signing the token (JWT), and parsing the CSR
  are third-party libraries: the fields \<open>e_decrypt_jwk\<close>, \<open>e_jwt_signed\<close> and \<open>e_load_csr\<close> of the environment.
\<close>

section \<open>Clients\<close>

record step_ca_client =
  sc_url :: string
  sc_provisioner_name :: string
  sc_provisioner_password :: string
  sc_root_fingerprint :: string
  sc_verify_tls :: bool
  sc_signing_key :: "json option"

definition new_step_ca_client :: "string \<Rightarrow> string \<Rightarrow> string \<Rightarrow> string \<Rightarrow> bool \<Rightarrow> step_ca_client" where
  "new_step_ca_client ca_url provisioner_name provisioner_password root_fingerprint verify_tls =
     \<lparr>sc_url = rstrip_char CHR ''/'' ca_url, sc_provisioner_name = provisioner_name,
      sc_provisioner_password = provisioner_password, sc_root_fingerprint = root_fingerprint,
      sc_verify_tls = verify_tls, sc_signing_key = None\<rparr>"

text \<open>\<open>get_step_ca_client\<close> of \<open>deps.py\<close>.\<close>

definition get_step_ca_client :: "settings \<Rightarrow> step_ca_client" where
  "get_step_ca_client s = new_step_ca_client (step_ca_url s) (step_ca_provisioner_name s)
     (step_ca_provisioner_password s) (step_ca_fingerprint s) (step_ca_verify_tls s)"

record step_ca_admin_client =
  sa_url :: string
  sa_provisioner :: string
  sa_password :: string
  sa_verify_tls :: bool
  sa_key :: "json option"

definition new_step_ca_admin :: "string \<Rightarrow> string \<Rightarrow> string \<Rightarrow> bool \<Rightarrow> step_ca_admin_client" where
  "new_step_ca_admin ca_url admin_provisioner_name admin_password verify_tls =
     \<lparr>sa_url = rstrip_char CHR ''/'' ca_url, sa_provisioner = admin_provisioner_name,
      sa_password = admin_password, sa_verify_tls = verify_tls, sa_key = None\<rparr>"

section \<open>Provisioner keys\<close>

definition ca_request :: "string \<Rightarrow> bool \<Rightarrow> meth \<Rightarrow> string \<Rightarrow> auth \<Rightarrow> body \<Rightarrow> request" where
  "ca_request url verify m path a b = \<lparr>rq_meth = m, rq_url = url @ path, rq_auth = a, rq_body = b,
     rq_verify = verify\<rparr>"

definition provisioners_get :: "string \<Rightarrow> bool \<Rightarrow> request" where
  "provisioners_get url verify = ca_request url verify GET ''/1.0/provisioners'' NoAuth NoBody"

definition fetch_provisioners :: "string \<Rightarrow> bool \<Rightarrow> json io" where
  "fetch_provisioners url verify = bnd (http (provisioners_get url verify)) (\<lambda>resp.
     thn (raise_for_status resp) (bnd (resp_json resp) (\<lambda>data. jget data ''provisioners'' (JArr []))))"

text \<open>The test of the loop over the provisioners, and the loop: decrypt the key of the first match.\<close>

definition is_jwk_provisioner :: "string \<Rightarrow> json \<Rightarrow> bool io" where
  "is_jwk_provisioner name prov = bnd (jget prov ''name'' JNull) (\<lambda>n.
     if n = JStr name then bnd (jget prov ''type'' JNull) (\<lambda>t. ret (t = JStr ''JWK'')) else ret False)"

fun find_jwk :: "string \<Rightarrow> string \<Rightarrow> string \<Rightarrow> json list \<Rightarrow> json option io" where
  "find_jwk name password no_key [] = ret None"
| "find_jwk name password no_key (prov # provs) = bnd (is_jwk_provisioner name prov) (\<lambda>found.
     if found then bnd (jget prov ''encryptedKey'' (JStr [])) (\<lambda>encrypted_key.
       if \<not> truth encrypted_key then raise (StepCAError no_key)
       else bnd (asks (\<lambda>e. e_decrypt_jwk e encrypted_key password)) (\<lambda>r.
         bnd (lift_sum r) (\<lambda>key. ret (Some key))))
     else find_jwk name password no_key provs)"

definition load_jwk :: "string \<Rightarrow> bool \<Rightarrow> string \<Rightarrow> string \<Rightarrow> string \<Rightarrow> string \<Rightarrow> json io" where
  "load_jwk url verify name password no_key not_found = bnd (fetch_provisioners url verify) (\<lambda>ps.
     bnd (jiter ps) (\<lambda>provs. bnd (find_jwk name password no_key provs) (\<lambda>found.
       case found of Some key \<Rightarrow> ret key | None \<Rightarrow> raise (StepCAError not_found))))"

definition load_signing_key :: "step_ca_client \<Rightarrow> (json \<times> step_ca_client) io" where
  "load_signing_key c = (case sc_signing_key c of Some key \<Rightarrow> ret (key, c)
     | None \<Rightarrow> bnd (load_jwk (sc_url c) (sc_verify_tls c) (sc_provisioner_name c) (sc_provisioner_password c)
           (''Provisioner '' @ squoted (sc_provisioner_name c) @ '' has no encryptedKey'')
           (''JWK provisioner '' @ squoted (sc_provisioner_name c) @ '' not found in step-ca''))
         (\<lambda>key. ret (key, c\<lparr>sc_signing_key := Some key\<rparr>)))"

definition load_admin_key :: "step_ca_admin_client \<Rightarrow> (json \<times> step_ca_admin_client) io" where
  "load_admin_key c = (case sa_key c of Some key \<Rightarrow> ret (key, c)
     | None \<Rightarrow> bnd (load_jwk (sa_url c) (sa_verify_tls c) (sa_provisioner c) (sa_password c)
           (''Admin provisioner '' @ squoted (sa_provisioner c) @ '' has no encryptedKey'')
           (''JWK admin provisioner '' @ squoted (sa_provisioner c) @ '' not found in step-ca''))
         (\<lambda>key. ret (key, c\<lparr>sa_key := Some key\<rparr>)))"

section \<open>Tokens\<close>

definition csr_sha :: "csr \<Rightarrow> string" where
  "csr_sha r = rstrip_char CHR ''='' (urlsafe_b64encode (sha256 (csr_der r)))"

definition csr_fingerprint :: "string \<Rightarrow> string io" where
  "csr_fingerprint csr_pem = bnd (asks (\<lambda>e. case e_load_csr e csr_pem of
       Inl m \<Rightarrow> Inl (ValueError m) | Inr r \<Rightarrow> Inr (csr_sha r))) lift_sum"

definition key_id :: "json \<Rightarrow> json" where
  "key_id key = (case key of JObj ps \<Rightarrow> (case dict_get ps ''kid'' of Some k \<Rightarrow> k | None \<Rightarrow> JNull) | _ \<Rightarrow> JNull)"

definition jwt_header :: "json \<Rightarrow> json" where
  "jwt_header key = JObj [(''alg'', JStr ''ES256''), (''kid'', key_id key)]"

definition signed_token :: "json \<Rightarrow> json \<Rightarrow> string io" where
  "signed_token key claims = bnd (asks (\<lambda>e. e_jwt_signed e (jwt_header key) claims key)) lift_sum"

definition ott_claims :: "string \<Rightarrow> string \<Rightarrow> string \<Rightarrow> int \<Rightarrow> string list \<Rightarrow> string \<Rightarrow> json" where
  "ott_claims issuer subject url now sans sha = JObj
     [(''iss'', JStr issuer), (''sub'', JStr subject), (''aud'', JArr [JStr (url @ ''/1.0/sign'')]),
      (''iat'', JInt now), (''nbf'', JInt now), (''exp'', JInt (now + 300)),
      (''sans'', JArr (map JStr sans)), (''sha'', JStr sha)]"

definition make_ott :: "step_ca_client \<Rightarrow> string \<Rightarrow> string list \<Rightarrow> string \<Rightarrow> (string \<times> step_ca_client) io" where
  "make_ott c subject sans csr_pem = bnd (load_signing_key c) (\<lambda>(key, c'). bnd time_seconds (\<lambda>now.
     bnd (csr_fingerprint csr_pem) (\<lambda>sha.
       bnd (signed_token key (ott_claims (sc_provisioner_name c) subject (sc_url c) now sans sha)) (\<lambda>ott.
         ret (ott, c')))))"

definition admin_claims :: "step_ca_admin_client \<Rightarrow> int \<Rightarrow> json" where
  "admin_claims c now = JObj
     [(''iss'', JStr (sa_provisioner c)), (''sub'', JStr (sa_provisioner c)),
      (''aud'', JArr [JStr (sa_url c @ ''/admin'')]), (''iat'', JInt now), (''nbf'', JInt now),
      (''exp'', JInt (now + 300))]"

definition make_admin_token :: "step_ca_admin_client \<Rightarrow> (string \<times> step_ca_admin_client) io" where
  "make_admin_token c = bnd (load_admin_key c) (\<lambda>(key, c'). bnd time_seconds (\<lambda>now.
     bnd (signed_token key (admin_claims c now)) (\<lambda>t. ret (t, c'))))"

section \<open>Signing\<close>

definition sign_post :: "string \<Rightarrow> bool \<Rightarrow> string \<Rightarrow> string \<Rightarrow> request" where
  "sign_post url verify csr_pem ott = ca_request url verify POST ''/1.0/sign'' NoAuth
     (JsonBody (JObj [(''csr'', JStr csr_pem), (''ott'', JStr ott)]))"

definition sign_certificate :: "step_ca_client \<Rightarrow> string \<Rightarrow> string \<Rightarrow> string list \<Rightarrow> ((json \<times> json) \<times> step_ca_client) io" where
  "sign_certificate c csr_pem subject sans = bnd (make_ott c subject sans csr_pem) (\<lambda>(ott, c').
     bnd (http (sign_post (sc_url c) (sc_verify_tls c) csr_pem ott)) (\<lambda>resp.
       if \<not> is_success resp
       then raise (StepCAError (''step-ca /1.0/sign returned '' @ dec_int (rs_status resp) @ '': '' @ rs_text resp))
       else bnd (resp_json resp) (\<lambda>data. bnd (jindex data ''crt'') (\<lambda>crt. bnd (jindex data ''ca'') (\<lambda>ca.
         ret ((crt, ca), c'))))))"

definition sign_sub_ca_csr :: "step_ca_admin_client \<Rightarrow> string \<Rightarrow> string \<Rightarrow> string \<Rightarrow> string \<Rightarrow> (json \<times> json) io" where
  "sign_sub_ca_csr c csr_pem tenant_id provisioner_name provisioner_password =
     bnd (load_jwk (sa_url c) (sa_verify_tls c) provisioner_name provisioner_password
           (''Sub-CA provisioner '' @ squoted provisioner_name @ '' has no encryptedKey'')
           (''JWK provisioner '' @ squoted provisioner_name @ '' not found in step-ca'')) (\<lambda>key.
     bnd (csr_fingerprint csr_pem) (\<lambda>sha. bnd time_seconds (\<lambda>now.
     bnd (signed_token key (ott_claims provisioner_name tenant_id (sa_url c) now [tenant_id] sha)) (\<lambda>ott.
     bnd (http (sign_post (sa_url c) (sa_verify_tls c) csr_pem ott)) (\<lambda>resp.
       if \<not> is_success resp
       then raise (StepCAError (''step-ca sub-CA sign returned '' @ dec_int (rs_status resp) @ '': '' @ rs_text resp))
       else bnd (resp_json resp) (\<lambda>data. bnd (jindex data ''crt'') (\<lambda>crt. bnd (jindex data ''ca'') (\<lambda>ca.
         ret (crt, ca)))))))))"

section \<open>Provisioners\<close>

definition list_provisioners :: "step_ca_admin_client \<Rightarrow> json io" where
  "list_provisioners c = fetch_provisioners (sa_url c) (sa_verify_tls c)"

definition oidc_payload :: "string \<Rightarrow> string \<Rightarrow> string \<Rightarrow> string \<Rightarrow> json \<Rightarrow> json" where
  "oidc_payload name client_id client_secret configuration_endpoint admin_emails = JObj
     ([(''type'', JStr ''OIDC''), (''name'', JStr name), (''clientID'', JStr client_id),
       (''clientSecret'', JStr client_secret), (''configurationEndpoint'', JStr configuration_endpoint),
       (''claims'', JNull), (''options'', JNull)] @
      (if truth admin_emails then [(''admins'', admin_emails)] else []))"

definition provisioner_post :: "step_ca_admin_client \<Rightarrow> string \<Rightarrow> json \<Rightarrow> request" where
  "provisioner_post c token payload =
     ca_request (sa_url c) (sa_verify_tls c) POST ''/admin/provisioners'' (Bearer token) (JsonBody payload)"

definition add_provisioner :: "step_ca_admin_client \<Rightarrow> string \<Rightarrow> string \<Rightarrow> string \<Rightarrow> string \<Rightarrow> json \<Rightarrow> json io" where
  "add_provisioner c name client_id client_secret configuration_endpoint admin_emails =
     bnd (make_admin_token c) (\<lambda>(token, c').
     bnd (http (provisioner_post c token (oidc_payload name client_id client_secret configuration_endpoint admin_emails))) (\<lambda>resp.
       if \<not> is_success resp
       then raise (StepCAError (''step-ca add OIDC provisioner failed HTTP '' @ dec_int (rs_status resp) @ '': '' @ rs_text resp))
       else resp_json resp))"

fun find_provisioner :: "string \<Rightarrow> json list \<Rightarrow> json io" where
  "find_provisioner name [] = ret JNull"
| "find_provisioner name (p # ps) = bnd (jget p ''name'' JNull) (\<lambda>n.
     if n = JStr name then ret p else find_provisioner name ps)"

definition remove_provisioner :: "step_ca_admin_client \<Rightarrow> string \<Rightarrow> unit io" where
  "remove_provisioner c name = bnd (list_provisioners c) (\<lambda>ps. bnd (jiter ps) (\<lambda>provisioners.
     bnd (find_provisioner name provisioners) (\<lambda>prov.
       if \<not> truth prov then ret ()
       else bnd (jget prov ''id'' (JStr [])) (\<lambda>provisioner_id.
         if \<not> truth provisioner_id
         then raise (StepCAError (''Provisioner '' @ squoted name @ '' has no ID field''))
         else bnd (make_admin_token c) (\<lambda>(token, c'). bnd (str_of provisioner_id) (\<lambda>i.
           bnd (http (ca_request (sa_url c) (sa_verify_tls c) DELETE (''/admin/provisioners/'' @ i) (Bearer token) NoBody)) (\<lambda>resp.
             if rs_status resp \<notin> {200, 204, 404}
             then raise (StepCAError (''step-ca remove provisioner failed HTTP '' @ dec_int (rs_status resp) @ '': '' @ rs_text resp))
             else ret ())))))))"

section \<open>The requests of the clients\<close>

lemma keeps_find_jwk [keeps_rules]: "keeps g (find_jwk n p a provs)"
  by (induction provs) (simp_all add: is_jwk_provisioner_def keeps_rules)

lemma keeps_find_provisioner [keeps_rules]: "keeps g (find_provisioner n ps)"
  by (induction ps) (simp_all add: keeps_rules)

lemma keeps_tokens [keeps_rules]: "keeps g (csr_fingerprint s)" "keeps g (signed_token k cl)"
  unfolding csr_fingerprint_def signed_token_def by (intro keeps_rules)+

lemma sends_token_ops [sends_rules]:
  "sends S (find_jwk n p a provs)" "sends S (find_provisioner n ps)" "sends S (csr_fingerprint s)"
  "sends S (signed_token k cl)"
  by (rule sends_nothing, simp add: keeps_rules)+

interpretation sca_fetch: service_call "fetch_provisioners u v" "\<lambda>r. r = provisioners_get u v" for u v
  by (rule service_callI) (auto simp: fetch_provisioners_def intro!: keeps_rules sends_rules)

interpretation sca_load: service_call "load_jwk u v n p a b" "\<lambda>r. r = provisioners_get u v" for u v n p a b
  by (rule service_callI)
    (auto simp: load_jwk_def intro!: keeps_rules sends_rules sca_fetch.call_stores sca_fetch.call_sends)

section \<open>What a signature means\<close>

text \<open>
  A value comes only from an accepted request to \<open>/1.0/sign\<close> whose token is signed over claims that
  name the subject, expire after five minutes and carry the digest of this very CSR.
\<close>

definition ott_for :: "env \<Rightarrow> string \<Rightarrow> string \<Rightarrow> string \<Rightarrow> string list \<Rightarrow> string \<Rightarrow> string \<Rightarrow> bool" where
  "ott_for e issuer subject url sans csr_pem ott \<longleftrightarrow> (\<exists>key now r. e_load_csr e csr_pem = Inr r \<and>
     e_jwt_signed e (jwt_header key) (ott_claims issuer subject url now sans (csr_sha r)) key = Inr ott)"

lemma fingerprint_value:
  "csr_fingerprint s e w = (Inr sha, w') \<Longrightarrow> w' = w \<and> (\<exists>r. e_load_csr e s = Inr r \<and> sha = csr_sha r)"
  by (auto simp: csr_fingerprint_def run_simps lift_sum_def split: sum.splits)

lemma token_value:
  "signed_token k cl e w = (Inr t, w') \<Longrightarrow> w' = w \<and> e_jwt_signed e (jwt_header k) cl k = Inr t"
  by (auto simp: signed_token_def run_simps lift_sum_def split: sum.splits)

lemma make_ott_value:
  assumes "make_ott c s n csr e w = (Inr (ott, c'), w')"
  shows "ott_for e (sc_provisioner_name c) s (sc_url c) n csr ott"
  using assms unfolding make_ott_def
  by (fastforce elim!: bnd_InrE simp: run_simps ott_for_def dest: fingerprint_value token_value)

text \<open>
  Signing lists the provisioners and posts the CSR under a token that the named provisioner signs for
  this subject and these names; nothing else is sent.
\<close>

definition sign_kind :: "env \<Rightarrow> string \<Rightarrow> string \<Rightarrow> string list \<Rightarrow> string \<Rightarrow> bool \<Rightarrow> string \<Rightarrow> request \<Rightarrow> bool" where
  "sign_kind e issuer subject sans url verify csr_pem r \<longleftrightarrow> r = provisioners_get url verify \<or>
     (\<exists>ott. ott_for e issuer subject url sans csr_pem ott \<and> r = sign_post url verify csr_pem ott)"

lemma make_ott_call: "keeps stores (make_ott c s n csr)" "sends (\<lambda>r. r = provisioners_get (sc_url c) (sc_verify_tls c)) (make_ott c s n csr)"
  by (auto simp: make_ott_def load_signing_key_def intro!: keeps_rules sends_rules sca_load.call_stores
      sca_load.call_sends split: prod.split)

text \<open>The exchange that follows the token sends one request.\<close>

lemma sign_exchange_sends:
  assumes "S r"
  shows "sends_in e S (bnd (http r) (\<lambda>resp. if \<not> is_success resp then raise (x resp)
      else bnd (resp_json resp) (\<lambda>data. bnd (jindex data ''crt'') (\<lambda>crt. bnd (jindex data ''ca'') (\<lambda>ca. ret (k crt ca))))))"
  by (rule sends_everywhere [where S = "\<lambda>q. q = r"]) (intro sends_rules, use assms in auto)

interpretation sca_sign: scoped_call "sign_certificate c csr s n"
  "\<lambda>e. sign_kind e (sc_provisioner_name c) s n (sc_url c) (sc_verify_tls c) csr" for c csr s n
proof (rule scoped_callI)
  show "keeps stores (sign_certificate c csr s n)"
    unfolding sign_certificate_def by (intro keeps_rules make_ott_call)
  fix e
  let ?K = "sign_kind e (sc_provisioner_name c) s n (sc_url c) (sc_verify_tls c) csr"
  show "sends_in e ?K (sign_certificate c csr s n)"
    unfolding sign_certificate_def
  proof (rule sends_in_bnd)
    show "sends_in e ?K (make_ott c s n csr)"
      by (rule sends_everywhere [OF make_ott_call(2)]) (simp add: sign_kind_def)
    fix w a w' assume "make_ott c s n csr e w = (Inr a, w')"
    then have "ott_for e (sc_provisioner_name c) s (sc_url c) n csr (fst a)"
      using make_ott_value [of c s n csr e w "fst a" "snd a" w'] by simp
    then have "?K (sign_post (sc_url c) (sc_verify_tls c) csr (fst a))" by (auto simp: sign_kind_def)
    then show "sends_in e ?K (case a of (ott, c') \<Rightarrow> bnd (http (sign_post (sc_url c) (sc_verify_tls c) csr ott)) (\<lambda>resp.
       if \<not> is_success resp
       then raise (StepCAError (''step-ca /1.0/sign returned '' @ dec_int (rs_status resp) @ '': '' @ rs_text resp))
       else bnd (resp_json resp) (\<lambda>data. bnd (jindex data ''crt'') (\<lambda>crt. bnd (jindex data ''ca'') (\<lambda>ca.
         ret ((crt, ca), c'))))))"
      by (cases a) (simp only: prod.case fst_conv, rule sign_exchange_sends)
  qed
qed

interpretation sca_sub: scoped_call "sign_sub_ca_csr c csr t n p"
  "\<lambda>e. sign_kind e n t [t] (sa_url c) (sa_verify_tls c) csr" for c csr t n p
proof (rule scoped_callI)
  show "keeps stores (sign_sub_ca_csr c csr t n p)"
    unfolding sign_sub_ca_csr_def by (intro keeps_rules sca_load.call_stores)
  fix e
  let ?K = "sign_kind e n t [t] (sa_url c) (sa_verify_tls c) csr"
  have token: "?K (sign_post (sa_url c) (sa_verify_tls c) csr ott)"
    if "csr_fingerprint csr e w1 = (Inr sha, w2)"
      "signed_token key (ott_claims n t (sa_url c) now [t] sha) e w3 = (Inr ott, w4)" for w1 sha w2 key now w3 ott w4
    using fingerprint_value [OF that(1)] token_value [OF that(2)] by (auto simp: sign_kind_def ott_for_def)
  show "sends_in e ?K (sign_sub_ca_csr c csr t n p)"
    unfolding sign_sub_ca_csr_def
    by (intro sends_in_bnd sign_exchange_sends, rule sends_everywhere [OF sca_load.call_sends], simp add: sign_kind_def)
      (rule sends_in_nothing, rule sends_rules | rule token, assumption+)+
qed

lemma admin_token_call: "keeps stores (make_admin_token c)" "sends (\<lambda>r. r = provisioners_get (sa_url c) (sa_verify_tls c)) (make_admin_token c)"
  by (auto simp: make_admin_token_def load_admin_key_def intro!: keeps_rules sends_rules sca_load.call_stores
      sca_load.call_sends split: prod.split)

interpretation sca_list: service_call "list_provisioners c" "\<lambda>r. r = provisioners_get (sa_url c) (sa_verify_tls c)" for c
  unfolding list_provisioners_def by (rule sca_fetch.service_call_axioms)

interpretation sca_add: service_call "add_provisioner c n i s u a"
  "\<lambda>r. r = provisioners_get (sa_url c) (sa_verify_tls c) \<or> (\<exists>t. r = provisioner_post c t (oidc_payload n i s u a))"
  for c n i s u a
proof (rule service_callI)
  show "keeps stores (add_provisioner c n i s u a)"
    unfolding add_provisioner_def by (intro keeps_rules admin_token_call)
  show "sends (\<lambda>r. r = provisioners_get (sa_url c) (sa_verify_tls c) \<or>
      (\<exists>t. r = provisioner_post c t (oidc_payload n i s u a))) (add_provisioner c n i s u a)"
    unfolding add_provisioner_def
    by (intro sends_rules sends_mono [OF admin_token_call(2)]) auto
qed

text \<open>Removing a provisioner only ever deletes under \<open>/admin/provisioners/\<close> of the configured CA.\<close>

interpretation sca_remove: service_call "remove_provisioner c n"
  "\<lambda>r. r = provisioners_get (sa_url c) (sa_verify_tls c) \<or>
     (\<exists>i t. r = ca_request (sa_url c) (sa_verify_tls c) DELETE (''/admin/provisioners/'' @ i) (Bearer t) NoBody)" for c n
proof (rule service_callI)
  show "keeps stores (remove_provisioner c n)"
    unfolding remove_provisioner_def by (intro keeps_rules admin_token_call sca_list.call_stores)
  show "sends (\<lambda>r. r = provisioners_get (sa_url c) (sa_verify_tls c) \<or>
     (\<exists>i t. r = ca_request (sa_url c) (sa_verify_tls c) DELETE (''/admin/provisioners/'' @ i) (Bearer t) NoBody)) (remove_provisioner c n)"
    unfolding remove_provisioner_def
    by (intro sends_rules sends_mono [OF admin_token_call(2)] sends_mono [OF sca_list.call_sends]) auto
qed

section \<open>Where a certificate comes from\<close>

lemma resp_field: "jindex d k e w = (Inr v, w') \<Longrightarrow> w' = w \<and> (\<exists>ps. d = JObj ps \<and> dict_get ps k = Some v)"
  by (auto simp: jindex_def run_simps split: json.splits option.splits)

text \<open>The exchange with \<open>/1.0/sign\<close> that both clients end with.\<close>

lemma signed_answer:
  assumes "bnd (http r) (\<lambda>resp. if \<not> is_success resp then raise (x resp)
      else bnd (resp_json resp) (\<lambda>data. bnd (jindex data ''crt'') (\<lambda>crt. bnd (jindex data ''ca'') (\<lambda>ca.
        ret (k crt ca))))) e w = (Inr v, w')"
  shows "\<exists>p ps crt ca. e_http e (w_trace w) r = Answer p \<and> is_success p \<and> rs_json p = Some (JObj ps) \<and>
    dict_get ps ''crt'' = Some crt \<and> dict_get ps ''ca'' = Some ca \<and> v = k crt ca"
    and "w_trace w' = w_trace w @ [r]"
  using assms
  by (fastforce elim!: bnd_InrE http_cases simp: run_simps resp_json_def dest!: resp_field
      split: if_splits option.splits)+

lemma sign_certificate_value:
  assumes "sign_certificate c csr s n e w = (Inr ((crt, ca), c'), w')"
  obtains pre ott p ps where "w_trace w' = w_trace w @ pre @ [sign_post (sc_url c) (sc_verify_tls c) csr ott]"
    "ott_for e (sc_provisioner_name c) s (sc_url c) n csr ott"
    "e_http e (w_trace w @ pre) (sign_post (sc_url c) (sc_verify_tls c) csr ott) = Answer p" "is_success p"
    "rs_json p = Some (JObj ps)" "dict_get ps ''crt'' = Some crt" "dict_get ps ''ca'' = Some ca"
proof -
  from assms obtain ott c1 w1 where o: "make_ott c s n csr e w = (Inr (ott, c1), w1)"
    and k: "bnd (http (sign_post (sc_url c) (sc_verify_tls c) csr ott)) (\<lambda>resp.
       if \<not> is_success resp
       then raise (StepCAError (''step-ca /1.0/sign returned '' @ dec_int (rs_status resp) @ '': '' @ rs_text resp))
       else bnd (resp_json resp) (\<lambda>data. bnd (jindex data ''crt'') (\<lambda>crt. bnd (jindex data ''ca'') (\<lambda>ca.
         ret ((crt, ca), c1))))) e w1 = (Inr ((crt, ca), c'), w')"
    unfolding sign_certificate_def by (elim bnd_InrE) auto
  from sendsE [OF make_ott_call(2) o] obtain pre where "w_trace w1 = w_trace w @ pre" by blast
  with signed_answer [OF k] make_ott_value [OF o] show ?thesis by (auto intro: that)
qed

lemma sign_sub_ca_value:
  assumes "sign_sub_ca_csr c csr t n pw e w = (Inr (crt, ca), w')"
  obtains pre ott p ps where "w_trace w' = w_trace w @ pre @ [sign_post (sa_url c) (sa_verify_tls c) csr ott]"
    "ott_for e n t (sa_url c) [t] csr ott"
    "e_http e (w_trace w @ pre) (sign_post (sa_url c) (sa_verify_tls c) csr ott) = Answer p" "is_success p"
    "rs_json p = Some (JObj ps)" "dict_get ps ''crt'' = Some crt" "dict_get ps ''ca'' = Some ca"
proof -
  from assms obtain key sha now ott w1 w2 w3 w4 where
    l: "load_jwk (sa_url c) (sa_verify_tls c) n pw (''Sub-CA provisioner '' @ squoted n @ '' has no encryptedKey'')
           (''JWK provisioner '' @ squoted n @ '' not found in step-ca'') e w = (Inr key, w1)"
    and f: "csr_fingerprint csr e w1 = (Inr sha, w2)" and n: "time_seconds e w2 = (Inr now, w3)"
    and o: "signed_token key (ott_claims n t (sa_url c) now [t] sha) e w3 = (Inr ott, w4)"
    and k: "bnd (http (sign_post (sa_url c) (sa_verify_tls c) csr ott)) (\<lambda>resp.
       if \<not> is_success resp
       then raise (StepCAError (''step-ca sub-CA sign returned '' @ dec_int (rs_status resp) @ '': '' @ rs_text resp))
       else bnd (resp_json resp) (\<lambda>data. bnd (jindex data ''crt'') (\<lambda>crt. bnd (jindex data ''ca'') (\<lambda>ca.
         ret (crt, ca))))) e w4 = (Inr (crt, ca), w')"
    unfolding sign_sub_ca_csr_def
    by - (erule bnd_InrE, erule bnd_InrE, erule bnd_InrE, erule bnd_InrE, rule that, assumption+)
  have "sends (\<lambda>_. False) (time_seconds :: int io)" by (rule sends_rules)
  then have "w_trace w3 = w_trace w2" using n by (auto dest: sends_False_keeps keepsD)
  with sendsE [OF sca_load.call_sends l] fingerprint_value [OF f] token_value [OF o]
  obtain pre r where "w_trace w4 = w_trace w @ pre" "e_load_csr e csr = Inr r" "sha = csr_sha r"
    "e_jwt_signed e (jwt_header key) (ott_claims n t (sa_url c) now [t] sha) key = Inr ott" by metis
  with signed_answer [OF k] show ?thesis by (auto intro!: that simp: ott_for_def) blast
qed

text \<open>The key that is loaded is that of the first JWK provisioner of the configured name.\<close>

definition jwk_named :: "string \<Rightarrow> (string, json) dict \<Rightarrow> bool" where
  "jwk_named name p \<longleftrightarrow> dict_get p ''name'' = Some (JStr name) \<and> dict_get p ''type'' = Some (JStr ''JWK'')"

lemma is_jwk_object: "is_jwk_provisioner n (JObj p) = ret (jwk_named n p)"
  by (auto simp: is_jwk_provisioner_def jget_def run_simps jwk_named_def fun_eq_iff split: option.split)

lemma find_jwk_first:
  assumes "\<forall>q\<in>set pre. \<not> jwk_named n q" "jwk_named n p" "dict_get p ''encryptedKey'' = Some k" "truth k"
    "e_decrypt_jwk e k pw = Inr key"
  shows "find_jwk n pw a (map JObj pre @ JObj p # post) e w = (Inr (Some key), w)"
  using assms
  by (induction pre) (simp_all add: is_jwk_object run_simps jget_def lift_sum_def)

end
