(* ===== verification/JoinStore.thy ===== *)
theory JoinStore
  imports JsonStore
begin

text \<open>
  \<open>app/clients/join_store.py\<close>: the JSON file with the JOIN requests of all tenants, \<open>w_joins\<close>.
\<close>

definition load_store :: "join_requests io" where
  "load_store = gets (\<lambda>w. case w_joins w of None \<Rightarrow> [] | Some d \<Rightarrow> d)"

definition save_store :: "join_requests \<Rightarrow> unit io" where
  "save_store data = modify (\<lambda>w. w\<lparr>w_joins := Some data\<rparr>)"

definition joins :: "world \<Rightarrow> join_requests" where
  "joins w = (case w_joins w of None \<Rightarrow> [] | Some d \<Rightarrow> d)"

definition but_joins :: "world \<Rightarrow> world" where
  "but_joins w = w\<lparr>w_joins := None\<rparr>"

interpretation join_file: json_store load_store save_store joins but_joins
  by unfold_locales (simp_all add: load_store_def save_store_def joins_def but_joins_def run_simps)

lemma joins_simps [simp]:
  "joins (w\<lparr>w_ticks := n\<rparr>) = joins w" "joins (w\<lparr>w_draws := n\<rparr>) = joins w" "joins (w\<lparr>w_trace := t\<rparr>) = joins w"
  "joins (w\<lparr>w_joins := Some d\<rparr>) = d" "joins (w\<lparr>w_keys := j\<rparr>) = joins w"
  by (simp_all add: joins_def)

lemma joins_stores: "stores w' = stores w \<Longrightarrow> joins w' = joins w"
  by (drule stores_fields(3)) (simp add: joins_def)

lemma sends_store [sends_rules]: "sends S load_store" "sends S (save_store d)"
  by (auto simp: load_store_def save_store_def intro!: sends_rules)

end
