(* ===== verification/PyTime.thy ===== *)
theory PyTime
  imports Models
begin

text \<open>
  \<open>datetime.isoformat()\<close> for an aware UTC time, as CPython computes it: an instant is split into a
  proleptic Gregorian date and a time of day. The text is what the JSON stores and the responses hold.
\<close>

section \<open>Dates\<close>

definition days_before_month :: "int list" where
  "days_before_month = [0, 0, 31, 59, 90, 120, 151, 181, 212, 243, 273, 304, 334]"

definition days_in_month :: "int list" where
  "days_in_month = [0, 31, 28, 31, 30, 31, 30, 31, 31, 30, 31, 30, 31]"

text \<open>\<open>_ord2ymd\<close>: day 1 is 1 January of year 1; first the month and the day of a day of the year, from 0.\<close>

definition month_day :: "bool \<Rightarrow> int \<Rightarrow> int \<times> int" where
  "month_day leap n = (let
     month = (n + 50) div 32;
     preceding = days_before_month ! nat month + (if month > 2 \<and> leap then 1 else 0)
   in if preceding > n
      then let month = month - 1;
               preceding = preceding - (days_in_month ! nat month + (if month = 2 \<and> leap then 1 else 0))
           in (month, n - preceding + 1)
      else (month, n - preceding + 1))"

definition ord2ymd :: "int \<Rightarrow> int \<times> int \<times> int" where
  "ord2ymd ordinal = (let
     n = ordinal - 1;
     n400 = n div 146097; n = n mod 146097;
     n100 = n div 36524; n = n mod 36524;
     n4 = n div 1461; n = n mod 1461;
     n1 = n div 365; n = n mod 365;
     year = n400 * 400 + 1 + n100 * 100 + n4 * 4 + n1
   in if n1 = 4 \<or> n100 = 4 then (year - 1, 12, 31)
      else (year, month_day (n1 = 3 \<and> (n4 \<noteq> 24 \<or> n100 = 3)) n))"

section \<open>Text\<close>

definition pad :: "nat \<Rightarrow> int \<Rightarrow> string" where
  "pad k n = (let d = dec (nat n) in replicate (k - length d) CHR ''0'' @ d)"

text \<open>The ordinal of 1 January 1970.\<close>

definition epoch_ordinal :: int where
  "epoch_ordinal = 719163"

definition day_us :: int where
  "day_us = 86400000000"

definition isoformat :: "instant \<Rightarrow> string" where
  "isoformat t = (case ord2ymd (t div day_us + epoch_ordinal) of (y, m, d) \<Rightarrow>
     let us = t mod day_us; s = us div 1000000; micro = us mod 1000000 in
     pad 4 y @ ''-'' @ pad 2 m @ ''-'' @ pad 2 d @ ''T'' @
     pad 2 (s div 3600) @ '':'' @ pad 2 (s div 60 mod 60) @ '':'' @ pad 2 (s mod 60) @
     (if micro = 0 then [] else ''.'' @ pad 6 micro) @ ''+00:00'')"

lemma isoformat_examples:
  "isoformat 0 = ''1970-01-01T00:00:00+00:00''"
  "isoformat 1709210096000001 = ''2024-02-29T12:34:56.000001+00:00''"
  by code_simp+

end
