(* ===== verification/Replies.thy ===== *)
theory Replies
  imports IOLogic PyTime "HOL-Library.Multiset"
begin

text \<open>
  What the routers answer besides Pydantic models: JSON documents, redirects, and pages rendered from
  a template with a context; and the JSON form of an entry of the JOIN store.
\<close>

datatype reply =
    JSONResponse int json
  | RedirectResponse string
  | TemplateResponse string int "(string \<times> json) list"

definition opt_json :: "string option \<Rightarrow> json" where
  "opt_json x = (case x of None \<Rightarrow> JNull | Some s \<Rightarrow> JStr s)"

definition opt_time :: "instant option \<Rightarrow> json" where
  "opt_time x = (case x of None \<Rightarrow> JNull | Some t \<Rightarrow> JStr (isoformat t))"

definition str_dict :: "(string \<times> string) list \<Rightarrow> json" where
  "str_dict d = JObj (map (\<lambda>(k, v). (k, JStr v)) d)"

definition entry_json :: "join_entry \<Rightarrow> json" where
  "entry_json x = JObj
     [(''tenant_id'', JStr (je_tenant_id x)), (''display_name'', JStr (je_display_name x)),
      (''sub_ca_csr'', JStr (je_sub_ca_csr x)), (''mqtt_bridge_csr'', JStr (je_mqtt_bridge_csr x)),
      (''wg_pubkey'', JStr (je_wg_pubkey x)), (''keycloak_url'', JStr (je_keycloak_url x)),
      (''status'', JStr (join_status_text (je_status x))), (''requested_at'', JStr (isoformat (je_requested_at x))),
      (''approved_at'', opt_time (je_approved_at x)), (''rejected_at'', opt_time (je_rejected_at x)),
      (''rejected_reason'', opt_json (je_rejected_reason x)), (''signed_cert'', je_signed_cert x),
      (''root_ca_cert'', je_root_ca_cert x), (''rabbitmq_url'', opt_json (je_rabbitmq_url x)),
      (''rabbitmq_vhost'', opt_json (je_rabbitmq_vhost x)), (''rabbitmq_user'', opt_json (je_rabbitmq_user x)),
      (''mqtt_bridge_cert'', je_mqtt_bridge_cert x), (''cdm_idp_client_id'', opt_json (je_cdm_idp_client_id x)),
      (''cdm_idp_client_secret'', opt_json (je_cdm_idp_client_secret x)),
      (''cdm_discovery_url'', opt_json (je_cdm_discovery_url x)),
      (''wg_server_pubkey'', opt_json (je_wg_server_pubkey x)),
      (''wg_server_endpoint'', opt_json (je_wg_server_endpoint x)),
      (''wg_client_ip'', opt_json (je_wg_client_ip x))]"

text \<open>
  \<open>sorted(store.values(), key=lambda e: e.get("requested_at", ""), reverse=True)\<close>: newest first, and
  entries of the same time in the order of the store.
\<close>

definition by_request_time :: "join_requests \<Rightarrow> join_entry list" where
  "by_request_time d = sort_key (\<lambda>x. - je_requested_at x) (dict_values d)"

lemma by_request_time_set: "mset (by_request_time d) = mset (dict_values d)"
  by (simp add: by_request_time_def)

end
