(* ===== verification/AdminPortal.thy ===== *)
theory AdminPortal
  imports RabbitMQ StepCA JoinStore Replies
begin

text \<open>
  \<open>app/routers/admin_portal.py\<close>: the life cycle of a tenant for an administrator of the \<open>cdm\<close> realm:
  the guards on the session and on a bearer token, the calls of Keycloak's admin API, and the
  handlers that create and delete a tenant and register its OIDC provisioner. Python's \<open>None\<close> as the
  result of the session guard is \<^const>\<open>JNull\<close>.
\<close>

section \<open>Guards\<close>

definition admin_roles :: "string set" where
  "admin_roles = {''cdm-admin'', ''platform-admin''}"

definition has_role :: "json list \<Rightarrow> string set \<Rightarrow> bool" where
  "has_role roles S = (\<exists>r\<in>set roles. \<exists>s\<in>S. r = JStr s)"

definition session_get :: "string \<Rightarrow> json \<Rightarrow> json io" where
  "session_get k d = gets (\<lambda>w. case dict_get (w_session w) k of Some v \<Rightarrow> v | None \<Rightarrow> d)"

definition get_cdm_admin :: "json io" where
  "get_cdm_admin = bnd (session_get ''user'' JNull) (\<lambda>user.
     if \<not> truth user then ret JNull
     else bnd (jget user ''realm'' JNull) (\<lambda>realm.
       if realm \<noteq> JStr ''cdm'' then ret JNull
       else bnd (jget user ''roles'' (JArr [])) (\<lambda>roles. bnd (set_of roles) (\<lambda>rs.
         if \<not> has_role rs admin_roles then ret JNull else ret user))))"

definition userinfo_get :: "settings \<Rightarrow> string \<Rightarrow> request" where
  "userinfo_get s token = \<lparr>rq_meth = GET,
     rq_url = keycloak_url s @ ''/realms/cdm/protocol/openid-connect/userinfo'',
     rq_auth = Bearer token, rq_body = NoBody, rq_verify = False\<rparr>"

text \<open>The payload of the token: the second of its dot-separated parts, padded and decoded.\<close>

definition padded_segment :: "string \<Rightarrow> string" where
  "padded_segment p = p @ replicate (4 - length p mod 4) CHR ''=''"

definition nth_part :: "string \<Rightarrow> nat \<Rightarrow> string io" where
  "nth_part token i = (let parts = split_on CHR ''.'' token in
     if i < length parts then ret (parts ! i) else raise (IndexError ''list index out of range''))"

definition loads :: "nat list option \<Rightarrow> json io" where
  "loads bs = (case bs of None \<Rightarrow> raise (ValueError ''Incorrect padding'')
     | Some b \<Rightarrow> bnd (asks (\<lambda>e. loads_bytes e b)) (\<lambda>j. case j of
           None \<Rightarrow> raise (ValueError ''Expecting value'') | Some v \<Rightarrow> ret v))"

definition token_claims :: "string \<Rightarrow> json io" where
  "token_claims token = try_except
     (bnd (nth_part token 1) (\<lambda>payload_b64. loads (b64decode (padded_segment payload_b64))))
     (\<lambda>_. raise (HTTPException 401 ''Malformed token''))"

definition claim_roles :: "json \<Rightarrow> json io" where
  "claim_roles claims = bnd (jget claims ''realm_access'' (JObj [])) (\<lambda>access.
     bnd (jget access ''roles'' (JArr [])) (\<lambda>roles.
       if truth roles then ret roles else jget claims ''roles'' (JArr [])))"

definition require_cdm_admin :: "string option \<Rightarrow> json io" where
  "require_cdm_admin authorization = bnd get_cdm_admin (\<lambda>user.
     if truth user then ret user
     else let auth = (case authorization of None \<Rightarrow> [] | Some a \<Rightarrow> a) in
       if \<not> startswith auth ''Bearer '' then raise (HTTPException 401 ''Authentication required'')
       else let token = drop 7 auth in bnd get_settings (\<lambda>s. bnd (http (userinfo_get s token)) (\<lambda>r.
         if \<not> is_success r then raise (HTTPException 401 ''Invalid or expired token'')
         else bnd (token_claims token) (\<lambda>claims. bnd (claim_roles claims) (\<lambda>roles.
           bnd (set_of roles) (\<lambda>rs.
             if \<not> has_role rs admin_roles
             then raise (HTTPException 403 (''Access denied '' @ en_dash @ '' cdm-admin or platform-admin role required''))
             else bnd (jget claims ''preferred_username'' (JStr [])) (\<lambda>name.
               ret (JObj [(''realm'', JStr ''cdm''), (''roles'', roles), (''preferred_username'', name)]))))))))"

section \<open>Factories\<close>

definition rabbitmq :: "settings \<Rightarrow> rabbitmq_client" where
  "rabbitmq s = new_rabbitmq_client (rabbitmq_mgmt_url s) (rabbitmq_admin_user s) (rabbitmq_admin_password s)"

definition step_ca_admin :: "settings \<Rightarrow> step_ca_admin_client" where
  "step_ca_admin s = new_step_ca_admin (step_ca_url s) (step_ca_admin_provisioner s) (step_ca_admin_password s)
     (step_ca_verify_tls s)"

definition password_alphabet :: string where
  "password_alphabet = ''abcdefghijklmnopqrstuvwxyz'' @ ''ABCDEFGHIJKLMNOPQRSTUVWXYZ'' @ ''0123456789''"

definition random_password :: "string io" where
  "random_password = choices password_alphabet 24"

section \<open>Keycloak\<close>

definition kc_request :: "settings \<Rightarrow> meth \<Rightarrow> string \<Rightarrow> auth \<Rightarrow> body \<Rightarrow> request" where
  "kc_request s m path a b = \<lparr>rq_meth = m, rq_url = keycloak_url s @ path, rq_auth = a, rq_body = b,
     rq_verify = False\<rparr>"

definition admin_token_post :: "settings \<Rightarrow> request" where
  "admin_token_post s = kc_request s POST ''/realms/master/protocol/openid-connect/token'' NoAuth
     (FormBody [(''client_id'', ''admin-cli''), (''grant_type'', ''password''),
        (''username'', keycloak_admin_user s), (''password'', keycloak_admin_password s)])"

definition kc_admin_token :: "settings \<Rightarrow> string io" where
  "kc_admin_token s = bnd (http (admin_token_post s)) (\<lambda>resp.
     if \<not> is_success resp
     then raise (RuntimeError (''KC admin token failed HTTP '' @ dec_int (rs_status resp) @ '': '' @ take 200 (rs_text resp)))
     else bnd (resp_json resp) (\<lambda>j. bnd (jindex j ''access_token'') str_of))"

definition realm_path :: "string \<Rightarrow> string" where
  "realm_path realm_id = ''/admin/realms/'' @ realm_id"

definition kc_realm_exists :: "settings \<Rightarrow> string \<Rightarrow> string \<Rightarrow> bool io" where
  "kc_realm_exists s realm_id token = bnd (http (kc_request s GET (realm_path realm_id) (Bearer token) NoBody))
     (\<lambda>resp. ret (rs_status resp = 200))"

definition json_or_empty :: "response \<Rightarrow> json io" where
  "json_or_empty resp = (if is_success resp then resp_json resp else ret (JArr []))"

definition mapper_payload :: json where
  "mapper_payload = JObj [(''name'', JStr ''account-audience''), (''protocol'', JStr ''openid-connect''),
     (''protocolMapper'', JStr ''oidc-audience-mapper''), (''consentRequired'', JBool False),
     (''config'', JObj [(''included.client.audience'', JStr ''account''), (''id.token.claim'', JStr ''false''),
        (''access.token.claim'', JStr ''true'')])]"

definition has_account_audience :: "json \<Rightarrow> bool io" where
  "has_account_audience m = bnd (jget m ''config'' (JObj [])) (\<lambda>config.
     bnd (jget config ''included.client.audience'' JNull) (\<lambda>v. ret (v = JStr ''account'')))"

definition kc_fix_account_console :: "settings \<Rightarrow> string \<Rightarrow> string \<Rightarrow> unit io" where
  "kc_fix_account_console s realm_id token =
     bnd (http (kc_request s GET (realm_path realm_id @ ''/clients?clientId=account-console'') (Bearer token) NoBody)) (\<lambda>resp.
     bnd (json_or_empty resp) (\<lambda>clients.
       if \<not> truth clients then ret ()
       else bnd (jfirst clients) (\<lambda>c. bnd (jindex c ''id'') (\<lambda>i. bnd (str_of i) (\<lambda>ac_id.
         let models = realm_path realm_id @ ''/clients/'' @ ac_id @ ''/protocol-mappers/models'' in
         bnd (http (kc_request s GET models (Bearer token) NoBody)) (\<lambda>resp.
         bnd (json_or_empty resp) (\<lambda>ms. bnd (jiter ms) (\<lambda>mappers.
         bnd (any_io has_account_audience mappers) (\<lambda>present.
           if present then ret ()
           else bnd (http (kc_request s POST models (Bearer token) (JsonBody mapper_payload))) (\<lambda>_. ret ()))))))))))"

definition realm_payload :: "settings \<Rightarrow> string \<Rightarrow> string \<Rightarrow> json" where
  "realm_payload s realm_id display_name = (let
     role = (\<lambda>n d. JObj [(''name'', JStr n), (''description'', JStr d)]);
     strs = (\<lambda>xs. JArr (map JStr xs)) in JObj
     [(''id'', JStr realm_id), (''realm'', JStr realm_id), (''displayName'', JStr display_name),
      (''enabled'', JBool True), (''sslRequired'', JStr ''external''), (''registrationAllowed'', JBool False),
      (''loginWithEmailAllowed'', JBool True), (''duplicateEmailsAllowed'', JBool False),
      (''resetPasswordAllowed'', JBool True), (''editUsernameAllowed'', JBool False),
      (''bruteForceProtected'', JBool True),
      (''roles'', JObj [(''realm'', JArr [role ''cdm-admin'' ''Tenant administrator'',
         role ''cdm-operator'' ''Fleet operator'', role ''cdm-viewer'' ''Read-only access''])]),
      (''clients'', JArr [JObj
         [(''clientId'', JStr ''portal''), (''name'', JStr ''CDM Tenant Portal''), (''enabled'', JBool True),
          (''protocol'', JStr ''openid-connect''), (''publicClient'', JBool False),
          (''secret'', JStr (portal_oidc_secret s)), (''redirectUris'', strs [''*'']),
          (''webOrigins'', strs [''*'']), (''standardFlowEnabled'', JBool True),
          (''implicitFlowEnabled'', JBool False), (''directAccessGrantsEnabled'', JBool False),
          (''postLogoutRedirectUris'', strs [''*''])]]),
      (''defaultDefaultClientScopes'', strs [''profile'', ''email'', ''roles'', ''web-origins'']),
      (''defaultOptionalClientScopes'', strs [''offline_access'', ''address'', ''phone'']),
      (''eventsEnabled'', JBool True), (''eventsListeners'', strs [''jboss-logging'']),
      (''adminEventsEnabled'', JBool True), (''adminEventsDetailsEnabled'', JBool True)])"

definition kc_create_realm :: "settings \<Rightarrow> string \<Rightarrow> string \<Rightarrow> string \<Rightarrow> unit io" where
  "kc_create_realm s realm_id display_name token =
     bnd (http (kc_request s POST ''/admin/realms'' (Bearer token) (JsonBody (realm_payload s realm_id display_name)))) (\<lambda>resp.
       if rs_status resp \<notin> {201, 409}
       then raise (RuntimeError (''KC create realm failed HTTP '' @ dec_int (rs_status resp) @ '': '' @ take 300 (rs_text resp)))
       else kc_fix_account_console s realm_id token)"

definition user_payload :: "string \<Rightarrow> string \<Rightarrow> string \<Rightarrow> json" where
  "user_payload username email password = JObj
     [(''username'', JStr username), (''email'', JStr email), (''firstName'', JStr (capitalize username)),
      (''lastName'', JStr []), (''enabled'', JBool True), (''emailVerified'', JBool True),
      (''credentials'', JArr [JObj [(''type'', JStr ''password''), (''value'', JStr password),
         (''temporary'', JBool True)]])]"

definition kc_create_user :: "settings \<Rightarrow> string \<Rightarrow> string \<Rightarrow> string \<Rightarrow> string \<Rightarrow> string list \<Rightarrow> string \<Rightarrow> unit io" where
  "kc_create_user s realm_id username email password roles token =
     bnd (http (kc_request s POST (realm_path realm_id @ ''/users'') (Bearer token)
         (JsonBody (user_payload username email password)))) (\<lambda>resp.
       if rs_status resp \<notin> {201, 409}
       then raise (RuntimeError (''KC create user failed HTTP '' @ dec_int (rs_status resp) @ '': '' @ take 300 (rs_text resp)))
       else if rs_status resp = 409 then ret ()
       else let user_url = (case rs_location resp of None \<Rightarrow> [] | Some l \<Rightarrow> l);
                user_id = last (split_on CHR ''/'' (rstrip_char CHR ''/'' user_url)) in
         bnd (http (kc_request s GET (realm_path realm_id @ ''/roles'') (Bearer token) NoBody)) (\<lambda>roles_resp.
         bnd (json_or_empty roles_resp) (\<lambda>j. bnd (jiter j) (\<lambda>all_roles.
         bnd (filter_io (\<lambda>r. bnd (jindex r ''name'') (\<lambda>n. ret (n \<in> set (map JStr roles)))) all_roles) (\<lambda>role_objects.
           if role_objects \<noteq> [] \<and> user_id \<noteq> []
           then bnd (http (kc_request s POST (realm_path realm_id @ ''/users/'' @ user_id @ ''/role-mappings/realm'')
                  (Bearer token) (JsonBody (JArr role_objects)))) (\<lambda>_. ret ())
           else ret ())))))"

definition kc_delete_realm :: "settings \<Rightarrow> string \<Rightarrow> string \<Rightarrow> unit io" where
  "kc_delete_realm s realm_id token = bnd (http (kc_request s DELETE (realm_path realm_id) (Bearer token) NoBody)) (\<lambda>resp.
     if rs_status resp \<notin> {204, 404}
     then raise (RuntimeError (''KC delete realm failed HTTP '' @ dec_int (rs_status resp))) else ret ())"

definition kc_list_realms :: "settings \<Rightarrow> string \<Rightarrow> json io" where
  "kc_list_realms s token = bnd (http (kc_request s GET ''/admin/realms'' (Bearer token) NoBody)) json_or_empty"

section \<open>Handlers\<close>

text \<open>A body is the JSON document of the request, \<^const>\<open>None\<close> when \<open>request.json()\<close> raises.\<close>

definition protected_realms :: "string set" where
  "protected_realms = {''master'', ''cdm''}"

definition error_reply :: "int \<Rightarrow> string \<Rightarrow> reply" where
  "error_reply status m = JSONResponse status (JObj [(''error'', JStr m)])"

definition unauthorized :: reply where
  "unauthorized = error_reply 403 ''Unauthorized''"

text \<open>\<open>str(body.get(k, d)).strip()\<close>.\<close>

definition body_text :: "json \<Rightarrow> string \<Rightarrow> string \<Rightarrow> string io" where
  "body_text body k d = bnd (jget body k (JStr d)) (\<lambda>v. bnd (str_of v) (\<lambda>t. ret (strip t)))"

type_synonym outcomes = "(string \<times> string) list \<times> (string \<times> string) list"

definition create_in_keycloak :: "settings \<Rightarrow> string \<Rightarrow> string \<Rightarrow> string \<Rightarrow> string \<Rightarrow> string \<Rightarrow> outcomes io" where
  "create_in_keycloak s realm_id display_name admin_user admin_email admin_password = try_except
     (bnd (kc_admin_token s) (\<lambda>kc_token.
      thn (kc_create_realm s realm_id display_name kc_token)
     (thn (kc_create_user s realm_id admin_user admin_email admin_password [''cdm-admin''] kc_token)
      (ret ([(''keycloak'', ''created'')], [])))))
     (\<lambda>exc. ret ([], [(''keycloak'', exn_str exc)]))"

definition create_in_rabbitmq :: "settings \<Rightarrow> string \<Rightarrow> outcomes io" where
  "create_in_rabbitmq s realm_id = try_except
     (bnd random_password (\<lambda>rmq_password.
      thn (provision_tenant (rabbitmq s) realm_id rmq_password)
      (ret ([(''rabbitmq'', ''created''), (''rabbitmq_user'', realm_id), (''rabbitmq_password'', rmq_password)], []))))
     (\<lambda>exc. case exc of RabbitMQError m \<Rightarrow> ret ([], [(''rabbitmq'', m)]) | _ \<Rightarrow> raise exc)"

definition create_hint :: string where
  "create_hint = ''Save the admin_password '' @ em_dash @ '' it will not be shown again. '' @
     ''The admin user must change it on first login (temporary=true).''"

definition create_tenant_checked :: "settings \<Rightarrow> string \<Rightarrow> string \<Rightarrow> string \<Rightarrow> string \<Rightarrow> reply io" where
  "create_tenant_checked s realm_id display_name admin_email admin_user =
     (if realm_id = [] \<or> \<not> isidentifier realm_id
      then ret (error_reply 400 ''realm_id must be a valid identifier (letters, digits, underscores)'')
      else if realm_id \<in> protected_realms
      then ret (error_reply 400 (''Realm '' @ squoted realm_id @ '' is protected''))
      else bnd random_password (\<lambda>admin_password.
        bnd (create_in_keycloak s realm_id display_name admin_user admin_email admin_password) (\<lambda>(r1, e1).
        bnd (create_in_rabbitmq s realm_id) (\<lambda>(r2, e2).
          ret (JSONResponse 200 (JObj
            [(''realm_id'', JStr realm_id), (''display_name'', JStr display_name),
             (''admin_user'', JStr admin_user), (''admin_email'', JStr admin_email),
             (''admin_password'', JStr admin_password), (''results'', str_dict (r1 @ r2)),
             (''errors'', str_dict (e1 @ e2)), (''hint'', JStr create_hint)]))))))"

definition create_tenant :: "json option \<Rightarrow> reply io" where
  "create_tenant request_json = bnd get_settings (\<lambda>s. bnd get_cdm_admin (\<lambda>user.
     if \<not> truth user then ret unauthorized
     else case request_json of None \<Rightarrow> ret (error_reply 400 ''Invalid JSON body'')
     | Some body \<Rightarrow>
       bnd (body_text body ''realm_id'' []) (\<lambda>t. let realm_id = lower t in
       bnd (body_text body ''display_name'' realm_id) (\<lambda>display_name.
       bnd (body_text body ''admin_email'' (''admin@'' @ realm_id @ ''.local'')) (\<lambda>admin_email.
       bnd (body_text body ''admin_user'' (realm_id @ ''-admin'')) (\<lambda>admin_user.
         create_tenant_checked s realm_id display_name admin_email admin_user))))))"

definition delete_in_keycloak :: "settings \<Rightarrow> string \<Rightarrow> outcomes io" where
  "delete_in_keycloak s realm_id = try_except
     (bnd (kc_admin_token s) (\<lambda>kc_token.
      thn (kc_delete_realm s realm_id kc_token) (ret ([(''keycloak'', ''deleted'')], []))))
     (\<lambda>exc. ret ([], [(''keycloak'', exn_str exc)]))"

definition delete_in_rabbitmq :: "settings \<Rightarrow> string \<Rightarrow> outcomes io" where
  "delete_in_rabbitmq s realm_id = try_except
     (thn (deprovision_tenant (rabbitmq s) realm_id) (ret ([(''rabbitmq'', ''deleted'')], [])))
     (\<lambda>exc. case exc of RabbitMQError m \<Rightarrow> ret ([], [(''rabbitmq'', m)]) | _ \<Rightarrow> raise exc)"

definition delete_tenant :: "string \<Rightarrow> reply io" where
  "delete_tenant realm_id = bnd get_settings (\<lambda>s. bnd get_cdm_admin (\<lambda>user.
     if \<not> truth user then ret unauthorized
     else if realm_id \<in> protected_realms
     then ret (error_reply 400 (''Realm '' @ squoted realm_id @ '' is protected''))
     else bnd (delete_in_keycloak s realm_id) (\<lambda>(r1, e1).
       bnd (delete_in_rabbitmq s realm_id) (\<lambda>(r2, e2).
         ret (JSONResponse 200 (JObj [(''realm_id'', JStr realm_id), (''results'', str_dict (r1 @ r2)),
           (''errors'', str_dict (e1 @ e2))]))))))"

definition add_oidc_provisioner :: "string \<Rightarrow> json option \<Rightarrow> reply io" where
  "add_oidc_provisioner realm_id request_json = bnd get_settings (\<lambda>s. bnd get_cdm_admin (\<lambda>user.
     if \<not> truth user then ret unauthorized
     else case request_json of None \<Rightarrow> ret (error_reply 400 ''Invalid JSON body'')
     | Some body \<Rightarrow>
       bnd (body_text body ''client_id'' ''step-ca'') (\<lambda>client_id.
       bnd (body_text body ''client_secret'' []) (\<lambda>client_secret.
       bnd (jget body ''admin_emails'' (JArr [])) (\<lambda>admin_emails.
         let configuration_endpoint = keycloak_url s @ ''/realms/'' @ realm_id @ ''/.well-known/openid-configuration'';
             provisioner_name = realm_id @ ''-keycloak'' in
         try_except
           (bnd (add_provisioner (step_ca_admin s) provisioner_name client_id client_secret
                  configuration_endpoint (jor admin_emails JNull)) (\<lambda>result.
             ret (JSONResponse 200 (JObj [(''realm_id'', JStr realm_id), (''provisioner_name'', JStr provisioner_name),
               (''configuration_endpoint'', JStr configuration_endpoint), (''result'', result)]))))
           (\<lambda>exc. case exc of StepCAError m \<Rightarrow> ret (error_reply 502 m) | _ \<Rightarrow> raise exc))))))"

section \<open>Dashboard\<close>

text \<open>A set of strings that is shown as a list; its order is that of first occurrence.\<close>

definition dashboard_realms :: "settings \<Rightarrow> json list io" where
  "dashboard_realms s = try_except
     (bnd (kc_admin_token s) (\<lambda>kc_token. bnd (kc_list_realms s kc_token) (\<lambda>j. bnd (jiter j) (\<lambda>realms.
       filter_io (\<lambda>r. bnd (jindex r ''realm'') (\<lambda>n. bnd (in_strings n {''master''}) (\<lambda>b. ret (\<not> b)))) realms))))
     (\<lambda>_. ret [])"

definition dashboard_vhosts :: "settings \<Rightarrow> json list io" where
  "dashboard_vhosts s = try_except
     (bnd (list_vhosts (rabbitmq s)) (\<lambda>j. bnd (jiter j) (\<lambda>vhosts.
       bnd (map_io (\<lambda>v. jindex v ''name'') vhosts) (\<lambda>names. set_of (JArr (remdups names))))))
     (\<lambda>_. ret [])"

definition dashboard_provisioners :: "settings \<Rightarrow> json list io" where
  "dashboard_provisioners s = try_except
     (bnd (list_provisioners (step_ca_admin s)) (\<lambda>j. bnd (jiter j) (\<lambda>provisioners.
       bnd (filter_io (\<lambda>p. bnd (jget p ''type'' JNull) (\<lambda>t. ret (t = JStr ''OIDC''))) provisioners) (\<lambda>oidc.
       bnd (map_io (\<lambda>p. jindex p ''name'') oidc) (\<lambda>names. set_of (JArr (remdups names)))))))
     (\<lambda>_. ret [])"

definition admin_dashboard :: "reply io" where
  "admin_dashboard = bnd get_settings (\<lambda>s. bnd get_cdm_admin (\<lambda>user.
     if \<not> truth user then ret (RedirectResponse ''/api/portal/'')
     else bnd (dashboard_realms s) (\<lambda>tenant_realms. bnd (dashboard_vhosts s) (\<lambda>vhost_names.
       bnd (dashboard_provisioners s) (\<lambda>oidc_provisioner_names. bnd load_store (\<lambda>join_store.
         ret (TemplateResponse ''portal/admin_dashboard.html'' 200
           [(''user'', user), (''tenant_realms'', JArr tenant_realms), (''vhost_names'', JArr vhost_names),
            (''oidc_provisioner_names'', JArr oidc_provisioner_names), (''external_url'', JStr (external_url s)),
            (''keycloak_url'', JStr (replace_all ''http://keycloak:8080'' (external_url s) (keycloak_url s))),
            (''join_requests'', JArr (map entry_json (by_request_time join_store)))])))))))"

section \<open>The session guard\<close>

text \<open>
  A session as the portal writes it: no user, or a user object whose roles are a list of strings.
  An administrator is a user of the realm \<open>cdm\<close> with one of the two roles.
\<close>

definition session_user :: "world \<Rightarrow> json" where
  "session_user w = (case dict_get (w_session w) ''user'' of Some u \<Rightarrow> u | None \<Rightarrow> JNull)"

definition session_ok :: "world \<Rightarrow> bool" where
  "session_ok w \<longleftrightarrow> session_user w = JNull \<or> (\<exists>ps rs. session_user w = JObj ps \<and>
     dict_get ps ''roles'' = Some (JArr (map JStr rs)))"

definition is_cdm_admin :: "world \<Rightarrow> bool" where
  "is_cdm_admin w \<longleftrightarrow> (\<exists>ps rs. session_user w = JObj ps \<and> dict_get ps ''realm'' = Some (JStr ''cdm'') \<and>
     dict_get ps ''roles'' = Some (JArr (map JStr rs)) \<and> (\<exists>r\<in>set rs. r \<in> admin_roles))"

lemma has_role_strings: "has_role (map JStr rs) S \<longleftrightarrow> (\<exists>r\<in>set rs. r \<in> S)"
  by (auto simp: has_role_def)

lemma set_of_strings: "set_of (JArr (map JStr rs)) = ret (map JStr rs)"
  by (simp add: set_of_def jiter_def run_bnd_ret hashable_def list_all_iff)

lemma map_JStr_inject [simp]: "map JStr rs = map JStr qs \<longleftrightarrow> rs = qs"
  by (simp add: inj_def inj_map_eq_map)

lemma keeps_get_cdm_admin [keeps_rules]: "keeps g get_cdm_admin"
  unfolding get_cdm_admin_def session_get_def by (intro keeps_rules)

lemma guard_run:
  assumes "session_ok w"
  shows "get_cdm_admin e w = (Inr (if is_cdm_admin w then session_user w else JNull), w)"
proof (cases "session_user w = JNull")
  case True
  then show ?thesis
    by (simp add: get_cdm_admin_def session_get_def run_simps is_cdm_admin_def session_user_def)
next
  case False
  with assms obtain ps rs where "session_user w = JObj ps" "dict_get ps ''roles'' = Some (JArr (map JStr rs))"
    by (auto simp: session_ok_def)
  then show ?thesis
    by (cases "dict_get ps ''realm''")
      (auto simp: get_cdm_admin_def session_get_def session_user_def [symmetric] run_simps jget_def
        is_cdm_admin_def set_of_strings has_role_strings)
qed

lemma guard_value:
  assumes "get_cdm_admin e w = (Inr u, w')"
  shows "w' = w \<and> (u = JNull \<or> truth u \<and> u = session_user w \<and> (\<exists>ps roles rs. u = JObj ps \<and>
    dict_get ps ''realm'' = Some (JStr ''cdm'') \<and> dict_get ps ''roles'' = Some roles \<and>
    fst (set_of roles e w) = Inr rs \<and> has_role rs admin_roles))"
proof -
  have w: "w' = w" using assms by (intro pure_world [OF keeps_get_cdm_admin])
  have e: "set_of (JArr []) = ret []" by (simp add: set_of_def jiter_def run_bnd_ret)
  have p: "set_of v e w = (fst (set_of v e w), w)" for v
    using pure_world [OF keeps_values(2), of v e w] by (metis prod.collapse)
  show ?thesis
  proof (cases "truth (session_user w)")
    case False
    with assms w show ?thesis
      by (simp add: get_cdm_admin_def session_get_def session_user_def [symmetric] run_simps)
  next
    case True
    with assms obtain ps where ps: "session_user w = JObj ps" "ps \<noteq> []"
      by (cases "session_user w")
        (auto simp: get_cdm_admin_def session_get_def session_user_def [symmetric] run_simps jget_def)
    show ?thesis
    proof (cases "dict_get ps ''realm'' = Some (JStr ''cdm'')")
      case False
      with assms ps w show ?thesis
        by (cases "dict_get ps ''realm''")
          (auto simp: get_cdm_admin_def session_get_def session_user_def [symmetric] run_simps jget_def)
    next
      case realm: True
      show ?thesis
      proof (cases "dict_get ps ''roles''")
        case None
        with assms ps realm w show ?thesis
          by (simp add: get_cdm_admin_def session_get_def session_user_def [symmetric] run_simps jget_def e
              has_role_def)
      next
        case (Some roles)
        with assms ps realm have "bnd (set_of roles) (\<lambda>rs. if \<not> has_role rs admin_roles then ret JNull
            else ret (session_user w)) e w = (Inr u, w')"
          by (simp add: get_cdm_admin_def session_get_def session_user_def [symmetric] run_simps jget_def)
        then obtain rs w1 where "set_of roles e w = (Inr rs, w1)"
          "u = (if has_role rs admin_roles then session_user w else JNull)"
          by (auto simp: run_simps elim!: bnd_InrE split: if_splits)
        then show ?thesis using w ps realm Some by simp
      qed
    qed
  qed
qed

text \<open>
  The contract of an endpoint that is guarded by the session: without an administrator in the session
  it answers its refusal, and neither sends a request nor changes anything.
\<close>

locale guarded =
  fixes handler :: "'a io" and denied :: 'a
  assumes refuses: "get_cdm_admin e w = (Inr JNull, w) \<Longrightarrow> handler e w = (Inr denied, w)"
begin

lemma refused: "session_ok w \<Longrightarrow> \<not> is_cdm_admin w \<Longrightarrow> handler e w = (Inr denied, w)"
  by (rule refuses) (simp add: guard_run)

lemma refused_stranger: "dict_get (w_session w) ''user'' = None \<Longrightarrow> handler e w = (Inr denied, w)"
  by (rule refused) (simp_all add: session_ok_def is_cdm_admin_def session_user_def)

end

interpretation create_guard: guarded "create_tenant b" unauthorized for b
  by unfold_locales (simp add: create_tenant_def run_simps bnd_value)

interpretation delete_guard: guarded "delete_tenant r" unauthorized for r
  by unfold_locales (simp add: delete_tenant_def run_simps bnd_value)

interpretation provisioner_guard: guarded "add_oidc_provisioner r b" unauthorized for r b
  by unfold_locales (simp add: add_oidc_provisioner_def run_simps bnd_value)

interpretation dashboard_guard: guarded admin_dashboard "RedirectResponse ''/api/portal/''"
  by unfold_locales (simp add: admin_dashboard_def run_simps bnd_value)

section \<open>The bearer token guard\<close>

lemma keeps_claims [keeps_rules]: "keeps g (token_claims t)" "keeps g (claim_roles c)" "keeps g (nth_part t i)" "keeps g (loads b)"
  unfolding token_claims_def claim_roles_def nth_part_def loads_def Let_def by (intro keeps_rules)+

lemma sends_claims [sends_rules]: "sends S get_cdm_admin" "sends S (token_claims t)" "sends S (claim_roles c)"
  by (rule sends_nothing, simp add: keeps_rules)+

interpretation bearer_guard: service_call "require_cdm_admin a" "\<lambda>r. \<exists>s token. r = userinfo_get s token" for a
  by (rule service_callI) (auto simp: require_cdm_admin_def Let_def intro!: keeps_rules sends_rules)

text \<open>How the guard lets a caller pass: by the session, or by a token.\<close>

lemma require_value:
  assumes "require_cdm_admin a e w = (Inr u, w')"
  obtains (session) "get_cdm_admin e w = (Inr u, w)" "truth u" "w' = w"
  | (bearer) token p claims roles rs where "a = Some (''Bearer '' @ token)"
      "e_http e (w_trace w) (userinfo_get (e_settings e) token) = Answer p" "is_success p"
      "w' = w\<lparr>w_trace := w_trace w @ [userinfo_get (e_settings e) token]\<rparr>"
      "token_claims token e w' = (Inr claims, w')" "claim_roles claims e w' = (Inr roles, w')"
      "set_of roles e w' = (Inr rs, w')" "has_role rs admin_roles"
proof -
  from assms obtain v w1 where v: "get_cdm_admin e w = (Inr v, w1)"
    unfolding require_cdm_admin_def by (elim bnd_InrE)
  then have w1: "w1 = w" by (intro pure_world [OF keeps_get_cdm_admin])
  show ?thesis
  proof (cases "truth v")
    case True
    with assms v w1 show ?thesis by (intro that(1)) (auto simp: require_cdm_admin_def bnd_value run_simps)
  next
    case False
    let ?a = "case a of None \<Rightarrow> [] | Some x \<Rightarrow> x"
    have "startswith ?a ''Bearer ''"
      using assms v w1 False by (auto simp: require_cdm_admin_def bnd_value run_simps Let_def split: if_splits)
    from startswith_drop [OF this] obtain token where a: "?a = ''Bearer '' @ token" by blast
    then have t: "a = Some (''Bearer '' @ token)" "?a = ''Bearer '' @ token" by (cases a; simp)+
    have d: "drop 7 ?a = token" by (simp add: t(2))
    have "bnd (http (userinfo_get (e_settings e) token)) (\<lambda>r.
         if \<not> is_success r then raise (HTTPException 401 ''Invalid or expired token'')
         else bnd (token_claims token) (\<lambda>claims. bnd (claim_roles claims) (\<lambda>roles.
           bnd (set_of roles) (\<lambda>rs.
             if \<not> has_role rs admin_roles
             then raise (HTTPException 403 (''Access denied '' @ en_dash @ '' cdm-admin or platform-admin role required''))
             else bnd (jget claims ''preferred_username'' (JStr [])) (\<lambda>name.
               ret (JObj [(''realm'', JStr ''cdm''), (''roles'', roles), (''preferred_username'', name)])))))) e w = (Inr u, w')"
      using assms v w1 False \<open>startswith ?a ''Bearer ''\<close> d
      by (simp add: require_cdm_admin_def bnd_value run_simps Let_def)
    then obtain p claims roles rs w2 w3 w4 w5 where h: "http (userinfo_get (e_settings e) token) e w = (Inr p, w2)" "is_success p"
      "token_claims token e w2 = (Inr claims, w3)" "claim_roles claims e w3 = (Inr roles, w4)"
      "set_of roles e w4 = (Inr rs, w5)" "has_role rs admin_roles"
      and k: "bnd (jget claims ''preferred_username'' (JStr [])) (\<lambda>name.
               ret (JObj [(''realm'', JStr ''cdm''), (''roles'', roles), (''preferred_username'', name)])) e w5 = (Inr u, w')"
      by (auto simp: run_simps elim!: bnd_InrE split: if_splits)
    have "w3 = w2" "w4 = w3" "w5 = w4" using h(3-5) by (auto intro: pure_world keeps_claims keeps_values)
    moreover have "w' = w5" using k
      by (auto elim!: bnd_InrE simp: run_simps jget_def split: json.splits option.splits)
    ultimately show ?thesis using h t(1) by (intro that(2)) (auto elim: http_cases)
  qed
qed

section \<open>What the handlers send\<close>

text \<open>
  A request of Keycloak's admin API for the realm \<open>rid\<close>: the login of the administrator, the creation
  of a realm whose representation has \<open>rid\<close> as id and as name, or one below the path of \<open>rid\<close>.
\<close>

definition names_realm :: "string \<Rightarrow> body \<Rightarrow> bool" where
  "names_realm rid b \<longleftrightarrow> (case b of JsonBody (JObj ps) \<Rightarrow>
     dict_get ps ''id'' = Some (JStr rid) \<and> dict_get ps ''realm'' = Some (JStr rid) | _ \<Rightarrow> False)"

definition kc_kind :: "settings \<Rightarrow> string \<Rightarrow> request \<Rightarrow> bool" where
  "kc_kind s rid r \<longleftrightarrow> r = admin_token_post s \<or>
     (rq_meth r = POST \<and> rq_url r = keycloak_url s @ ''/admin/realms'' \<and> names_realm rid (rq_body r)) \<or>
     (rq_meth r \<in> {GET, POST} \<and> (\<exists>path. rq_url r = keycloak_url s @ path \<and> startswith path (realm_path rid @ ''/'')))"

lemma kc_kind_create: "kc_kind s rid (kc_request s POST ''/admin/realms'' a (JsonBody (realm_payload s rid d)))"
  by (simp add: kc_kind_def kc_request_def names_realm_def realm_payload_def Let_def)

lemma kc_kind_below:
  "m \<in> {GET, POST} \<Longrightarrow> p = CHR ''/'' # q \<Longrightarrow> kc_kind s rid (kc_request s m (realm_path rid @ p) a b)"
  by (auto simp: kc_kind_def kc_request_def startswith_def)

lemma keeps_json_or_empty [keeps_rules]: "keeps g (json_or_empty r)"
  unfolding json_or_empty_def by (intro keeps_rules)

lemma sends_json_or_empty [sends_rules]: "sends S (json_or_empty r)" "sends S (has_account_audience m)"
  unfolding json_or_empty_def has_account_audience_def by (auto intro!: sends_rules)

lemma keeps_audience [keeps_rules]: "keeps g (has_account_audience m)"
  unfolding has_account_audience_def by (intro keeps_rules)

interpretation kc_token: service_call "kc_admin_token s" "\<lambda>r. r = admin_token_post s" for s
  by (rule service_callI) (auto simp: kc_admin_token_def intro!: keeps_rules sends_rules)

lemma kc_kind_token [simp]: "kc_kind s rid (admin_token_post s)"
  by (simp add: kc_kind_def)

interpretation kc_fix: service_call "kc_fix_account_console s rid t" "kc_kind s rid" for s rid t
  by (rule service_callI)
    (auto simp: kc_fix_account_console_def Let_def intro!: keeps_rules sends_rules kc_kind_below)

interpretation kc_realm: service_call "kc_create_realm s rid d t" "kc_kind s rid" for s rid d t
  by (rule service_callI)
    (auto simp: kc_create_realm_def intro!: keeps_rules sends_rules kc_fix.call_stores kc_fix.call_sends kc_kind_create)

interpretation kc_user: service_call "kc_create_user s rid u m p rs t" "kc_kind s rid" for s rid u m p rs t
  by (rule service_callI)
    (auto simp: kc_create_user_def Let_def intro!: keeps_rules sends_rules kc_kind_below)

definition realm_delete :: "settings \<Rightarrow> string \<Rightarrow> string \<Rightarrow> request" where
  "realm_delete s rid token = kc_request s DELETE (realm_path rid) (Bearer token) NoBody"

interpretation kc_delete: service_call "kc_delete_realm s rid t" "\<lambda>r. r = realm_delete s rid t" for s rid t
  by (rule service_callI) (auto simp: kc_delete_realm_def realm_delete_def intro!: keeps_rules sends_rules)

text \<open>A request that concerns the tenant \<open>rid\<close> and no other.\<close>

definition about_tenant :: "settings \<Rightarrow> string \<Rightarrow> request \<Rightarrow> bool" where
  "about_tenant s rid r \<longleftrightarrow> kc_kind s rid r \<or> (\<exists>p. r \<in> set (tenant_requests (rabbitmq s) rid rid p ''none''))"

lemma keeps_password [keeps_rules]: "keeps stores random_password"
  unfolding random_password_def by (intro keeps_rules) simp

lemma sends_password [sends_rules]: "sends S random_password"
  unfolding random_password_def by (intro sends_rules)

interpretation create_kc: service_call "create_in_keycloak s rid d u m p" "kc_kind s rid" for s rid d u m p
proof (rule service_callI)
  show "keeps stores (create_in_keycloak s rid d u m p)" unfolding create_in_keycloak_def
    by (intro keeps_rules kc_token.call_stores kc_realm.call_stores kc_user.call_stores)
  show "sends (kc_kind s rid) (create_in_keycloak s rid d u m p)" unfolding create_in_keycloak_def
    by (intro sends_rules sends_mono [OF kc_token.call_sends] kc_realm.call_sends kc_user.call_sends) simp
qed

interpretation create_rmq: service_call "create_in_rabbitmq s rid"
    "\<lambda>r. \<exists>p. r \<in> set (tenant_requests (rabbitmq s) rid rid p ''none'')" for s rid
proof (rule service_callI)
  show "keeps stores (create_in_rabbitmq s rid)" unfolding create_in_rabbitmq_def provision_is_setup
    by (intro keeps_rules rmq_setup.call_stores)
  show "sends (\<lambda>r. \<exists>p. r \<in> set (tenant_requests (rabbitmq s) rid rid p ''none'')) (create_in_rabbitmq s rid)"
    unfolding create_in_rabbitmq_def provision_is_setup
    by (intro sends_rules sends_mono [OF rmq_setup.call_sends]) auto
qed

interpretation create_checked: service_call "create_tenant_checked s rid d m u"
    "\<lambda>r. isidentifier rid \<and> rid \<notin> protected_realms \<and> about_tenant s rid r" for s rid d m u
proof (rule service_callI)
  show "keeps stores (create_tenant_checked s rid d m u)" unfolding create_tenant_checked_def
    by (intro keeps_rules create_kc.call_stores create_rmq.call_stores)
  show "sends (\<lambda>r. isidentifier rid \<and> rid \<notin> protected_realms \<and> about_tenant s rid r) (create_tenant_checked s rid d m u)"
    unfolding create_tenant_checked_def
    by (intro sends_rules sends_mono [OF create_kc.call_sends] sends_mono [OF create_rmq.call_sends])
      (auto simp: about_tenant_def)
qed

lemma keeps_body_text [keeps_rules]: "keeps g (body_text b k d)"
  unfolding body_text_def by (intro keeps_rules)

text \<open>
  A request to create a tenant ends before anything happened, or gets to the checks of the realm that
  its body names.
\<close>

lemma create_reaches:
  assumes "create_tenant b e w = (r, w')"
  obtains (early) "w' = w" | (checked) body t d m u where "b = Some body" "fst (body_text body ''realm_id'' [] e w) = Inr t"
    "create_tenant_checked (e_settings e) (lower t) d m u e w = (r, w')"
proof -
  note p = pure_bnd_value [OF keeps_body_text]
  from assms have "w' = w \<or> (\<exists>a. get_cdm_admin e w = (Inr a, w) \<and> (if \<not> truth a then ret unauthorized else case b of None \<Rightarrow> ret (error_reply 400 ''Invalid JSON body'')
     | Some body \<Rightarrow> bnd (body_text body ''realm_id'' []) (\<lambda>t. let realm_id = lower t in
       bnd (body_text body ''display_name'' realm_id) (\<lambda>display_name.
       bnd (body_text body ''admin_email'' (''admin@'' @ realm_id @ ''.local'')) (\<lambda>admin_email.
       bnd (body_text body ''admin_user'' (realm_id @ ''-admin'')) (\<lambda>admin_user.
         create_tenant_checked (e_settings e) realm_id display_name admin_email admin_user))))) e w = (r, w'))"
    unfolding create_tenant_def run_bnd_settings by (rule pure_bnd_value [OF keeps_get_cdm_admin])
  then show thesis
    by (auto simp: run_simps Let_def split: if_splits option.splits dest!: p intro: that)
qed

section \<open>Properties\<close>

text \<open>Without an administrator of the \<open>cdm\<close> realm in the session, every handler of the admin portal
  answers its refusal (403, or a redirect to the login), sends no request and changes nothing.\<close>

theorem admin_portal_guarded:
  assumes "session_ok w" "\<not> is_cdm_admin w"
  shows "create_tenant b e w = (Inr unauthorized, w) \<and> delete_tenant rid e w = (Inr unauthorized, w) \<and>
    add_oidc_provisioner rid b e w = (Inr unauthorized, w) \<and>
    admin_dashboard e w = (Inr (RedirectResponse ''/api/portal/''), w)"
  using create_guard.refused [OF assms] delete_guard.refused [OF assms]
    provisioner_guard.refused [OF assms] dashboard_guard.refused [OF assms] by blast

text \<open>C30. The guard of the JOIN key endpoint lets a caller through only with an administrator's session or
  with a bearer token that Keycloak's userinfo endpoint of the realm \<open>cdm\<close> accepted and whose claims
  hold one of the two roles.\<close>

theorem require_cdm_admin_sound:
  assumes "require_cdm_admin a e w = (Inr u, w')" "session_ok w"
  shows "is_cdm_admin w \<and> w' = w \<or>
    (\<exists>token p claims roles rs. a = Some (''Bearer '' @ token) \<and>
       e_http e (w_trace w) (userinfo_get (e_settings e) token) = Answer p \<and> is_success p \<and>
       fst (token_claims token e w') = Inr claims \<and> fst (claim_roles claims e w') = Inr roles \<and>
       fst (set_of roles e w') = Inr rs \<and> has_role rs admin_roles)"
  using assms(1)
proof (cases rule: require_value)
  case session
  with assms(2) show ?thesis by (auto simp: guard_run split: if_splits)
next
  case (bearer token p claims roles rs)
  then show ?thesis by fastforce
qed

text \<open>C31. Creating a tenant touches one realm only, the one its body names: whatever the services answer, its
  requests log in, create that realm, or go below the path of that realm or to its broker objects; the
  realm is an identifier and is not one of the protected realms, and nothing is stored locally.\<close>

theorem create_tenant_scope:
  assumes "create_tenant b e w = (r, w')"
  shows "stores w' = stores w \<and> (\<exists>rs. w_trace w' = w_trace w @ rs \<and> (rs = [] \<or>
    (\<exists>body t. b = Some body \<and> fst (body_text body ''realm_id'' [] e w) = Inr t \<and> isidentifier (lower t) \<and>
       lower t \<notin> protected_realms \<and> list_all (about_tenant (e_settings e) (lower t)) rs)))"
  using assms
proof (cases rule: create_reaches)
  case (checked body t d m u)
  let ?rid = "lower t"
  obtain rs where rs: "w_trace w' = w_trace w @ rs"
    "list_all (\<lambda>r. isidentifier ?rid \<and> ?rid \<notin> protected_realms \<and> about_tenant (e_settings e) ?rid r) rs"
    using create_checked.new_requests [OF checked(3)] by blast
  then have "rs = [] \<or> (isidentifier ?rid \<and> ?rid \<notin> protected_realms \<and> list_all (about_tenant (e_settings e) ?rid) rs)"
    by (cases rs) (auto simp: list_all_iff)
  with rs create_checked.frame [OF checked(3)] checked(1,2) show ?thesis by blast
qed auto

text \<open>The protected realms \<open>master\<close> and \<open>cdm\<close>, spelt as they are, are never deleted: the request is refused
  before anything is sent.\<close>

theorem delete_protected_refused:
  assumes "rid = ''master'' \<or> rid = ''cdm''" "session_ok w"
  shows "snd (delete_tenant rid e w) = w \<and>
    (\<exists>status m. delete_tenant rid e w = (Inr (error_reply status m), w) \<and> status \<in> {400, 403})"
  using assms(1) guard_run [OF assms(2), of e]
  by (auto simp: delete_tenant_def run_simps bnd_value protected_realms_def unauthorized_def)

text \<open>C32. The check compares the decoded path segment with the names, but the segment is put into the URL as it
  is: for the id \<open>master?\<close> the realm is not protected, and once the admin token is obtained the handler sends
  a DELETE whose URL is that of the realm \<open>master\<close> with an empty query.\<close>

theorem delete_protection_bypass:
  assumes "session_ok w" "is_cdm_admin w"
    "e_http e (w_trace w) (admin_token_post (e_settings e)) = Answer p"
    "is_success p" "rs_json p = Some (JObj ps)" "dict_get ps ''access_token'' = Some (JStr t)"
  shows "\<exists>r\<in>set (w_trace (snd (delete_tenant ''master?'' e w))).
    rq_meth r = DELETE \<and> rq_url r = rq_url (realm_delete (e_settings e) ''master'' t) @ ''?''"
proof -
  let ?s = "e_settings e" and ?d = "realm_delete (e_settings e) ''master?'' t"
  have u: "truth (session_user w)"
    using assms(2) by (auto simp: is_cdm_admin_def truth_def)
  obtain w1 where tok: "kc_admin_token ?s e w = (Inr t, w1)"
    using assms(3-6) by (simp add: kc_admin_token_def bnd_def http_answer resp_json_def jindex_def run_simps
        str_of_def py_str_def)
  obtain r2 w2 where del: "kc_delete_realm ?s ''master?'' t e w1 = (r2, w2)" by fastforce
  then have d: "?d \<in> set (w_trace w2)"
    by (auto simp: kc_delete_realm_def realm_delete_def run_simps elim!: bnd_InlE bnd_InrE http_cases
        split: if_splits sum.splits) (cases r2; force elim!: bnd_InlE bnd_InrE http_cases simp: run_simps split: if_splits)
  have "\<exists>o1. delete_in_keycloak ?s ''master?'' e w = (Inr o1, w2)"
    using tok del by (cases r2) (auto simp: delete_in_keycloak_def try_except_def bnd_def run_simps)
  then obtain o1 where k: "delete_in_keycloak ?s ''master?'' e w = (Inr o1, w2)" by blast
  obtain r3 w3 where rm: "delete_in_rabbitmq ?s ''master?'' e w2 = (r3, w3)" by fastforce
  have "sends (\<lambda>_. True) (delete_in_rabbitmq ?s ''master?'')"
    unfolding delete_in_rabbitmq_def by (intro sends_rules sends_mono [OF rmq_remove.call_sends]) simp
  from sendsE [OF this rm] obtain qs where "w_trace w3 = w_trace w2 @ qs" by blast
  moreover have "snd (delete_tenant ''master?'' e w) = w3"
    using guard_run [OF assms(1), of e] assms(2) u k rm
    by (cases r3) (auto simp: delete_tenant_def run_simps bnd_def protected_realms_def split: prod.split)
  ultimately show ?thesis
    using d by (intro bexI [of _ ?d]) (auto simp: realm_delete_def kc_request_def realm_path_def)
qed

text \<open>The guard decodes the payload of a token with the plain Base64 alphabet: it reads the claims of a
  well-formed token exactly when their URL-safe text uses neither \<open>-\<close> nor \<open>_\<close>; otherwise two characters are
  skipped and something else, or nothing, is read.\<close>

theorem guard_reads_plain_payload_only:
  assumes "is_bytes bs"
  shows "b64decode (padded_segment (jwt_segment bs)) = Some bs \<longleftrightarrow>
    CHR ''-'' \<notin> set (jwt_segment bs) \<and> CHR ''_'' \<notin> set (jwt_segment bs)"
proof
  assume d: "b64decode (padded_segment (jwt_segment bs)) = Some bs"
  then show "CHR ''-'' \<notin> set (jwt_segment bs) \<and> CHR ''_'' \<notin> set (jwt_segment bs)"
    using b64decode_urlsafe_wrong by (auto simp: jwt_segment_body [OF assms] padded_segment_def simp del: set_map)
next
  assume "CHR ''-'' \<notin> set (jwt_segment bs) \<and> CHR ''_'' \<notin> set (jwt_segment bs)"
  moreover have "4 \<le> n mod 4 + (4 - n mod 4)" for n :: nat by (simp add: less_imp_le)
  ultimately show "b64decode (padded_segment (jwt_segment bs)) = Some bs"
    unfolding jwt_segment_body [OF assms] padded_segment_def length_map
    by (intro b64decode_plain_right [OF assms]) auto
qed

end
