(* ===== verification/Join.thy ===== *)
theory Join
  imports JoinKeys AdminPortal
begin

text \<open>
  \<open>app/routers/join.py\<close>: how a tenant joins the platform. In the handshake a single-use key
  authenticates the tenant, and everything is provisioned at once; in the older flow a request is
  submitted, then approved or rejected by an administrator, and polled. Approving waits for other
  services between its check and its commit, so it is written as these three phases.
\<close>

section \<open>Helpers\<close>

definition get_request :: "string \<Rightarrow> join_entry io" where
  "get_request tenant_id = bnd load_store (\<lambda>store. case dict_get store tenant_id of
       None \<Rightarrow> raise (HTTPException 404 (''No JOIN request found for tenant '' @ squoted tenant_id))
     | Some entry \<Rightarrow> ret entry)"

definition valid_tenant_id :: "string \<Rightarrow> bool" where
  "valid_tenant_id tenant_id \<longleftrightarrow> \<not> (\<not> isalnum (remove_char CHR ''-'' tenant_id) \<or> \<not> islower tenant_id)"

definition check_tenant_id :: "string \<Rightarrow> unit io" where
  "check_tenant_id tenant_id = (if \<not> valid_tenant_id tenant_id
     then raise (HTTPException 422 ''tenant_id must be lowercase alphanumeric with optional hyphens'') else ret ())"

definition federation_client_id :: "string \<Rightarrow> string" where
  "federation_client_id tenant_id = ''cdm-federation-'' @ tenant_id"

definition federation_redirects :: "string \<Rightarrow> string \<Rightarrow> string list" where
  "federation_redirects tenant_id tenant_keycloak_url = (if tenant_keycloak_url \<noteq> []
     then let broker_callback = rstrip_char CHR ''/'' tenant_keycloak_url @ ''/realms/'' @ tenant_id @
                ''/broker/cdm-provider/endpoint'' in [broker_callback, broker_callback @ ''/*'']
     else [''*''])"

definition federation_post :: "settings \<Rightarrow> string \<Rightarrow> string \<Rightarrow> string \<Rightarrow> string \<Rightarrow> request" where
  "federation_post s tenant_id tenant_keycloak_url token client_secret =
     \<lparr>rq_meth = POST, rq_url = rstrip_char CHR ''/'' (keycloak_url s) @ ''/admin/realms/cdm/clients'',
      rq_auth = Bearer token, rq_body = JsonBody (JObj
       [(''clientId'', JStr (federation_client_id tenant_id)),
        (''name'', JStr (''CDM Federation '' @ en_dash @ '' '' @ tenant_id)),
        (''description'', JStr ''OIDC client used by the Tenant Keycloak to federate against the CDM Provider.''),
        (''enabled'', JBool True), (''protocol'', JStr ''openid-connect''), (''publicClient'', JBool False),
        (''secret'', JStr client_secret),
        (''redirectUris'', JArr (map JStr (federation_redirects tenant_id tenant_keycloak_url))),
        (''webOrigins'', JArr [JStr ''+'']), (''standardFlowEnabled'', JBool True),
        (''implicitFlowEnabled'', JBool False), (''directAccessGrantsEnabled'', JBool False),
        (''serviceAccountsEnabled'', JBool False)]), rq_verify = False\<rparr>"

definition kc_create_federation_client :: "settings \<Rightarrow> string \<Rightarrow> string \<Rightarrow> string \<Rightarrow> (string \<times> string) io" where
  "kc_create_federation_client s tenant_id tenant_keycloak_url token = bnd random_password (\<lambda>client_secret.
     bnd (http (federation_post s tenant_id tenant_keycloak_url token client_secret)) (\<lambda>resp.
       if rs_status resp = 409 then ret (federation_client_id tenant_id, client_secret)
       else if \<not> is_success resp
       then raise (HTTPException 502 (''Keycloak federation client creation failed HTTP'' @ '' '' @
              dec_int (rs_status resp) @ '': '' @ take 300 (rs_text resp)))
       else ret (federation_client_id tenant_id, client_secret)))"

definition root_get :: "settings \<Rightarrow> request" where
  "root_get s = ca_request (rstrip_char CHR ''/'' (step_ca_url s)) False GET (''/1.0/root/'' @ step_ca_fingerprint s) NoAuth NoBody"

definition fetch_root_ca_cert :: "settings \<Rightarrow> string io" where
  "fetch_root_ca_cert s = (if step_ca_fingerprint s = [] then ret []
     else bnd (http (root_get s)) (\<lambda>resp. if \<not> is_success resp then ret []
       else bnd (resp_json resp) (\<lambda>j. bnd (jget j ''ca'' (JStr [])) str_of)))"

text \<open>\<open>_step_ca_client\<close>, which builds the client \<open>get_step_ca_client\<close> of \<open>deps.py\<close> builds.\<close>

definition join_step_ca_client :: "settings \<Rightarrow> step_ca_client" where
  "join_step_ca_client s = new_step_ca_client (step_ca_url s) (step_ca_provisioner_name s)
     (step_ca_provisioner_password s) (step_ca_fingerprint s) (step_ca_verify_tls s)"

lemma join_client_same: "join_step_ca_client s = get_step_ca_client s"
  by (simp add: join_step_ca_client_def get_step_ca_client_def)

section \<open>Provisioning\<close>

text \<open>
  The four steps that the handshake and the approval share. Each returns what it obtained and the
  message of the error it caught, if any; the other exceptions of a step pass through.
\<close>

definition sign_sub_ca :: "settings \<Rightarrow> string \<Rightarrow> string \<Rightarrow> ((json \<times> json) \<times> string option) io" where
  "sign_sub_ca s csr_pem tenant_id = try_except
     (bnd (sign_sub_ca_csr (step_ca_admin s) csr_pem tenant_id (step_ca_sub_ca_provisioner s)
            (step_ca_sub_ca_password s)) (\<lambda>(signed_cert, root_ca_cert).
       if \<not> truth root_ca_cert then bnd (fetch_root_ca_cert s) (\<lambda>root. ret ((signed_cert, JStr root), None))
       else ret ((signed_cert, root_ca_cert), None)))
     (\<lambda>exc. case exc of StepCAError m \<Rightarrow> ret ((JStr [], JStr []), Some m) | _ \<Rightarrow> raise exc)"

definition mqtt_user :: "string \<Rightarrow> string" where
  "mqtt_user tenant_id = tenant_id @ ''-mqtt-bridge''"

definition provision_broker :: "settings \<Rightarrow> string \<Rightarrow> string option io" where
  "provision_broker s tenant_id = try_except
     (thn (create_vhost (rabbitmq s) tenant_id)
     (thn (create_user (rabbitmq s) (mqtt_user tenant_id) [] ''none'')
     (thn (set_permissions (rabbitmq s) (mqtt_user tenant_id) tenant_id)
      (ret None))))
     (\<lambda>exc. ret (Some (exn_str exc)))"

definition sign_mqtt_bridge :: "settings \<Rightarrow> string \<Rightarrow> string \<Rightarrow> (json \<times> string option) io" where
  "sign_mqtt_bridge s csr_pem tenant_id = (if csr_pem = [] then ret (JStr [], None)
     else try_except
       (bnd (sign_certificate (join_step_ca_client s) csr_pem (mqtt_user tenant_id) [mqtt_user tenant_id])
          (\<lambda>((cert, _), _). ret (cert, None)))
       (\<lambda>exc. case exc of StepCAError m \<Rightarrow> ret (JStr [], Some m) | _ \<Rightarrow> raise exc))"

definition discovery_url :: "settings \<Rightarrow> string" where
  "discovery_url s = rstrip_char CHR ''/'' (external_url s) @ ''/auth/realms/cdm/.well-known/openid-configuration''"

definition federate :: "settings \<Rightarrow> string \<Rightarrow> string \<Rightarrow> ((string \<times> string) \<times> string option) io" where
  "federate s tenant_id tenant_keycloak_url = try_except
     (bnd (kc_admin_token s) (\<lambda>token.
      bnd (kc_create_federation_client s tenant_id tenant_keycloak_url token) (\<lambda>c. ret (c, None))))
     (\<lambda>exc. ret (([], []), Some (exn_str exc)))"

definition run_provisioning :: "string \<Rightarrow> string \<Rightarrow> join_handshake_payload \<Rightarrow> settings \<Rightarrow> join_handshake_response io" where
  "run_provisioning tenant_id display_name payload s =
     bnd (sign_sub_ca s (hp_sub_ca_csr payload) tenant_id) (\<lambda>((signed_cert, root_ca_cert), _).
     bnd (provision_broker s tenant_id) (\<lambda>_.
     bnd (sign_mqtt_bridge s (hp_mqtt_bridge_csr payload) tenant_id) (\<lambda>(mqtt_bridge_cert, _).
     bnd (federate s tenant_id (hp_keycloak_url payload)) (\<lambda>((client_id, client_secret), _).
     bnd (as_str signed_cert) (\<lambda>signed. bnd (as_str root_ca_cert) (\<lambda>root.
     bnd (as_opt_str (jor mqtt_bridge_cert JNull)) (\<lambda>mqtt.
       ret \<lparr>hr_tenant_id = tenant_id, hr_status = ''joined'', hr_signed_cert = signed, hr_root_ca_cert = root,
         hr_rabbitmq_url = Some (rabbitmq_mgmt_url s), hr_rabbitmq_vhost = Some tenant_id,
         hr_rabbitmq_user = Some (mqtt_user tenant_id), hr_mqtt_bridge_cert = mqtt,
         hr_cdm_idp_client_id = or_none client_id, hr_cdm_idp_client_secret = or_none client_secret,
         hr_cdm_discovery_url = Some (discovery_url s)\<rparr>)))))))"

section \<open>The handshake\<close>

text \<open>The argument \<open>authorization\<close> is the header \<open>Authorization\<close>, \<open>join_key\<close> the header \<open>X-Join-Key\<close>.\<close>

definition prepare_tenant :: "tenant_prepare_request \<Rightarrow> string option \<Rightarrow> tenant_prepare_response io" where
  "prepare_tenant body authorization = bnd (require_cdm_admin authorization) (\<lambda>_.
     thn (check_tenant_id (pq_tenant_id body))
    (bnd (create_key (pq_tenant_id body) (pq_display_name body)) (\<lambda>key. bnd now_utc (\<lambda>now.
       ret \<lparr>pr_tenant_id = pq_tenant_id body, pr_display_name = pq_display_name body, pr_join_key = key,
         pr_expires_at = isoformat (now + hours join_key_ttl_hours)\<rparr>))))"

definition authenticate_key :: "string \<Rightarrow> key_entry io" where
  "authenticate_key key = try_except (validate_and_consume key) (\<lambda>exc. case exc of
       KeyError _ \<Rightarrow> raise (HTTPException 401 ''Invalid JOIN key.'')
     | ValueError m \<Rightarrow> raise (HTTPException 401 m)
     | _ \<Rightarrow> raise exc)"

definition join_handshake :: "join_handshake_payload \<Rightarrow> string option \<Rightarrow> join_handshake_response io" where
  "join_handshake payload join_key =
     (let key = strip (case join_key of None \<Rightarrow> [] | Some k \<Rightarrow> k) in
      if key = [] then raise (HTTPException 401 ''X-Join-Key header is required.'')
      else bnd get_settings (\<lambda>s. bnd (authenticate_key key) (\<lambda>entry.
        run_provisioning (ke_tenant_id entry) (ke_display_name entry) payload s)))"

section \<open>The approval flow\<close>

definition new_join_entry :: "string \<Rightarrow> join_request_payload \<Rightarrow> instant \<Rightarrow> join_entry" where
  "new_join_entry tenant_id payload now =
     \<lparr>je_tenant_id = tenant_id, je_display_name = jp_display_name payload, je_sub_ca_csr = jp_sub_ca_csr payload,
      je_mqtt_bridge_csr = jp_mqtt_bridge_csr payload, je_wg_pubkey = jp_wg_pubkey payload,
      je_keycloak_url = jp_keycloak_url payload, je_status = Pending, je_requested_at = now,
      je_approved_at = None, je_rejected_at = None, je_rejected_reason = None, je_signed_cert = JNull,
      je_root_ca_cert = JNull, je_rabbitmq_url = None, je_rabbitmq_vhost = None, je_rabbitmq_user = None,
      je_mqtt_bridge_cert = JNull, je_cdm_idp_client_id = None, je_cdm_idp_client_secret = None,
      je_cdm_discovery_url = None, je_wg_server_pubkey = None, je_wg_server_endpoint = None,
      je_wg_client_ip = None\<rparr>"

definition submit_join_request :: "string \<Rightarrow> join_request_payload \<Rightarrow> reply io" where
  "submit_join_request tenant_id payload = thn (check_tenant_id tenant_id) (bnd load_store (\<lambda>store.
     if (case dict_get store tenant_id of None \<Rightarrow> False | Some entry \<Rightarrow> je_status entry = Approved)
     then raise (HTTPException 409 (''Tenant '' @ squoted tenant_id @ '' is already approved.''))
     else bnd now_utc (\<lambda>now.
       thn (save_store (dict_set tenant_id (new_join_entry tenant_id payload now) store))
        (ret (JSONResponse 202 (JObj [(''status'', JStr ''pending''), (''tenant_id'', JStr tenant_id),
          (''message'', JStr ''JOIN request received. Awaiting Provider Admin approval.''),
          (''poll_url'', JStr (''/portal/admin/tenants/'' @ tenant_id @ ''/join-status''))]))))))"

text \<open>The result of \<open>_get_cdm_admin(request)\<close> is discarded in the next three handlers, as in the source.\<close>

definition list_join_requests :: "reply io" where
  "list_join_requests = thn get_cdm_admin (bnd load_store (\<lambda>store.
     let entries = by_request_time store in
     ret (JSONResponse 200 (JObj [(''join_requests'', JArr (map entry_json entries)),
       (''total'', JInt (int (length entries)))]))))"

definition approve_check :: "string \<Rightarrow> join_entry io" where
  "approve_check tenant_id = bnd (get_request tenant_id) (\<lambda>entry.
     if je_status entry = Approved then raise (HTTPException 409 ''Already approved.'')
     else if je_status entry = Rejected
     then raise (HTTPException 409 ''Request was rejected. Reset it before approving.'')
     else ret entry)"

record provision_bundle =
  bn_signed_cert :: json
  bn_root_ca_cert :: json
  bn_mqtt_bridge_cert :: json
  bn_client_id :: string
  bn_client_secret :: string
  bn_results :: "(string \<times> string) list"
  bn_errors :: "(string \<times> string) list"

text \<open>The entry a step adds to \<open>results\<close> when it went well, and to \<open>errors\<close> when not.\<close>

definition ok_result :: "string \<Rightarrow> string \<Rightarrow> string option \<Rightarrow> (string \<times> string) list" where
  "ok_result k v err = (if err = None then [(k, v)] else [])"

definition err_result :: "string \<Rightarrow> string option \<Rightarrow> (string \<times> string) list" where
  "err_result k err = (case err of None \<Rightarrow> [] | Some m \<Rightarrow> [(k, m)])"

definition approve_provision :: "settings \<Rightarrow> string \<Rightarrow> join_entry \<Rightarrow> provision_bundle io" where
  "approve_provision s tenant_id entry =
     bnd (sign_sub_ca s (je_sub_ca_csr entry) tenant_id) (\<lambda>((signed_cert, root_ca_cert), e1).
     bnd (provision_broker s tenant_id) (\<lambda>e2.
     bnd (sign_mqtt_bridge s (je_mqtt_bridge_csr entry) tenant_id) (\<lambda>(mqtt_bridge_cert, e3).
     bnd (federate s tenant_id (je_keycloak_url entry)) (\<lambda>((client_id, client_secret), e4).
       ret \<lparr>bn_signed_cert = signed_cert, bn_root_ca_cert = root_ca_cert, bn_mqtt_bridge_cert = mqtt_bridge_cert,
         bn_client_id = client_id, bn_client_secret = client_secret,
         bn_results = ok_result ''step_ca'' ''signed'' e1 @ ok_result ''rabbitmq'' ''provisioned'' e2 @
           (if je_mqtt_bridge_csr entry = []
            then [(''mqtt_bridge_cert'', ''skipped (no mqtt_bridge_csr provided)'')]
            else ok_result ''mqtt_bridge_cert'' ''signed'' e3) @
           ok_result ''keycloak_federation'' ''client_created'' e4,
         bn_errors = err_result ''step_ca'' e1 @ err_result ''rabbitmq'' e2 @ err_result ''mqtt_bridge_cert'' e3 @
           err_result ''keycloak_federation'' e4\<rparr>))))"

definition approved_entry :: "settings \<Rightarrow> string \<Rightarrow> provision_bundle \<Rightarrow> instant \<Rightarrow> join_entry \<Rightarrow> join_entry" where
  "approved_entry s tenant_id b now entry = entry\<lparr>je_status := Approved, je_approved_at := Some now,
     je_signed_cert := bn_signed_cert b, je_root_ca_cert := bn_root_ca_cert b,
     je_rabbitmq_url := Some (rabbitmq_mgmt_url s), je_rabbitmq_vhost := Some tenant_id,
     je_rabbitmq_user := Some (mqtt_user tenant_id), je_mqtt_bridge_cert := bn_mqtt_bridge_cert b,
     je_cdm_idp_client_id := Some (bn_client_id b), je_cdm_idp_client_secret := Some (bn_client_secret b),
     je_cdm_discovery_url := Some (discovery_url s)\<rparr>"

definition approve_commit :: "settings \<Rightarrow> string \<Rightarrow> provision_bundle \<Rightarrow> reply io" where
  "approve_commit s tenant_id b = bnd load_store (\<lambda>store. case dict_get store tenant_id of
       None \<Rightarrow> raise (KeyError (repr_str tenant_id))
     | Some entry \<Rightarrow> bnd now_utc (\<lambda>now.
         thn (save_store (dict_set tenant_id (approved_entry s tenant_id b now entry) store))
          (ret (JSONResponse 200 (JObj [(''tenant_id'', JStr tenant_id), (''status'', JStr ''approved''),
            (''results'', str_dict (bn_results b)), (''errors'', str_dict (bn_errors b)),
            (''bundle'', JObj [(''signed_cert'', bn_signed_cert b), (''root_ca_cert'', bn_root_ca_cert b),
               (''rabbitmq_url'', JStr (rabbitmq_mgmt_url s)), (''rabbitmq_vhost'', JStr tenant_id),
               (''rabbitmq_user'', JStr (mqtt_user tenant_id)), (''mqtt_bridge_cert'', bn_mqtt_bridge_cert b),
               (''cdm_idp_client_id'', JStr (bn_client_id b)),
               (''cdm_idp_client_secret'', JStr (bn_client_secret b)),
               (''cdm_discovery_url'', JStr (discovery_url s))])])))))"

definition approve_join_request :: "string \<Rightarrow> reply io" where
  "approve_join_request tenant_id = thn get_cdm_admin (bnd get_settings (\<lambda>s.
     bnd (approve_check tenant_id) (\<lambda>entry. bnd (approve_provision s tenant_id entry) (\<lambda>b.
       approve_commit s tenant_id b))))"

definition rejected_entry :: "string \<Rightarrow> instant \<Rightarrow> join_entry \<Rightarrow> join_entry" where
  "rejected_entry reason now entry = entry\<lparr>je_status := Rejected, je_rejected_at := Some now,
     je_rejected_reason := Some (str_or reason ''Rejected by provider admin.'')\<rparr>"

definition reject_join_request :: "string \<Rightarrow> string \<Rightarrow> reply io" where
  "reject_join_request tenant_id reason = thn get_cdm_admin (bnd (get_request tenant_id) (\<lambda>entry.
     if je_status entry = Approved then raise (HTTPException 409 ''Cannot reject an already approved request.'')
     else bnd load_store (\<lambda>store. case dict_get store tenant_id of
         None \<Rightarrow> raise (KeyError (repr_str tenant_id))
       | Some entry \<Rightarrow> bnd now_utc (\<lambda>now.
           thn (save_store (dict_set tenant_id (rejected_entry reason now entry) store))
            (ret (JSONResponse 200 (JObj [(''tenant_id'', JStr tenant_id), (''status'', JStr ''rejected'')])))))))"

definition get_join_status :: "string \<Rightarrow> join_status_response io" where
  "get_join_status tenant_id = bnd (get_request tenant_id) (\<lambda>entry.
     bnd (as_opt_str (je_signed_cert entry)) (\<lambda>signed. bnd (as_opt_str (je_root_ca_cert entry)) (\<lambda>root.
     bnd (as_opt_str (je_mqtt_bridge_cert entry)) (\<lambda>mqtt.
       ret \<lparr>js_tenant_id = tenant_id, js_status = join_status_text (je_status entry), js_signed_cert = signed,
         js_root_ca_cert = root, js_rabbitmq_url = je_rabbitmq_url entry,
         js_rabbitmq_vhost = je_rabbitmq_vhost entry, js_rabbitmq_user = je_rabbitmq_user entry,
         js_mqtt_bridge_cert = mqtt, js_cdm_idp_client_id = je_cdm_idp_client_id entry,
         js_cdm_idp_client_secret = je_cdm_idp_client_secret entry,
         js_cdm_discovery_url = je_cdm_discovery_url entry, js_wg_server_pubkey = je_wg_server_pubkey entry,
         js_wg_server_endpoint = je_wg_server_endpoint entry, js_wg_client_ip = je_wg_client_ip entry,
         js_rejected_reason = je_rejected_reason entry\<rparr>))))"

section \<open>What provisioning sends\<close>

text \<open>
  A request that provisions the tenant \<open>t\<close> with these CSRs and this Keycloak, and no other tenant: the
  one-time tokens name \<open>t\<close>, or the MQTT user of \<open>t\<close>, as subject and as the only name, and carry the
  digest of the CSR they are sent with.
\<close>

definition join_kind :: "env \<Rightarrow> settings \<Rightarrow> string \<Rightarrow> string \<Rightarrow> string \<Rightarrow> string \<Rightarrow> request \<Rightarrow> bool" where
  "join_kind e s t csr mqtt_csr kc_url r \<longleftrightarrow>
     sign_kind e (step_ca_sub_ca_provisioner s) t [t] (sa_url (step_ca_admin s)) (step_ca_verify_tls s) csr r \<or>
     r = root_get s \<or> r \<in> set (tenant_requests (rabbitmq s) t (mqtt_user t) [] ''none'') \<or>
     sign_kind e (step_ca_provisioner_name s) (mqtt_user t) [mqtt_user t] (sc_url (join_step_ca_client s))
       (step_ca_verify_tls s) mqtt_csr r \<or>
     r = admin_token_post s \<or> (\<exists>token secret. r = federation_post s t kc_url token secret)"

lemma client_tls [simp]:
  "sa_verify_tls (step_ca_admin s) = step_ca_verify_tls s" "sc_verify_tls (join_step_ca_client s) = step_ca_verify_tls s"
  "sc_signing_key (join_step_ca_client s) = None" "sc_provisioner_name (join_step_ca_client s) = step_ca_provisioner_name s"
  by (simp_all add: step_ca_admin_def new_step_ca_admin_def join_step_ca_client_def new_step_ca_client_def)

interpretation j_root: service_call "fetch_root_ca_cert s" "\<lambda>r. r = root_get s" for s
  by (rule service_callI) (auto simp: fetch_root_ca_cert_def intro!: keeps_rules sends_rules)

interpretation j_sub: scoped_call "sign_sub_ca s csr t"
    "\<lambda>e r. sign_kind e (step_ca_sub_ca_provisioner s) t [t] (sa_url (step_ca_admin s)) (step_ca_verify_tls s) csr r \<or> r = root_get s"
  for s csr t
proof (rule scoped_callI)
  show "keeps stores (sign_sub_ca s csr t)" unfolding sign_sub_ca_def
    by (intro keeps_rules sca_sub.call_stores j_root.call_stores)
  fix e
  let ?K = "\<lambda>r. sign_kind e (step_ca_sub_ca_provisioner s) t [t] (sa_url (step_ca_admin s)) (step_ca_verify_tls s) csr r \<or> r = root_get s"
  have root: "sends_in e ?K (case a of (signed_cert, root_ca_cert) \<Rightarrow>
      if \<not> truth root_ca_cert then bnd (fetch_root_ca_cert s) (\<lambda>root. ret ((signed_cert, JStr root), None))
      else ret ((signed_cert, root_ca_cert), None))" for a :: "json \<times> json"
    by (rule sends_everywhere [where S = "\<lambda>r. r = root_get s"]) (intro sends_rules j_root.call_sends, simp)
  have err: "sends_in e ?K (case x of StepCAError m \<Rightarrow> ret ((JStr [], JStr []), Some m) | _ \<Rightarrow> raise x)" for x
    by (rule sends_in_nothing) (intro sends_rules)
  show "sends_in e ?K (sign_sub_ca s csr t)" unfolding sign_sub_ca_def
    by (intro sends_in_try err sends_in_bnd root sends_in_weaken [OF sca_sub.call_scope]) simp
qed

lemma broker_setup: "provision_broker s t = try_except (bnd (setup_tenant (rabbitmq s) t (mqtt_user t) []) (\<lambda>_. ret None))
    (\<lambda>exc. ret (Some (exn_str exc)))"
  by (simp add: provision_broker_def setup_tenant_def thn_def bnd_assoc)

interpretation j_broker: service_call "provision_broker s t"
    "\<lambda>r. r \<in> set (tenant_requests (rabbitmq s) t (mqtt_user t) [] ''none'')" for s t
  unfolding broker_setup
  by (rule service_callI) (auto intro!: keeps_rules sends_rules rmq_setup.call_stores rmq_setup.call_sends)

interpretation j_mqtt: scoped_call "sign_mqtt_bridge s csr t"
    "\<lambda>e. sign_kind e (step_ca_provisioner_name s) (mqtt_user t) [mqtt_user t] (sc_url (join_step_ca_client s)) (step_ca_verify_tls s) csr"
  for s csr t
proof (rule scoped_callI)
  show "keeps stores (sign_mqtt_bridge s csr t)" unfolding sign_mqtt_bridge_def
    by (intro keeps_rules sca_sign.call_stores)
  fix e
  let ?K = "sign_kind e (step_ca_provisioner_name s) (mqtt_user t) [mqtt_user t] (sc_url (join_step_ca_client s)) (step_ca_verify_tls s) csr"
  have sign: "sends_in e ?K (sign_certificate (join_step_ca_client s) csr (mqtt_user t) [mqtt_user t])"
    by (rule sends_in_weaken [OF sca_sign.call_scope]) simp
  have quiet: "sends_in e ?K (ret (JStr [], None) :: (json \<times> string option) io)"
    "\<And>a :: (json \<times> json) \<times> step_ca_client. sends_in e ?K ((\<lambda>((cert, _), _). ret (cert, None :: string option)) a)"
    "\<And>x. sends_in e ?K (case x of StepCAError m \<Rightarrow> ret (JStr [], Some m) | _ \<Rightarrow> raise x)"
    by (rule sends_in_nothing, intro sends_rules)+
  have "sends_in e ?K (try_except
       (bnd (sign_certificate (join_step_ca_client s) csr (mqtt_user t) [mqtt_user t]) (\<lambda>((cert, _), _). ret (cert, None)))
       (\<lambda>exc. case exc of StepCAError m \<Rightarrow> ret (JStr [], Some m) | _ \<Rightarrow> raise exc))"
    by (intro sends_in_try sends_in_bnd sign quiet)
  then show "sends_in e ?K (sign_mqtt_bridge s csr t)" using quiet(1) by (cases "csr = []") (simp_all add: sign_mqtt_bridge_def)
qed

interpretation j_federate: service_call "federate s t u"
    "\<lambda>r. r = admin_token_post s \<or> (\<exists>token secret. r = federation_post s t u token secret)" for s t u
proof (rule service_callI)
  show "keeps stores (federate s t u)" unfolding federate_def kc_create_federation_client_def
    by (intro keeps_rules kc_token.call_stores)
  show "sends (\<lambda>r. r = admin_token_post s \<or> (\<exists>token secret. r = federation_post s t u token secret)) (federate s t u)"
    unfolding federate_def kc_create_federation_client_def
    by (intro sends_rules sends_mono [OF kc_token.call_sends]) auto
qed

lemmas provision_stores = j_sub.call_stores j_broker.call_stores j_mqtt.call_stores j_federate.call_stores
lemmas provision_scopes = sends_in_weaken [OF j_sub.call_scope] sends_in_weaken [OF j_broker.call_scope]
  sends_in_weaken [OF j_mqtt.call_scope] sends_in_weaken [OF j_federate.call_scope]

text \<open>The four steps, whatever is made of their results, when nothing else is sent.\<close>

lemma provisioning_scope:
  assumes "\<And>a b c d. sends (\<lambda>_. False) (f a b c d)"
  shows "sends_in e (join_kind e s t csr mqtt_csr kc_url) (bnd (sign_sub_ca s csr t) (\<lambda>a. bnd (provision_broker s t) (\<lambda>b.
    bnd (sign_mqtt_bridge s mqtt_csr t) (\<lambda>c. bnd (federate s t kc_url) (\<lambda>d. f a b c d)))))"
  by (intro sends_in_bnd provision_scopes sends_in_nothing assms) (auto simp: join_kind_def)

interpretation j_run: scoped_call "run_provisioning t d p s"
    "\<lambda>e. join_kind e s t (hp_sub_ca_csr p) (hp_mqtt_bridge_csr p) (hp_keycloak_url p)" for t d p s
proof (rule scoped_callI)
  show "keeps stores (run_provisioning t d p s)" unfolding run_provisioning_def
    by (intro keeps_rules provision_stores)
  show "sends_in e (join_kind e s t (hp_sub_ca_csr p) (hp_mqtt_bridge_csr p) (hp_keycloak_url p)) (run_provisioning t d p s)" for e
    unfolding run_provisioning_def split_def by (rule provisioning_scope) (intro sends_rules)
qed

interpretation j_approve: scoped_call "approve_provision s t x"
    "\<lambda>e. join_kind e s t (je_sub_ca_csr x) (je_mqtt_bridge_csr x) (je_keycloak_url x)" for s t x
proof (rule scoped_callI)
  show "keeps stores (approve_provision s t x)" unfolding approve_provision_def
    by (intro keeps_rules provision_stores)
  show "sends_in e (join_kind e s t (je_sub_ca_csr x) (je_mqtt_bridge_csr x) (je_keycloak_url x)) (approve_provision s t x)" for e
    unfolding approve_provision_def split_def by (rule provisioning_scope) (intro sends_rules)
qed

section \<open>The handshake by cases\<close>

lemma authenticate_cases:
  assumes "authenticate_key k e w = (r, w')"
  obtains (refused) m where "r = Inl (HTTPException 401 m)" "w_trace w' = w_trace w"
      "but_keys w' = but_keys w" "\<forall>ent w2. validate_and_consume k e w \<noteq> (Inr ent, w2)"
  | (accepted) ent where "validate_and_consume k e w = (Inr ent, w')" "r = Inr ent"
proof -
  obtain r1 w1 where v: "validate_and_consume k e w = (r1, w1)" by fastforce
  have b: "but_keys w1 = but_keys w" using v by (rule keepsD [OF keeps_but_keys(2)])
  then have t: "w_trace w1 = w_trace w" by (drule_tac arg_cong [of _ _ w_trace]) (simp add: but_keys_def)
  show ?thesis
  proof (cases r1)
    case (Inr ent)
    with v assms show ?thesis by (intro that(2)) (auto simp: authenticate_key_def try_value)
  next
    case (Inl x)
    from v have "(\<exists>m. x = KeyError m) \<or> (\<exists>m. x = ValueError m)"
      by (cases rule: consume_cases) (auto simp: Inl not_open_error_def)
    then have "\<exists>m. r = Inl (HTTPException 401 m)" "w' = w1"
      using v assms Inl by (auto simp: authenticate_key_def try_exn run_simps)
    with v Inl b t show ?thesis by (auto intro: that(1))
  qed
qed

lemma handshake_cases:
  assumes "join_handshake p k e w = (r, w')"
  obtains (refused) m where "r = Inl (HTTPException 401 m)" "w_trace w' = w_trace w" "but_keys w' = but_keys w"
      "\<forall>ent w2. validate_and_consume (strip (case k of None \<Rightarrow> [] | Some x \<Rightarrow> x)) e w = (Inr ent, w2) \<longrightarrow>
         strip (case k of None \<Rightarrow> [] | Some x \<Rightarrow> x) = []"
  | (run) ent w1 where "strip (case k of None \<Rightarrow> [] | Some x \<Rightarrow> x) \<noteq> []"
      "validate_and_consume (strip (case k of None \<Rightarrow> [] | Some x \<Rightarrow> x)) e w = (Inr ent, w1)"
      "run_provisioning (ke_tenant_id ent) (ke_display_name ent) p (e_settings e) e w1 = (r, w')"
proof (cases "strip (case k of None \<Rightarrow> [] | Some x \<Rightarrow> x) = []")
  case True
  with assms show ?thesis by (intro that(1)) (auto simp: join_handshake_def run_simps)
next
  case False
  let ?k = "strip (case k of None \<Rightarrow> [] | Some x \<Rightarrow> x)"
  obtain r1 w1 where a: "authenticate_key ?k e w = (r1, w1)" by fastforce
  from a show ?thesis
  proof (cases rule: authenticate_cases)
    case (refused m)
    with a assms False show ?thesis by (intro that(1)) (auto simp: join_handshake_def run_simps bnd_raise Let_def)
  next
    case (accepted ent)
    with a assms False show ?thesis by (intro that(2)) (auto simp: join_handshake_def run_simps bnd_value Let_def)
  qed
qed

section \<open>The life of a JOIN request\<close>

definition status_of :: "world \<Rightarrow> string \<Rightarrow> join_status option" where
  "status_of w t = map_option je_status (dict_get (joins w) t)"

lemma get_request_run: "get_request t e w = (case dict_get (joins w) t of
    None \<Rightarrow> (Inl (HTTPException 404 (''No JOIN request found for tenant '' @ squoted t)), w)
  | Some entry \<Rightarrow> (Inr entry, w))"
  by (simp add: get_request_def join_file.load_bnd run_simps split: option.split)

lemma guard_ignored:
  assumes "thn get_cdm_admin m e w = (r, w')"
  shows "(\<exists>u. get_cdm_admin e w = (Inr u, w) \<and> m e w = (r, w')) \<or> (w' = w \<and> (\<exists>x. r = Inl x))"
proof -
  obtain r1 w1 where g: "get_cdm_admin e w = (r1, w1)" by fastforce
  have "w1 = w" using g by (rule pure_world [OF keeps_get_cdm_admin])
  with g assms show ?thesis by (cases r1) (auto simp: run_thn bnd_value bnd_raise)
qed

lemma submit_cases:
  assumes "submit_join_request t p e w = (r, w')"
  obtains (invalid) "\<not> valid_tenant_id t" "w' = w" "\<exists>m. r = Inl (HTTPException 422 m)"
  | (approved) "valid_tenant_id t" "status_of w t = Some Approved" "w' = w" "\<exists>m. r = Inl (HTTPException 409 m)"
  | (stored) "valid_tenant_id t" "status_of w t \<noteq> Some Approved" "\<exists>j. r = Inr (JSONResponse 202 j)"
      "w' = w\<lparr>w_ticks := Suc (w_ticks w), w_joins := Some (dict_set t (new_join_entry t p (e_now e (w_ticks w))) (joins w))\<rparr>"
proof (cases "valid_tenant_id t")
  case False
  with assms show ?thesis by (intro that(1)) (auto simp: submit_join_request_def check_tenant_id_def run_simps)
next
  case valid: True
  let ?appr = "case dict_get (joins w) t of None \<Rightarrow> False | Some entry \<Rightarrow> je_status entry = Approved"
  have appr: "?appr \<longleftrightarrow> status_of w t = Some Approved" by (auto simp: status_of_def split: option.split)
  show ?thesis
  proof (cases ?appr)
    case True
    with assms valid have "w' = w" "\<exists>m. r = Inl (HTTPException 409 m)"
      by (auto simp: submit_join_request_def check_tenant_id_def run_simps join_file.load_bnd)
    with True appr valid show ?thesis by (intro that(2)) auto
  next
    case False
    with assms valid have "\<exists>j. r = Inr (JSONResponse 202 j)"
      "w' = w\<lparr>w_ticks := Suc (w_ticks w), w_joins := Some (dict_set t (new_join_entry t p (e_now e (w_ticks w))) (joins w))\<rparr>"
      by (auto simp: submit_join_request_def check_tenant_id_def run_simps join_file.load_bnd join_file.save_thn save_store_def)
    with False appr valid show ?thesis by (intro that(3)) auto
  qed
qed

lemma commit_run: "approve_commit s t b e w = (case dict_get (joins w) t of
    None \<Rightarrow> (Inl (KeyError (repr_str t)), w)
  | Some entry \<Rightarrow> (fst (approve_commit s t b e w), w\<lparr>w_ticks := Suc (w_ticks w),
      w_joins := Some (dict_set t (approved_entry s t b (e_now e (w_ticks w)) entry) (joins w))\<rparr>))"
  by (simp add: approve_commit_def join_file.load_bnd join_file.save_thn run_simps save_store_def split: option.split)

lemma commit_reply: "dict_get (joins w) t = Some entry \<Longrightarrow> \<exists>j. fst (approve_commit s t b e w) = Inr (JSONResponse 200 j)"
  by (simp add: approve_commit_def join_file.load_bnd save_store_def run_simps)

lemma approve_cases:
  assumes "approve_join_request t e w = (r, w')"
  obtains (failed) x where "r = Inl x" "joins w' = joins w"
  | (approved) entry b w1 where "dict_get (joins w) t = Some entry" "je_status entry = Pending"
      "approve_provision (e_settings e) t entry e w = (Inr b, w1)" "\<exists>j. r = Inr (JSONResponse 200 j)"
      "w' = w1\<lparr>w_ticks := Suc (w_ticks w1),
         w_joins := Some (dict_set t (approved_entry (e_settings e) t b (e_now e (w_ticks w1)) entry) (joins w))\<rparr>"
  using guard_ignored [OF assms [unfolded approve_join_request_def]]
proof (elim disjE exE conjE)
  fix u
  let ?k = "\<lambda>entry. bnd (approve_provision (e_settings e) t entry) (approve_commit (e_settings e) t)"
  assume "bnd get_settings (\<lambda>s. bnd (approve_check t) (\<lambda>entry. bnd (approve_provision s t entry) (approve_commit s t))) e w = (r, w')"
  then have run: "bnd (approve_check t) ?k e w = (r, w')" by (simp add: run_bnd_settings)
  show thesis
  proof (cases "dict_get (joins w) t")
    case None
    with run show thesis by (intro that(1)) (auto simp: approve_check_def get_request_run bnd_def run_simps)
  next
    case (Some entry)
    show thesis
    proof (cases "je_status entry = Pending")
      case False
      with run Some show thesis
        by (cases "je_status entry") (auto simp: approve_check_def get_request_run bnd_def run_simps intro: that(1))
    next
      case True
      then have "approve_check t e w = (Inr entry, w)"
        using Some by (simp add: approve_check_def bnd_def get_request_run run_simps)
      with run have run: "?k entry e w = (r, w')" by (simp add: bnd_value)
      obtain r1 w1 where p: "approve_provision (e_settings e) t entry e w = (r1, w1)" by fastforce
      have j: "joins w1 = joins w" by (rule joins_stores) (rule j_approve.frame [OF p])
      show thesis
      proof (cases r1)
        case (Inl x)
        with run p j show thesis by (intro that(1)) (auto simp: bnd_raise)
      next
        case (Inr b)
        with run p have c: "approve_commit (e_settings e) t b e w1 = (r, w')" by (simp add: bnd_value)
        with Some j commit_run [of "e_settings e" t b e w1] commit_reply [of w1 t entry "e_settings e" b e]
        show thesis using p Inr True by (intro that(2)) auto
      qed
    qed
  qed
qed (auto intro: that(1))

lemma reject_cases:
  assumes "reject_join_request t reason e w = (r, w')"
  obtains (failed) x where "r = Inl x" "w' = w"
  | (rejected) entry where "dict_get (joins w) t = Some entry" "je_status entry \<noteq> Approved"
      "\<exists>j. r = Inr (JSONResponse 200 j)"
      "w' = w\<lparr>w_ticks := Suc (w_ticks w), w_joins := Some (dict_set t (rejected_entry reason (e_now e (w_ticks w)) entry) (joins w))\<rparr>"
  using guard_ignored [OF assms [unfolded reject_join_request_def]]
proof (elim disjE exE conjE)
  fix u
  let ?k = "\<lambda>entry. if je_status entry = Approved then raise (HTTPException 409 ''Cannot reject an already approved request.'')
     else bnd load_store (\<lambda>store. case dict_get store t of
         None \<Rightarrow> raise (KeyError (repr_str t))
       | Some entry \<Rightarrow> bnd now_utc (\<lambda>now.
           thn (save_store (dict_set t (rejected_entry reason now entry) store))
            (ret (JSONResponse 200 (JObj [(''tenant_id'', JStr t), (''status'', JStr ''rejected'')])))))"
  assume run: "bnd (get_request t) ?k e w = (r, w')"
  show thesis
  proof (cases "dict_get (joins w) t")
    case None
    with run show thesis by (intro that(1)) (auto simp: get_request_run bnd_def run_simps)
  next
    case (Some entry)
    then have "get_request t e w = (Inr entry, w)" by (simp add: get_request_run)
    with run have run: "?k entry e w = (r, w')" by (simp add: bnd_value)
    show thesis
    proof (cases "je_status entry = Approved")
      case True
      with run show thesis by (intro that(1)) (auto simp: run_simps)
    next
      case False
      with run Some show thesis
        by (intro that(2)) (auto simp: run_simps join_file.load_bnd join_file.save_thn save_store_def)
    qed
  qed
qed (auto intro: that(1))

lemma status_set:
  assumes "joins w' = dict_set t ent (joins w)"
  shows "status_of w' t' = (if t' = t then Some (je_status ent) else status_of w t')"
  using assms by (simp add: status_of_def)

end
