(* ===== verification/JoinHandshake.thy ===== *)
theory JoinHandshake
  imports Join
begin

text \<open>
  What the key-based handshake of \<open>routers/join.py\<close> guarantees: nothing happens without a valid key, a
  key that started a handshake never starts another one, everything that is requested concerns the
  tenant of the key, and the certificate that is handed out is one step-ca signed for that tenant.
\<close>

definition presented_key :: "string option \<Rightarrow> string" where
  "presented_key k = strip (case k of None \<Rightarrow> [] | Some x \<Rightarrow> x)"

lemma handshake_run:
  assumes "join_handshake p k e w = (r, w')"
  obtains (refused) m where "r = Inl (HTTPException 401 m)" "w_trace w' = w_trace w" "but_keys w' = but_keys w"
  | (run) ent w1 where "presented_key k \<noteq> []" "validate_and_consume (presented_key k) e w = (Inr ent, w1)"
      "run_provisioning (ke_tenant_id ent) (ke_display_name ent) p (e_settings e) e w1 = (r, w')"
  using assms by (cases rule: handshake_cases) (auto simp: presented_key_def)

lemma consume_keeps_rest:
  assumes "validate_and_consume k e w = (r, w')"
  shows "w_trace w' = w_trace w" "w_joins w' = w_joins w" "w_session w' = w_session w" "w_peers w' = w_peers w"
  using assms by (cases rule: consume_cases; simp)+

lemma consumed_is_used:
  assumes "validate_and_consume k e w = (Inr ent, w')"
  shows "key_status_at w' k = Some Used"
  using assms by (cases rule: consume_cases) (simp_all add: key_status_at_def)

lemma consumed_was_open:
  assumes "validate_and_consume k e w = (Inr ent, w')"
  obtains x where "dict_get (keys w) k = Some x" "ke_status x = Open" "ke_tenant_id x = ke_tenant_id ent"
    "e_now e (w_ticks w) \<le> ke_expires_at x"
  using assms by (cases rule: consume_cases) (simp_all add: that)

lemma authenticate_world:
  assumes "authenticate_key k e w = (r, w')"
  shows "w' = snd (validate_and_consume k e w)"
  using assms by (cases "validate_and_consume k e w")
    (auto simp: authenticate_key_def try_except_def run_simps split: sum.splits exn.splits)

lemma refused_keys:
  assumes "join_handshake p k e w = (Inl (HTTPException 401 m), w')"
    and no: "\<And>ent w2. validate_and_consume (presented_key k) e w \<noteq> (Inr ent, w2)" and k': "k' \<noteq> presented_key k"
  shows "dict_get (keys w') k' = dict_get (keys w) k'"
proof (cases "presented_key k = []")
  case True
  with assms(1) show ?thesis by (simp add: join_handshake_def presented_key_def run_simps)
next
  case False
  obtain r1 w1 where a: "authenticate_key (presented_key k) e w = (r1, w1)" by fastforce
  obtain r2 w2 where v: "validate_and_consume (presented_key k) e w = (r2, w2)" by fastforce
  from a no obtain x where "r1 = Inl x" by (cases rule: authenticate_cases) auto
  with False a assms(1) have "w' = w1"
    by (simp add: join_handshake_def presented_key_def run_simps bnd_raise Let_def)
  with authenticate_world [OF a] v consume_frame(1) [OF v k'] show ?thesis by simp
qed

lemma provisioning_keeps_key:
  assumes "run_provisioning t d p s e w = (r, w')"
  shows "key_status_at w' k = key_status_at w k"
  by (rule key_status_cong) (rule keepsD [OF j_run.keys_kept assms])

lemma closed_key_refused:
  assumes "key_status_at w (presented_key k) = Some s" "s \<noteq> Open"
  shows "\<exists>m. join_handshake p k e w = (Inl (HTTPException 401 m), w)"
proof (cases "presented_key k = []")
  case True
  then show ?thesis by (simp add: join_handshake_def presented_key_def run_simps)
next
  case False
  from assms obtain ent where "dict_get (keys w) (presented_key k) = Some ent" "ke_status ent = s"
    by (auto simp: key_status_at_def)
  then have "authenticate_key (presented_key k) e w = (Inl (HTTPException 401 (exn_str (not_open_error s))), w)"
    using assms(2) by (simp add: authenticate_key_def try_exn [OF consume_closed] not_open_error_def exn_str_def run_simps)
  with False show ?thesis
    by (auto simp: join_handshake_def presented_key_def run_simps bnd_raise Let_def)
qed

text \<open>A bundle holds the tenant that was provisioned, and the certificate that the first step returned.\<close>

lemma provisioning_value:
  assumes "run_provisioning t d p s e w = (Inr b, w')"
  obtains crt root err w1 where "sign_sub_ca s (hp_sub_ca_csr p) t e w = (Inr ((crt, root), err), w1)"
    "crt = JStr (hr_signed_cert b)" "hr_tenant_id b = t" "hr_rabbitmq_vhost b = Some t" "hr_rabbitmq_user b = Some (mqtt_user t)"
proof -
  from assms obtain a w1 where s: "sign_sub_ca s (hp_sub_ca_csr p) t e w = (Inr a, w1)"
    unfolding run_provisioning_def by (elim bnd_InrE)
  obtain crt root err where a: "a = ((crt, root), err)" by (metis prod.collapse)
  have "crt = JStr (hr_signed_cert b) \<and> hr_tenant_id b = t \<and> hr_rabbitmq_vhost b = Some t \<and> hr_rabbitmq_user b = Some (mqtt_user t)"
    by (rule bnd_returns [OF assms [unfolded run_provisioning_def] s, where P = "\<lambda>b. crt = JStr (hr_signed_cert b) \<and>
          hr_tenant_id b = t \<and> hr_rabbitmq_vhost b = Some t \<and> hr_rabbitmq_user b = Some (mqtt_user t)"])
      (unfold a prod.case, intro returns_rules returns_as_str, simp)
  with s a show ?thesis by (auto intro: that)
qed

section \<open>Properties\<close>

text \<open>C9. Whoever presents no key, an unknown key, or a used, revoked or expired one is refused with 401;
  no service is asked anything, and nothing is stored but the expiry of an expired key.\<close>

theorem handshake_needs_valid_key:
  assumes "\<forall>x. dict_get (keys w) (presented_key k) = Some x \<longrightarrow> ke_status x \<noteq> Open \<or> ke_expires_at x < e_now e (w_ticks w)"
  shows "\<exists>m w'. join_handshake p k e w = (Inl (HTTPException 401 m), w') \<and> w_trace w' = w_trace w \<and>
    but_keys w' = but_keys w \<and> (\<forall>k'. k' \<noteq> presented_key k \<longrightarrow> dict_get (keys w') k' = dict_get (keys w) k')"
proof -
  obtain r w' where h: "join_handshake p k e w = (r, w')" by fastforce
  have no: "validate_and_consume (presented_key k) e w \<noteq> (Inr ent, w3)" for ent w3
    using assms by (auto elim!: consumed_was_open)
  from h show ?thesis
  proof (cases rule: handshake_run)
    case (refused m)
    with h refused_keys [OF _ no] show ?thesis by blast
  qed (use no in blast)
qed

text \<open>C1. The key is burned before anything is provisioned: once a handshake has sent a request, its key is
  used, whatever the outcome, and every later handshake with it is refused without a request. Between the two,
  any operations on the keys may run but the creation of a key that draws this very one again.\<close>

theorem handshake_burns_key:
  assumes "join_handshake p k e w = (r, w1)" "w_trace w1 \<noteq> w_trace w" "(key_step e (presented_key k))\<^sup>*\<^sup>* w1 w2"
  shows "key_status_at w1 (presented_key k) = Some Used \<and>
    (\<exists>m. join_handshake p2 k e w2 = (Inl (HTTPException 401 m), w2))"
  using assms(1)
proof (cases rule: handshake_run)
  case (run ent w0)
  have u: "key_status_at w1 (presented_key k) = Some Used"
    using consumed_is_used [OF run(2)] provisioning_keeps_key [OF run(3)] by simp
  then have "key_status_at w2 (presented_key k) = Some Used"
    using steps_keep_closed [OF assms(3)] by (simp add: key_status_at_def)
  from u closed_key_refused [OF this] show ?thesis by simp
qed (use assms(2) in simp)

text \<open>C7. A handshake provisions the tenant of its key and no other. It is refused with 401 before any request,
  or the key was open and every request, whatever the result, is one of those that provision its tenant:
  the tokens of the two signing requests name that tenant, and its MQTT user, with the digests of the two
  CSRs of the payload, and the broker objects and the Keycloak client are those of that tenant. A bundle
  that is returned names that tenant, and apart from the key file nothing is stored.\<close>

theorem handshake_scope:
  assumes "join_handshake p k e w = (r, w')"
  shows "w_joins w' = w_joins w \<and> w_session w' = w_session w \<and> w_peers w' = w_peers w \<and>
    ((\<exists>m. r = Inl (HTTPException 401 m)) \<and> w_trace w' = w_trace w \<or>
     (\<exists>ent rs. dict_get (keys w) (presented_key k) = Some ent \<and> ke_status ent = Open \<and> w_trace w' = w_trace w @ rs \<and>
       list_all (join_kind e (e_settings e) (ke_tenant_id ent) (hp_sub_ca_csr p) (hp_mqtt_bridge_csr p) (hp_keycloak_url p)) rs \<and>
       (\<forall>b. r = Inr b \<longrightarrow> hr_tenant_id b = ke_tenant_id ent \<and> hr_rabbitmq_vhost b = Some (ke_tenant_id ent) \<and>
          hr_rabbitmq_user b = Some (mqtt_user (ke_tenant_id ent)))))"
  using assms
proof (cases rule: handshake_run)
  case (refused m)
  have "w_joins w' = w_joins w" "w_session w' = w_session w" "w_peers w' = w_peers w"
    using arg_cong [OF refused(3), of w_joins] arg_cong [OF refused(3), of w_session] arg_cong [OF refused(3), of w_peers]
    by (simp_all add: but_keys_def)
  with refused show ?thesis by auto
next
  case (run ent w1)
  let ?t = "ke_tenant_id ent"
  from j_run.new_requests [OF run(3)] obtain rs where rs: "w_trace w' = w_trace w1 @ rs"
    "list_all (join_kind e (e_settings e) ?t (hp_sub_ca_csr p) (hp_mqtt_bridge_csr p) (hp_keycloak_url p)) rs" by blast
  have b: "hr_tenant_id b = ?t \<and> hr_rabbitmq_vhost b = Some ?t \<and> hr_rabbitmq_user b = Some (mqtt_user ?t)" if "r = Inr b" for b
    using run(3) [unfolded that] by (rule provisioning_value) simp
  from run(2) obtain x where "dict_get (keys w) (presented_key k) = Some x" "ke_status x = Open"
    "ke_tenant_id x = ke_tenant_id ent" by (rule consumed_was_open)
  with rs b stores_fields [OF j_run.frame [OF run(3)]] consume_keeps_rest [OF run(2)] show ?thesis by auto
qed

text \<open>C8. The intermediate certificate in a bundle is genuine: it is empty, or step-ca returned it in an
  accepted answer to the CSR of the payload, under a token for the tenant of the key that carries the
  digest of that CSR.\<close>

theorem handshake_certificate:
  assumes "join_handshake p k e w = (Inr b, w')" "hr_signed_cert b \<noteq> []"
  shows "\<exists>hist ott q ps. e_http e hist (sign_post (sa_url (step_ca_admin (e_settings e))) (step_ca_verify_tls (e_settings e))
        (hp_sub_ca_csr p) ott) = Answer q \<and> is_success q \<and> rs_json q = Some (JObj ps) \<and>
      dict_get ps ''crt'' = Some (JStr (hr_signed_cert b)) \<and>
      ott_for e (step_ca_sub_ca_provisioner (e_settings e)) (hr_tenant_id b) (sa_url (step_ca_admin (e_settings e)))
        [hr_tenant_id b] (hp_sub_ca_csr p) ott"
  using assms(1)
proof (cases rule: handshake_run)
  case (run ent w1)
  let ?s = "e_settings e" and ?t = "ke_tenant_id ent"
  from run(3) obtain crt root err w2 where s: "sign_sub_ca ?s (hp_sub_ca_csr p) ?t e w1 = (Inr ((crt, root), err), w2)"
    and b: "crt = JStr (hr_signed_cert b)" "hr_tenant_id b = ?t" by (rule provisioning_value)
  from s obtain root2 w3 where "sign_sub_ca_csr (step_ca_admin ?s) (hp_sub_ca_csr p) ?t (step_ca_sub_ca_provisioner ?s)
      (step_ca_sub_ca_password ?s) e w1 = (Inr (crt, root2), w3)"
    using assms(2) b unfolding sign_sub_ca_def
    by (auto dest!: try_cases elim!: bnd_InrE simp: run_simps split: if_splits exn.splits prod.splits)
  then show ?thesis
    by (rule sign_sub_ca_value) (use b in auto)
qed simp

text \<open>Only errors that step-ca itself reports are caught: when it cannot be reached, the handshake ends with
  an unhandled error, and the key is used up all the same.\<close>

theorem unreachable_ca_costs_key:
  assumes "presented_key k \<noteq> []" "validate_and_consume (presented_key k) e w = (Inr ent, w1)"
    "e_http e (w_trace w) (provisioners_get (sa_url (step_ca_admin (e_settings e))) (step_ca_verify_tls (e_settings e))) = NetFailure m"
  shows "\<exists>w'. join_handshake p k e w = (Inl (RequestError m), w') \<and> key_status_at w' (presented_key k) = Some Used"
proof -
  let ?s = "e_settings e" and ?t = "ke_tenant_id ent"
  let ?r = "provisioners_get (sa_url (step_ca_admin ?s)) (step_ca_verify_tls ?s)"
  obtain w2 where h: "http ?r e w1 = (Inl (RequestError m), w2)"
    using assms(3) consume_keeps_rest(1) [OF assms(2)] http_net by metis
  have f: "fetch_provisioners (sa_url (step_ca_admin ?s)) (step_ca_verify_tls ?s) e w1 = (Inl (RequestError m), w2)"
    by (simp add: fetch_provisioners_def bnd_def h)
  have "sign_sub_ca_csr (step_ca_admin ?s) (hp_sub_ca_csr p) ?t (step_ca_sub_ca_provisioner ?s) (step_ca_sub_ca_password ?s) e w1
      = (Inl (RequestError m), w2)"
    unfolding sign_sub_ca_csr_def load_jwk_def by (simp add: bnd_def f)
  then have "sign_sub_ca ?s (hp_sub_ca_csr p) ?t e w1 = (Inl (RequestError m), w2)"
    by (simp add: sign_sub_ca_def try_except_def bnd_raise run_simps)
  then have r: "run_provisioning ?t (ke_display_name ent) p ?s e w1 = (Inl (RequestError m), w2)"
    unfolding run_provisioning_def by (rule bnd_raise)
  have "authenticate_key (presented_key k) e w = (Inr ent, w1)"
    by (simp add: authenticate_key_def try_value [where m = "validate_and_consume (presented_key k)", OF assms(2)])
  then have "join_handshake p k e w = (Inl (RequestError m), w2)"
    using assms(1) r by (simp add: join_handshake_def presented_key_def [symmetric] run_simps Let_def bnd_value)
  with consumed_is_used [OF assms(2)] provisioning_keeps_key [OF r] show ?thesis by simp
qed

end
