(* ===== verification/JoinFlow.thy ===== *)
theory JoinFlow
  imports Join
begin

text \<open>
  The approval flow of \<open>routers/join.py\<close> with its interleavings. A handler runs without interruption
  between two HTTP exchanges: the file operations are synchronous, and the locks of the stores are
  never contended, since nobody awaits while holding one. So submitting, rejecting and polling are
  single steps, and an approval is three: its check, its provisioning, and its commit, between which
  the other handlers run. The state is the world with the approvals that are in flight.
\<close>

section \<open>Steps\<close>

datatype approval = Provisioning string join_entry | Committing string provision_bundle

fun approval_tenant :: "approval \<Rightarrow> string" where
  "approval_tenant (Provisioning t _) = t"
| "approval_tenant (Committing t _) = t"

text \<open>The steps of an approval, and those of all handlers.\<close>

inductive approve_stage :: "env \<Rightarrow> world \<times> approval list \<Rightarrow> world \<times> approval list \<Rightarrow> bool" for e where
  start: "thn get_cdm_admin (approve_check t) e w = (Inr x, w') \<Longrightarrow> approve_stage e (w, as) (w', Provisioning t x # as)"
| provision: "Provisioning t x \<in> set as \<Longrightarrow> approve_provision (e_settings e) t x e w = (Inr b, w') \<Longrightarrow>
    approve_stage e (w, as) (w', Committing t b # remove1 (Provisioning t x) as)"
| fail: "Provisioning t x \<in> set as \<Longrightarrow> approve_provision (e_settings e) t x e w = (Inl y, w') \<Longrightarrow>
    approve_stage e (w, as) (w', remove1 (Provisioning t x) as)"
| commit: "Committing t b \<in> set as \<Longrightarrow> approve_commit (e_settings e) t b e w = (r, w') \<Longrightarrow>
    approve_stage e (w, as) (w', remove1 (Committing t b) as)"

inductive flow_step :: "env \<Rightarrow> world \<times> approval list \<Rightarrow> world \<times> approval list \<Rightarrow> bool" for e where
  submit: "submit_join_request t p e w = (r, w') \<Longrightarrow> flow_step e (w, as) (w', as)"
| reject: "reject_join_request t reason e w = (r, w') \<Longrightarrow> flow_step e (w, as) (w', as)"
| approval: "approve_stage e s s' \<Longrightarrow> flow_step e s s'"
| elsewhere: "joins w' = joins w \<Longrightarrow> flow_step e (w, as) (w', as)"

lemmas approval_steps = approve_stage.intros [THEN flow_step.approval]

section \<open>Invariant of the store\<close>

text \<open>
  Nothing of a bundle is in an entry that is not approved, an approved entry has the broker account of
  its own tenant, and a rejected one has a reason.
\<close>

definition no_bundle :: "join_entry \<Rightarrow> bool" where
  "no_bundle x \<longleftrightarrow> je_signed_cert x = JNull \<and> je_root_ca_cert x = JNull \<and> je_mqtt_bridge_cert x = JNull \<and>
     je_rabbitmq_url x = None \<and> je_rabbitmq_vhost x = None \<and> je_rabbitmq_user x = None \<and>
     je_cdm_idp_client_id x = None \<and> je_cdm_idp_client_secret x = None \<and> je_cdm_discovery_url x = None \<and>
     je_wg_server_pubkey x = None \<and> je_wg_server_endpoint x = None \<and> je_wg_client_ip x = None"

definition entry_ok :: "string \<Rightarrow> join_entry \<Rightarrow> bool" where
  "entry_ok t x \<longleftrightarrow> je_tenant_id x = t \<and>
     (je_status x \<noteq> Approved \<longrightarrow> no_bundle x \<and> je_approved_at x = None) \<and>
     (je_status x = Approved \<longrightarrow> je_approved_at x \<noteq> None \<and> je_rabbitmq_vhost x = Some t \<and>
        je_rabbitmq_user x = Some (mqtt_user t) \<and> je_cdm_idp_client_secret x \<noteq> None) \<and>
     (je_status x = Rejected \<longrightarrow> je_rejected_at x \<noteq> None \<and> (\<exists>m. je_rejected_reason x = Some m \<and> m \<noteq> []))"

definition joins_ok :: "world \<Rightarrow> bool" where
  "joins_ok w \<longleftrightarrow> dict_wf (joins w) \<and> (\<forall>t x. dict_get (joins w) t = Some x \<longrightarrow> entry_ok t x)"

definition flow_ok :: "world \<times> approval list \<Rightarrow> bool" where
  "flow_ok s \<longleftrightarrow> joins_ok (fst s) \<and> (\<forall>a\<in>set (snd s). dict_get (joins (fst s)) (approval_tenant a) \<noteq> None)"

lemma joins_ok_set: "joins_ok w \<Longrightarrow> entry_ok t x \<Longrightarrow> joins w' = dict_set t x (joins w) \<Longrightarrow> joins_ok w'"
  by (auto simp: joins_ok_def)

lemma joins_ok_cong: "joins w' = joins w \<Longrightarrow> joins_ok w \<Longrightarrow> joins_ok w'"
  by (simp add: joins_ok_def)

lemma new_entry_ok: "entry_ok t (new_join_entry t p now)"
  by (simp add: entry_ok_def no_bundle_def new_join_entry_def)

lemma approved_entry_ok: "entry_ok t x \<Longrightarrow> entry_ok t (approved_entry s t b now x)"
  by (simp add: entry_ok_def approved_entry_def)

lemma rejected_entry_ok: "entry_ok t x \<Longrightarrow> je_status x \<noteq> Approved \<Longrightarrow> entry_ok t (rejected_entry m now x)"
  by (simp add: entry_ok_def no_bundle_def rejected_entry_def str_or_def)

lemma check_run:
  assumes "thn get_cdm_admin (approve_check t) e w = (Inr x, w')"
  shows "w' = w \<and> dict_get (joins w) t = Some x \<and> je_status x = Pending"
proof -
  from assms obtain u where "approve_check t e w = (Inr x, w')"
    using guard_ignored [OF assms] by auto
  then show ?thesis
    by (cases "dict_get (joins w) t"; cases "je_status (the (dict_get (joins w) t))")
      (auto simp: approve_check_def bnd_def get_request_run run_simps)
qed

text \<open>What a step does to the store: nothing, or one of the three updates of one entry.\<close>

lemma flow_cases:
  assumes "flow_step e (w, as) (w', as')"
  obtains (same) "joins w' = joins w" "\<forall>a\<in>set as'. dict_get (joins w) (approval_tenant a) \<noteq> None \<or> approval_tenant a \<in> approval_tenant ` set as"
  | (new) t p now where "joins w' = dict_set t (new_join_entry t p now) (joins w)" "status_of w t \<noteq> Some Approved" "as' = as"
  | (approved) t b now x where "dict_get (joins w) t = Some x" "set as' \<subseteq> set as"
      "joins w' = dict_set t (approved_entry (e_settings e) t b now x) (joins w)"
  | (rejected) t m now x where "dict_get (joins w) t = Some x" "je_status x \<noteq> Approved" "as' = as"
      "joins w' = dict_set t (rejected_entry m now x) (joins w)"
  using assms
proof (cases rule: flow_step.cases)
  case (submit t p r)
  from submit(2) show ?thesis
    by (cases rule: submit_cases) (use submit(1) in \<open>auto intro: same new\<close>)
next
  case (reject t m r)
  from reject(2) show ?thesis
    by (cases rule: reject_cases) (use reject(1) in \<open>auto intro: same rejected\<close>)
next
  case approval
  from approval(1) show ?thesis
  proof (cases rule: approve_stage.cases)
    case (start t x)
    with check_run [OF start(2)] show ?thesis by (intro same) auto
  next
    case (provision t x b)
    have "joins w' = joins w" by (rule joins_stores) (rule j_approve.frame [OF provision(3)])
    with provision show ?thesis
      by (intro same) (auto dest: notin_set_remove1 set_mp [OF set_remove1_subset] intro: rev_image_eqI)
  next
    case (fail t x y)
    have "joins w' = joins w" by (rule joins_stores) (rule j_approve.frame [OF fail(3)])
    with fail show ?thesis by (intro same) (auto dest: set_mp [OF set_remove1_subset])
  next
    case (commit t b r)
    have sub: "set as' \<subseteq> set as" using commit(1) by (simp add: set_remove1_subset)
    show ?thesis
    proof (cases "dict_get (joins w) t")
      case None
      with commit(3) commit_run [of "e_settings e" t b e w] sub show ?thesis by (intro same) auto
    next
      case (Some x)
      with commit(3) commit_run [of "e_settings e" t b e w] show ?thesis by (intro approved [OF Some sub]) auto
    qed
  qed
next
  case elsewhere
  then show ?thesis by (intro same) auto
qed

lemma flow_step_ok:
  assumes "flow_step e s s'" "flow_ok s"
  shows "flow_ok s'"
proof -
  obtain w as w' as' where s: "s = (w, as)" "s' = (w', as')" by fastforce
  from assms have step: "flow_step e (w, as) (w', as')" and ok: "joins_ok w"
    and live: "\<And>a. a \<in> set as \<Longrightarrow> dict_get (joins w) (approval_tenant a) \<noteq> None"
    by (auto simp: s flow_ok_def)
  have entry: "dict_get (joins w) t = Some x \<Longrightarrow> entry_ok t x" for t x using ok by (simp add: joins_ok_def)
  from step show ?thesis
  proof (cases rule: flow_cases)
    case same
    with ok live show ?thesis by (force simp: s flow_ok_def joins_ok_cong)
  next
    case (new t p now)
    from joins_ok_set [OF ok new_entry_ok new(1)] new live show ?thesis by (auto simp: s flow_ok_def)
  next
    case (approved t b now x)
    from joins_ok_set [OF ok approved_entry_ok [OF entry [OF approved(1)]] approved(3)] approved live
    show ?thesis by (auto simp: s flow_ok_def)
  next
    case (rejected t m now x)
    from joins_ok_set [OF ok rejected_entry_ok [OF entry [OF rejected(1)] rejected(2)] rejected(4)] rejected live
    show ?thesis by (auto simp: s flow_ok_def)
  qed
qed

lemma flow_reach_ok: "(flow_step e)\<^sup>*\<^sup>* s s' \<Longrightarrow> flow_ok s \<Longrightarrow> flow_ok s'"
  by (induction rule: rtranclp_induct) (auto intro: flow_step_ok)

lemma flow_status:
  assumes "flow_step e (w, as) (w', as')" "status_of w t = Some Approved"
  shows "status_of w' t = Some Approved"
  using assms(1)
proof (cases rule: flow_cases)
  case same
  with assms(2) show ?thesis by (simp add: status_of_def)
next
  case (new t' p now)
  with assms(2) show ?thesis by (auto simp: status_set [OF new(1)])
next
  case (approved t' b now x)
  with assms(2) show ?thesis by (auto simp: status_set [OF approved(3)] approved_entry_def)
next
  case (rejected t' m now x)
  with assms(2) show ?thesis by (auto simp: status_set [OF rejected(4)] status_of_def)
qed

section \<open>An approval as a whole\<close>

lemma broker_never_raises: "\<exists>x w'. provision_broker s t e w = (Inr x, w')"
  by (auto simp: provision_broker_def try_except_def run_simps split: prod.split sum.split)

lemma federate_never_raises: "\<exists>x w'. federate s t u e w = (Inr x, w')"
  by (auto simp: federate_def try_except_def run_simps split: prod.split sum.split)

text \<open>
  Once the intermediate certificate is signed, only the signing of the bridge certificate can stop an
  approval; without a bridge CSR nothing can.
\<close>

lemma provision_run:
  assumes "sign_sub_ca s (je_sub_ca_csr x) t e w = (Inr ((crt, root), err), w1)" "provision_broker s t e w1 = (Inr e2, w2)"
  shows "sign_mqtt_bridge s (je_mqtt_bridge_csr x) t e w2 = (Inl exc, w3) \<Longrightarrow> approve_provision s t x e w = (Inl exc, w3)"
    "sign_mqtt_bridge s (je_mqtt_bridge_csr x) t e w2 = (Inr (bridge, e3), w3) \<Longrightarrow> \<exists>b w4. approve_provision s t x e w = (Inr b, w4) \<and>
       bn_signed_cert b = crt \<and> bn_root_ca_cert b = root \<and> bn_mqtt_bridge_cert b = bridge"
proof -
  note run = approve_provision_def bnd_value [where m = "sign_sub_ca s (je_sub_ca_csr x) t", OF assms(1)]
    bnd_value [where m = "provision_broker s t", OF assms(2)]
  show "approve_provision s t x e w = (Inl exc, w3)" if "sign_mqtt_bridge s (je_mqtt_bridge_csr x) t e w2 = (Inl exc, w3)"
    by (simp add: run bnd_raise [where m = "sign_mqtt_bridge s (je_mqtt_bridge_csr x) t", OF that])
  show "\<exists>b w4. approve_provision s t x e w = (Inr b, w4) \<and> bn_signed_cert b = crt \<and> bn_root_ca_cert b = root \<and>
      bn_mqtt_bridge_cert b = bridge" if m: "sign_mqtt_bridge s (je_mqtt_bridge_csr x) t e w2 = (Inr (bridge, e3), w3)"
  proof -
    obtain i sec e4 w4 where f: "federate s t (je_keycloak_url x) e w3 = (Inr ((i, sec), e4), w4)"
      using federate_never_raises by (metis prod.collapse)
    show ?thesis
      by (simp add: run bnd_value [where m = "sign_mqtt_bridge s (je_mqtt_bridge_csr x) t", OF m]
          bnd_value [where m = "federate s t (je_keycloak_url x)", OF f] run_simps)
  qed
qed

lemma bridge_skipped: "sign_mqtt_bridge s [] t = ret (JStr [], None)"
  by (simp add: sign_mqtt_bridge_def)

lemma bridge_error: "sign_mqtt_bridge s csr t e w = (Inl exc, w') \<Longrightarrow> exc \<noteq> StepCAError m"
  by (auto simp: sign_mqtt_bridge_def run_simps split: if_splits exn.splits dest!: try_cases)

lemma provision_without_bridge:
  assumes "sign_sub_ca s (je_sub_ca_csr x) t e w = (Inr ((crt, root), err), w1)" "je_mqtt_bridge_csr x = []"
  obtains b w2 where "approve_provision s t x e w = (Inr b, w2)" "bn_signed_cert b = crt" "bn_root_ca_cert b = root"
    "bn_mqtt_bridge_cert b = JStr []"
proof -
  obtain e2 w2 where b: "provision_broker s t e w1 = (Inr e2, w2)" using broker_never_raises by blast
  have m: "sign_mqtt_bridge s (je_mqtt_bridge_csr x) t e w2 = (Inr (JStr [], None), w2)"
    by (simp add: assms(2) bridge_skipped run_simps)
  from provision_run(2) [OF assms(1) b m] show ?thesis using that by blast
qed

lemma approval_reaches:
  assumes "session_ok w" "dict_get (joins w) t = Some x" "je_status x = Pending"
  shows "approve_join_request t e w = bnd (approve_provision (e_settings e) t x) (approve_commit (e_settings e) t) e w"
proof -
  have "approve_check t e w = (Inr x, w)"
    using assms(2,3) by (simp add: approve_check_def bnd_def get_request_run run_simps)
  then show ?thesis
    by (simp add: approve_join_request_def run_thn run_bnd_settings bnd_value [where m = get_cdm_admin, OF guard_run [OF assms(1)]]
        bnd_value [where m = "approve_check t"])
qed

lemma approval_run:
  assumes "session_ok w" "dict_get (joins w) t = Some x" "je_status x = Pending"
    "approve_provision (e_settings e) t x e w = (Inr b, w1)"
  obtains j where "approve_join_request t e w = (Inr (JSONResponse 200 j), w1\<lparr>w_ticks := Suc (w_ticks w1),
    w_joins := Some (dict_set t (approved_entry (e_settings e) t b (e_now e (w_ticks w1)) x) (joins w))\<rparr>)"
proof -
  have j: "joins w1 = joins w" by (rule joins_stores) (rule j_approve.frame [OF assms(4)])
  obtain k where k: "fst (approve_commit (e_settings e) t b e w1) = Inr (JSONResponse 200 k)"
    using commit_reply assms(2) j by metis
  have "approve_join_request t e w = approve_commit (e_settings e) t b e w1"
    by (simp add: approval_reaches [OF assms(1-3)] bnd_value [where m = "approve_provision (e_settings e) t x", OF assms(4)])
  with commit_run [of "e_settings e" t b e w1] assms(2) j k that show ?thesis by simp
qed

text \<open>An approved request is refused by all three handlers that could change it.\<close>

lemma approved_refused:
  assumes "status_of w t = Some Approved" "session_ok w"
  shows "valid_tenant_id t \<Longrightarrow> \<exists>m. submit_join_request t p e w = (Inl (HTTPException 409 m), w)"
    "\<exists>m. approve_join_request t e w = (Inl (HTTPException 409 m), w)"
    "\<exists>m. reject_join_request t reason e w = (Inl (HTTPException 409 m), w)"
proof -
  obtain y where y: "dict_get (joins w) t = Some y" "je_status y = Approved" using assms(1) by (auto simp: status_of_def)
  note g = bnd_value [where m = get_cdm_admin, OF guard_run [OF assms(2)]]
  have r: "get_request t e w = (Inr y, w)" using y(1) by (simp add: get_request_run)
  show "valid_tenant_id t \<Longrightarrow> \<exists>m. submit_join_request t p e w = (Inl (HTTPException 409 m), w)"
    using y by (simp add: submit_join_request_def check_tenant_id_def run_simps join_file.load_bnd)
  show "\<exists>m. approve_join_request t e w = (Inl (HTTPException 409 m), w)"
    using y(2) by (simp add: approve_join_request_def approve_check_def run_thn g run_bnd_settings bnd_assoc
        bnd_value [where m = "get_request t", OF r] run_simps)
  show "\<exists>m. reject_join_request t reason e w = (Inl (HTTPException 409 m), w)"
    using y(2) by (simp add: reject_join_request_def run_thn g bnd_value [where m = "get_request t", OF r] run_simps)
qed

text \<open>An approval that is not interrupted is a run of the flow.\<close>

lemma approval_is_flow:
  assumes "approve_join_request t e w = (Inr r, w')"
  shows "(flow_step e)\<^sup>*\<^sup>* (w, as) (w', as)"
proof -
  let ?s = "e_settings e"
  from guard_ignored [OF assms [unfolded approve_join_request_def]] obtain u where
    g: "get_cdm_admin e w = (Inr u, w)" and
    m: "bnd get_settings (\<lambda>s. bnd (approve_check t) (\<lambda>x. bnd (approve_provision s t x) (approve_commit s t))) e w = (Inr r, w')"
    by auto
  from m have "bnd (approve_check t) (\<lambda>x. bnd (approve_provision ?s t x) (approve_commit ?s t)) e w = (Inr r, w')"
    by (simp add: run_bnd_settings)
  then obtain x w1 b w2 where c: "approve_check t e w = (Inr x, w1)" and p: "approve_provision ?s t x e w1 = (Inr b, w2)"
    and k: "approve_commit ?s t b e w2 = (Inr r, w')" by (elim bnd_InrE)
  have "thn get_cdm_admin (approve_check t) e w = (Inr x, w1)" by (simp add: run_thn bnd_value [where m = get_cdm_admin, OF g] c)
  from approval_steps(1) [OF this, of as] approval_steps(2) [OF _ p, of "Provisioning t x # as"]
    approval_steps(4) [OF _ k, of "Committing t b # as"]
  show ?thesis by (simp add: rtranclp.rtrancl_refl converse_rtranclp_into_rtranclp)
qed

text \<open>An approved entry that no approval in flight is going to overwrite stays as it is.\<close>

lemma flow_tenants:
  assumes "flow_step e (w, as) (w', as')" "t \<in> approval_tenant ` set as'" "t \<notin> approval_tenant ` set as"
  shows "status_of w t = Some Pending"
  using assms(1)
proof (cases rule: flow_step.cases)
  case approval
  from approval(1) show ?thesis
  proof (cases rule: approve_stage.cases)
    case (start t' x)
    with check_run [OF start(2)] assms(2,3) show ?thesis by (auto simp: status_of_def)
  next
    case (provision t' x b)
    with assms(2,3) show ?thesis by (force dest: set_mp [OF set_remove1_subset])
  next
    case (fail t' x y)
    with assms(2,3) show ?thesis by (force dest: set_mp [OF set_remove1_subset])
  next
    case (commit t' b r)
    with assms(2,3) show ?thesis by (force dest: set_mp [OF set_remove1_subset])
  qed
qed (use assms(2,3) in auto)

lemma frozen_step:
  assumes "flow_step e (w, as) (w', as')" "dict_get (joins w) t = Some y" "je_status y = Approved"
    "t \<notin> approval_tenant ` set as"
  shows "dict_get (joins w') t = Some y \<and> t \<notin> approval_tenant ` set as'"
proof
  show "t \<notin> approval_tenant ` set as'" using flow_tenants [OF assms(1) _ assms(4)] assms(2,3) by (auto simp: status_of_def)
  from assms(1) show "dict_get (joins w') t = Some y"
  proof (cases rule: flow_step.cases)
    case (submit t' p r)
    from submit(2) assms(2,3) show ?thesis by (cases rule: submit_cases) (auto simp: status_of_def)
  next
    case (reject t' m r)
    from reject(2) assms(2,3) show ?thesis by (cases rule: reject_cases) auto
  next
    case approval
    from approval(1) show ?thesis
    proof (cases rule: approve_stage.cases)
      case (start t' x)
      with check_run [OF start(2)] assms(2) show ?thesis by simp
    next
      case (provision t' x b)
      have "joins w' = joins w" by (rule joins_stores) (rule j_approve.frame [OF provision(3)])
      with assms(2) show ?thesis by simp
    next
      case (fail t' x z)
      have "joins w' = joins w" by (rule joins_stores) (rule j_approve.frame [OF fail(3)])
      with assms(2) show ?thesis by simp
    next
      case (commit t' b r)
      then have "t' \<noteq> t" using assms(4) by force
      with commit(3) commit_run [of "e_settings e" t' b e w] assms(2) show ?thesis
        by (cases "dict_get (joins w) t'"; cases "approve_commit (e_settings e) t' b e w") auto
    qed
  next
    case elsewhere
    with assms(2) show ?thesis by simp
  qed
qed

lemma frozen:
  assumes "(flow_step e)\<^sup>*\<^sup>* (w, as) (w', as')" "dict_get (joins w) t = Some y" "je_status y = Approved"
    "t \<notin> approval_tenant ` set as"
  shows "dict_get (joins w') t = Some y"
proof -
  have "dict_get (joins w') t = Some y \<and> t \<notin> approval_tenant ` set as'"
    using assms
  proof (induction "(w, as)" "(w', as')" arbitrary: w' as' rule: rtranclp.induct)
    case (rtrancl_into_rtrancl s)
    then show ?case by (cases s) (auto dest: frozen_step [OF _ _ assms(3)])
  qed simp
  then show ?thesis ..
qed

section \<open>The life cycle of a request\<close>

text \<open>
  What the handlers, however they interleave, can do to a tenant: its state is the status of its request,
  if there is one, and the number of its approvals in flight. An approval begins only while the request
  is pending; what it finds when it ends, it overwrites.
\<close>

inductive life_step :: "join_status option \<times> nat \<Rightarrow> join_status option \<times> nat \<Rightarrow> bool" where
  submitted: "s \<noteq> Some Approved \<Longrightarrow> life_step (s, n) (Some Pending, n)"
| rejected: "s = Some Pending \<or> s = Some Rejected \<Longrightarrow> life_step (s, n) (Some Rejected, n)"
| begun: "life_step (Some Pending, n) (Some Pending, Suc n)"
| failed: "life_step (s, Suc n) (s, n)"
| approved: "life_step (Some s, Suc n) (Some Approved, n)"

inductive_simps life_step_simps: "life_step (s, n) (s', n')"

definition in_flight :: "string \<Rightarrow> approval list \<Rightarrow> nat" where
  "in_flight t as = length (filter (\<lambda>a. approval_tenant a = t) as)"

definition life :: "string \<Rightarrow> world \<times> approval list \<Rightarrow> join_status option \<times> nat" where
  "life t s = (status_of (fst s) t, in_flight t (snd s))"

lemma in_flight_simps [simp]:
  "in_flight t [] = 0" "in_flight t (a # as) = (if approval_tenant a = t then Suc (in_flight t as) else in_flight t as)"
  by (simp_all add: in_flight_def)

lemma in_flight_remove:
  "a \<in> set as \<Longrightarrow> in_flight t as = (if approval_tenant a = t then Suc (in_flight t (remove1 a as)) else in_flight t (remove1 a as))"
  by (induction as) (auto simp: in_flight_def)

lemma stage_life:
  assumes "approve_stage e s s'"
  shows "life t s' = life t s \<or> life_step (life t s) (life t s')"
  using assms
proof (cases rule: approve_stage.cases)
  case (start t' w x w' as)
  with check_run [OF start(3)] show ?thesis by (auto simp: life_def status_of_def intro: life_step.begun)
next
  case (provision t' x as w b w')
  have "joins w' = joins w" by (rule joins_stores) (rule j_approve.frame [OF provision(4)])
  with provision in_flight_remove [OF provision(3), of t] show ?thesis by (auto simp: life_def status_of_def)
next
  case (fail t' x as w y w')
  have "joins w' = joins w" by (rule joins_stores) (rule j_approve.frame [OF fail(4)])
  with fail in_flight_remove [OF fail(3), of t] show ?thesis by (auto simp: life_def status_of_def intro: life_step.failed)
next
  case (commit t' b as w r w')
  have n: "in_flight t as = (if t' = t then Suc (in_flight t (remove1 (Committing t' b) as)) else in_flight t (remove1 (Committing t' b) as))"
    using in_flight_remove [OF commit(3), of t] by simp
  show ?thesis
  proof (cases "dict_get (joins w) t'")
    case None
    with commit commit_run [of "e_settings e" t' b e w] n show ?thesis
      by (auto simp: life_def status_of_def intro: life_step.failed)
  next
    case (Some x)
    with commit commit_run [of "e_settings e" t' b e w] have
      "joins w' = dict_set t' (approved_entry (e_settings e) t' b (e_now e (w_ticks w)) x) (joins w)" by auto
    from status_set [OF this, of t] commit n Some show ?thesis
      by (auto simp: life_def approved_entry_def status_of_def [of w] intro: life_step.approved)
  qed
qed

lemma flow_life:
  assumes "flow_step e s s'"
  shows "life t s' = life t s \<or> life_step (life t s) (life t s')"
  using assms
proof (cases rule: flow_step.cases)
  case (submit t' p w r w' as)
  from submit(3) show ?thesis
  proof (cases rule: submit_cases)
    case stored
    then have "joins w' = dict_set t' (new_join_entry t' p (e_now e (w_ticks w))) (joins w)" by simp
    from status_set [OF this, of t] stored(2) submit show ?thesis
      by (auto simp: life_def new_join_entry_def intro: life_step.submitted)
  qed (use submit in auto)
next
  case (reject t' reason w r w' as)
  from reject(3) show ?thesis
  proof (cases rule: reject_cases)
    case (rejected entry)
    then have "joins w' = dict_set t' (rejected_entry reason (e_now e (w_ticks w)) entry) (joins w)" by simp
    from status_set [OF this, of t] rejected(1,2) reject show ?thesis
      by (cases "je_status entry") (auto simp: life_def rejected_entry_def status_of_def [of w] intro: life_step.rejected)
  qed (use reject in auto)
next
  case approval
  then show ?thesis by (intro stage_life)
next
  case elsewhere
  then show ?thesis by (auto simp: life_def status_of_def)
qed

section \<open>Properties\<close>

text \<open>However the handlers interleave, the store stays well-formed: from a well-formed store with no
  approval in flight, every state reached is well-formed and every approval in flight has its entry.\<close>

theorem flow_invariant:
  assumes "joins_ok w" "(flow_step e)\<^sup>*\<^sup>* (w, []) (w', as)"
  shows "joins_ok w' \<and> (\<forall>a\<in>set as. dict_get (joins w') (approval_tenant a) \<noteq> None)"
  using flow_reach_ok [OF assms(2)] assms(1) by (simp add: flow_ok_def)

text \<open>The commit of an approval never fails: whatever happened to the store while it was provisioning,
  the entry it updates is there, so the handler answers 200 and the request is approved.\<close>

theorem commit_never_fails:
  assumes "joins_ok w" "(flow_step e)\<^sup>*\<^sup>* (w, []) (w', as)" "Committing t b \<in> set as"
  shows "\<exists>j w''. approve_commit (e_settings e) t b e w' = (Inr (JSONResponse 200 j), w'') \<and> status_of w'' t = Some Approved"
proof -
  have "flow_ok (w', as)" using flow_reach_ok [OF assms(2)] assms(1) by (simp add: flow_ok_def)
  with assms(3) obtain x where x: "dict_get (joins w') t = Some x" by (fastforce simp: flow_ok_def)
  from commit_reply [OF this, of "e_settings e" b e] commit_run [of "e_settings e" t b e w'] x show ?thesis
    by (cases "approve_commit (e_settings e) t b e w'") (auto simp: status_of_def approved_entry_def)
qed

text \<open>C10. An approval is final: in every interleaving, a tenant that is approved stays approved.\<close>

theorem approved_is_final:
  assumes "(flow_step e)\<^sup>*\<^sup>* (w, as) (w', as')" "status_of w t = Some Approved"
  shows "status_of w' t = Some Approved"
  using assms
proof (induction "(w, as)" "(w', as')" arbitrary: w' as' rule: rtranclp.induct)
  case (rtrancl_into_rtrancl s)
  then show ?case by (cases s) (auto intro: flow_status)
qed simp

text \<open>C11. Polling discloses nothing before approval: in every state that is reached, the status of a request
  that is not approved comes without certificates, broker account, client secret or any address of the
  platform, and polling changes nothing.\<close>

theorem poll_discloses_nothing_early:
  assumes "joins_ok w" "(flow_step e)\<^sup>*\<^sup>* (w, []) (w', as)" "get_join_status t e w' = (Inr r, w'')"
    "js_status r \<noteq> ''approved''"
  shows "js_signed_cert r = None \<and> js_root_ca_cert r = None \<and> js_mqtt_bridge_cert r = None \<and>
    js_rabbitmq_url r = None \<and> js_rabbitmq_vhost r = None \<and> js_rabbitmq_user r = None \<and>
    js_cdm_idp_client_id r = None \<and> js_cdm_idp_client_secret r = None \<and> js_cdm_discovery_url r = None \<and>
    js_wg_server_pubkey r = None \<and> js_wg_server_endpoint r = None \<and> js_wg_client_ip r = None \<and> w'' = w'"
proof -
  have ok: "joins_ok w'" using flow_reach_ok [OF assms(2)] assms(1) by (simp add: flow_ok_def)
  from assms(3) obtain x where x: "dict_get (joins w') t = Some x"
    by (auto simp: get_join_status_def bnd_def get_request_run split: option.splits)
  then have g: "get_request t e w' = (Inr x, w')" by (simp add: get_request_run)
  from x ok have "entry_ok t x" by (simp add: joins_ok_def)
  have "js_status r = join_status_text (je_status x)"
    by (rule bnd_returns [OF assms(3) [unfolded get_join_status_def] g, where P = "\<lambda>r. js_status r = join_status_text (je_status x)"])
      (intro returns_rules, simp)
  with assms(4) have "je_status x \<noteq> Approved" by (auto simp: join_status_text_def)
  with \<open>entry_ok t x\<close> have n: "no_bundle x" by (simp add: entry_ok_def)
  then have "as_opt_str (je_signed_cert x) = ret None" "as_opt_str (je_root_ca_cert x) = ret None"
    "as_opt_str (je_mqtt_bridge_cert x) = ret None" by (simp_all add: no_bundle_def as_opt_str_def)
  with assms(3) g n show ?thesis
    by (auto simp: get_join_status_def bnd_value [where m = "get_request t", OF g] run_simps no_bundle_def)
qed


text \<open>C13. When the CA step of a pending request returns, what the broker and Keycloak answer, or that they do not
  answer, cannot stop the approval. Only the signing of the bridge certificate, which a request without a
  bridge CSR skips, still can, by an exception other than step-ca's own error: then the handler ends with
  that exception and the request stays as it was. Otherwise it answers 200 and the request is approved
  with the certificates of the two signing steps.\<close>

theorem approval_completes:
  assumes "session_ok w" "dict_get (joins w) t = Some x" "je_status x = Pending"
    "sign_sub_ca (e_settings e) (je_sub_ca_csr x) t e w = (Inr ((crt, root), err), w1)"
  shows "\<exists>e2 w2. provision_broker (e_settings e) t e w1 = (Inr e2, w2) \<and>
    (case sign_mqtt_bridge (e_settings e) (je_mqtt_bridge_csr x) t e w2 of
       (Inl exc, w3) \<Rightarrow> je_mqtt_bridge_csr x \<noteq> [] \<and> (\<forall>m. exc \<noteq> StepCAError m) \<and>
         approve_join_request t e w = (Inl exc, w3) \<and> dict_get (joins w3) t = Some x
     | (Inr (bridge, e3), w3) \<Rightarrow> \<exists>j w' y. approve_join_request t e w = (Inr (JSONResponse 200 j), w') \<and>
         dict_get (joins w') t = Some y \<and> je_status y = Approved \<and> je_signed_cert y = crt \<and> je_root_ca_cert y = root \<and>
         je_mqtt_bridge_cert y = bridge)"
proof -
  let ?s = "e_settings e"
  obtain e2 w2 where b: "provision_broker ?s t e w1 = (Inr e2, w2)" using broker_never_raises by blast
  obtain r w3 where m: "sign_mqtt_bridge ?s (je_mqtt_bridge_csr x) t e w2 = (r, w3)" by fastforce
  note run = provision_run [OF assms(4) b]
  show ?thesis
  proof (cases r)
    case (Inl exc)
    with run(1) m have p: "approve_provision ?s t x e w = (Inl exc, w3)" by simp
    have "joins w3 = joins w" by (rule joins_stores) (rule j_approve.frame [OF p])
    moreover have "approve_join_request t e w = (Inl exc, w3)"
      by (simp add: approval_reaches [OF assms(1-3)] bnd_raise [where m = "approve_provision ?s t x", OF p])
    moreover have "je_mqtt_bridge_csr x \<noteq> []" using m Inl by (auto simp: bridge_skipped run_simps)
    ultimately show ?thesis using b m Inl bridge_error assms(2) by fastforce
  next
    case (Inr v)
    obtain bridge e3 where v: "v = (bridge, e3)" by (cases v)
    with run(2) m Inr obtain bn w4 where p: "approve_provision ?s t x e w = (Inr bn, w4)" "bn_signed_cert bn = crt"
      "bn_root_ca_cert bn = root" "bn_mqtt_bridge_cert bn = bridge" by blast
    have "\<exists>j w' y. approve_join_request t e w = (Inr (JSONResponse 200 j), w') \<and> dict_get (joins w') t = Some y \<and>
        je_status y = Approved \<and> je_signed_cert y = crt \<and> je_root_ca_cert y = root \<and> je_mqtt_bridge_cert y = bridge"
      by (rule approval_run [OF assms(1-3) p(1)]) (auto simp: approved_entry_def p(2-4))
    with b m Inr v show ?thesis by auto
  qed
qed

text \<open>C14. When step-ca refuses the CSR and the approval nevertheless answers, it answers 200, and the request is
  approved with an empty certificate. From then on submitting, approving and rejecting it are all refused
  with 409, and nothing that any handler does later changes the entry: the tenant cannot be repaired
  through the API.\<close>

theorem approved_without_certificate:
  assumes "session_ok w" "je_sub_ca_csr x = csr" "dict_get (joins w) t = Some x" "valid_tenant_id t"
    "sign_sub_ca_csr (step_ca_admin (e_settings e)) csr t (step_ca_sub_ca_provisioner (e_settings e))
      (step_ca_sub_ca_password (e_settings e)) e w = (Inl (StepCAError m), w1)"
    "approve_join_request t e w = (Inr rep, w')"
  shows "(\<exists>j. rep = JSONResponse 200 j) \<and> (\<exists>y. dict_get (joins w') t = Some y \<and> je_status y = Approved \<and> je_signed_cert y = JStr [] \<and>
      (\<forall>w2 as. (flow_step e)\<^sup>*\<^sup>* (w', []) (w2, as) \<longrightarrow> dict_get (joins w2) t = Some y)) \<and>
    (\<exists>m2. submit_join_request t p e w' = (Inl (HTTPException 409 m2), w')) \<and>
    (\<exists>m2. approve_join_request t e w' = (Inl (HTTPException 409 m2), w')) \<and>
    (\<exists>m2. reject_join_request t reason e w' = (Inl (HTTPException 409 m2), w'))"
  using assms(6)
proof (cases rule: approve_cases)
  case (approved entry b w2)
  let ?y = "approved_entry (e_settings e) t b (e_now e (w_ticks w2)) entry"
  have x: "entry = x" using approved(1) assms(3) by simp
  have s: "sign_sub_ca (e_settings e) csr t e w = (Inr ((JStr [], JStr []), Some m), w1)"
    using assms(5) by (simp add: sign_sub_ca_def try_except_def bnd_raise run_simps)
  obtain e2 w3 where br: "provision_broker (e_settings e) t e w1 = (Inr e2, w3)" using broker_never_raises by blast
  obtain r w4 where mq: "sign_mqtt_bridge (e_settings e) (je_mqtt_bridge_csr x) t e w3 = (r, w4)" by fastforce
  have "bn_signed_cert b = JStr []"
    using provision_run [OF s [folded assms(2)] br] mq approved(3) x by (cases r; force)
  then have y: "dict_get (joins w') t = Some ?y" "je_status ?y = Approved" "je_signed_cert ?y = JStr []"
    using approved(5) by (simp_all add: approved_entry_def)
  have "w_session w' = w_session w" using approved(5) stores_fields(1) [OF j_approve.frame [OF approved(3)]] by simp
  then have ok: "session_ok w'" using assms(1) by (simp add: session_ok_def session_user_def)
  have "status_of w' t = Some Approved" using y by (simp add: status_of_def)
  from approved_refused [OF this ok] approved(4) y assms(4) frozen [OF _ y(1,2)] show ?thesis by auto
qed simp

text \<open>C15. A rejection that arrives while an approval is provisioning is lost: it is acknowledged with 200, and
  the commit of the approval then overwrites it.\<close>

theorem rejection_lost:
  assumes "thn get_cdm_admin (approve_check t) e w = (Inr x, w)"
    "approve_provision (e_settings e) t x e w = (Inr b, w1)"
    "reject_join_request t reason e w1 = (Inr j, w2)"
  shows "\<exists>w3. (flow_step e)\<^sup>*\<^sup>* (w, []) (w2, [Committing t b]) \<and> status_of w2 t = Some Rejected \<and>
    flow_step e (w2, [Committing t b]) (w3, []) \<and> status_of w3 t = Some Approved"
proof -
  have s1: "flow_step e (w, []) (w, [Provisioning t x])" using assms(1) by (rule approval_steps(1))
  have s2: "flow_step e (w, [Provisioning t x]) (w1, [Committing t b])"
    using approval_steps(2) [of t x "[Provisioning t x]", OF _ assms(2)] by simp
  have s3: "flow_step e (w1, [Committing t b]) (w2, [Committing t b])" using assms(3) by (rule flow_step.reject)
  from assms(3) obtain y where y: "dict_get (joins w2) t = Some y" "je_status y = Rejected"
    by (cases rule: reject_cases) (auto simp: rejected_entry_def)
  obtain r w3 where c: "approve_commit (e_settings e) t b e w2 = (r, w3)" by fastforce
  then have s4: "flow_step e (w2, [Committing t b]) (w3, [])"
    using approval_steps(4) [of t b "[Committing t b]", OF _ c] by simp
  from c commit_run [of "e_settings e" t b e w2] y have "status_of w3 t = Some Approved"
    by (auto simp: status_of_def approved_entry_def)
  with s1 s2 s3 s4 y show ?thesis
    by (auto simp: status_of_def intro: converse_rtranclp_into_rtranclp)
qed

text \<open>A CSR that is submitted again while an approval is provisioning ends up with the certificate of the
  CSR it replaced.\<close>

theorem resubmission_gets_old_certificate:
  assumes "submit_join_request t p e w1 = (Inr j, w2)" "approve_commit (e_settings e) t b e w2 = (r, w3)"
  shows "\<exists>y. dict_get (joins w3) t = Some y \<and> je_status y = Approved \<and> je_sub_ca_csr y = jp_sub_ca_csr p \<and>
    je_signed_cert y = bn_signed_cert b"
proof -
  from assms(1) obtain now where "dict_get (joins w2) t = Some (new_join_entry t p now)"
    by (cases rule: submit_cases) auto
  with assms(2) commit_run [of "e_settings e" t b e w2] show ?thesis
    by (auto simp: approved_entry_def new_join_entry_def)
qed

text \<open>The three endpoints that are documented as reserved for administrators look the administrator up and
  ignore the result: a stranger lists every request, and rejects one.\<close>

theorem join_admin_endpoints_open:
  assumes "session_ok w" "dict_get (joins w) t = Some x" "je_status x = Pending"
  shows "\<exists>j k w'. list_join_requests e w = (Inr (JSONResponse 200 j), w) \<and>
    reject_join_request t reason e w = (Inr (JSONResponse 200 k), w') \<and> status_of w' t = Some Rejected"
proof -
  note g = bnd_value [where m = get_cdm_admin, OF guard_run [OF assms(1)]]
  have "\<exists>j. list_join_requests e w = (Inr (JSONResponse 200 j), w)"
    by (simp add: list_join_requests_def run_thn g join_file.load_bnd run_simps Let_def)
  moreover have "\<exists>k w'. reject_join_request t reason e w = (Inr (JSONResponse 200 k), w') \<and> status_of w' t = Some Rejected"
    using assms(2,3)
    by (simp add: reject_join_request_def run_thn g bnd_def [of "get_request t"] get_request_run join_file.load_bnd
        join_file.save_thn save_store_def run_simps status_of_def rejected_entry_def)
  ultimately show ?thesis by blast
qed

text \<open>The list of requests is complete and ordered: it holds every entry of the store once, newest first,
  and states their number.\<close>

theorem list_is_complete_newest_first:
  assumes "list_join_requests e w = (Inr rep, w')"
  shows "\<exists>xs. rep = JSONResponse 200 (JObj [(''join_requests'', JArr (map entry_json xs)), (''total'', JInt (int (length xs)))]) \<and>
    mset xs = mset (map snd (joins w)) \<and> sorted_wrt (\<lambda>x y. je_requested_at y \<le> je_requested_at x) xs \<and> w' = w"
proof -
  from guard_ignored [OF assms [unfolded list_join_requests_def]]
  have r: "rep = JSONResponse 200 (JObj [(''join_requests'', JArr (map entry_json (by_request_time (joins w)))),
      (''total'', JInt (int (length (by_request_time (joins w)))))])" "w' = w"
    by (auto simp: join_file.load_bnd run_simps Let_def)
  have "sorted (map (\<lambda>x. - je_requested_at x) (by_request_time (joins w)))" by (simp add: by_request_time_def)
  then have "sorted_wrt (\<lambda>x y. je_requested_at y \<le> je_requested_at x) (by_request_time (joins w))"
    by (simp add: sorted_wrt_map)
  with r show ?thesis by (auto simp: by_request_time_set dict_values_def)
qed

text \<open>The check of the two submission endpoints and the pattern of the request model disagree on the ids
  without a letter, and on nothing else: an id that matches the pattern passes the check exactly when it
  contains a lower-case letter.\<close>

theorem pattern_against_check:
  assumes "tenant_id_pattern t"
  shows "valid_tenant_id t \<longleftrightarrow> (\<exists>c\<in>set t. 97 \<le> ord c \<and> ord c \<le> 122)"
proof -
  have pat: "pattern_edge c \<or> c = CHR ''-''" if "c \<in> set t" for c
    using assms that by (auto simp: tenant_id_pattern_def list_all_iff)
  have "t \<noteq> []" "pattern_edge (hd t)" using assms by (auto simp: tenant_id_pattern_def)
  then have hd: "hd t \<in> set (remove_char CHR ''-'' t)"
    by (auto simp: remove_char_def pattern_edge_def c_digit_def)
  have edge: "c_alpha c \<or> c_numeric c" "\<not> c_upper c" "c_lower c \<longleftrightarrow> 97 \<le> ord c \<and> ord c \<le> 122"
    if "pattern_edge c" for c
    using that by (auto simp: pattern_edge_def c_alpha_def c_digit_def c_numeric_def c_upper_def c_lower_def Let_def)
  have al: "isalnum (remove_char CHR ''-'' t)"
    using hd pat edge(1) by (fastforce simp: isalnum_def remove_char_def list_all_iff filter_empty_conv)
  have dash: "\<not> c_upper CHR ''-''" "\<not> c_lower CHR ''-''" "\<not> (97 \<le> ord CHR ''-'')" by (simp_all add: c_upper_def c_lower_def Let_def)
  have "islower t \<longleftrightarrow> (\<exists>c\<in>set t. 97 \<le> ord c \<and> ord c \<le> 122)"
    using pat edge(2,3) dash unfolding islower_def list_all_iff list_ex_iff by blast
  with al show ?thesis by (simp add: valid_tenant_id_def)
qed

end
