(* ===== verification/SampleRuns.thy ===== *)
theory SampleRuns
  imports JoinHandshake JoinFlow
begin

text \<open>
  A concrete deployment, on which the hypotheses of the properties hold: every service answers every
  request with the same document, which is what step-ca, Keycloak and hawkBit would say when all is
  well. The lemmas run the operations of the JOIN workflow on it.
\<close>

section \<open>The deployment\<close>

text \<open>A token whose payload is the document \<open>{"realm_access": {"roles": ["cdm-admin"]}}\<close>.\<close>

abbreviation sample_payload_b64 :: string where
  "sample_payload_b64 \<equiv> ''eyJyZWFsbV9hY2Nlc3MiOiB7InJvbGVzIjogWyJjZG0tYWRtaW4iXX19''"

abbreviation sample_jwt :: string where
  "sample_jwt \<equiv> ''a.eyJyZWFsbV9hY2Nlc3MiOiB7InJvbGVzIjogWyJjZG0tYWRtaW4iXX19.c''"

abbreviation sample_header :: string where
  "sample_header \<equiv> ''Bearer a.eyJyZWFsbV9hY2Nlc3MiOiB7InJvbGVzIjogWyJjZG0tYWRtaW4iXX19.c''"

definition sample_answer :: response where
  "sample_answer = \<lparr>rs_status = 200, rs_json = Some (JObj
     [(''provisioners'', JArr [JObj [(''name'', JStr ''iot-bridge''), (''type'', JStr ''JWK''), (''encryptedKey'', JStr ''jwe'')],
        JObj [(''name'', JStr ''tenant-sub-ca-signer''), (''type'', JStr ''JWK''), (''encryptedKey'', JStr ''jwe'')]]),
      (''crt'', JStr ''CERT''), (''ca'', JStr ''CA''), (''access_token'', JStr sample_jwt)]), rs_text = [], rs_location = None\<rparr>"

definition sample_env :: env where
  "sample_env = \<lparr>e_settings = default_settings, e_http = (\<lambda>_ _. Answer sample_answer), e_now = (\<lambda>n. int n), e_random = (\<lambda>n. n),
     e_load_csr = (\<lambda>s. if s = [] then Inl ''no CSR'' else Inr \<lparr>csr_der = [1, 2, 3], csr_signature_valid = True\<rparr>),
     e_decrypt_jwk = (\<lambda>_ _. Inr (JObj [(''kid'', JStr ''k1'')])),
     e_jwt_signed = (\<lambda>_ _ _. Inr ''ott''), e_json_beyond = (\<lambda>_. None),
     e_float_repr = (\<lambda>_. ''0.0''), e_pool = (\<lambda>_. None), e_insert = (\<lambda>_. None)\<rparr>"

lemma sample_simps:
  "e_settings sample_env = default_settings" "e_http sample_env h r = Answer sample_answer" "e_now sample_env n = int n"
  "e_load_csr sample_env s = (if s = [] then Inl ''no CSR'' else Inr \<lparr>csr_der = [1, 2, 3], csr_signature_valid = True\<rparr>)"
  "e_decrypt_jwk sample_env j p = Inr (JObj [(''kid'', JStr ''k1'')])" "e_jwt_signed sample_env x y z = Inr ''ott''"
  "e_json_beyond sample_env bs = None"
  "rs_status sample_answer = 200" "is_success sample_answer"
  "rs_json sample_answer = Some (JObj
     [(''provisioners'', JArr [JObj [(''name'', JStr ''iot-bridge''), (''type'', JStr ''JWK''), (''encryptedKey'', JStr ''jwe'')],
        JObj [(''name'', JStr ''tenant-sub-ca-signer''), (''type'', JStr ''JWK''), (''encryptedKey'', JStr ''jwe'')]]),
      (''crt'', JStr ''CERT''), (''ca'', JStr ''CA''), (''access_token'', JStr sample_jwt)])"
  "step_ca_sub_ca_provisioner default_settings = ''tenant-sub-ca-signer''"
  "step_ca_provisioner_name default_settings = ''iot-bridge''"
  by (simp_all add: sample_env_def sample_answer_def is_success_def default_settings_def)

lemma sample_http: "http r sample_env w = (Inr sample_answer, w\<lparr>w_trace := w_trace w @ [r]\<rparr>)"
  by (simp add: http_def sample_simps)

lemmas sample_run = sample_http sample_simps bnd_def raise_for_status_def resp_json_def jget_def jindex_def jiter_def
  lift_sum_def run_simps

section \<open>Services\<close>

lemma sample_load:
  "load_jwk u v ''tenant-sub-ca-signer'' p a b sample_env w =
     (Inr (JObj [(''kid'', JStr ''k1'')]), w\<lparr>w_trace := w_trace w @ [provisioners_get u v]\<rparr>)"
  "load_jwk u v ''iot-bridge'' p a b sample_env w =
     (Inr (JObj [(''kid'', JStr ''k1'')]), w\<lparr>w_trace := w_trace w @ [provisioners_get u v]\<rparr>)"
  by (simp_all add: load_jwk_def fetch_provisioners_def is_jwk_provisioner_def sample_run)

lemma sample_sub_ca:
  "sign_sub_ca_csr c ''csr'' t ''tenant-sub-ca-signer'' p sample_env w = (Inr (JStr ''CERT'', JStr ''CA''),
     w\<lparr>w_ticks := Suc (w_ticks w), w_trace := w_trace w @ [provisioners_get (sa_url c) (sa_verify_tls c),
       sign_post (sa_url c) (sa_verify_tls c) ''csr'' ''ott'']\<rparr>)"
  by (simp add: sign_sub_ca_csr_def sample_load csr_fingerprint_def signed_token_def time_seconds_def sample_run)

lemma sample_sign_sub_ca: "\<exists>w'. sign_sub_ca default_settings ''csr'' t sample_env w = (Inr ((JStr ''CERT'', JStr ''CA''), None), w') \<and>
    w_trace w' \<noteq> w_trace w"
  by (simp add: sign_sub_ca_def sample_simps sample_sub_ca try_except_def bnd_def run_simps)

lemma sample_broker: "\<exists>x w'. provision_broker default_settings t sample_env w = (Inr x, w')"
  by (rule broker_never_raises)

section \<open>The handshake\<close>

definition sample_key :: string where "sample_key = ''ABCD''"

definition sample_world :: world where
  "sample_world = empty_world\<lparr>w_keys := Some [(sample_key, new_key_entry sample_key ''acme'' ''Acme'' 0)]\<rparr>"

definition sample_payload :: join_handshake_payload where
  "sample_payload = \<lparr>hp_sub_ca_csr = ''csr'', hp_wg_pubkey = ''wg'', hp_keycloak_url = ''u'', hp_mqtt_bridge_csr = []\<rparr>"

lemma sample_presented [simp]: "presented_key (Some sample_key) = sample_key" "sample_key \<noteq> []"
  by (simp_all add: presented_key_def sample_key_def strip_def c_space_def Let_def)

lemma sample_keys: "keys sample_world = [(sample_key, new_key_entry sample_key ''acme'' ''Acme'' 0)]"
  by (simp add: sample_world_def)

lemma sample_key_open:
  "dict_get (keys sample_world) sample_key = Some (new_key_entry sample_key ''acme'' ''Acme'' 0)"
  "ke_status (new_key_entry k t d n) = Open" "ke_tenant_id (new_key_entry k t d n) = t"
  "e_now sample_env (w_ticks sample_world) \<le> ke_expires_at (new_key_entry sample_key ''acme'' ''Acme'' 0)"
  by (simp add: sample_keys)
    (simp_all add: new_key_entry_def sample_simps sample_world_def empty_world_def hours_def join_key_ttl_hours_def)

lemma sample_consume:
  obtains ent w1 where "validate_and_consume sample_key sample_env sample_world = (Inr ent, w1)" "ke_tenant_id ent = ''acme''"
  using consume_valid [OF sample_key_open(1,2,4)] by (auto simp: sample_key_open(3))

lemma sample_provisioned:
  assumes c: "validate_and_consume k sample_env w = (Inr ent, w1)" and k: "presented_key (Some k) = k" "k \<noteq> []"
  obtains b w' where "join_handshake sample_payload (Some k) sample_env w = (Inr b, w')"
    "hr_signed_cert b = ''CERT''" "w_trace w' \<noteq> w_trace w"
proof -
  let ?t = "ke_tenant_id ent" and ?s = "e_settings sample_env"
  have t: "w_trace w1 = w_trace w" using c by (rule consume_keeps_rest)
  obtain w2 where s: "sign_sub_ca ?s ''csr'' ?t sample_env w1 = (Inr ((JStr ''CERT'', JStr ''CA''), None), w2)" "w_trace w2 \<noteq> w_trace w1"
    using sample_sign_sub_ca by (auto simp: sample_simps)
  obtain x w3 where b: "provision_broker ?s ?t sample_env w2 = (Inr x, w3)" using broker_never_raises by blast
  obtain i sec y w4 where f: "federate ?s ?t ''u'' sample_env w3 = (Inr ((i, sec), y), w4)"
    using federate_never_raises by (metis prod.collapse)
  obtain bun where r: "run_provisioning ?t (ke_display_name ent) sample_payload ?s sample_env w1 = (Inr bun, w4)" "hr_signed_cert bun = ''CERT''"
    by (simp add: run_provisioning_def sample_payload_def bnd_def [of "sign_sub_ca a b c" for a b c] s(1)
        bnd_def [of "provision_broker a b" for a b] b bnd_def [of "federate a b c" for a b c] f sign_mqtt_bridge_def run_simps
        as_str_def as_opt_str_def jor_def)
  have "prefix (w_trace w1) (w_trace w2)" "prefix (w_trace w2) (w_trace w3)" "prefix (w_trace w3) (w_trace w4)"
    using j_sub.history_kept [OF s(1)] j_broker.history_kept [OF b] j_federate.history_kept [OF f] by simp_all
  with s(2) have "w_trace w4 \<noteq> w_trace w1" by (metis prefix_order.antisym prefix_order.trans)
  moreover have "authenticate_key k sample_env w = (Inr ent, w1)"
    by (simp add: authenticate_key_def try_except_def c)
  then have "join_handshake sample_payload (Some k) sample_env w = (Inr bun, w4)"
    using r(1) k by (simp add: join_handshake_def presented_key_def run_simps Let_def bnd_def [of "authenticate_key a" for a])
  ultimately show ?thesis using r(2) t by (auto intro: that)
qed

lemma sample_handshake:
  obtains b w' where "join_handshake sample_payload (Some sample_key) sample_env sample_world = (Inr b, w')"
    "hr_signed_cert b = ''CERT''" "w_trace w' \<noteq> w_trace sample_world"
proof -
  obtain ent w1 where c: "validate_and_consume sample_key sample_env sample_world = (Inr ent, w1)" by (rule sample_consume)
  show ?thesis by (rule sample_provisioned [OF c]) (simp, simp, rule that)
qed

section \<open>The approval flow\<close>

definition sample_request :: join_request_payload where
  "sample_request = \<lparr>jp_display_name = ''Acme'', jp_sub_ca_csr = ''csr'', jp_wg_pubkey = ''wg'', jp_keycloak_url = ''u'',
     jp_mqtt_bridge_csr = []\<rparr>"

definition pending_world :: world where
  "pending_world = empty_world\<lparr>w_joins := Some [(''acme'', new_join_entry ''acme'' sample_request 0)]\<rparr>"

lemma sample_pending:
  "dict_get (joins pending_world) ''acme'' = Some (new_join_entry ''acme'' sample_request 0)"
  "je_status (new_join_entry t p n) = Pending" "je_sub_ca_csr (new_join_entry t sample_request n) = ''csr''"
  "je_mqtt_bridge_csr (new_join_entry t sample_request n) = []"
  by (simp_all add: pending_world_def new_join_entry_def sample_request_def)

lemma sample_session: "session_ok pending_world" "session_ok empty_world"
  by (simp_all add: session_ok_def session_user_def pending_world_def empty_world_def)

lemma sample_joins_ok: "joins_ok pending_world"
  using new_entry_ok by (auto simp: joins_ok_def pending_world_def dict_wf_def)

lemma sample_valid: "valid_tenant_id ''acme''"
  by (simp add: valid_tenant_id_def isalnum_def islower_def remove_char_def c_alpha_def c_upper_def c_lower_def Let_def)

lemma sample_check: "thn get_cdm_admin (approve_check ''acme'') sample_env pending_world = (Inr (new_join_entry ''acme'' sample_request 0), pending_world)"
  by (simp add: run_thn bnd_def guard_run [OF sample_session(1)] approve_check_def get_request_run sample_pending run_simps)

lemma sample_provision:
  obtains b w1 where "approve_provision (e_settings sample_env) ''acme'' (new_join_entry ''acme'' sample_request 0) sample_env pending_world = (Inr b, w1)"
    "bn_signed_cert b = JStr ''CERT''" "joins w1 = joins pending_world" "session_ok w1"
proof -
  obtain w1 where s: "sign_sub_ca (e_settings sample_env) (je_sub_ca_csr (new_join_entry ''acme'' sample_request 0)) ''acme'' sample_env pending_world
      = (Inr ((JStr ''CERT'', JStr ''CA''), None), w1)"
    using sample_sign_sub_ca by (auto simp: sample_simps sample_pending)
  from provision_without_bridge [OF s sample_pending(4)] obtain b w2 where
    b: "approve_provision (e_settings sample_env) ''acme'' (new_join_entry ''acme'' sample_request 0) sample_env pending_world = (Inr b, w2)"
    "bn_signed_cert b = JStr ''CERT''" by metis
  have st: "stores w2 = stores pending_world" by (rule j_approve.frame [OF b(1)])
  then have "session_ok w2" using sample_session(1) stores_fields(1) [OF st] by (simp add: session_ok_def session_user_def)
  with b joins_stores [OF st] show ?thesis by (auto intro: that)
qed

lemma sample_reject:
  assumes "joins w = joins pending_world" "session_ok w"
  shows "\<exists>j w1. reject_join_request ''acme'' ''no'' sample_env w = (Inr (JSONResponse 200 j), w1)"
  using assms
  by (simp add: reject_join_request_def run_thn bnd_def [of get_cdm_admin] guard_run bnd_def [of "get_request a" for a] get_request_run
      sample_pending join_file.load_bnd join_file.save_thn save_store_def run_simps)

lemma sample_approval:
  obtains j w1 where "approve_join_request ''acme'' sample_env pending_world = (Inr (JSONResponse 200 j), w1)"
    "status_of w1 ''acme'' = Some Approved"
proof -
  obtain b w1 where b: "approve_provision (e_settings sample_env) ''acme'' (new_join_entry ''acme'' sample_request 0) sample_env pending_world = (Inr b, w1)"
    by (rule sample_provision)
  show ?thesis
    by (rule approval_run [OF sample_session(1) sample_pending(1,2) b], rule that, assumption)
      (simp add: status_of_def approved_entry_def)
qed

section \<open>A certificate authority without provisioners\<close>

definition bare_env :: env where
  "bare_env = sample_env\<lparr>e_http := \<lambda>_ _. Answer (sample_answer\<lparr>rs_json := Some (JObj [(''provisioners'', JArr [])])\<rparr>)\<rparr>"

lemma bare_sub_ca: "\<exists>m w1. sign_sub_ca_csr (step_ca_admin (e_settings bare_env)) ''csr'' t (step_ca_sub_ca_provisioner (e_settings bare_env))
    (step_ca_sub_ca_password (e_settings bare_env)) bare_env w = (Inl (StepCAError m), w1)"
  by (simp add: sign_sub_ca_csr_def load_jwk_def fetch_provisioners_def http_def bare_env_def is_success_def sample_answer_def
      raise_for_status_def resp_json_def jget_def jiter_def lift_sum_def bnd_def run_simps)

end
