(* ===== verification/JoinWitnesses.thy ===== *)
theory JoinWitnesses
  imports SampleRuns
begin

text \<open>
  The properties of the JOIN workflow, each applied to the sample deployment, where its hypotheses hold.
\<close>

section \<open>Keys\<close>

lemma key_accepted_iff_witness:
  "\<exists>used w'. validate_and_consume sample_key sample_env sample_world = (Inr used, w') \<and> dict_get (keys w') sample_key = Some used \<and>
     ke_status used = Used \<and> ke_tenant_id used = ''acme''"
proof -
  have "\<exists>ent. dict_get (keys sample_world) sample_key = Some ent \<and> ke_status ent = Open \<and>
      e_now sample_env (w_ticks sample_world) \<le> ke_expires_at ent \<and> ke_tenant_id ent = ''acme''"
    using sample_key_open by simp
  then show ?thesis using key_accepted_iff [of sample_key sample_env sample_world "''acme''"] by blast
qed

lemma fresh_key_valid_seven_days_witness:
  "\<exists>k w1 ent w2. create_key ''acme'' ''Acme'' sample_env empty_world = (Inr k, w1) \<and>
     validate_and_consume k sample_env w1 = (Inr ent, w2) \<and> ke_tenant_id ent = ''acme''"
proof -
  obtain k n where c: "create_key ''acme'' ''Acme'' sample_env empty_world = (Inr k, empty_world\<lparr>w_draws := n, w_ticks := Suc (w_ticks empty_world),
      w_keys := Some (dict_set k (new_key_entry k ''acme'' ''Acme'' (e_now sample_env (w_ticks empty_world))) (keys empty_world))\<rparr>)"
    by (rule create_key_run)
  from c fresh_key_valid_seven_days [OF c] show ?thesis by (simp add: sample_simps empty_world_def) blast
qed

lemma key_file_invariant_witness: "keys_ok (snd (validate_and_consume sample_key sample_env sample_world))"
proof -
  have "keys_ok sample_world"
    by (simp add: keys_ok_def sample_keys dict_wf_def new_key_entry_def)
  from key_file_invariant [OF this] show ?thesis by blast
qed

section \<open>The handshake\<close>

lemma handshake_needs_valid_key_witness:
  "\<exists>m w'. join_handshake sample_payload (Some sample_key) sample_env empty_world = (Inl (HTTPException 401 m), w') \<and> w_trace w' = []"
proof -
  have "\<forall>x. dict_get (keys empty_world) (presented_key (Some sample_key)) = Some x \<longrightarrow>
      ke_status x \<noteq> Open \<or> ke_expires_at x < e_now sample_env (w_ticks empty_world)"
    by (simp add: empty_world_def keys_def)
  from handshake_needs_valid_key [OF this, of sample_payload] show ?thesis by (auto simp: empty_world_def)
qed

lemma handshake_burns_key_witness:
  "\<exists>b w1 m. join_handshake sample_payload (Some sample_key) sample_env sample_world = (Inr b, w1) \<and>
     join_handshake sample_payload (Some sample_key) sample_env w1 = (Inl (HTTPException 401 m), w1)"
proof -
  obtain b w1 where h: "join_handshake sample_payload (Some sample_key) sample_env sample_world = (Inr b, w1)"
    "w_trace w1 \<noteq> w_trace sample_world" by (rule sample_handshake)
  from h(1) handshake_burns_key [OF h rtranclp.rtrancl_refl] show ?thesis by blast
qed

lemma handshake_scope_witness:
  "\<exists>b w1 rs. join_handshake sample_payload (Some sample_key) sample_env sample_world = (Inr b, w1) \<and> hr_tenant_id b = ''acme'' \<and>
     w_trace w1 = rs \<and> rs \<noteq> [] \<and> list_all (join_kind sample_env default_settings ''acme'' ''csr'' [] ''u'') rs"
proof -
  obtain b w1 where h: "join_handshake sample_payload (Some sample_key) sample_env sample_world = (Inr b, w1)"
    "w_trace w1 \<noteq> w_trace sample_world" by (rule sample_handshake)
  have t: "w_trace sample_world = []" by (simp add: sample_world_def empty_world_def)
  from h handshake_scope [OF h(1)] t show ?thesis by (auto simp: sample_key_open sample_simps sample_payload_def)
qed

lemma handshake_certificate_witness:
  "\<exists>b w1 hist ott q. join_handshake sample_payload (Some sample_key) sample_env sample_world = (Inr b, w1) \<and> hr_signed_cert b = ''CERT'' \<and>
     e_http sample_env hist (sign_post (sa_url (step_ca_admin default_settings)) True ''csr'' ott) = Answer q \<and> is_success q"
proof -
  obtain b w1 where h: "join_handshake sample_payload (Some sample_key) sample_env sample_world = (Inr b, w1)"
    "hr_signed_cert b = ''CERT''" by (rule sample_handshake)
  from h(2) have "hr_signed_cert b \<noteq> []" by simp
  from handshake_certificate [OF h(1) this] h show ?thesis by (auto simp: sample_simps)
qed

section \<open>The approval flow\<close>

lemma approved_is_final_witness:
  "\<exists>j w1. approve_join_request ''acme'' sample_env pending_world = (Inr (JSONResponse 200 j), w1) \<and>
     status_of (snd (reject_join_request ''acme'' ''late'' sample_env w1)) ''acme'' = Some Approved"
proof -
  obtain j w1 where a: "approve_join_request ''acme'' sample_env pending_world = (Inr (JSONResponse 200 j), w1)"
    "status_of w1 ''acme'' = Some Approved" by (rule sample_approval)
  have "flow_step sample_env (w1, []) (snd (reject_join_request ''acme'' ''late'' sample_env w1), [])"
    by (rule flow_step.reject [of "''acme''" "''late''" _ _ "fst (reject_join_request ''acme'' ''late'' sample_env w1)"]) simp
  from approved_is_final [OF r_into_rtranclp [of "flow_step sample_env", OF this] a(2)] a(1) show ?thesis by blast
qed

lemma sample_flow:
  obtains b w1 where "(flow_step sample_env)\<^sup>*\<^sup>* (pending_world, []) (w1, [Committing ''acme'' b])" "session_ok w1"
    "joins w1 = joins pending_world"
    "approve_provision (e_settings sample_env) ''acme'' (new_join_entry ''acme'' sample_request 0) sample_env pending_world = (Inr b, w1)"
proof -
  obtain b w1 where b: "approve_provision (e_settings sample_env) ''acme'' (new_join_entry ''acme'' sample_request 0) sample_env pending_world = (Inr b, w1)"
    "joins w1 = joins pending_world" "session_ok w1" by (rule sample_provision)
  let ?p = "Provisioning ''acme'' (new_join_entry ''acme'' sample_request 0)"
  have "flow_step sample_env (pending_world, []) (pending_world, [?p])" by (rule approval_steps(1) [OF sample_check])
  moreover have "flow_step sample_env (pending_world, [?p]) (w1, [Committing ''acme'' b])"
    using approval_steps(2) [of _ _ "[?p]", OF _ b(1)] by simp
  ultimately have "(flow_step sample_env)\<^sup>*\<^sup>* (pending_world, []) (w1, [Committing ''acme'' b])"
    by (meson converse_rtranclp_into_rtranclp r_into_rtranclp)
  with b show ?thesis by (auto intro: that)
qed

lemma flow_invariant_witness: "\<exists>w1 b. (flow_step sample_env)\<^sup>*\<^sup>* (pending_world, []) (w1, [Committing ''acme'' b]) \<and> joins_ok w1"
proof -
  obtain b w1 where f: "(flow_step sample_env)\<^sup>*\<^sup>* (pending_world, []) (w1, [Committing ''acme'' b])" by (rule sample_flow)
  from f flow_invariant [OF sample_joins_ok f] show ?thesis by blast
qed

lemma commit_never_fails_witness:
  "\<exists>w1 b j w2. (flow_step sample_env)\<^sup>*\<^sup>* (pending_world, []) (w1, [Committing ''acme'' b]) \<and>
     approve_commit default_settings ''acme'' b sample_env w1 = (Inr (JSONResponse 200 j), w2) \<and> status_of w2 ''acme'' = Some Approved"
proof -
  obtain b w1 where f: "(flow_step sample_env)\<^sup>*\<^sup>* (pending_world, []) (w1, [Committing ''acme'' b])" by (rule sample_flow)
  from f commit_never_fails [OF sample_joins_ok f, of "''acme''" b] show ?thesis by (auto simp: sample_simps)
qed

lemma poll_discloses_nothing_early_witness:
  "\<exists>r. get_join_status ''acme'' sample_env pending_world = (Inr r, pending_world) \<and> js_status r = ''pending'' \<and>
     js_signed_cert r = None \<and> js_rabbitmq_url r = None"
proof -
  obtain r where r: "get_join_status ''acme'' sample_env pending_world = (Inr r, pending_world)" "js_status r = ''pending''"
    by (simp add: get_join_status_def bnd_def [of "get_request a" for a] get_request_run sample_pending as_opt_str_def run_simps
        join_status_text_def new_join_entry_def)
  from r(2) have "js_status r \<noteq> ''approved''" by simp
  from r poll_discloses_nothing_early [OF sample_joins_ok rtranclp.rtrancl_refl r(1) this] show ?thesis by blast
qed


lemma approval_completes_witness:
  "\<exists>j w' y. approve_join_request ''acme'' sample_env pending_world = (Inr (JSONResponse 200 j), w') \<and>
     dict_get (joins w') ''acme'' = Some y \<and> je_signed_cert y = JStr ''CERT''"
proof -
  obtain w1 where s: "sign_sub_ca (e_settings sample_env) (je_sub_ca_csr (new_join_entry ''acme'' sample_request 0)) ''acme'' sample_env pending_world
      = (Inr ((JStr ''CERT'', JStr ''CA''), None), w1)"
    using sample_sign_sub_ca by (auto simp: sample_simps sample_pending)
  from approval_completes [OF sample_session(1) sample_pending(1,2) s] show ?thesis
    by (auto simp: sample_pending(4) bridge_skipped run_simps)
qed

lemma approved_without_certificate_witness:
  "\<exists>j w' y m. approve_join_request ''acme'' bare_env pending_world = (Inr (JSONResponse 200 j), w') \<and>
     dict_get (joins w') ''acme'' = Some y \<and> je_status y = Approved \<and> je_signed_cert y = JStr [] \<and>
     approve_join_request ''acme'' bare_env w' = (Inl (HTTPException 409 m), w')"
proof -
  obtain m w1 where s: "sign_sub_ca_csr (step_ca_admin (e_settings bare_env)) ''csr'' ''acme''
      (step_ca_sub_ca_provisioner (e_settings bare_env)) (step_ca_sub_ca_password (e_settings bare_env)) bare_env pending_world
      = (Inl (StepCAError m), w1)"
    using bare_sub_ca by blast
  then have "sign_sub_ca (e_settings bare_env) (je_sub_ca_csr (new_join_entry ''acme'' sample_request 0)) ''acme'' bare_env pending_world =
      (Inr ((JStr [], JStr []), Some m), w1)"
    by (simp add: sign_sub_ca_def try_except_def bnd_raise run_simps sample_pending)
  from provision_without_bridge [OF this sample_pending(4)] obtain b w2 where
    "approve_provision (e_settings bare_env) ''acme'' (new_join_entry ''acme'' sample_request 0) bare_env pending_world = (Inr b, w2)" by metis
  from approval_run [OF sample_session(1) sample_pending(1,2) this] obtain j w' where
    a: "approve_join_request ''acme'' bare_env pending_world = (Inr (JSONResponse 200 j), w')" by metis
  from a approved_without_certificate [OF sample_session(1) sample_pending(3,1) sample_valid s a] show ?thesis by blast
qed

lemma rejection_lost_witness:
  "\<exists>b w2 w3. status_of w2 ''acme'' = Some Rejected \<and> flow_step sample_env (w2, [Committing ''acme'' b]) (w3, []) \<and>
     status_of w3 ''acme'' = Some Approved"
proof -
  obtain b w1 where b: "approve_provision (e_settings sample_env) ''acme'' (new_join_entry ''acme'' sample_request 0) sample_env pending_world = (Inr b, w1)"
    "joins w1 = joins pending_world" "session_ok w1" by (rule sample_provision)
  obtain j w2 where r: "reject_join_request ''acme'' ''no'' sample_env w1 = (Inr (JSONResponse 200 j), w2)"
    using sample_reject [OF b(2,3)] by blast
  from rejection_lost [OF sample_check b(1) r] show ?thesis by blast
qed

lemma list_is_complete_newest_first_witness:
  "\<exists>xs. list_join_requests sample_env pending_world =
     (Inr (JSONResponse 200 (JObj [(''join_requests'', JArr (map entry_json xs)), (''total'', JInt (int (length xs)))])), pending_world) \<and>
     mset xs = {#new_join_entry ''acme'' sample_request 0#}"
proof -
  obtain rep where l: "list_join_requests sample_env pending_world = (Inr rep, pending_world)"
    by (simp add: list_join_requests_def run_thn bnd_def [of get_cdm_admin] guard_run [OF sample_session(1)] join_file.load_bnd run_simps Let_def)
  have "joins pending_world = [(''acme'', new_join_entry ''acme'' sample_request 0)]" by (simp add: pending_world_def)
  with l list_is_complete_newest_first [OF l] show ?thesis by auto
qed

lemma pattern_against_check_witness: "tenant_id_pattern ''42'' \<and> \<not> valid_tenant_id ''42'' \<and> tenant_id_pattern ''a1''"
proof -
  have p: "tenant_id_pattern ''42''" "tenant_id_pattern ''a1''" by (simp_all add: tenant_id_pattern_def pattern_edge_def c_digit_def)
  with pattern_against_check [OF p(1)] show ?thesis by simp
qed

end
