(* ===== verification/HawkBit.thy ===== *)
theory HawkBit
  imports IOLogic
begin

text \<open>
  \<open>app/clients/hawkbit.py\<close>: the client of hawkBit's management API, which creates and reads the
  update target of a device. \<open>None\<close> is \<^term>\<open>JNull\<close>, so that the callers' \<open>if existing:\<close> is \<^const>\<open>truth\<close>.
\<close>

record hawkbit_client =
  hb_base_url :: string
  hb_auth :: auth

definition new_hawkbit_client :: "string \<Rightarrow> string \<Rightarrow> string \<Rightarrow> hawkbit_client" where
  "new_hawkbit_client base_url username password =
     \<lparr>hb_base_url = rstrip_char CHR ''/'' base_url, hb_auth = Basic username password\<rparr>"

definition get_hawkbit_client :: "settings \<Rightarrow> hawkbit_client" where
  "get_hawkbit_client s = new_hawkbit_client (hawkbit_url s) (hawkbit_user s) (hawkbit_password s)"

definition hb_request :: "hawkbit_client \<Rightarrow> meth \<Rightarrow> string \<Rightarrow> body \<Rightarrow> request" where
  "hb_request c m path b = \<lparr>rq_meth = m, rq_url = hb_base_url c @ ''/rest/v1/targets'' @ path,
     rq_auth = hb_auth c, rq_body = b, rq_verify = True\<rparr>"

definition returned :: "response \<Rightarrow> string" where
  "returned r = '' returned '' @ dec_int (rs_status r) @ '': '' @ rs_text r"

definition get_target :: "hawkbit_client \<Rightarrow> string \<Rightarrow> json io" where
  "get_target c controller_id =
     bnd (http (hb_request c GET (''/'' @ controller_id) NoBody)) (\<lambda>resp.
       if rs_status resp = 404 then ret JNull
       else if \<not> is_success resp then raise (HawkBitError (''hawkBit GET target'' @ returned resp))
       else resp_json resp)"

definition put_attributes :: "hawkbit_client \<Rightarrow> string \<Rightarrow> (string, json) dict \<Rightarrow> unit io" where
  "put_attributes c controller_id attributes =
     bnd (http (hb_request c PUT (''/'' @ controller_id @ ''/attributes'') (JsonBody (JObj attributes)))) (\<lambda>resp.
       if \<not> is_success resp then raise (HawkBitError (''hawkBit PUT attributes'' @ returned resp))
       else ret ())"

definition create_target :: "hawkbit_client \<Rightarrow> string \<Rightarrow> json \<Rightarrow> (string, json) dict \<Rightarrow> json io" where
  "create_target c controller_id name attributes =
     bnd (http (hb_request c POST [] (JsonBody (JArr [JObj
           [(''controllerId'', JStr controller_id), (''name'', name)]])))) (\<lambda>resp.
       if \<not> is_success resp then raise (HawkBitError (''hawkBit POST targets'' @ returned resp))
       else bnd (resp_json resp) (\<lambda>created. bnd (jfirst created) (\<lambda>target.
         thn (if attributes \<noteq> [] then put_attributes c controller_id attributes else ret ())
           (ret target))))"

section \<open>The requests of the client\<close>

text \<open>Every request goes to the target API of the configured server, with the configured account.\<close>

definition hb_kind :: "hawkbit_client \<Rightarrow> meth set \<Rightarrow> request \<Rightarrow> bool" where
  "hb_kind c ms r \<longleftrightarrow> rq_meth r \<in> ms \<and> rq_auth r = hb_auth c \<and> rq_verify r \<and>
     startswith (rq_url r) (hb_base_url c @ ''/rest/v1/targets'')"

lemma hb_kind_request [simp]: "hb_kind c ms (hb_request c m p b) \<longleftrightarrow> m \<in> ms"
  by (simp add: hb_kind_def hb_request_def startswith_def)

interpretation hb_get: service_call "get_target c d" "hb_kind c {GET}" for c d
  by (rule service_callI) (auto simp: get_target_def intro!: keeps_rules sends_rules)

interpretation hb_put: service_call "put_attributes c d a" "hb_kind c {PUT}" for c d a
  by (rule service_callI) (auto simp: put_attributes_def intro!: keeps_rules sends_rules)

interpretation hb_create: service_call "create_target c d n a" "hb_kind c {POST, PUT}" for c d n a
proof (rule service_callI)
  show "keeps stores (create_target c d n a)"
    unfolding create_target_def by (intro keeps_rules hb_put.call_stores)
  have "sends (hb_kind c {POST, PUT}) (put_attributes c d a)"
    by (rule sends_mono [OF hb_put.call_sends]) (simp add: hb_kind_def)
  then show "sends (hb_kind c {POST, PUT}) (create_target c d n a)"
    unfolding create_target_def by (intro sends_rules) simp_all
qed

end
