(* ===== verification/IPv4.thy ===== *)
theory IPv4
  imports PyStr "HOL-Library.Word"
begin

unbundle bit_operations_syntax

text \<open>
  The IPv4 part of Python's \<open>ipaddress\<close> module, which the WireGuard allocator is built on: an address
  is a 32-bit word, its text is dotted decimal, and a network is an address with its host bits
  cleared and a prefix length. \<open>hosts\<close> is \<open>IPv4Network.hosts()\<close>.
\<close>

section \<open>Addresses\<close>

type_synonym ipv4 = "32 word"

definition octets :: "ipv4 \<Rightarrow> nat list" where
  "octets w = [unat w div 16777216, unat w div 65536 mod 256, unat w div 256 mod 256, unat w mod 256]"

definition ip_str :: "ipv4 \<Rightarrow> string" where
  "ip_str w = join ''.'' (map dec (octets w))"

definition parse_octet :: "string \<Rightarrow> nat option" where
  "parse_octet s = (if s = [] then None
     else if \<not> list_all c_digit s then None
     else if 3 < length s then None
     else if s \<noteq> ''0'' \<and> hd s = CHR ''0'' then None
     else if 255 < undec s then None
     else Some (undec s))"

definition ip_parse :: "string \<Rightarrow> ipv4 option" where
  "ip_parse s = (case map parse_octet (split_on CHR ''.'' s) of
       [Some a, Some b, Some c, Some d] \<Rightarrow> Some (of_nat (a * 16777216 + b * 65536 + c * 256 + d))
     | _ \<Rightarrow> None)"

section \<open>Networks\<close>

record ip_net =
  net_addr :: ipv4
  net_prefixlen :: nat

definition hostmask :: "nat \<Rightarrow> ipv4" where
  "hostmask p = mask (32 - p)"

definition netmask :: "nat \<Rightarrow> ipv4" where
  "netmask p = NOT (hostmask p)"

definition broadcast :: "ip_net \<Rightarrow> ipv4" where
  "broadcast n = net_addr n OR hostmask (net_prefixlen n)"

text \<open>
  The part after the slash: a prefix length in ASCII digits, or a netmask, or else a hostmask, in
  dotted decimal.
\<close>

definition parse_prefix :: "string \<Rightarrow> nat option" where
  "parse_prefix s =
     (if s \<noteq> [] \<and> list_all c_digit s then (if undec s \<le> 32 then Some (undec s) else None)
      else case ip_parse s of None \<Rightarrow> None
       | Some m \<Rightarrow> (case find (\<lambda>p. netmask p = m) [0..<33] of Some p \<Rightarrow> Some p
           | None \<Rightarrow> find (\<lambda>p. hostmask p = m) [0..<33]))"

text \<open>\<open>ipaddress.ip_network(s, strict=False)\<close>: the host bits are masked out.\<close>

definition ip_network :: "string \<Rightarrow> ip_net option" where
  "ip_network s = (case split_on CHR ''/'' s of
       [a] \<Rightarrow> map_option (\<lambda>w. \<lparr>net_addr = w, net_prefixlen = 32\<rparr>) (ip_parse a)
     | [a, m] \<Rightarrow> (case (ip_parse a, parse_prefix m) of
           (Some w, Some p) \<Rightarrow> Some \<lparr>net_addr = w AND netmask p, net_prefixlen = p\<rparr>
         | _ \<Rightarrow> None)
     | _ \<Rightarrow> None)"

definition net_str :: "ip_net \<Rightarrow> string" where
  "net_str n = ip_str (net_addr n) @ ''/'' @ dec (net_prefixlen n)"

text \<open>\<open>hosts()\<close>: both addresses of a /31, the address of a /32, otherwise all strictly between.\<close>

definition hosts :: "ip_net \<Rightarrow> ipv4 list" where
  "hosts n = (if net_prefixlen n = 32 then [net_addr n]
     else if net_prefixlen n = 31 then map of_nat [unat (net_addr n) ..< Suc (unat (broadcast n))]
     else map of_nat [Suc (unat (net_addr n)) ..< unat (broadcast n)])"

definition net_wf :: "ip_net \<Rightarrow> bool" where
  "net_wf n = (net_prefixlen n \<le> 32 \<and> net_addr n AND hostmask (net_prefixlen n) = 0)"

section \<open>The text of an address is read back\<close>

lemma parse_octet_dec: "n < 256 \<Longrightarrow> parse_octet (dec n) = Some n"
proof -
  assume n: "n < 256"
  then have "length (dec n) \<le> 3" using length_dec [of n 2] by simp
  moreover have "dec n = ''0'' \<or> hd (dec n) \<noteq> CHR ''0''"
    using hd_dec [of n] by (cases "n = 0") (simp_all add: dec.simps digit_def char_of_def bit_simps)
  ultimately show ?thesis using n by (simp add: parse_octet_def dec_nonempty dec_digits undec_dec)
qed

lemma dec_no_dot: "CHR ''.'' \<notin> set (dec n)"
  using dec_digits [of n] by (auto simp: list_all_iff c_digit_def)

lemma octet_bounds: "list_all (\<lambda>n. n < 256) (octets w)"
proof -
  have "unat w < 4294967296" using unsigned_less [of w] by simp
  then have "unat w div 16777216 < 256" by (simp add: less_mult_imp_div_less)
  then show ?thesis by (simp add: octets_def)
qed

lemma octets_value:
  "(n::nat) div 16777216 * 16777216 + n div 65536 mod 256 * 65536 + n div 256 mod 256 * 256 + n mod 256 = n"
proof -
  have "n div 65536 div 256 = n div 16777216" "n div 256 div 256 = n div 65536"
    by (simp_all add: div_mult2_eq [symmetric])
  then show ?thesis
    using div_mult_mod_eq [of n 256] div_mult_mod_eq [of "n div 256" 256] div_mult_mod_eq [of "n div 65536" 256]
    by linarith
qed

lemma ip_parse_str: "ip_parse (ip_str w) = Some w"
proof -
  have sp: "split_on CHR ''.'' (ip_str w) = map dec (octets w)"
    unfolding ip_str_def by (rule split_on_join) (auto simp: octets_def dec_no_dot)
  have "map parse_octet (map dec (octets w)) = map Some (octets w)"
    using octet_bounds [of w] by (simp add: list_all_iff parse_octet_dec)
  then have p: "map parse_octet (split_on CHR ''.'' (ip_str w)) = map Some (octets w)"
    by (simp add: sp)
  show ?thesis unfolding ip_parse_def p by (simp add: octets_def octets_value)
qed

section \<open>The hosts of a network\<close>

lemma and_hostmask: "w AND hostmask p = take_bit (32 - p) w"
  by (simp add: hostmask_def take_bit_eq_mask)

lemma unat_and_hostmask: "unat (w AND hostmask p) = unat w mod 2 ^ (32 - p)"
  by (simp only: and_hostmask unsigned_take_bit_eq take_bit_eq_mod [of "32 - p" "unat w"])

lemma netmask_hostmask: "(w AND netmask p) AND hostmask p = 0"
  by (simp add: netmask_def and.assoc)

lemma unat_or_disjoint: "v AND w = 0 \<Longrightarrow> unat (v OR w) = unat v + unat (w :: ipv4)"
proof -
  assume "v AND w = 0"
  then have "unat v AND unat w = 0" by (metis unsigned_0 unsigned_and_eq)
  then show ?thesis by (simp add: unsigned_or_eq disjunctive_add_eq_or)
qed

text \<open>An address is its network part plus its host number.\<close>

lemma unat_split: "unat w = unat (w AND netmask p) + unat w mod 2 ^ (32 - p)"
proof -
  have "(w AND netmask p) OR (w AND hostmask p) = w"
    by (simp add: netmask_def bit.conj_disj_distrib [symmetric])
  moreover have "(w AND netmask p) AND (w AND hostmask p) = 0"
    by (metis and.assoc and.commute and.left_commute and_zero_eq netmask_hostmask)
  ultimately have "unat w = unat (w AND netmask p) + unat (w AND hostmask p)"
    by (metis unat_or_disjoint)
  then show ?thesis by (simp add: unat_and_hostmask)
qed

lemma unat_hostmask: "unat (hostmask p) = 2 ^ (32 - p) - 1"
proof -
  have "unat (- 1 AND hostmask p) = unat (- 1 :: ipv4) mod 2 ^ (32 - p)" by (rule unat_and_hostmask)
  also have "unat (- 1 :: ipv4) = 2 ^ 32 - 1" by code_simp
  also have "(2 ^ 32 - 1) mod 2 ^ (32 - p) = (2 ^ (32 - p) - 1 :: nat)"
  proof -
    define a b where "a = (2::nat) ^ (32 - p)" and "b = (2::nat) ^ min 32 p"
    have "(32 - p) + min 32 p = 32" by (simp add: min_def)
    then have "(2::nat) ^ 32 = a * b" unfolding a_def b_def by (metis power_add)
    moreover obtain c where "b = Suc c" by (cases b) (auto simp: b_def)
    moreover have "0 < a" by (simp add: a_def)
    ultimately have "(2::nat) ^ 32 - 1 = (a - 1) + a * c" by (simp del: power_numeral)
    moreover have "((a - 1) + a * c) mod a = a - 1"
      using \<open>0 < a\<close> by (subst mod_mult_self2) simp
    ultimately show ?thesis unfolding a_def by metis
  qed
  finally show ?thesis by simp
qed

lemma unat_broadcast: "net_wf n \<Longrightarrow> unat (broadcast n) = unat (net_addr n) + (2 ^ (32 - net_prefixlen n) - 1)"
  by (simp add: broadcast_def net_wf_def unat_or_disjoint unat_hostmask)

lemma ip_network_wf: "ip_network s = Some n \<Longrightarrow> net_wf n"
proof -
  assume "ip_network s = Some n"
  moreover have "parse_prefix m = Some p \<Longrightarrow> p \<le> 32" for m p
    by (auto simp: parse_prefix_def find_Some_iff nth_upt split: if_splits option.splits)
  moreover have "x AND hostmask 32 = 0" for x by (simp add: hostmask_def)
  ultimately show ?thesis
    by (auto simp: ip_network_def net_wf_def netmask_hostmask split: list.splits option.splits)
qed

lemma ip_net_in_range: "net_wf n \<Longrightarrow> unat w \<le> unat (broadcast n) \<Longrightarrow> unat (net_addr n) \<le> unat w \<Longrightarrow>
    w AND netmask (net_prefixlen n) = net_addr n"
proof -
  assume n: "net_wf n" and w: "unat w \<le> unat (broadcast n)" "unat (net_addr n) \<le> unat w"
  let ?p = "net_prefixlen n" and ?k = "32 - net_prefixlen n"
  have a: "unat (net_addr n) mod 2 ^ ?k = 0"
    using n unat_and_hostmask [of "net_addr n" ?p] by (simp add: net_wf_def)
  then obtain q where q: "unat (net_addr n) = 2 ^ ?k * q" by (auto simp: mod_eq_0_iff_dvd dvd_def)
  define r where "r = unat w - unat (net_addr n)"
  have k: "(0::nat) < 2 ^ ?k" by simp
  have r: "unat w = 2 ^ ?k * q + r" using w(2) q by (simp add: r_def)
  moreover have "unat w \<le> 2 ^ ?k * q + (2 ^ ?k - 1)" using w(1) q unat_broadcast [OF n] by linarith
  ultimately have r2: "r < 2 ^ ?k" using k by linarith
  from r r2 have "unat w mod 2 ^ ?k = r" by simp
  then have "unat (w AND netmask ?p) = unat (net_addr n)"
    using unat_split [of w ?p] r q by simp
  then show ?thesis by (simp only: word_unat_eq_iff)
qed

lemma hosts_range:
  assumes "net_wf n" "h \<in> set (hosts n)"
  shows "unat (net_addr n) \<le> unat h \<and> unat h \<le> unat (broadcast n)"
proof -
  have le: "unat (of_nat x :: ipv4) = x" if "x \<le> unat (broadcast n)" for x
    using that by (rule le_unat_uoi)
  have "unat (net_addr n) \<le> unat (broadcast n)" using unat_broadcast [OF assms(1)] by linarith
  with assms(2) show ?thesis
    by (auto simp: hosts_def le split: if_splits)
qed

lemma hosts_in_network: "net_wf n \<Longrightarrow> h \<in> set (hosts n) \<Longrightarrow> h AND netmask (net_prefixlen n) = net_addr n"
  using hosts_range ip_net_in_range by blast

text \<open>Up to a /30 the hosts are exactly the addresses of the network but its first and its last.\<close>

lemma hosts_iff:
  assumes "net_wf n" "net_prefixlen n \<le> 30"
  shows "h \<in> set (hosts n) \<longleftrightarrow> h AND netmask (net_prefixlen n) = net_addr n \<and> h \<noteq> net_addr n \<and> h \<noteq> broadcast n"
proof
  assume h: "h \<in> set (hosts n)"
  have "unat (of_nat x :: ipv4) = x" if "x \<le> unat (broadcast n)" for x
    using that by (rule le_unat_uoi)
  with h assms(2) have "unat (net_addr n) < unat h \<and> unat h < unat (broadcast n)"
    by (auto simp: hosts_def)
  with hosts_in_network [OF assms(1) h]
  show "h AND netmask (net_prefixlen n) = net_addr n \<and> h \<noteq> net_addr n \<and> h \<noteq> broadcast n" by auto
next
  let ?k = "32 - net_prefixlen n"
  assume h: "h AND netmask (net_prefixlen n) = net_addr n \<and> h \<noteq> net_addr n \<and> h \<noteq> broadcast n"
  then have u: "unat h = unat (net_addr n) + unat h mod 2 ^ ?k"
    using unat_split [of h "net_prefixlen n"] by simp
  have "unat h mod 2 ^ ?k < 2 ^ ?k" by simp
  with u unat_broadcast [OF assms(1)] have "unat h \<le> unat (broadcast n)" by linarith
  moreover have "unat h \<noteq> unat (net_addr n)" "unat h \<noteq> unat (broadcast n)" using h by (auto simp: word_unat_eq_iff)
  ultimately have "unat h \<in> set [Suc (unat (net_addr n)) ..< unat (broadcast n)]" using u by simp
  then have "of_nat (unat h) \<in> set (hosts n)" using assms(2) by (force simp: hosts_def)
  then show "h \<in> set (hosts n)" by simp
qed

lemma distinct_of_nat: "\<forall>x\<in>set xs. x < 4294967296 \<Longrightarrow> distinct xs \<Longrightarrow> distinct (map of_nat xs :: ipv4 list)"
  by (auto simp: distinct_map inj_on_def word_unat_eq_iff unat_of_nat)

lemma hosts_distinct: "distinct (hosts n)"
proof -
  have "unat (broadcast n) < 4294967296" using unsigned_less [of "broadcast n"] by simp
  then show ?thesis by (auto simp: hosts_def simp del: upt_Suc intro!: distinct_of_nat)
qed

end
