(* ===== verification/WireGuard.thy ===== *)
theory WireGuard
  imports IOLogic IPv4
begin

text \<open>
  \<open>app/clients/wireguard.py\<close> (and \<open>get_wg_config\<close> of \<open>app/deps.py\<close>): the IP allocator over the file
  \<open>cdm_peers.json\<close> (\<open>w_peers\<close>), the \<open>[Peer]\<close> blocks appended to the server's \<open>wg0.conf\<close> (\<open>w_wg_conf\<close>)
  and the client configuration. The contract the enrollment and the webhook rely on is the locale
  \<open>ip_allocator\<close>.
\<close>

section \<open>Configuration\<close>

record wg_config =
  wc_subnet :: ip_net
  wc_server_ip :: ipv4
  wc_server_url :: string
  wc_server_port :: int

definition ip_address :: "string \<Rightarrow> exn + ipv4" where
  "ip_address s = (case ip_parse s of Some w \<Rightarrow> Inr w
     | None \<Rightarrow> Inl (ValueError (s @ '' does not appear to be an IPv4 or IPv6 address'')))"

definition new_wg_config :: "string \<Rightarrow> string \<Rightarrow> string \<Rightarrow> int \<Rightarrow> exn + wg_config" where
  "new_wg_config subnet server_ip server_url server_port = (case ip_network subnet of
       None \<Rightarrow> Inl (ValueError (subnet @ '' does not appear to be an IPv4 or IPv6 network''))
     | Some n \<Rightarrow> (case ip_address server_ip of Inl x \<Rightarrow> Inl x
         | Inr ip \<Rightarrow> Inr \<lparr>wc_subnet = n, wc_server_ip = ip, wc_server_url = server_url,
             wc_server_port = server_port\<rparr>))"

definition get_wg_config :: "settings \<Rightarrow> exn + wg_config" where
  "get_wg_config s = new_wg_config (wg_subnet s) (wg_server_ip s) (wg_server_url s) (wg_port s)"

section \<open>Allocation\<close>

definition load_peers :: "(string, string) dict io" where
  "load_peers = gets (\<lambda>w. case w_peers w of Some p \<Rightarrow> p | None \<Rightarrow> [])"

definition save_peers :: "(string, string) dict \<Rightarrow> unit io" where
  "save_peers p = modify (\<lambda>w. w\<lparr>w_peers := Some p\<rparr>)"

fun parse_ips :: "string list \<Rightarrow> exn + ipv4 list" where
  "parse_ips [] = Inr []"
| "parse_ips (s # ss) = (case ip_address s of Inl x \<Rightarrow> Inl x
     | Inr w \<Rightarrow> (case parse_ips ss of Inl x \<Rightarrow> Inl x | Inr ws \<Rightarrow> Inr (w # ws)))"

definition no_available_ips :: "wg_config \<Rightarrow> string" where
  "no_available_ips c = ''No available IPs in subnet '' @ net_str (wc_subnet c)"

definition allocate_ip :: "wg_config \<Rightarrow> string \<Rightarrow> string io" where
  "allocate_ip c device_id = bnd load_peers (\<lambda>peers.
     case dict_get peers device_id of Some ip \<Rightarrow> ret ip
     | None \<Rightarrow> bnd (lift_sum (parse_ips (dict_values peers))) (\<lambda>ips.
         let used = wc_server_ip c # ips in
         case find (\<lambda>host. host \<notin> set used) (hosts (wc_subnet c)) of
           Some host \<Rightarrow> thn (save_peers (dict_set device_id (ip_str host) peers)) (ret (ip_str host))
         | None \<Rightarrow> raise (WireGuardError (no_available_ips c))))"

section \<open>Configuration files\<close>

definition get_server_pubkey :: "string io" where
  "get_server_pubkey = gets (\<lambda>w. case w_server_pubkey w of Some t \<Rightarrow> strip t
     | None \<Rightarrow> ''<SERVER_PUBLIC_KEY '' @ en_dash @
         '' run: docker exec cdm-wireguard cat /config/server/publickey>'')"

definition peer_block :: "string \<Rightarrow> string \<Rightarrow> string \<Rightarrow> string" where
  "peer_block device_id device_ip device_pubkey =
     ''\<newline>[Peer]\<newline># device: '' @ device_id @ ''\<newline>PublicKey = '' @ device_pubkey @
     ''\<newline>AllowedIPs = '' @ device_ip @ ''/32\<newline>''"

definition write_server_peer :: "string \<Rightarrow> string \<Rightarrow> string \<Rightarrow> unit io" where
  "write_server_peer device_id device_ip device_pubkey = modify (\<lambda>w. case w_wg_conf w of
       None \<Rightarrow> w
     | Some conf \<Rightarrow> w\<lparr>w_wg_conf := Some (conf @ peer_block device_id device_ip device_pubkey)\<rparr>)"

definition client_config :: "wg_config \<Rightarrow> string \<Rightarrow> string \<Rightarrow> string \<Rightarrow> string" where
  "client_config c device_id device_ip server_pubkey =
     ''[Interface]\<newline># Device: '' @ device_id @ ''\<newline>Address = '' @ device_ip @
     ''/24\<newline>PrivateKey = <REPLACE_WITH_DEVICE_PRIVATE_KEY>\<newline>DNS = '' @ ip_str (wc_server_ip c) @
     ''\<newline>\<newline>[Peer]\<newline>PublicKey = '' @ server_pubkey @ ''\<newline>Endpoint = '' @ wc_server_url c @ '':'' @
     dec_int (wc_server_port c) @ ''\<newline>AllowedIPs = '' @ net_str (wc_subnet c) @
     ''\<newline>PersistentKeepalive = 25\<newline>''"

definition generate_client_config :: "wg_config \<Rightarrow> string \<Rightarrow> string \<Rightarrow> string \<Rightarrow> string io" where
  "generate_client_config c device_id device_ip device_pubkey =
     thn (if device_pubkey \<noteq> [] then write_server_peer device_id device_ip device_pubkey else ret ())
       (bnd get_server_pubkey (\<lambda>k. ret (client_config c device_id device_ip k)))"

section \<open>The contract of the allocator\<close>

text \<open>
  What the handlers promise their callers rests on this: an allocation succeeds with the address a
  device already has or with one no other device has, and otherwise changes nothing.
\<close>

locale ip_allocator =
  fixes alloc :: "'d \<Rightarrow> 's \<Rightarrow> ('e + 'ip) \<times> 's"
    and assigned :: "'s \<Rightarrow> 'd \<Rightarrow> 'ip option"
    and ok :: "'s \<Rightarrow> bool"
  assumes alloc_hit: "ok s \<Longrightarrow> assigned s d = Some ip \<Longrightarrow> alloc d s = (Inr ip, s)"
    and alloc_value: "ok s \<Longrightarrow> alloc d s = (Inr ip, s') \<Longrightarrow> assigned s' = (assigned s)(d \<mapsto> ip)"
    and alloc_error: "ok s \<Longrightarrow> alloc d s = (Inl x, s') \<Longrightarrow> s' = s"
    and alloc_ok: "ok s \<Longrightarrow> alloc d s = (r, s') \<Longrightarrow> ok s'"
    and unique: "ok s \<Longrightarrow> assigned s d = Some ip \<Longrightarrow> assigned s d' = Some ip \<Longrightarrow> d = d'"
begin

lemma idempotent: "ok s \<Longrightarrow> alloc d s = (Inr ip, s') \<Longrightarrow> alloc d s' = (Inr ip, s')"
  by (rule alloc_hit) (auto dest: alloc_ok alloc_value)

lemma stable:
  assumes "ok s" "assigned s a = Some i" "alloc b s = (r, s')"
  shows "assigned s' a = Some i"
proof (cases r)
  case (Inl x)
  with assms show ?thesis by (auto dest: alloc_error)
next
  case (Inr ip)
  with assms have v: "assigned s' = (assigned s)(b \<mapsto> ip)" by (auto dest: alloc_value)
  show ?thesis
  proof (cases "a = b")
    case True
    with assms Inr have "r = Inr i" by (auto dest: alloc_hit)
    with Inr v True show ?thesis by simp
  qed (simp add: v assms)
qed

lemma separate:
  assumes "ok s" "alloc a s = (Inr i, s1)" "alloc b s1 = (Inr j, s2)" "a \<noteq> b"
  shows "i \<noteq> j"
proof
  assume "i = j"
  have s1: "ok s1" "assigned s1 a = Some i" using assms by (auto dest: alloc_ok alloc_value)
  then have "assigned s2 a = Some i" using assms(3) by (rule stable)
  moreover have "ok s2" "assigned s2 b = Some j" using s1 assms(3) by (auto dest: alloc_ok alloc_value)
  ultimately show False using \<open>i = j\<close> assms(4) unique by blast
qed

text \<open>Any number of allocations: a sequence of requests, whatever their results.\<close>

fun alloc_all :: "'d list \<Rightarrow> 's \<Rightarrow> 's" where
  "alloc_all [] s = s"
| "alloc_all (d # ds) s = alloc_all ds (snd (alloc d s))"

lemma all_ok: "ok s \<Longrightarrow> ok (alloc_all ds s)"
proof (induction ds arbitrary: s)
  case (Cons d ds)
  then show ?case by (metis alloc_all.simps(2) alloc_ok prod.collapse)
qed simp

lemma all_stable: "ok s \<Longrightarrow> assigned s a = Some i \<Longrightarrow> assigned (alloc_all ds s) a = Some i"
proof (induction ds arbitrary: s)
  case (Cons d ds)
  then show ?case by (metis alloc_all.simps(2) alloc_ok prod.collapse stable)
qed simp

end

section \<open>The invariant of the peers file\<close>

definition peers :: "world \<Rightarrow> (string, string) dict" where
  "peers w = (case w_peers w of Some p \<Rightarrow> p | None \<Rightarrow> [])"

definition assigned_ip :: "world \<Rightarrow> string \<Rightarrow> string option" where
  "assigned_ip w d = dict_get (peers w) d"

text \<open>
  Every assignment is the text of a host of the subnet other than the server's address, and no
  address is assigned twice.
\<close>

definition peers_ok :: "wg_config \<Rightarrow> world \<Rightarrow> bool" where
  "peers_ok c w \<longleftrightarrow> dict_wf (peers w) \<and> distinct (dict_values (peers w)) \<and>
     (\<forall>ip\<in>set (dict_values (peers w)). \<exists>h\<in>set (hosts (wc_subnet c)). h \<noteq> wc_server_ip c \<and> ip = ip_str h)"

lemma ip_str_inject: "ip_str v = ip_str w \<longleftrightarrow> v = w"
  by (metis ip_parse_str option.inject)

lemma ip_address_str: "ip_address (ip_str w) = Inr w"
  by (simp add: ip_address_def ip_parse_str)

lemma parse_ips_str: "parse_ips (map ip_str ws) = Inr ws"
  by (induction ws) (simp_all add: ip_address_str)

lemma peers_ok_parse:
  assumes "peers_ok c w"
  obtains hs where "dict_values (peers w) = map ip_str hs" "parse_ips (dict_values (peers w)) = Inr hs"
    "set hs \<subseteq> set (hosts (wc_subnet c))" "wc_server_ip c \<notin> set hs"
proof -
  have "\<forall>ip\<in>set (dict_values (peers w)). \<exists>h. h \<in> set (hosts (wc_subnet c)) \<and> h \<noteq> wc_server_ip c \<and> ip = ip_str h"
    using assms by (auto simp: peers_ok_def)
  then obtain f where f: "\<forall>ip\<in>set (dict_values (peers w)). f ip \<in> set (hosts (wc_subnet c)) \<and>
      f ip \<noteq> wc_server_ip c \<and> ip = ip_str (f ip)" by metis
  let ?hs = "map f (dict_values (peers w))"
  have e: "dict_values (peers w) = map ip_str ?hs" using f by (simp add: map_idI)
  show ?thesis
  proof (rule that [of ?hs])
    show "parse_ips (dict_values (peers w)) = Inr ?hs" by (metis e parse_ips_str)
    show "set ?hs \<subseteq> set (hosts (wc_subnet c))" "wc_server_ip c \<notin> set ?hs" using f by auto
  qed (rule e)
qed

text \<open>What \<open>allocate_ip\<close> does, on each of its branches.\<close>

lemma allocate_known: "assigned_ip w d = Some ip \<Longrightarrow> allocate_ip c d e w = (Inr ip, w)"
  by (simp add: allocate_ip_def load_peers_def assigned_ip_def peers_def run_simps)

lemma allocate_new:
  assumes "assigned_ip w d = None" "parse_ips (dict_values (peers w)) = Inr hs"
    "find (\<lambda>h. h \<noteq> wc_server_ip c \<and> h \<notin> set hs) (hosts (wc_subnet c)) = Some h"
  shows "allocate_ip c d e w = (Inr (ip_str h), w\<lparr>w_peers := Some (peers w @ [(d, ip_str h)])\<rparr>)"
  using assms by (simp add: allocate_ip_def load_peers_def save_peers_def assigned_ip_def lift_sum_def
      peers_def run_simps dict_set_fresh)

lemma allocate_full:
  assumes "assigned_ip w d = None" "parse_ips (dict_values (peers w)) = Inr hs"
    "find (\<lambda>h. h \<noteq> wc_server_ip c \<and> h \<notin> set hs) (hosts (wc_subnet c)) = None"
  shows "allocate_ip c d e w = (Inl (WireGuardError (no_available_ips c)), w)"
  using assms by (simp add: allocate_ip_def load_peers_def assigned_ip_def lift_sum_def peers_def run_simps)

text \<open>The three cases together, in a world that satisfies the invariant.\<close>

lemma allocate_cases:
  assumes ok: "peers_ok c w" and run: "allocate_ip c d e w = (r, w')"
  obtains (known) ip where "assigned_ip w d = Some ip" "r = Inr ip" "w' = w"
  | (fresh) h pre post where "assigned_ip w d = None" "hosts (wc_subnet c) = pre @ h # post"
      "h \<noteq> wc_server_ip c" "ip_str h \<notin> set (dict_values (peers w))"
      "\<forall>g\<in>set pre. g = wc_server_ip c \<or> ip_str g \<in> set (dict_values (peers w))"
      "r = Inr (ip_str h)" "w' = w\<lparr>w_peers := Some (peers w @ [(d, ip_str h)])\<rparr>"
  | (full) "assigned_ip w d = None" "\<forall>g\<in>set (hosts (wc_subnet c)). g = wc_server_ip c \<or> ip_str g \<in> set (dict_values (peers w))"
      "r = Inl (WireGuardError (no_available_ips c))" "w' = w"
proof (cases "assigned_ip w d")
  case (Some ip)
  from run allocate_known [OF Some] have "r = Inr ip" "w' = w" by simp_all
  with Some show ?thesis by (rule that(1))
next
  case None
  obtain hs where hs: "dict_values (peers w) = map ip_str hs" "parse_ips (dict_values (peers w)) = Inr hs"
    using peers_ok_parse [OF ok] by metis
  have mem: "ip_str g \<in> set (dict_values (peers w)) \<longleftrightarrow> g \<in> set hs" for g
    by (auto simp: hs(1) ip_str_inject)
  show ?thesis
  proof (cases "find (\<lambda>h. h \<noteq> wc_server_ip c \<and> h \<notin> set hs) (hosts (wc_subnet c))")
    case f: None
    from f have "\<forall>g\<in>set (hosts (wc_subnet c)). g = wc_server_ip c \<or> ip_str g \<in> set (dict_values (peers w))"
      by (auto simp: find_None_iff mem)
    moreover from run allocate_full [OF None hs(2) f]
    have "r = Inl (WireGuardError (no_available_ips c))" "w' = w" by simp_all
    ultimately show ?thesis using None by (intro that(3))
  next
    case f: (Some h)
    then obtain i where i: "i < length (hosts (wc_subnet c))" "h \<noteq> wc_server_ip c" "h \<notin> set hs"
      "h = hosts (wc_subnet c) ! i"
      "\<forall>j<i. \<not> (hosts (wc_subnet c) ! j \<noteq> wc_server_ip c \<and> hosts (wc_subnet c) ! j \<notin> set hs)"
      by (auto simp: find_Some_iff)
    show ?thesis
    proof (rule that(2) [of "take i (hosts (wc_subnet c))" h "drop (Suc i) (hosts (wc_subnet c))"])
      show "hosts (wc_subnet c) = take i (hosts (wc_subnet c)) @ h # drop (Suc i) (hosts (wc_subnet c))"
        using i(1,4) by (simp add: id_take_nth_drop)
      show "\<forall>g\<in>set (take i (hosts (wc_subnet c))). g = wc_server_ip c \<or> ip_str g \<in> set (dict_values (peers w))"
      proof
        fix g assume "g \<in> set (take i (hosts (wc_subnet c)))"
        then obtain j where "j < i" "g = hosts (wc_subnet c) ! j"
          using i(1) by (auto simp: in_set_conv_nth)
        with i(5) show "g = wc_server_ip c \<or> ip_str g \<in> set (dict_values (peers w))"
          by (auto simp: mem)
      qed
    qed (use run allocate_new [OF None hs(2) f] None i in \<open>auto simp: mem\<close>)
  qed
qed

lemma peers_update [simp]: "peers (w\<lparr>w_peers := Some p\<rparr>) = p"
  by (simp add: peers_def)

lemma assigned_values: "assigned_ip w d = Some ip \<Longrightarrow> ip \<in> set (dict_values (peers w))"
  by (force simp: assigned_ip_def dict_values_def dest: map_of_SomeD)

lemma values_distinct_keys:
  "distinct (map snd p) \<Longrightarrow> (a, i) \<in> set p \<Longrightarrow> (b, i) \<in> set p \<Longrightarrow> a = b"
  by (induction p) force+

lemma allocate_preserves_ok:
  assumes ok: "peers_ok c w" and run: "allocate_ip c d e w = (r, w')"
  shows "peers_ok c w'"
  using ok run
proof (cases rule: allocate_cases)
  case (fresh h pre post)
  have "d \<notin> fst ` set (peers w)"
    using fresh(1) by (simp add: assigned_ip_def map_of_eq_None_iff)
  then show ?thesis using ok fresh
    by (auto simp: peers_ok_def dict_wf_def dict_values_def)
qed (use ok in simp_all)

interpretation wg_alloc: ip_allocator "\<lambda>d w. allocate_ip c d e w" assigned_ip "peers_ok c" for c e
proof
  fix s s' d d' ip x r
  assume ok: "peers_ok c s"
  show "assigned_ip s d = Some ip \<Longrightarrow> allocate_ip c d e s = (Inr ip, s)"
    by (rule allocate_known)
  show "assigned_ip s' = (assigned_ip s)(d \<mapsto> ip)" if "allocate_ip c d e s = (Inr ip, s')"
    using ok that
  proof (cases rule: allocate_cases)
    case (fresh h pre post)
    then show ?thesis by (auto simp: fun_eq_iff assigned_ip_def map_add_def split: option.split)
  qed (auto simp: fun_eq_iff)
  show "s' = s" if "allocate_ip c d e s = (Inl x, s')"
    using ok that by (cases rule: allocate_cases) simp_all
  show "peers_ok c s'" if "allocate_ip c d e s = (r, s')"
    using ok that by (rule allocate_preserves_ok)
  show "d = d'" if "assigned_ip s d = Some ip" "assigned_ip s d' = Some ip"
    using ok that by (auto simp: peers_ok_def assigned_ip_def dict_values_def
        dest!: map_of_SomeD intro: values_distinct_keys)
qed

section \<open>Frame\<close>

lemma keeps_load_peers [keeps_rules]: "keeps g load_peers"
  by (simp add: load_peers_def keeps_rules)

lemma keeps_save_peers: "(\<And>w p. g (w\<lparr>w_peers := p\<rparr>) = g w) \<Longrightarrow> keeps g (save_peers p)"
  by (simp add: save_peers_def keeps_modify)

lemma keeps_allocate: "(\<And>w p. g (w\<lparr>w_peers := p\<rparr>) = g w) \<Longrightarrow> keeps g (allocate_ip c d)"
  unfolding allocate_ip_def by (intro keeps_rules keeps_save_peers)

lemma keeps_generate:
  assumes "\<And>w p. g (w\<lparr>w_wg_conf := p\<rparr>) = g w"
  shows "keeps g (generate_client_config c d ip k)"
proof -
  have "keeps g (write_server_peer d ip k)"
    unfolding write_server_peer_def using assms by (intro keeps_modify) (simp split: option.split)
  then show ?thesis unfolding generate_client_config_def get_server_pubkey_def
    by (intro keeps_rules)
qed

lemma sends_allocate [sends_rules]: "sends S (allocate_ip c d)"
  by (rule sends_nothing) (simp add: keeps_allocate)

lemma sends_generate [sends_rules]: "sends S (generate_client_config c d ip k)"
  by (rule sends_nothing) (simp add: keeps_generate)

lemma allocate_trace: "allocate_ip c d e w = (r, w') \<Longrightarrow> w_trace w' = w_trace w"
  by (rule keepsD [OF keeps_allocate]) simp_all

lemma generate_trace: "generate_client_config c d ip k e w = (r, w') \<Longrightarrow> w_trace w' = w_trace w"
  by (rule keepsD [OF keeps_generate]) simp_all

section \<open>Addresses across handlers\<close>

text \<open>The peers file is well-formed and the device \<open>a\<close> has the address \<open>i\<close>.\<close>

definition has_address :: "wg_config \<Rightarrow> string \<Rightarrow> string \<Rightarrow> world \<Rightarrow> bool" where
  "has_address c a i w \<longleftrightarrow> peers_ok c w \<and> assigned_ip w a = Some i"

lemma peers_cong:
  assumes "w_peers w' = w_peers w"
  shows "peers_ok c w' = peers_ok c w" "assigned_ip w' = assigned_ip w" "has_address c a i w' = has_address c a i w"
  using assms by (simp_all add: has_address_def peers_ok_def assigned_ip_def peers_def fun_eq_iff)

lemma preserves_peers_keeps:
  assumes "keeps w_peers m"
  shows "preserves (peers_ok c) m" "preserves (has_address c a i) m"
  by (rule preserves_keeps [OF assms], metis peers_cong(1)) (rule preserves_keeps [OF assms], metis peers_cong(3))

lemma preserves_allocate [preserves_rules]:
  "preserves (peers_ok c) (allocate_ip c d)" "preserves (has_address c a i) (allocate_ip c d)"
proof -
  show "preserves (peers_ok c) (allocate_ip c d)"
    by (rule preservesI) (rule allocate_preserves_ok)
  show "preserves (has_address c a i) (allocate_ip c d)"
  proof (rule preservesI)
    fix e w r w'
    assume h: "has_address c a i w" and run: "allocate_ip c d e w = (r, w')"
    then have "peers_ok c w" "assigned_ip w a = Some i" by (simp_all add: has_address_def)
    with run show "has_address c a i w'"
      using allocate_preserves_ok [OF _ run] wg_alloc.stable [OF _ _ run] by (simp add: has_address_def)
  qed
qed

lemma preserves_generate [preserves_rules]:
  "preserves (peers_ok c) (generate_client_config g d ip k)"
  "preserves (has_address c a i) (generate_client_config g d ip k)"
  by (rule preserves_peers_keeps; simp add: keeps_generate)+

lemma allocate_has: "peers_ok c w \<Longrightarrow> allocate_ip c d e w = (Inr ip, w') \<Longrightarrow> has_address c d ip w'"
  by (simp add: has_address_def wg_alloc.alloc_ok wg_alloc.alloc_value)

lemma allocate_same: "has_address c d ip w \<Longrightarrow> allocate_ip c d e w = (Inr ip, w)"
  by (simp add: has_address_def allocate_known)

lemma address_unique: "has_address c a i w \<Longrightarrow> has_address c b i w \<Longrightarrow> a = b"
  unfolding has_address_def by (blast intro: wg_alloc.unique)

lemma address_host: "has_address c a i w \<Longrightarrow>
    \<exists>h\<in>set (hosts (wc_subnet c)). h \<noteq> wc_server_ip c \<and> i = ip_str h"
  by (auto simp: has_address_def peers_ok_def dest!: assigned_values)

section \<open>The abstract allocator\<close>

text \<open>
  The specification keeps a finite map from devices to addresses, and leases the first host that is
  neither the server's nor leased. The abstraction reads the addresses in the peers file.
\<close>

definition lease :: "ipv4 list \<Rightarrow> ipv4 \<Rightarrow> string \<Rightarrow> (string \<rightharpoonup> ipv4) \<Rightarrow> ipv4 option \<times> (string \<rightharpoonup> ipv4)" where
  "lease hs server d m = (case m d of Some h \<Rightarrow> (Some h, m)
     | None \<Rightarrow> (case find (\<lambda>h. h \<noteq> server \<and> h \<notin> ran m) hs of None \<Rightarrow> (None, m) | Some h \<Rightarrow> (Some h, m(d \<mapsto> h))))"

definition leases :: "world \<Rightarrow> string \<rightharpoonup> ipv4" where
  "leases w d = (case assigned_ip w d of None \<Rightarrow> None | Some ip \<Rightarrow> ip_parse ip)"

lemma ran_leases:
  assumes "peers_ok c w"
  shows "h \<in> ran (leases w) \<longleftrightarrow> ip_str h \<in> set (dict_values (peers w))"
proof
  assume "h \<in> ran (leases w)"
  then obtain d ip where "assigned_ip w d = Some ip" "ip_parse ip = Some h"
    by (auto simp: ran_def leases_def split: option.splits)
  moreover from this assms obtain g where "ip = ip_str g" by (auto simp: peers_ok_def dest!: assigned_values)
  ultimately show "ip_str h \<in> set (dict_values (peers w))" by (auto simp: ip_parse_str dest: assigned_values)
next
  assume "ip_str h \<in> set (dict_values (peers w))"
  then obtain d where "(d, ip_str h) \<in> set (peers w)" by (auto simp: dict_values_def)
  moreover have "distinct (map fst (peers w))" using assms by (simp add: peers_ok_def dict_wf_def)
  ultimately have "assigned_ip w d = Some (ip_str h)" by (simp add: assigned_ip_def)
  then have "leases w d = Some h" by (simp add: leases_def ip_parse_str)
  then show "h \<in> ran (leases w)" by (rule ranI)
qed

section \<open>Properties\<close>

text \<open>C26. The allocator refines the abstract one: on a well-formed peers file, \<open>allocate_ip\<close> returns the
  address that the specification leases, or fails exactly when that leases none, and leaves a
  well-formed file with the specified leases.\<close>

theorem allocation_refines:
  assumes "peers_ok c w" "allocate_ip c d e w = (r, w')"
  shows "lease (hosts (wc_subnet c)) (wc_server_ip c) d (leases w) =
      (case r of Inr ip \<Rightarrow> ip_parse ip | Inl _ \<Rightarrow> None, leases w') \<and> peers_ok c w'"
proof
  show "peers_ok c w'" using assms by (rule allocate_preserves_ok)
  show "lease (hosts (wc_subnet c)) (wc_server_ip c) d (leases w) =
      (case r of Inr ip \<Rightarrow> ip_parse ip | Inl _ \<Rightarrow> None, leases w')"
    using assms
  proof (cases rule: allocate_cases)
    case (known ip)
    from known(1) assms(1) obtain g where "ip = ip_str g" by (auto simp: peers_ok_def dest!: assigned_values)
    with known show ?thesis by (simp add: lease_def leases_def ip_parse_str)
  next
    case (fresh h pre post)
    let ?free = "\<lambda>h. h \<noteq> wc_server_ip c \<and> h \<notin> ran (leases w)"
    have "find ?free (hosts (wc_subnet c)) = Some h"
    proof -
      have "\<forall>g\<in>set pre. \<not> ?free g" using fresh(5) by (auto simp: ran_leases [OF assms(1)])
      then have "find ?free pre = None" by (simp add: find_None_iff)
      moreover have "?free h" using fresh(3,4) by (simp add: ran_leases [OF assms(1)])
      ultimately show ?thesis unfolding fresh(2) by (induction pre) (auto split: if_splits)
    qed
    moreover have "leases w' = (leases w)(d \<mapsto> h)"
      using fresh(1,7) by (auto simp: fun_eq_iff leases_def assigned_ip_def ip_parse_str map_add_def split: option.split)
    ultimately show ?thesis using fresh(1,6) by (simp add: lease_def leases_def ip_parse_str)
  next
    case full
    then have "find (\<lambda>h. h \<noteq> wc_server_ip c \<and> h \<notin> ran (leases w)) (hosts (wc_subnet c)) = None"
      by (auto simp: find_None_iff ran_leases [OF assms(1)])
    with full show ?thesis by (simp add: lease_def leases_def)
  qed
qed

text \<open>C27. A device that has no address yet gets one exactly as long as fewer devices have one than the subnet
  has hosts besides the server.\<close>

theorem allocation_until_exhausted:
  assumes "peers_ok c w" "assigned_ip w d = None"
  shows "(\<exists>ip w'. allocate_ip c d e w = (Inr ip, w')) \<longleftrightarrow>
    length (peers w) < length (filter (\<lambda>h. h \<noteq> wc_server_ip c) (hosts (wc_subnet c)))"
proof -
  let ?hs = "filter (\<lambda>h. h \<noteq> wc_server_ip c) (hosts (wc_subnet c))" and ?used = "set (dict_values (peers w))"
  obtain r w' where run: "allocate_ip c d e w = (r, w')" by fastforce
  have dist: "distinct (map ip_str ?hs)" by (simp add: hosts_distinct distinct_map inj_on_def ip_str_inject)
  have sub: "?used \<subseteq> set (map ip_str ?hs)" using assms(1) by (auto simp: peers_ok_def)
  have used: "card ?used = length (peers w)"
    using assms(1) distinct_card by (fastforce simp: peers_ok_def dict_values_def)
  have all: "card (set (map ip_str ?hs)) = length ?hs" using distinct_card [OF dist] by simp
  show ?thesis
    using assms(1) run
  proof (cases rule: allocate_cases)
    case (known ip)
    with assms(2) show ?thesis by simp
  next
    case (fresh h pre post)
    then have "ip_str h \<in> set (map ip_str ?hs) - ?used" by auto
    then have "?used \<subset> set (map ip_str ?hs)" using sub by auto
    then have "card ?used < card (set (map ip_str ?hs))" by (rule psubset_card_mono [OF finite_set])
    with fresh run used all show ?thesis by simp
  next
    case full
    then have "set (map ip_str ?hs) \<subseteq> ?used" by auto
    then have "card (set (map ip_str ?hs)) \<le> card ?used" by (rule card_mono [OF finite_set])
    with full run used all show ?thesis by simp
  qed
qed

end
