(* ===== verification/Enrollment.thy ===== *)
theory Enrollment
  imports StepCA HawkBit WireGuard
begin

text \<open>
  \<open>app/routers/enrollment.py\<close>: \<open>POST /devices/{device_id}/enroll\<close>. A device gets a certificate from
  step-ca, a target in hawkBit and an address in the VPN, in this order.
\<close>

section \<open>The handler\<close>

definition validate_csr :: "string \<Rightarrow> unit io" where
  "validate_csr csr_pem = try_except
     (bnd (asks (\<lambda>e. e_load_csr e csr_pem)) (\<lambda>r. case r of
         Inl m \<Rightarrow> raise (ValueError m)
       | Inr csr \<Rightarrow> if \<not> csr_signature_valid csr then raise (ValueError ''CSR signature is invalid'') else ret ()))
     (\<lambda>exc. raise (HTTPException 422 (''Invalid CSR: '' @ exn_str exc)))"

definition enroll_sign :: "step_ca_client \<Rightarrow> string \<Rightarrow> string \<Rightarrow> (json \<times> json) io" where
  "enroll_sign step_ca csr_pem device_id = try_except
     (bnd (sign_certificate step_ca csr_pem device_id [device_id]) (\<lambda>(certs, _). ret certs))
     (\<lambda>exc. case exc of
         RequestError m \<Rightarrow> raise (HTTPException 503 (''step-ca unreachable: '' @ m))
       | StepCAError m \<Rightarrow> raise (HTTPException 502 (''PKI signing failed: '' @ m))
       | _ \<Rightarrow> raise exc)"

definition enroll_target :: "hawkbit_client \<Rightarrow> string \<Rightarrow> enrollment_request \<Rightarrow> unit io" where
  "enroll_target hawkbit device_id body = try_except
     (bnd (get_target hawkbit device_id) (\<lambda>existing.
        if \<not> truth existing
        then bnd (create_target hawkbit device_id (JStr (er_device_name body))
               [(''device_type'', JStr (er_device_type body))]) (\<lambda>_. ret ())
        else ret ()))
     (\<lambda>exc. case exc of
         RequestError m \<Rightarrow> raise (HTTPException 503 (''hawkBit unreachable: '' @ m))
       | HawkBitError m \<Rightarrow> raise (HTTPException 502 (''hawkBit provisioning failed: '' @ m))
       | _ \<Rightarrow> raise exc)"

definition enroll_device :: "step_ca_client \<Rightarrow> hawkbit_client \<Rightarrow> wg_config \<Rightarrow> string \<Rightarrow> enrollment_request \<Rightarrow>
    enrollment_response io" where
  "enroll_device step_ca hawkbit wg device_id body =
     thn (validate_csr (er_csr body))
    (bnd (enroll_sign step_ca (er_csr body) device_id) (\<lambda>(cert_pem, ca_chain_pem).
     thn (enroll_target hawkbit device_id body)
    (bnd (allocate_ip wg device_id) (\<lambda>wg_ip.
     bnd (generate_client_config wg device_id wg_ip (opt_str_or (er_wg_public_key body) [])) (\<lambda>wg_cfg.
     bnd (as_str cert_pem) (\<lambda>certificate. bnd (as_str ca_chain_pem) (\<lambda>ca_chain.
     ret \<lparr>es_certificate = certificate, es_ca_chain = ca_chain, es_wireguard_ip = wg_ip,
       es_wireguard_config = wg_cfg\<rparr>)))))))"

text \<open>The endpoint with its dependencies of \<open>app/deps.py\<close>.\<close>

definition enroll_endpoint :: "string \<Rightarrow> enrollment_request \<Rightarrow> enrollment_response io" where
  "enroll_endpoint device_id body = bnd get_settings (\<lambda>s. bnd (lift_sum (get_wg_config s)) (\<lambda>wg.
     enroll_device (get_step_ca_client s) (get_hawkbit_client s) wg device_id body))"

section \<open>The two exchanges\<close>

interpretation en_sign: scoped_call "enroll_sign c csr d"
  "\<lambda>e. sign_kind e (sc_provisioner_name c) d [d] (sc_url c) (sc_verify_tls c) csr" for c csr d
proof (rule scoped_callI)
  show "keeps stores (enroll_sign c csr d)"
    by (auto simp: enroll_sign_def intro!: keeps_rules sca_sign.call_stores)
  show "sends_in e (sign_kind e (sc_provisioner_name c) d [d] (sc_url c) (sc_verify_tls c) csr) (enroll_sign c csr d)" for e
    unfolding enroll_sign_def
    by (intro sends_in_try sends_in_bnd sca_sign.call_scope) (rule sends_in_nothing, auto intro!: sends_rules)+
qed

interpretation en_target: service_call "enroll_target h d b" "hb_kind h {GET, POST, PUT}" for h d b
proof (rule service_callI)
  show "keeps stores (enroll_target h d b)"
    unfolding enroll_target_def by (intro keeps_rules hb_get.call_stores hb_create.call_stores)
  show "sends (hb_kind h {GET, POST, PUT}) (enroll_target h d b)"
    unfolding enroll_target_def
    by (intro sends_rules sends_mono [OF hb_get.call_sends] sends_mono [OF hb_create.call_sends])
      (auto simp: hb_kind_def)
qed

lemma validate_csr_run: "validate_csr s e w = (case e_load_csr e s of
    Inl m \<Rightarrow> (Inl (HTTPException 422 (''Invalid CSR: '' @ m)), w)
  | Inr c \<Rightarrow> if csr_signature_valid c then (Inr (), w)
      else (Inl (HTTPException 422 ''Invalid CSR: CSR signature is invalid''), w))"
  by (simp add: validate_csr_def try_except_def run_simps exn_str_def split: sum.split)

lemma enroll_sign_value:
  assumes "enroll_sign c csr d e w = (Inr (crt, ca), w')"
  obtains pre ott p ps where "w_trace w' = w_trace w @ pre @ [sign_post (sc_url c) (sc_verify_tls c) csr ott]"
    "ott_for e (sc_provisioner_name c) d (sc_url c) [d] csr ott"
    "e_http e (w_trace w @ pre) (sign_post (sc_url c) (sc_verify_tls c) csr ott) = Answer p" "is_success p"
    "rs_json p = Some (JObj ps)" "dict_get ps ''crt'' = Some crt" "dict_get ps ''ca'' = Some ca"
proof -
  from assms obtain c' where "sign_certificate c csr d [d] e w = (Inr ((crt, ca), c'), w')"
    unfolding enroll_sign_def
    by (auto simp: run_simps split: exn.splits dest!: try_cases elim!: bnd_InrE)
  then show ?thesis by (rule sign_certificate_value) (rule that)
qed

text \<open>No failure of a client leaves the two steps as it is: it becomes an HTTP error.\<close>

lemma enroll_sign_error:
  assumes "enroll_sign c csr d e w = (Inl x, w')"
  shows "x \<noteq> RequestError m \<and> x \<noteq> StepCAError m"
  using assms unfolding enroll_sign_def
  by (auto simp: run_simps split: exn.splits dest!: try_cases)

lemma enroll_target_error:
  assumes "enroll_target h d b e w = (Inl x, w')"
  shows "x \<noteq> RequestError m \<and> x \<noteq> HawkBitError m"
  using assms unfolding enroll_target_def
  by (auto simp: run_simps split: exn.splits dest!: try_cases)

section \<open>The handler step by step\<close>

lemma generate_value: "\<exists>cfg w'. generate_client_config c d ip k e w = (Inr cfg, w')"
  by (auto simp: generate_client_config_def get_server_pubkey_def write_server_peer_def run_simps)

text \<open>How far a request gets, and in what world it ends.\<close>

lemma enroll_cases:
  assumes "enroll_device sc h wg d b e w = (r, w')"
  obtains (invalid) m where "r = Inl (HTTPException 422 m)" "w' = w"
      "\<forall>c. e_load_csr e (er_csr b) = Inr c \<longrightarrow> \<not> csr_signature_valid c"
  | (unsigned) x where "r = Inl x" "enroll_sign sc (er_csr b) d e w = (Inl x, w')"
  | (untargeted) certs x w1 where "r = Inl x" "enroll_sign sc (er_csr b) d e w = (Inr certs, w1)"
      "enroll_target h d b e w1 = (Inl x, w')"
  | (no_address) certs x w1 w2 where "r = Inl x" "enroll_sign sc (er_csr b) d e w = (Inr certs, w1)"
      "enroll_target h d b e w1 = (Inr (), w2)" "allocate_ip wg d e w2 = (Inl x, w')"
  | (allocated) crt ca w1 w2 ip w3 cfg where "enroll_sign sc (er_csr b) d e w = (Inr (crt, ca), w1)"
      "enroll_target h d b e w1 = (Inr (), w2)" "allocate_ip wg d e w2 = (Inr ip, w3)"
      "generate_client_config wg d ip (opt_str_or (er_wg_public_key b) []) e w3 = (Inr cfg, w')"
      "\<exists>c. e_load_csr e (er_csr b) = Inr c \<and> csr_signature_valid c"
      "r = (case (crt, ca) of (JStr s, JStr t) \<Rightarrow> Inr \<lparr>es_certificate = s, es_ca_chain = t,
         es_wireguard_ip = ip, es_wireguard_config = cfg\<rparr> | _ \<Rightarrow> Inl (ValueError ''Input should be a valid string''))"
proof (cases "\<exists>c. e_load_csr e (er_csr b) = Inr c \<and> csr_signature_valid c")
  case False
  then obtain m where "validate_csr (er_csr b) e w = (Inl (HTTPException 422 m), w)"
    by (cases "e_load_csr e (er_csr b)") (auto simp: validate_csr_run)
  with assms False show ?thesis by (auto simp: enroll_device_def run_simps bnd_raise intro: that(1))
next
  case True
  then have "validate_csr (er_csr b) e w = (Inr (), w)" by (auto simp: validate_csr_run)
  with assms have run: "(bnd (enroll_sign sc (er_csr b) d) (\<lambda>(crt, ca). thn (enroll_target h d b)
      (bnd (allocate_ip wg d) (\<lambda>ip. bnd (generate_client_config wg d ip (opt_str_or (er_wg_public_key b) [])) (\<lambda>cfg.
       bnd (as_str crt) (\<lambda>s. bnd (as_str ca) (\<lambda>t. ret \<lparr>es_certificate = s, es_ca_chain = t,
         es_wireguard_ip = ip, es_wireguard_config = cfg\<rparr>))))))) e w = (r, w')"
    by (simp add: enroll_device_def run_thn bnd_value)
  obtain r1 w1 where s: "enroll_sign sc (er_csr b) d e w = (r1, w1)" by fastforce
  show ?thesis
  proof (cases r1)
    case (Inl x)
    with s run show ?thesis by (auto simp: bnd_raise intro: that(2))
  next
    case r1: (Inr certs)
    obtain crt ca where certs: "certs = (crt, ca)" by (cases certs)
    obtain r2 w2 where t: "enroll_target h d b e w1 = (r2, w2)" by fastforce
    show ?thesis
    proof (cases r2)
      case (Inl x)
      with s t r1 certs run show ?thesis by (auto simp: bnd_value bnd_raise run_thn intro: that(3))
    next
      case r2: (Inr u)
      obtain r3 w3 where a: "allocate_ip wg d e w2 = (r3, w3)" by fastforce
      show ?thesis
      proof (cases r3)
        case (Inl x)
        with s t a r1 r2 certs run show ?thesis by (auto simp: bnd_value bnd_raise run_thn intro: that(4))
      next
        case r3: (Inr ip)
        obtain cfg w4 where g: "generate_client_config wg d ip (opt_str_or (er_wg_public_key b) []) e w3 = (Inr cfg, w4)"
          using generate_value by blast
        from run s t a g r1 r2 r3 certs have "w' = w4" and
          "r = (case (crt, ca) of (JStr s, JStr t) \<Rightarrow> Inr \<lparr>es_certificate = s, es_ca_chain = t,
             es_wireguard_ip = ip, es_wireguard_config = cfg\<rparr> | _ \<Rightarrow> Inl (ValueError ''Input should be a valid string''))"
          by (auto simp: bnd_value run_thn as_str_def run_simps split: json.splits)
        with s t a g r1 r2 r3 certs True show ?thesis by (intro that(5)) auto
      qed
    qed
  qed
qed

lemmas en_preserves [preserves_rules] =
  preserves_peers_keeps [OF en_sign.peers_kept] preserves_peers_keeps [OF en_target.peers_kept]

lemma preserves_validate [preserves_rules]: "preserves P (validate_csr s)"
  unfolding validate_csr_def by (intro preserves_rules)

lemma enroll_preserves [preserves_rules]:
  "preserves (peers_ok c) (enroll_device sc h c d b)" "preserves (has_address c a i) (enroll_device sc h c d b)"
  unfolding enroll_device_def by (intro preserves_rules)+

lemma enroll_has_address:
  assumes "peers_ok c w" "enroll_device sc h c d b e w = (Inr r, w')"
  shows "has_address c d (es_wireguard_ip r) w'"
  using assms(2)
proof (cases rule: enroll_cases)
  case (allocated crt ca w1 w2 ip w3 cfg)
  have "peers_ok c w2"
    using assms(1) allocated(1,2) by (blast intro: preservesD en_preserves)
  then have "has_address c d ip w3" using allocated(3) by (rule allocate_has)
  then have "has_address c d ip w'" using allocated(4) by (blast intro: preservesD preserves_generate)
  with allocated(6) show ?thesis by (auto split: prod.splits json.splits)
qed simp_all

section \<open>Properties\<close>

text \<open>A malformed CSR, or one whose signature does not verify, is refused with 422 before any service
  is contacted and without any change.\<close>

theorem enroll_refuses_invalid_csr:
  assumes "\<forall>c. e_load_csr e (er_csr b) = Inr c \<longrightarrow> \<not> csr_signature_valid c"
  shows "\<exists>m. enroll_device sc h wg d b e w = (Inl (HTTPException 422 (''Invalid CSR: '' @ m)), w)"
  using assms by (cases "e_load_csr e (er_csr b)")
    (auto simp: enroll_device_def run_thn validate_csr_run bnd_raise)

text \<open>C23. A device that is enrolled holds a certificate that step-ca returned, in an accepted answer to a
  signing request for this CSR whose token is bound to the device and to the digest of the CSR, and the
  configuration it gets is that of its own address.\<close>

theorem enroll_certificate_authentic:
  assumes "enroll_device sc h wg d b e w = (Inr r, w')"
  shows "\<exists>hist ott p ps. ott_for e (sc_provisioner_name sc) d (sc_url sc) [d] (er_csr b) ott \<and>
      e_http e hist (sign_post (sc_url sc) (sc_verify_tls sc) (er_csr b) ott) = Answer p \<and> is_success p \<and>
      rs_json p = Some (JObj ps) \<and> dict_get ps ''crt'' = Some (JStr (es_certificate r)) \<and>
      dict_get ps ''ca'' = Some (JStr (es_ca_chain r)) \<and> prefix hist (w_trace w') \<and>
      (\<exists>k. es_wireguard_config r = client_config wg d (es_wireguard_ip r) k)"
  using assms
proof (cases rule: enroll_cases)
  case (allocated crt ca w1 w2 ip w3 cfg)
  have crt: "crt = JStr (es_certificate r)" "ca = JStr (es_ca_chain r)" "ip = es_wireguard_ip r" "cfg = es_wireguard_config r"
    using allocated(6) by (auto split: json.splits)
  obtain pre ott p ps where s: "w_trace w1 = w_trace w @ pre @ [sign_post (sc_url sc) (sc_verify_tls sc) (er_csr b) ott]"
    "ott_for e (sc_provisioner_name sc) d (sc_url sc) [d] (er_csr b) ott"
    "e_http e (w_trace w @ pre) (sign_post (sc_url sc) (sc_verify_tls sc) (er_csr b) ott) = Answer p" "is_success p"
    "rs_json p = Some (JObj ps)" "dict_get ps ''crt'' = Some crt" "dict_get ps ''ca'' = Some ca"
    by (rule enroll_sign_value [OF allocated(1)])
  have "prefix (w_trace w1) (w_trace w2)" using allocated(2) by (rule en_target.history_kept)
  moreover have "w_trace w3 = w_trace w2" using allocated(3) by (rule allocate_trace)
  moreover have "w_trace w' = w_trace w3" using allocated(4) by (rule generate_trace)
  ultimately have "prefix (w_trace w @ pre) (w_trace w')"
    using s(1) by (metis append.assoc append_prefixD)
  moreover have "\<exists>k. cfg = client_config wg d ip k"
    using allocated(4) by (auto simp: generate_client_config_def run_thn get_server_pubkey_def run_simps elim!: bnd_InrE)
  ultimately show ?thesis using s crt by auto
qed simp_all

text \<open>C24. A device keeps its address: enrolling it again, after any result of the enrolment of another
  device, returns the same address, and the other device, when it got one, got a different one.\<close>

theorem enroll_address_stable:
  assumes "peers_ok c w" "enroll_device sc h c d b e w = (Inr r, w1)"
    "enroll_device sc h c d2 b2 e w1 = (res, w2)" "enroll_device sc h c d b3 e w2 = (Inr r3, w3)" "d2 \<noteq> d"
  shows "es_wireguard_ip r3 = es_wireguard_ip r \<and> (\<forall>r2. res = Inr r2 \<longrightarrow> es_wireguard_ip r2 \<noteq> es_wireguard_ip r)"
proof
  have a: "has_address c d (es_wireguard_ip r) w1" using assms(1,2) by (rule enroll_has_address)
  have b: "has_address c d (es_wireguard_ip r) w2" by (rule preservesD [OF enroll_preserves(2) assms(3) a])
  have "has_address c d (es_wireguard_ip r) w3" by (rule preservesD [OF enroll_preserves(2) assms(4) b])
  moreover have "has_address c d (es_wireguard_ip r3) w3"
    using b assms(4) by (auto simp: has_address_def intro: enroll_has_address [unfolded has_address_def, THEN conjunct2])
      (auto simp: has_address_def dest: enroll_has_address)
  ultimately show "es_wireguard_ip r3 = es_wireguard_ip r" by (simp add: has_address_def)
  show "\<forall>r2. res = Inr r2 \<longrightarrow> es_wireguard_ip r2 \<noteq> es_wireguard_ip r"
  proof (intro allI impI notI)
    fix r2 assume "res = Inr r2" "es_wireguard_ip r2 = es_wireguard_ip r"
    moreover have "peers_ok c w1" using a by (simp add: has_address_def)
    ultimately have "has_address c d2 (es_wireguard_ip r) w2" using assms(3) enroll_has_address by metis
    then show False using b assms(5) by (blast dest: address_unique)
  qed
qed

text \<open>C25. No request reaches hawkBit before step-ca has accepted the signing request: the requests of an
  enrolment are those to step-ca, then those to hawkBit, and the latter only after an accepted signature.\<close>

theorem enroll_signs_first:
  assumes "enroll_device sc h wg d b e w = (r, w')"
  shows "\<exists>rs qs. w_trace w' = w_trace w @ rs @ qs \<and>
      list_all (sign_kind e (sc_provisioner_name sc) d [d] (sc_url sc) (sc_verify_tls sc) (er_csr b)) rs \<and> list_all (hb_kind h {GET, POST, PUT}) qs \<and>
      (qs \<noteq> [] \<longrightarrow> (\<exists>ott p. rs \<noteq> [] \<and> last rs = sign_post (sc_url sc) (sc_verify_tls sc) (er_csr b) ott \<and>
         e_http e (w_trace w @ butlast rs) (last rs) = Answer p \<and> is_success p))"
proof -
  have signed: ?thesis if s: "enroll_sign sc (er_csr b) d e w = (Inr (crt, ca), w1)"
    and t: "enroll_target h d b e w1 = (x, w2)" and k: "w_trace w' = w_trace w2" for crt ca w1 x w2
  proof -
    obtain rs where rs: "w_trace w1 = w_trace w @ rs" "list_all (sign_kind e (sc_provisioner_name sc) d [d] (sc_url sc) (sc_verify_tls sc) (er_csr b)) rs"
      using en_sign.new_requests [OF s] by blast
    obtain qs where "w_trace w2 = w_trace w1 @ qs" "list_all (hb_kind h {GET, POST, PUT}) qs"
      using en_target.new_requests [OF t] by blast
    moreover obtain pre ott p where "w_trace w1 = w_trace w @ pre @ [sign_post (sc_url sc) (sc_verify_tls sc) (er_csr b) ott]"
      "e_http e (w_trace w @ pre) (sign_post (sc_url sc) (sc_verify_tls sc) (er_csr b) ott) = Answer p" "is_success p"
      using enroll_sign_value [OF s] by metis
    ultimately show ?thesis using rs k by (intro exI [of _ rs] exI [of _ qs]) auto
  qed
  show ?thesis using assms
  proof (cases rule: enroll_cases)
    case (unsigned x)
    from en_sign.new_requests [OF unsigned(2)] obtain rs where "w_trace w' = w_trace w @ rs"
      "list_all (sign_kind e (sc_provisioner_name sc) d [d] (sc_url sc) (sc_verify_tls sc) (er_csr b)) rs" by blast
    then show ?thesis by (intro exI [of _ rs] exI [of _ "[]"]) simp
  next
    case (untargeted certs x w1)
    obtain crt ca where "certs = (crt, ca)" by (cases certs)
    with untargeted(2) show ?thesis by (intro signed [OF _ untargeted(3) refl]) simp
  next
    case (no_address certs x w1 w2)
    have "w_trace w' = w_trace w2" using no_address(4) by (rule allocate_trace)
    moreover obtain crt ca where "certs = (crt, ca)" by (cases certs)
    ultimately show ?thesis using no_address(2) by (intro signed [OF _ no_address(3)]) simp_all
  next
    case (allocated crt ca w1 w2 ip w3 cfg)
    have "w_trace w3 = w_trace w2" using allocated(3) by (rule allocate_trace)
    moreover have "w_trace w' = w_trace w3" using allocated(4) by (rule generate_trace)
    ultimately show ?thesis by (intro signed [OF allocated(1,2)]) simp
  qed (auto intro!: exI [of _ "[]"])
qed

text \<open>When step-ca answers the provisioner list with an error status, the failure is not mapped: the
  handler raises httpx's \<open>HTTPStatusError\<close> (an internal server error) instead of the 502 of a PKI failure.\<close>

theorem enroll_unmapped_pki_failure:
  assumes "e_load_csr e (er_csr b) = Inr c" "csr_signature_valid c" "sc_signing_key sc = None"
    "e_http e (w_trace w) (provisioners_get (sc_url sc) (sc_verify_tls sc)) = Answer p" "\<not> is_success p"
  shows "fst (enroll_device sc h wg d b e w) = Inl (HTTPStatusError (''HTTP status '' @ dec_int (rs_status p)))"
  using assms
  by (simp add: enroll_device_def run_thn validate_csr_run bnd_def enroll_sign_def try_except_def
      sign_certificate_def make_ott_def load_signing_key_def load_jwk_def fetch_provisioners_def http_answer
      raise_for_status_def run_simps)

end
