(* ===== verification/TimescaleDB.thy ===== *)
theory TimescaleDB
  imports IOLogic
begin

text \<open>
  \<open>app/clients/timescaledb.py\<close>: the client that inserts telemetry into the hypertable
  \<open>device_telemetry\<close> (\<open>w_telemetry\<close>). A client opens its connection pool on first use, and the
  number of pools that are open is \<open>w_open_pools\<close>. PostgreSQL is outside: \<open>e_pool\<close> and \<open>e_insert\<close> say
  whether a connection and an insert fail; \<open>executemany\<close> inserts all of its records or none.
\<close>

record timescaledb_client =
  ts_dsn :: string
  ts_pool :: bool

definition new_timescaledb_client :: "string \<Rightarrow> int \<Rightarrow> string \<Rightarrow> string \<Rightarrow> string \<Rightarrow> timescaledb_client" where
  "new_timescaledb_client host port database user password =
     \<lparr>ts_dsn = ''postgresql://'' @ user @ '':'' @ password @ ''@'' @ host @ '':'' @ dec_int port @ ''/'' @ database,
      ts_pool = False\<rparr>"

definition get_timescaledb_client :: "settings \<Rightarrow> timescaledb_client" where
  "get_timescaledb_client s = new_timescaledb_client (tsdb_host s) (tsdb_port s) (tsdb_database s)
     ''telegraf'' (tsdb_telegraf_password s)"

definition get_pool :: "timescaledb_client \<Rightarrow> timescaledb_client io" where
  "get_pool c = (if ts_pool c then ret c
     else bnd (asks (\<lambda>e. e_pool e (ts_dsn c))) (\<lambda>r. case r of
         Some exc \<Rightarrow> raise (TimescaleDBError (''Failed to connect to TimescaleDB: '' @ exn_str exc))
       | None \<Rightarrow> thn (modify (\<lambda>w. w\<lparr>w_open_pools := Suc (w_open_pools w)\<rparr>)) (ret (c\<lparr>ts_pool := True\<rparr>))))"

definition record_of :: "instant \<Rightarrow> metric_row \<Rightarrow> telemetry_record" where
  "record_of now row = \<lparr>te_time = now, te_tenant_id = mr_tenant_id row, te_device_id = mr_device_id row,
     te_metric_name = mr_metric_name row, te_value = mr_value row,
     te_tags = ''{\"raw_type\": \"'' @ mr_raw_type row @ ''\"}''\<rparr>"

definition execute_many :: "telemetry_record list \<Rightarrow> unit io" where
  "execute_many records = bnd (asks (\<lambda>e. e_insert e records)) (\<lambda>r. case r of
       Some exc \<Rightarrow> raise exc
     | None \<Rightarrow> modify (\<lambda>w. w\<lparr>w_telemetry := w_telemetry w @ records\<rparr>))"

definition write_metrics :: "timescaledb_client \<Rightarrow> metric_row list \<Rightarrow> timescaledb_client io" where
  "write_metrics c rows = (if rows = [] then ret c else if ts_dsn c = [] then ret c
     else bnd now_utc (\<lambda>now.
       try_except (bnd (get_pool c) (\<lambda>c'. thn (execute_many (map (record_of now) rows)) (ret c')))
         (\<lambda>x. case x of PostgresError exc \<Rightarrow> raise (TimescaleDBError (''TimescaleDB write failed: '' @ exc))
                | _ \<Rightarrow> raise x)))"

definition close :: "timescaledb_client \<Rightarrow> timescaledb_client io" where
  "close c = (if ts_pool c
     then thn (modify (\<lambda>w. w\<lparr>w_open_pools := w_open_pools w - 1\<rparr>)) (ret (c\<lparr>ts_pool := False\<rparr>))
     else ret c)"

section \<open>Lemmas\<close>

text \<open>Everything but the telemetry, the pools and the clock.\<close>

definition but_telemetry :: "world \<Rightarrow> world" where
  "but_telemetry w = w\<lparr>w_telemetry := [], w_open_pools := 0, w_ticks := 0\<rparr>"

lemma keeps_write_metrics: "keeps but_telemetry (write_metrics c rows)"
  unfolding write_metrics_def get_pool_def execute_many_def
  by (intro keeps_rules keeps_now keeps_modify) (simp_all add: but_telemetry_def)

lemma keeps_close: "keeps but_telemetry (close c)"
  unfolding close_def by (intro keeps_rules keeps_modify) (simp_all add: but_telemetry_def)

lemma get_pool_cases:
  assumes "\<not> ts_pool c" "get_pool c e w = (r, w')"
  obtains (failed) exc where "e_pool e (ts_dsn c) = Some exc" "w' = w"
      "r = Inl (TimescaleDBError (''Failed to connect to TimescaleDB: '' @ exn_str exc))"
  | (opened) "e_pool e (ts_dsn c) = None" "w' = w\<lparr>w_open_pools := Suc (w_open_pools w)\<rparr>"
      "r = Inr (c\<lparr>ts_pool := True\<rparr>)"
  using assms by (auto simp: get_pool_def run_simps split: option.splits)

text \<open>A write with a fresh client: refused, failed in the database, or all rows are inserted.\<close>

lemma write_fresh:
  assumes "\<not> ts_pool c" "ts_dsn c \<noteq> []" "rows \<noteq> []"
  defines "now \<equiv> \<lambda>e w. e_now e (w_ticks w)" and "next \<equiv> \<lambda>w :: world. w\<lparr>w_ticks := Suc (w_ticks w)\<rparr>"
  shows "write_metrics c rows e w = (case e_pool e (ts_dsn c) of
      Some exc \<Rightarrow> (Inl (TimescaleDBError (''Failed to connect to TimescaleDB: '' @ exn_str exc)), next w)
    | None \<Rightarrow> (case e_insert e (map (record_of (now e w)) rows) of
        Some exc \<Rightarrow> (Inl (case exc of PostgresError m \<Rightarrow> TimescaleDBError (''TimescaleDB write failed: '' @ m) | _ \<Rightarrow> exc),
          (next w)\<lparr>w_open_pools := Suc (w_open_pools w)\<rparr>)
      | None \<Rightarrow> (Inr (c\<lparr>ts_pool := True\<rparr>), (next w)\<lparr>w_open_pools := Suc (w_open_pools w),
          w_telemetry := w_telemetry w @ map (record_of (now e w)) rows\<rparr>)))"
  using assms(1-3) unfolding now_def next_def write_metrics_def get_pool_def execute_many_def
  by (auto simp: run_simps try_except_def bnd_def asks_def split: option.split exn.split)

lemma dsn_nonempty: "ts_dsn (get_timescaledb_client s) \<noteq> []"
  by (simp add: get_timescaledb_client_def new_timescaledb_client_def)

lemma fresh_client: "\<not> ts_pool (get_timescaledb_client s)"
  by (simp add: get_timescaledb_client_def new_timescaledb_client_def)

end
