(* ===== verification/Webhooks.thy ===== *)
theory Webhooks
  imports HawkBit WireGuard TimescaleDB
begin

text \<open>
  \<open>app/routers/webhooks.py\<close>: the two webhooks of ThingsBoard's rule engine. The first makes sure that
  a device that connects has a hawkBit target and a VPN address; the second writes the telemetry of
  a device to TimescaleDB under its tenant.
\<close>

section \<open>Device connected\<close>

text \<open>\<open>_extract_device_id\<close>; the parameter \<open>fr\<close> is the text of a floating point number.\<close>

definition extract_device_id :: "(pyfloat \<Rightarrow> string) \<Rightarrow> thingsboard_webhook_event \<Rightarrow> string option" where
  "extract_device_id fr ev = (case
     filter truth (List.map_filter (dict_get (ev_metadata ev)) [''deviceId'', ''clientId'', ''deviceName'']) of
       [] \<Rightarrow> None | v # _ \<Rightarrow> Some (py_str fr v))"

definition metadata_get :: "thingsboard_webhook_event \<Rightarrow> string \<Rightarrow> json \<Rightarrow> json" where
  "metadata_get ev k d = (case dict_get (ev_metadata ev) k of Some v \<Rightarrow> v | None \<Rightarrow> d)"

definition webhook_query :: "hawkbit_client \<Rightarrow> string \<Rightarrow> json io" where
  "webhook_query hawkbit device_id = try_except (get_target hawkbit device_id) (\<lambda>exc. case exc of
       RequestError m \<Rightarrow> raise (HTTPException 503 (''hawkBit unreachable: '' @ m))
     | HawkBitError m \<Rightarrow> raise (HTTPException 502 (''hawkBit query failed: '' @ m))
     | _ \<Rightarrow> raise exc)"

definition webhook_create :: "hawkbit_client \<Rightarrow> string \<Rightarrow> thingsboard_webhook_event \<Rightarrow> unit io" where
  "webhook_create hawkbit device_id ev = try_except
     (bnd (create_target hawkbit device_id (metadata_get ev ''deviceName'' (JStr device_id))
        [(''device_type'', metadata_get ev ''deviceType'' (JStr ''generic'')),
         (''source'', JStr ''thingsboard_webhook'')]) (\<lambda>_. ret ()))
     (\<lambda>exc. case exc of
       RequestError m \<Rightarrow> raise (HTTPException 503 (''hawkBit unreachable: '' @ m))
     | HawkBitError m \<Rightarrow> raise (HTTPException 502 (''hawkBit provisioning failed: '' @ m))
     | _ \<Rightarrow> raise exc)"

definition thingsboard_webhook :: "hawkbit_client \<Rightarrow> wg_config \<Rightarrow> thingsboard_webhook_event \<Rightarrow> webhook_response io" where
  "thingsboard_webhook hawkbit wg ev = bnd (asks (\<lambda>e. extract_device_id (e_float_repr e) ev)) (\<lambda>device.
     case opt_str_or device [] of
       [] \<Rightarrow> ret \<lparr>wr_status = ''ignored'', wr_device_id = None, wr_wireguard_ip = None,
               wr_reason = Some ''No device_id found in event metadata''\<rparr>
     | c # cs \<Rightarrow> let device_id = c # cs in
         bnd (webhook_query hawkbit device_id) (\<lambda>existing.
           if truth existing
           then bnd (allocate_ip wg device_id) (\<lambda>wg_ip.
             ret \<lparr>wr_status = ''already_provisioned'', wr_device_id = Some device_id,
               wr_wireguard_ip = Some wg_ip, wr_reason = None\<rparr>)
           else thn (webhook_create hawkbit device_id ev)
             (bnd (allocate_ip wg device_id) (\<lambda>wg_ip.
               ret \<lparr>wr_status = ''provisioned'', wr_device_id = Some device_id,
                 wr_wireguard_ip = Some wg_ip, wr_reason = None\<rparr>))))"

definition webhook_endpoint :: "thingsboard_webhook_event \<Rightarrow> webhook_response io" where
  "webhook_endpoint ev = bnd get_settings (\<lambda>s. bnd (lift_sum (get_wg_config s)) (\<lambda>wg.
     thingsboard_webhook (get_hawkbit_client s) wg ev))"

section \<open>Telemetry\<close>

text \<open>
  \<open>float(val) if isinstance(val, (int, float)) else None\<close>; a Python \<open>bool\<close> is an \<open>int\<close>, and an
  integer too large for a double raises.
\<close>

definition metric_value :: "json \<Rightarrow> exn + pyfloat option" where
  "metric_value v = (let of_int = (\<lambda>i. case float_of_int i of Some f \<Rightarrow> Inr (Some f)
       | None \<Rightarrow> Inl (OverflowError ''int too large to convert to float'')) in
     case v of JInt i \<Rightarrow> of_int i | JBool b \<Rightarrow> of_int (if b then 1 else 0) | JFloat f \<Rightarrow> Inr (Some f)
     | _ \<Rightarrow> Inr None)"

definition metric_row_of :: "string \<Rightarrow> string \<Rightarrow> string \<times> json \<Rightarrow> metric_row io" where
  "metric_row_of tenant_id device_id p = bnd (lift_sum (metric_value (snd p))) (\<lambda>v.
     ret \<lparr>mr_tenant_id = tenant_id, mr_device_id = device_id, mr_metric_name = fst p, mr_value = v,
       mr_raw_type = type_name (snd p)\<rparr>)"

definition telemetry_fields :: "thingsboard_webhook_event \<Rightarrow> (string \<times> json) list" where
  "telemetry_fields ev = (case ev_data ev of JObj ps \<Rightarrow> ps | _ \<Rightarrow> [])"

definition thingsboard_telemetry :: "timescaledb_client \<Rightarrow> thingsboard_webhook_event \<Rightarrow> telemetry_webhook_response io" where
  "thingsboard_telemetry tsdb ev = bnd (asks (\<lambda>e. extract_device_id (e_float_repr e) ev)) (\<lambda>device.
     case opt_str_or device [] of
       [] \<Rightarrow> ret \<lparr>tr_status = ''ignored'', tr_device_id = None, tr_tenant_id = None, tr_points_written = 0,
               tr_reason = Some ''No device_id found in event metadata''\<rparr>
     | c # cs \<Rightarrow> let device_id = c # cs in
         bnd (str_of (metadata_get ev ''tenantId'' (JStr ''unknown''))) (\<lambda>tenant_id.
         bnd (map_io (metric_row_of tenant_id device_id) (telemetry_fields ev)) (\<lambda>rows.
           if rows = [] then ret \<lparr>tr_status = ''ignored'', tr_device_id = Some device_id,
             tr_tenant_id = Some tenant_id, tr_points_written = 0,
             tr_reason = Some ''No fields in telemetry payload''\<rparr>
           else thn (try_except (bnd (write_metrics tsdb rows) (\<lambda>_. ret ())) (\<lambda>exc. case exc of
                 TimescaleDBError m \<Rightarrow> raise (HTTPException 503 (''TimescaleDB write failed: '' @ m))
               | _ \<Rightarrow> raise exc))
             (ret \<lparr>tr_status = ''written'', tr_device_id = Some device_id, tr_tenant_id = Some tenant_id,
               tr_points_written = length rows, tr_reason = None\<rparr>))))"

definition telemetry_endpoint :: "thingsboard_webhook_event \<Rightarrow> telemetry_webhook_response io" where
  "telemetry_endpoint ev = bnd get_settings (\<lambda>s. thingsboard_telemetry (get_timescaledb_client s) ev)"

section \<open>The device identifier\<close>

lemma extract_first:
  "extract_device_id fr ev = (if truth (metadata_get ev ''deviceId'' JNull) then Some (py_str fr (metadata_get ev ''deviceId'' JNull))
     else if truth (metadata_get ev ''clientId'' JNull) then Some (py_str fr (metadata_get ev ''clientId'' JNull))
     else if truth (metadata_get ev ''deviceName'' JNull) then Some (py_str fr (metadata_get ev ''deviceName'' JNull))
     else None)"
  by (auto simp: extract_device_id_def metadata_get_def List.map_filter_def split: option.split)

section \<open>The first webhook\<close>

interpretation wh_query: service_call "webhook_query h d" "hb_kind h {GET}" for h d
  by (rule service_callI)
    (auto simp: webhook_query_def intro!: keeps_rules sends_rules hb_get.call_stores hb_get.call_sends)

interpretation wh_create: service_call "webhook_create h d ev" "hb_kind h {POST, PUT}" for h d ev
  by (rule service_callI)
    (auto simp: webhook_create_def intro!: keeps_rules sends_rules hb_create.call_stores hb_create.call_sends)

lemmas wh_preserves [preserves_rules] =
  preserves_peers_keeps [OF wh_query.peers_kept] preserves_peers_keeps [OF wh_create.peers_kept]

lemma preserves_string_case [preserves_rules]:
  "preserves P m \<Longrightarrow> (\<And>a as. preserves P (f a as)) \<Longrightarrow> preserves P (case s of [] \<Rightarrow> m | a # as \<Rightarrow> f a as)"
  by (simp split: list.split)

lemma webhook_preserves [preserves_rules]:
  "preserves (peers_ok c) (thingsboard_webhook h c ev)"
  "preserves (has_address c a i) (thingsboard_webhook h c ev)"
  unfolding thingsboard_webhook_def Let_def by (intro preserves_rules)+

text \<open>The branches of the webhook that return.\<close>

lemma webhook_value:
  assumes "thingsboard_webhook h c ev e w = (Inr r, w')"
  obtains (ignored) "opt_str_or (extract_device_id (e_float_repr e) ev) [] = []" "wr_status r = ''ignored''"
      "wr_wireguard_ip r = None" "w' = w"
  | (existing) d t w1 ip where "extract_device_id (e_float_repr e) ev = Some d" "d \<noteq> []"
      "webhook_query h d e w = (Inr t, w1)" "truth t" "allocate_ip c d e w1 = (Inr ip, w')"
      "r = \<lparr>wr_status = ''already_provisioned'', wr_device_id = Some d, wr_wireguard_ip = Some ip, wr_reason = None\<rparr>"
  | (created) d t w1 w2 ip where "extract_device_id (e_float_repr e) ev = Some d" "d \<noteq> []"
      "webhook_query h d e w = (Inr t, w1)" "\<not> truth t" "webhook_create h d ev e w1 = (Inr (), w2)"
      "allocate_ip c d e w2 = (Inr ip, w')"
      "r = \<lparr>wr_status = ''provisioned'', wr_device_id = Some d, wr_wireguard_ip = Some ip, wr_reason = None\<rparr>"
proof (cases "opt_str_or (extract_device_id (e_float_repr e) ev) []")
  case Nil
  with assms show ?thesis
    by (intro that(1)) (auto simp: thingsboard_webhook_def run_simps)
next
  case (Cons ch cs)
  then have d: "extract_device_id (e_float_repr e) ev = Some (ch # cs)"
    by (auto simp: opt_str_or_def split: option.splits if_splits)
  with assms Cons obtain t w1 where q: "webhook_query h (ch # cs) e w = (Inr t, w1)"
    and k: "(if truth t then bnd (allocate_ip c (ch # cs)) (\<lambda>wg_ip.
             ret \<lparr>wr_status = ''already_provisioned'', wr_device_id = Some (ch # cs),
               wr_wireguard_ip = Some wg_ip, wr_reason = None\<rparr>)
           else thn (webhook_create h (ch # cs) ev) (bnd (allocate_ip c (ch # cs)) (\<lambda>wg_ip.
               ret \<lparr>wr_status = ''provisioned'', wr_device_id = Some (ch # cs),
                 wr_wireguard_ip = Some wg_ip, wr_reason = None\<rparr>))) e w1 = (Inr r, w')"
    by (auto simp: thingsboard_webhook_def Let_def run_thn run_bnd_asks elim!: bnd_InrE)
  show ?thesis
  proof (cases "truth t")
    case True
    with k d q show ?thesis by (auto simp: run_simps elim!: bnd_InrE intro: that(2))
  next
    case False
    with k d q show ?thesis by (auto simp: run_simps elim!: bnd_InrE intro: that(3))
  qed
qed

lemma webhook_address:
  assumes "peers_ok c w" "thingsboard_webhook h c ev e w = (Inr r, w')" "wr_wireguard_ip r = Some ip"
  shows "\<exists>d. wr_device_id r = Some d \<and> extract_device_id (e_float_repr e) ev = Some d \<and> d \<noteq> [] \<and> has_address c d ip w'"
  using assms(2)
proof (cases rule: webhook_value)
  case (existing d t w1 ip')
  have "peers_ok c w1" by (rule preservesD [OF wh_preserves(1) existing(3) assms(1)])
  with existing assms(3) show ?thesis by (auto intro: allocate_has)
next
  case (created d t w1 w2 ip')
  have "peers_ok c w1" by (rule preservesD [OF wh_preserves(1) created(3) assms(1)])
  then have "peers_ok c w2" by (rule preservesD [OF wh_preserves(3) created(5)])
  with created assms(3) show ?thesis by (auto intro: allocate_has)
qed (use assms(3) in simp)

section \<open>The telemetry webhook\<close>

lemma metric_row_run: "metric_row_of t d p e w = (case metric_value (snd p) of Inl x \<Rightarrow> (Inl x, w)
   | Inr v \<Rightarrow> (Inr \<lparr>mr_tenant_id = t, mr_device_id = d, mr_metric_name = fst p, mr_value = v,
       mr_raw_type = type_name (snd p)\<rparr>, w))"
  by (simp add: metric_row_of_def lift_sum_def run_simps split: sum.split)

definition row_matches :: "string \<Rightarrow> string \<Rightarrow> string \<times> json \<Rightarrow> metric_row \<Rightarrow> bool" where
  "row_matches t d p m \<longleftrightarrow> mr_tenant_id m = t \<and> mr_device_id m = d \<and> mr_metric_name m = fst p \<and>
     metric_value (snd p) = Inr (mr_value m) \<and> mr_raw_type m = type_name (snd p)"

lemma rows_run: "map_io (metric_row_of t d) ps e w = (r, w') \<Longrightarrow>
    w' = w \<and> (\<forall>rows. r = Inr rows \<longrightarrow> list_all2 (row_matches t d) ps rows)"
proof (induction ps arbitrary: r w')
  case Nil
  then show ?case by (auto simp: run_simps)
next
  case (Cons p ps)
  obtain r' w1 where m: "map_io (metric_row_of t d) ps e w = (r', w1)" by fastforce
  from Cons.IH [OF m] Cons.prems m show ?case
    by (cases "metric_value (snd p)"; cases r')
      (auto simp: bnd_def metric_row_run [of t d p] run_simps row_matches_def)
qed

text \<open>What the webhook does with a fresh client, in terms of the world it leaves.\<close>

lemma telemetry_cases:
  assumes "telemetry_endpoint ev e w = (r, w')"
  obtains (nothing) "w_telemetry w' = w_telemetry w" "w_open_pools w' \<ge> w_open_pools w"
      "\<forall>v. r = Inr v \<longrightarrow> tr_status v = ''ignored'' \<and> tr_points_written v = 0 \<and> w' = w"
  | (written) d t rows where "extract_device_id (e_float_repr e) ev = Some d" "d \<noteq> []"
      "t = py_str (e_float_repr e) (metadata_get ev ''tenantId'' (JStr ''unknown''))"
      "list_all2 (row_matches t d) (telemetry_fields ev) rows" "rows \<noteq> []"
      "w_telemetry w' = w_telemetry w @ map (record_of (e_now e (w_ticks w))) rows"
      "w_open_pools w' = Suc (w_open_pools w)"
      "r = Inr \<lparr>tr_status = ''written'', tr_device_id = Some d, tr_tenant_id = Some t,
               tr_points_written = length rows, tr_reason = None\<rparr>"
proof (cases "opt_str_or (extract_device_id (e_float_repr e) ev) []")
  case Nil
  with assms show ?thesis
    by (intro that(1)) (auto simp: telemetry_endpoint_def thingsboard_telemetry_def run_simps)
next
  case (Cons ch cs)
  define d t where "d = ch # cs" and "t = py_str (e_float_repr e) (metadata_get ev ''tenantId'' (JStr ''unknown''))"
  have d: "extract_device_id (e_float_repr e) ev = Some d" "d \<noteq> []"
    using Cons by (auto simp: opt_str_or_def d_def split: option.splits if_splits)
  obtain r1 w1 where m: "map_io (metric_row_of t d) (telemetry_fields ev) e w = (r1, w1)" by fastforce
  from rows_run [OF m] have w1: "w1 = w" and rows: "\<And>rows. r1 = Inr rows \<Longrightarrow> list_all2 (row_matches t d) (telemetry_fields ev) rows"
    by auto
  show ?thesis
  proof (cases r1)
    case (Inl x)
    with assms Cons m w1 show ?thesis
      by (intro that(1)) (auto simp: telemetry_endpoint_def thingsboard_telemetry_def run_simps str_of_def
          Let_def d_def t_def bnd_raise)
  next
    case r1: (Inr rows)
    show ?thesis
    proof (cases "rows = []")
      case True
      with assms Cons m w1 r1 show ?thesis
        by (intro that(1)) (auto simp: telemetry_endpoint_def thingsboard_telemetry_def run_simps str_of_def
            Let_def d_def t_def bnd_value)
    next
      case False
      let ?c = "get_timescaledb_client (e_settings e)"
      have run: "bnd (try_except (bnd (write_metrics ?c rows) (\<lambda>_. ret ())) (\<lambda>exc. case exc of
            TimescaleDBError m \<Rightarrow> raise (HTTPException 503 (''TimescaleDB write failed: '' @ m)) | _ \<Rightarrow> raise exc))
          (\<lambda>_. ret \<lparr>tr_status = ''written'', tr_device_id = Some d, tr_tenant_id = Some t,
               tr_points_written = length rows, tr_reason = None\<rparr>) e w = (r, w')"
        using assms Cons m w1 r1 False
        by (simp add: telemetry_endpoint_def thingsboard_telemetry_def run_simps str_of_def
            Let_def d_def t_def bnd_value)
      note wf = write_fresh [OF fresh_client dsn_nonempty False, of "e_settings e" e w]
      show ?thesis
      proof (cases "e_pool e (ts_dsn ?c) = None \<and> e_insert e (map (record_of (e_now e (w_ticks w))) rows) = None")
        case True
        with run wf have "w_telemetry w' = w_telemetry w @ map (record_of (e_now e (w_ticks w))) rows"
          "w_open_pools w' = Suc (w_open_pools w)"
          "r = Inr \<lparr>tr_status = ''written'', tr_device_id = Some d, tr_tenant_id = Some t,
               tr_points_written = length rows, tr_reason = None\<rparr>"
          by (auto simp: bnd_def try_except_def run_simps)
        then show ?thesis by (rule that(2) [OF d t_def rows [OF r1] False])
      next
        case fail: False
        with run wf show ?thesis
          by (intro that(1)) (auto simp: bnd_def try_except_def run_simps split: option.splits exn.splits)
      qed
    qed
  qed
qed

text \<open>
  What a stored record says of the field it was made from, read off the event itself: the tenant and the
  device its metadata name, the name of the field, its value as a double when it is a number or a truth
  value, and its Python type.
\<close>

definition names_device :: "(pyfloat \<Rightarrow> string) \<Rightarrow> thingsboard_webhook_event \<Rightarrow> string \<Rightarrow> bool" where
  "names_device fr ev d \<longleftrightarrow> (\<exists>pre k post v. [''deviceId'', ''clientId'', ''deviceName''] = pre @ k # post \<and>
     dict_get (ev_metadata ev) k = Some v \<and> truth v \<and> d = py_str fr v \<and>
     (\<forall>k'\<in>set pre. \<forall>v'. dict_get (ev_metadata ev) k' = Some v' \<longrightarrow> \<not> truth v'))"

definition record_shows :: "(pyfloat \<Rightarrow> string) \<Rightarrow> thingsboard_webhook_event \<Rightarrow> string \<times> json \<Rightarrow> telemetry_record \<Rightarrow> bool" where
  "record_shows fr ev p x \<longleftrightarrow>
     te_tenant_id x = (case dict_get (ev_metadata ev) ''tenantId'' of None \<Rightarrow> ''unknown'' | Some v \<Rightarrow> py_str fr v) \<and>
     names_device fr ev (te_device_id x) \<and> te_metric_name x = fst p \<and>
     te_tags x = ''{\"raw_type\": \"'' @ type_name (snd p) @ ''\"}'' \<and>
     (case snd p of JInt i \<Rightarrow> te_value x = float_of_int i \<and> te_value x \<noteq> None
        | JBool b \<Rightarrow> te_value x = float_of_int (of_bool b) \<and> te_value x \<noteq> None
        | JFloat f \<Rightarrow> te_value x = Some f | _ \<Rightarrow> te_value x = None)"

lemma extract_names:
  assumes "extract_device_id fr ev = Some d"
  shows "names_device fr ev d"
proof -
  let ?g = "dict_get (ev_metadata ev)"
  have m: "truth (metadata_get ev k JNull) \<longleftrightarrow> (\<exists>v. ?g k = Some v \<and> truth v)"
    "?g k = Some v \<Longrightarrow> metadata_get ev k JNull = v" for k v
    by (auto simp: metadata_get_def split: option.split)
  consider v where "?g ''deviceId'' = Some v" "truth v" "d = py_str fr v"
    | v where "\<forall>v'. ?g ''deviceId'' = Some v' \<longrightarrow> \<not> truth v'" "?g ''clientId'' = Some v" "truth v" "d = py_str fr v"
    | v where "\<forall>v'. ?g ''deviceId'' = Some v' \<longrightarrow> \<not> truth v'" "\<forall>v'. ?g ''clientId'' = Some v' \<longrightarrow> \<not> truth v'"
        "?g ''deviceName'' = Some v" "truth v" "d = py_str fr v"
    using assms by (auto simp: extract_first m split: if_splits)
  then show ?thesis
  proof cases
    case 1
    then show ?thesis unfolding names_device_def
      by (intro exI [of _ "[]"] exI [of _ "''deviceId''"] exI [of _ "[''clientId'', ''deviceName'']"] exI [of _ v]) simp
  next
    case 2
    then show ?thesis unfolding names_device_def 
      by (intro exI [of _ "[''deviceId'']"] exI [of _ "''clientId''"] exI [of _ "[''deviceName'']"] exI [of _ v]) simp
  next
    case 3
    then show ?thesis unfolding names_device_def 
      by (intro exI [of _ "[''deviceId'', ''clientId'']"] exI [of _ "''deviceName''"] exI [of _ "[]"] exI [of _ v]) simp
  qed
qed

lemma metric_shown:
  assumes "row_matches t d p m" "extract_device_id fr ev = Some d" "t = py_str fr (metadata_get ev ''tenantId'' (JStr ''unknown''))"
  shows "record_shows fr ev p (record_of now m)"
proof -
  have mv: "Inr (mr_value m) = metric_value (snd p)" using assms(1) by (simp add: row_matches_def)
  have "te_tenant_id (record_of now m) = (case dict_get (ev_metadata ev) ''tenantId'' of None \<Rightarrow> ''unknown'' | Some v \<Rightarrow> py_str fr v)"
    "names_device fr ev (te_device_id (record_of now m))" "te_metric_name (record_of now m) = fst p"
    "te_tags (record_of now m) = ''{\"raw_type\": \"'' @ type_name (snd p) @ ''\"}''"
    using assms(1,3) extract_names [OF assms(2)]
    by (auto simp: record_of_def row_matches_def metadata_get_def py_str_def split: option.split)
  moreover have "case snd p of JInt i \<Rightarrow> te_value (record_of now m) = float_of_int i \<and> te_value (record_of now m) \<noteq> None
      | JBool b \<Rightarrow> te_value (record_of now m) = float_of_int (of_bool b) \<and> te_value (record_of now m) \<noteq> None
      | JFloat f \<Rightarrow> te_value (record_of now m) = Some f | _ \<Rightarrow> te_value (record_of now m) = None"
    using mv by (cases "snd p") (auto simp: record_of_def metric_value_def Let_def split: option.splits if_splits)
  ultimately show ?thesis unfolding record_shows_def by blast
qed

section \<open>Properties\<close>

text \<open>C28. The webhook is idempotent: after it provisioned a device, and once hawkBit knows the target, the
  same event is answered \<open>already_provisioned\<close> with the same address, sends one GET and changes nothing.\<close>

theorem webhook_idempotent:
  assumes "peers_ok c w" "thingsboard_webhook h c ev e w = (Inr r, w1)" "wr_device_id r = Some d"
    "e_http e (w_trace w1) (hb_request h GET (''/'' @ d) NoBody) = Answer p"
    "rs_status p = 200" "rs_json p = Some t" "truth t"
  shows "thingsboard_webhook h c ev e w1 = (Inr (r\<lparr>wr_status := ''already_provisioned''\<rparr>),
    w1\<lparr>w_trace := w_trace w1 @ [hb_request h GET (''/'' @ d) NoBody]\<rparr>)"
proof -
  obtain ip where ip: "wr_wireguard_ip r = Some ip" "wr_reason r = None" "extract_device_id (e_float_repr e) ev = Some d" "d \<noteq> []"
    using assms(2)
  proof (cases rule: webhook_value)
    case ignored
    then have "wr_device_id r = None"
      using assms(2) by (auto simp: thingsboard_webhook_def run_simps)
    with assms(3) show ?thesis by simp
  qed (use assms(3) that in auto)
  have "has_address c d ip w1"
    using webhook_address [OF assms(1,2) ip(1)] assms(3) by simp
  then have a: "allocate_ip c d e (w1\<lparr>w_trace := t\<rparr>) = (Inr ip, w1\<lparr>w_trace := t\<rparr>)" for t
    by (intro allocate_same) (simp add: has_address_def peers_ok_def assigned_ip_def peers_def)
  have q: "webhook_query h d e w1 = (Inr t, w1\<lparr>w_trace := w_trace w1 @ [hb_request h GET (''/'' @ d) NoBody]\<rparr>)"
    using assms(4-6) by (simp add: webhook_query_def get_target_def try_except_def bnd_def http_answer
        is_success_def resp_json_def run_simps)
  show ?thesis
    using ip assms(3,7) q a
    by (cases d; cases r) (simp_all add: thingsboard_webhook_def run_simps opt_str_or_def bnd_value Let_def)
qed

text \<open>C29. Telemetry is stored under the tenant and the device that the metadata of its event name, and under no
  other: a post appends nothing, or one record per field of the payload, in their order, each with that
  tenant and device, the name, value and type of its field and the time of the post; it is then answered
  \<open>written\<close> with that tenant, that device and the number of records. The records that were there stay.\<close>

theorem telemetry_isolated:
  assumes "telemetry_endpoint ev e w = (r, w')"
  shows "\<exists>recs. w_telemetry w' = w_telemetry w @ recs \<and>
    (if recs = [] then \<forall>v. r = Inr v \<longrightarrow> tr_status v = ''ignored'' \<and> tr_points_written v = 0
     else \<exists>ps t d. ev_data ev = JObj ps \<and> list_all2 (record_shows (e_float_repr e) ev) ps recs \<and>
       (\<forall>x\<in>set recs. te_tenant_id x = t \<and> te_device_id x = d \<and> te_time x = e_now e (w_ticks w)) \<and>
       r = Inr \<lparr>tr_status = ''written'', tr_device_id = Some d, tr_tenant_id = Some t,
         tr_points_written = length recs, tr_reason = None\<rparr>)"
  using assms
proof (cases rule: telemetry_cases)
  case nothing
  then show ?thesis by (intro exI [of _ "[]"]) auto
next
  case (written d t rows)
  let ?rec = "record_of (e_now e (w_ticks w))"
  have "list_all2 (\<lambda>p m. record_shows (e_float_repr e) ev p (?rec m)) (telemetry_fields ev) rows"
    using written(4) by (rule list_all2_mono) (rule metric_shown [OF _ written(1,3)])
  then have shown: "list_all2 (record_shows (e_float_repr e) ev) (telemetry_fields ev) (map ?rec rows)"
    by (simp add: list_all2_conv_all_nth)
  moreover obtain ps where "ev_data ev = JObj ps" "telemetry_fields ev = ps"
    using written(4,5) by (cases "ev_data ev") (auto simp: telemetry_fields_def)
  moreover have "\<forall>m\<in>set rows. mr_tenant_id m = t \<and> mr_device_id m = d"
    using written(4) by (induction rule: list_all2_induct) (simp_all add: row_matches_def)
  then have "\<forall>x\<in>set (map ?rec rows). te_tenant_id x = t \<and> te_device_id x = d \<and> te_time x = e_now e (w_ticks w)"
    by (simp add: record_of_def)
  ultimately show ?thesis using written(5,6,8) by (intro exI [of _ "map ?rec rows"]) simp
qed

text \<open>Every post that is written opens one more connection pool, and no post ever closes one: the client
  is built per request, although \<open>deps.py\<close> calls it a singleton.\<close>

theorem telemetry_leaks_pool:
  assumes "telemetry_endpoint ev e w = (r, w')"
  shows "w_open_pools w \<le> w_open_pools w' \<and>
    (\<forall>v. r = Inr v \<longrightarrow> tr_status v = ''written'' \<longrightarrow> w_open_pools w' = Suc (w_open_pools w))"
  using assms by (cases rule: telemetry_cases) auto

end
