(* ===== verification/DeviceWitnesses.thy ===== *)
theory DeviceWitnesses
  imports SampleRuns Enrollment Webhooks
begin

text \<open>
  The properties of the enrolment of devices, of the VPN addresses and of the webhooks, each applied to
  the sample deployment with a VPN of six addresses.
\<close>

section \<open>Addresses\<close>

definition sample_wg :: wg_config where
  "sample_wg = \<lparr>wc_subnet = \<lparr>net_addr = 0, net_prefixlen = 29\<rparr>, wc_server_ip = 1, wc_server_url = ''vpn'', wc_server_port = 51820\<rparr>"

lemma sample_hosts: "hosts (wc_subnet sample_wg) = [1, 2, 3, 4, 5, 6]" "wc_server_ip sample_wg = 1"
  by (simp_all add: sample_wg_def hosts_def broadcast_def hostmask_def mask_numeral upt_rec)

lemma sample_peers_ok: "w_peers w = None \<Longrightarrow> peers_ok sample_wg w"
  by (simp add: peers_ok_def peers_def dict_wf_def dict_values_def)

lemma sample_allocate:
  assumes "w_peers w = None"
  shows "allocate_ip sample_wg d e w = (Inr (ip_str 2), w\<lparr>w_peers := Some [(d, ip_str 2)]\<rparr>)"
proof -
  have "allocate_ip sample_wg d e w = (Inr (ip_str 2), w\<lparr>w_peers := Some (peers w @ [(d, ip_str 2)])\<rparr>)"
    using assms by (intro allocate_new [of _ _ "[]"]) (simp_all add: sample_hosts assigned_ip_def peers_def dict_values_def)
  with assms show ?thesis by (simp add: peers_def)
qed

lemma allocation_refines_witness:
  "lease (hosts (wc_subnet sample_wg)) 1 ''dev'' (leases empty_world) =
     (ip_parse (ip_str 2), leases (empty_world\<lparr>w_peers := Some [(''dev'', ip_str 2)]\<rparr>))"
proof -
  have n: "w_peers empty_world = None" by (simp add: empty_world_def)
  from allocation_refines [OF sample_peers_ok [OF n] sample_allocate [OF n, of "''dev''" sample_env]]
  show ?thesis by (simp add: sample_hosts(2))
qed

lemma allocation_until_exhausted_witness: "\<exists>ip w'. allocate_ip sample_wg ''dev'' sample_env empty_world = (Inr ip, w')"
proof -
  have n: "w_peers empty_world = None" by (simp add: empty_world_def)
  have "assigned_ip empty_world ''dev'' = None" "length (peers empty_world) = 0"
    using n by (simp_all add: assigned_ip_def peers_def)
  with allocation_until_exhausted [OF sample_peers_ok [OF n], of "''dev''" sample_env] show ?thesis by (simp add: sample_hosts)
qed

section \<open>Enrolment\<close>

definition sample_ca :: step_ca_client where
  "sample_ca = get_step_ca_client default_settings"

definition sample_hawkbit :: hawkbit_client where
  "sample_hawkbit = get_hawkbit_client default_settings"

definition sample_enrollment :: enrollment_request where
  "sample_enrollment = \<lparr>er_csr = ''csr'', er_device_name = ''Pump'', er_device_type = ''pump'', er_wg_public_key = None\<rparr>"

lemma sample_enrollment_fields: "er_csr sample_enrollment = ''csr''" "opt_str_or (er_wg_public_key sample_enrollment) [] = []"
  by (simp_all add: sample_enrollment_def opt_str_or_def)

lemma sample_ca_fields: "sc_provisioner_name sample_ca = ''iot-bridge''" "sc_signing_key sample_ca = None"
  by (simp_all add: sample_ca_def get_step_ca_client_def new_step_ca_client_def sample_simps)

lemma sample_signed: "\<exists>w'. enroll_sign sample_ca ''csr'' d sample_env w = (Inr (JStr ''CERT'', JStr ''CA''), w')"
  by (simp add: enroll_sign_def try_except_def sign_certificate_def make_ott_def load_signing_key_def sample_ca_fields sample_load
      csr_fingerprint_def signed_token_def time_seconds_def sample_run)

lemma sample_target: "\<exists>j w'. get_target h d sample_env w = (Inr j, w') \<and> truth j"
  by (simp add: get_target_def sample_run)

lemma sample_targeted: "\<exists>w'. enroll_target h d b sample_env w = (Inr (), w')"
proof -
  obtain j w' where g: "get_target h d sample_env w = (Inr j, w')" "truth j" using sample_target by blast
  then show ?thesis by (simp add: enroll_target_def try_except_def bnd_def [of "get_target a b" for a b] run_simps)
qed

lemma sample_enroll:
  assumes "\<And>v. w_peers v = w_peers w \<Longrightarrow> \<exists>ip v'. allocate_ip sample_wg d sample_env v = (Inr ip, v')"
  obtains r w' where "enroll_device sample_ca sample_hawkbit sample_wg d sample_enrollment sample_env w = (Inr r, w')"
    "es_certificate r = ''CERT''"
proof -
  obtain w1 where s: "enroll_sign sample_ca ''csr'' d sample_env w = (Inr (JStr ''CERT'', JStr ''CA''), w1)"
    using sample_signed by blast
  obtain w2 where t: "enroll_target sample_hawkbit d sample_enrollment sample_env w1 = (Inr (), w2)"
    using sample_targeted by blast
  have "w_peers w2 = w_peers w" using keepsD [OF en_sign.peers_kept s] keepsD [OF en_target.peers_kept t] by simp
  then obtain ip w3 where a: "allocate_ip sample_wg d sample_env w2 = (Inr ip, w3)" using assms by blast
  obtain cfg w4 where g: "generate_client_config sample_wg d ip [] sample_env w3 = (Inr cfg, w4)" using generate_value by blast
  have v: "validate_csr ''csr'' sample_env w = (Inr (), w)" by (simp add: validate_csr_run sample_simps)
  have "enroll_device sample_ca sample_hawkbit sample_wg d sample_enrollment sample_env w =
      (Inr \<lparr>es_certificate = ''CERT'', es_ca_chain = ''CA'', es_wireguard_ip = ip, es_wireguard_config = cfg\<rparr>, w4)"
    by (simp add: enroll_device_def sample_enrollment_fields run_thn bnd_value [where m = "validate_csr ''csr''", OF v]
        bnd_def [of "enroll_sign x y z" for x y z] s bnd_def [of "enroll_target x y z" for x y z] t
        bnd_def [of "allocate_ip x y" for x y] a bnd_def [of "generate_client_config x y z u" for x y z u] g
        as_str_def run_simps)
  then show ?thesis by (rule that) simp
qed

lemma sample_first_enroll:
  obtains r w' where "enroll_device sample_ca sample_hawkbit sample_wg d sample_enrollment sample_env empty_world = (Inr r, w')"
    "es_certificate r = ''CERT''"
proof -
  have "\<exists>ip v'. allocate_ip sample_wg d sample_env v = (Inr ip, v')" if "w_peers v = w_peers empty_world" for v
    using that sample_allocate [of v] by (simp add: empty_world_def)
  from sample_enroll [OF this] that show ?thesis by blast
qed

lemma enroll_refuses_invalid_csr_witness:
  "\<exists>m. enroll_device sample_ca sample_hawkbit sample_wg ''dev'' (sample_enrollment\<lparr>er_csr := []\<rparr>) sample_env empty_world =
     (Inl (HTTPException 422 m), empty_world)"
proof -
  have "\<forall>c. e_load_csr sample_env (er_csr (sample_enrollment\<lparr>er_csr := []\<rparr>)) = Inr c \<longrightarrow> \<not> csr_signature_valid c"
    by (simp add: sample_simps)
  from enroll_refuses_invalid_csr [OF this, of sample_ca sample_hawkbit sample_wg "''dev''" empty_world] show ?thesis by blast
qed

lemma enroll_certificate_authentic_witness:
  "\<exists>r w' ott. enroll_device sample_ca sample_hawkbit sample_wg ''dev'' sample_enrollment sample_env empty_world = (Inr r, w') \<and>
     ott_for sample_env ''iot-bridge'' ''dev'' (sc_url sample_ca) [''dev''] ''csr'' ott \<and> es_certificate r = ''CERT''"
proof -
  obtain r w' where r: "enroll_device sample_ca sample_hawkbit sample_wg ''dev'' sample_enrollment sample_env empty_world = (Inr r, w')"
    "es_certificate r = ''CERT''" by (rule sample_first_enroll)
  from r enroll_certificate_authentic [OF r(1)] show ?thesis by (auto simp: sample_ca_fields sample_enrollment_fields)
qed

lemma enroll_address_stable_witness:
  "\<exists>r w1 res w2 r3 w3. enroll_device sample_ca sample_hawkbit sample_wg ''dev'' sample_enrollment sample_env empty_world = (Inr r, w1) \<and>
     enroll_device sample_ca sample_hawkbit sample_wg ''other'' sample_enrollment sample_env w1 = (res, w2) \<and>
     enroll_device sample_ca sample_hawkbit sample_wg ''dev'' sample_enrollment sample_env w2 = (Inr r3, w3) \<and>
     es_wireguard_ip r3 = es_wireguard_ip r"
proof -
  let ?enroll = "\<lambda>d. enroll_device sample_ca sample_hawkbit sample_wg d sample_enrollment sample_env"
  have ok: "peers_ok sample_wg empty_world" by (rule sample_peers_ok) (simp add: empty_world_def)
  obtain r w1 where r: "?enroll ''dev'' empty_world = (Inr r, w1)" by (rule sample_first_enroll)
  obtain res w2 where s: "?enroll ''other'' w1 = (res, w2)" by fastforce
  have "has_address sample_wg ''dev'' (es_wireguard_ip r) w2"
    by (rule preservesD [OF enroll_preserves(2) s enroll_has_address [OF ok r]])
  then have "\<exists>ip v'. allocate_ip sample_wg ''dev'' sample_env v = (Inr ip, v')" if "w_peers v = w_peers w2" for v
    using allocate_same peers_cong(3) [OF that] by blast
  from sample_enroll [OF this] obtain r3 w3 where t: "?enroll ''dev'' w2 = (Inr r3, w3)" by blast
  from r s t enroll_address_stable [OF ok r s t] show ?thesis by blast
qed

lemma enroll_signs_first_witness:
  "\<exists>w' rs qs. snd (enroll_device sample_ca sample_hawkbit sample_wg ''dev'' sample_enrollment sample_env empty_world) = w' \<and>
     w_trace w' = rs @ qs \<and> list_all (hb_kind sample_hawkbit {GET, POST, PUT}) qs"
proof -
  obtain r w' where r: "enroll_device sample_ca sample_hawkbit sample_wg ''dev'' sample_enrollment sample_env empty_world = (Inr r, w')"
    by (rule sample_first_enroll)
  from r enroll_signs_first [OF r] show ?thesis by (auto simp: empty_world_def)
qed

section \<open>Webhooks\<close>

definition sample_event :: thingsboard_webhook_event where
  "sample_event = \<lparr>ev_msgType = ''POST_TELEMETRY'', ev_metadata = [(''deviceId'', JStr ''dev''), (''tenantId'', JStr ''acme'')],
     ev_data = JObj [(''state'', JStr ''on'')]\<rparr>"

lemma sample_device: "extract_device_id fr sample_event = Some ''dev''"
  by (simp add: extract_first metadata_get_def sample_event_def py_str_def)

lemma sample_webhook:
  obtains r w' where "thingsboard_webhook sample_hawkbit sample_wg sample_event sample_env empty_world = (Inr r, w')"
    "wr_device_id r = Some ''dev''"
proof -
  obtain j w1 where g: "get_target sample_hawkbit ''dev'' sample_env empty_world = (Inr j, w1)" "truth j"
    using sample_target by blast
  then have q: "webhook_query sample_hawkbit ''dev'' sample_env empty_world = (Inr j, w1)"
    by (simp add: webhook_query_def try_except_def)
  have "w_peers w1 = None" using keepsD [OF wh_query.peers_kept q] by (simp add: empty_world_def)
  from q g(2) sample_allocate [OF this, of "''dev''" sample_env] have
    "thingsboard_webhook sample_hawkbit sample_wg sample_event sample_env empty_world =
      (Inr \<lparr>wr_status = ''already_provisioned'', wr_device_id = Some ''dev'', wr_wireguard_ip = Some (ip_str 2), wr_reason = None\<rparr>,
       w1\<lparr>w_peers := Some [(''dev'', ip_str 2)]\<rparr>)"
    by (simp add: thingsboard_webhook_def run_simps sample_device opt_str_or_def Let_def bnd_def)
  then show ?thesis by (rule that) simp
qed

lemma webhook_idempotent_witness:
  "\<exists>r w1. thingsboard_webhook sample_hawkbit sample_wg sample_event sample_env empty_world = (Inr r, w1) \<and>
     fst (thingsboard_webhook sample_hawkbit sample_wg sample_event sample_env w1) = Inr (r\<lparr>wr_status := ''already_provisioned''\<rparr>)"
proof -
  have ok: "peers_ok sample_wg empty_world" by (rule sample_peers_ok) (simp add: empty_world_def)
  obtain r w1 where r: "thingsboard_webhook sample_hawkbit sample_wg sample_event sample_env empty_world = (Inr r, w1)"
    "wr_device_id r = Some ''dev''" by (rule sample_webhook)
  from r(1) webhook_idempotent [OF ok r sample_simps(2) sample_simps(8) sample_simps(10)] show ?thesis by simp
qed

lemma telemetry_isolated_witness:
  "\<exists>v w' x. telemetry_endpoint sample_event sample_env empty_world = (Inr v, w') \<and> tr_status v = ''written'' \<and>
     w_telemetry w' = [x] \<and> te_tenant_id x = ''acme'' \<and> te_device_id x = ''dev'' \<and> te_metric_name x = ''state'' \<and> te_value x = None"
proof -
  let ?row = "\<lparr>mr_tenant_id = ''acme'', mr_device_id = ''dev'', mr_metric_name = ''state'', mr_value = None, mr_raw_type = ''str''\<rparr>"
  have f: "telemetry_fields sample_event = [(''state'', JStr ''on'')]" "metadata_get sample_event ''tenantId'' d = JStr ''acme''" for d
    by (simp_all add: telemetry_fields_def sample_event_def metadata_get_def)
  have m: "metric_row_of ''acme'' ''dev'' (''state'', JStr ''on'') sample_env w = (Inr ?row, w)" for w
    by (simp add: metric_row_run metric_value_def type_name_def)
  obtain c w1 where wr: "write_metrics (get_timescaledb_client default_settings) [?row] sample_env empty_world = (Inr c, w1)"
    using write_fresh [OF fresh_client dsn_nonempty, of "[?row]"] by (simp add: sample_env_def)
  obtain v w' where t: "telemetry_endpoint sample_event sample_env empty_world = (Inr v, w')" "tr_status v = ''written''"
    using wr by (simp add: telemetry_endpoint_def thingsboard_telemetry_def run_simps sample_device opt_str_or_def Let_def f m
        str_of_def py_str_def sample_simps try_except_def bnd_def)
  from t(2) telemetry_isolated [OF t(1)] obtain x d' t' where
    x: "w_telemetry w' = [x]" "record_shows (e_float_repr sample_env) sample_event (''state'', JStr ''on'') x"
      "te_tenant_id x = t'" "te_device_id x = d'" "v = \<lparr>tr_status = ''written'', tr_device_id = Some d', tr_tenant_id = Some t',
         tr_points_written = 1, tr_reason = None\<rparr>"
    by (auto simp: empty_world_def sample_event_def list_all2_Cons1 split: if_splits)
  from x(2) have "te_tenant_id x = ''acme''" "te_device_id x = ''dev''" "te_metric_name x = ''state''" "te_value x = None"
    by (auto simp: record_shows_def names_device_def sample_event_def py_str_def Cons_eq_append_conv truth_def)
  with t x(1) show ?thesis by blast
qed

end
