(* ===== verification/Portal.thy ===== *)
theory Portal
  imports AdminPortal
begin

text \<open>
  \<open>app/routers/portal.py\<close>: the login portal of the tenants, an OIDC authorisation-code flow against
  the tenant's Keycloak realm whose state lives in the session (\<open>w_session\<close>).
\<close>

section \<open>Helpers\<close>

definition operator_roles :: "string set" where
  "operator_roles = {''cdm-operator'', ''platform-operator''}"

definition viewer_roles :: "string set" where
  "viewer_roles = {''cdm-viewer''}"

definition parse_tenants :: "settings \<Rightarrow> json io" where
  "parse_tenants s = bnd (asks (\<lambda>e. loads_text e (portal_tenants_json s))) (\<lambda>j.
     case j of Some v \<Rightarrow> ret v | None \<Rightarrow> ret (JObj []))"

definition callback_uri :: "settings \<Rightarrow> string" where
  "callback_uri s = external_url s @ ''/api/portal/callback''"

definition decode_jwt_payload :: "json \<Rightarrow> json io" where
  "decode_jwt_payload token = try_except
     (bnd (case token of JStr t \<Rightarrow> nth_part t 1
           | _ \<Rightarrow> raise (AttributeError (squoted (type_name token) @ '' object has no attribute '' @ squoted ''split'')))
       (\<lambda>part. loads (urlsafe_b64decode (part @ replicate ((4 - length part mod 4) mod 4) CHR ''=''))))
     (\<lambda>_. ret (JObj []))"

definition select_page :: "string \<Rightarrow> int \<Rightarrow> reply" where
  "select_page error status = TemplateResponse ''portal/tenant_select.html'' status [(''error'', JStr error)]"

definition portal_select :: "reply io" where
  "portal_select = ret (TemplateResponse ''portal/tenant_select.html'' 200 [])"

section \<open>Session\<close>

definition session_set :: "string \<Rightarrow> json \<Rightarrow> unit io" where
  "session_set k v = modify (\<lambda>w. w\<lparr>w_session := dict_set k v (w_session w)\<rparr>)"

definition session_pop :: "string \<Rightarrow> unit io" where
  "session_pop k = modify (\<lambda>w. w\<lparr>w_session := dict_del k (w_session w)\<rparr>)"

definition session_clear :: "unit io" where
  "session_clear = modify (\<lambda>w. w\<lparr>w_session := []\<rparr>)"

section \<open>Login\<close>

text \<open>The search of the static tenant map, by id or by name in lower case.\<close>

definition lower_json :: "json \<Rightarrow> string io" where
  "lower_json v = (case v of JStr s \<Rightarrow> ret (lower s)
     | _ \<Rightarrow> raise (AttributeError (squoted (type_name v) @ '' object has no attribute '' @ squoted ''lower'')))"

fun match_tenant :: "string \<Rightarrow> (string \<times> json) list \<Rightarrow> string option io" where
  "match_tenant tenant_input [] = ret None"
| "match_tenant tenant_input ((tid, meta) # rest) =
     (if tid = tenant_input then ret (Some tid)
      else bnd (jget meta ''name'' (JStr [])) (\<lambda>n. bnd (lower_json n) (\<lambda>name.
        if name = tenant_input then ret (Some tid) else match_tenant tenant_input rest)))"

definition tenant_items :: "json \<Rightarrow> (string \<times> json) list io" where
  "tenant_items tenants = (case tenants of JObj ps \<Rightarrow> ret ps
     | _ \<Rightarrow> raise (AttributeError (squoted (type_name tenants) @ '' object has no attribute '' @ squoted ''items'')))"

definition realm_get :: "settings \<Rightarrow> string \<Rightarrow> request" where
  "realm_get s tenant_input = kc_request s GET (''/realms/'' @ tenant_input) NoAuth NoBody"

definition live_realm :: "settings \<Rightarrow> string \<Rightarrow> string option io" where
  "live_realm s tenant_input = try_except
     (bnd (http (realm_get s tenant_input)) (\<lambda>resp.
        ret (if rs_status resp = 200 then Some tenant_input else None)))
     (\<lambda>_. ret None)"

definition auth_url :: "settings \<Rightarrow> string \<Rightarrow> string \<Rightarrow> string \<Rightarrow> string" where
  "auth_url s tenant_id state nonce = replace_first (keycloak_url s) (external_url s @ ''/auth'')
     (keycloak_url s @ ''/realms/'' @ tenant_id @ ''/protocol/openid-connect/auth'' @ ''?client_id=portal'' @
      ''&response_type=code'' @ ''&scope=openid+profile+email+roles'' @ ''&redirect_uri='' @ callback_uri s @
      ''&state='' @ state @ ''&nonce='' @ nonce)"

definition not_found_page :: reply where
  "not_found_page = select_page (''Organisation nicht gefunden. Bitte '' @ [CHR 0xFC] @ ''berpr'' @ [CHR 0xFC] @
     ''fen Sie Ihre Eingabe.'') 400"

definition start_login :: "settings \<Rightarrow> string \<Rightarrow> reply io" where
  "start_login s tenant_id = bnd token_urlsafe (\<lambda>state. bnd token_urlsafe (\<lambda>nonce.
     thn session_clear
    (thn (session_set ''oauth_state'' (JStr state))
    (thn (session_set ''oauth_nonce'' (JStr nonce))
    (thn (session_set ''oauth_tenant'' (JStr tenant_id))
    (ret (RedirectResponse (auth_url s tenant_id state nonce))))))))"

definition portal_login :: "string option \<Rightarrow> reply io" where
  "portal_login form_tenant = bnd get_settings (\<lambda>s.
     let tenant_input = lower (strip (case form_tenant of None \<Rightarrow> [] | Some t \<Rightarrow> t)) in
     bnd (parse_tenants s) (\<lambda>tenants. bnd (tenant_items tenants) (\<lambda>items.
     bnd (match_tenant tenant_input items) (\<lambda>found.
     bnd (if opt_str_or found [] = [] then live_realm s tenant_input else ret found) (\<lambda>tenant.
       if opt_str_or tenant [] = [] then ret not_found_page
       else start_login s (opt_str_or tenant []))))))"

section \<open>Callback\<close>

record callback_params =
  cb_code :: "string option"
  cb_state :: "string option"
  cb_error :: "string option"
  cb_error_description :: "string option"

definition token_post :: "settings \<Rightarrow> string \<Rightarrow> string \<Rightarrow> request" where
  "token_post s tenant_id code = kc_request s POST (''/realms/'' @ tenant_id @ ''/protocol/openid-connect/token'') NoAuth
     (FormBody [(''grant_type'', ''authorization_code''), (''code'', code), (''redirect_uri'', callback_uri s),
        (''client_id'', ''portal''), (''client_secret'', portal_oidc_secret s)])"

definition invalid_session_page :: reply where
  "invalid_session_page = select_page (''Ung'' @ [CHR 0xFC] @ ''ltige Sitzung. Bitte erneut anmelden.'') 400"

definition exchange_failed_page :: reply where
  "exchange_failed_page = select_page ''Token-Austausch fehlgeschlagen. Bitte erneut versuchen.'' 502"

definition known_roles :: "json \<Rightarrow> json list io" where
  "known_roles payload = bnd (jget payload ''realm_access'' (JObj [])) (\<lambda>access.
     bnd (jget access ''roles'' (JArr [])) (\<lambda>roles. bnd (jiter roles) (\<lambda>rs.
       filter_io (\<lambda>r. in_strings r (admin_roles \<union> operator_roles \<union> viewer_roles)) rs)))"

text \<open>\<open>tenants.get(tenant_id, {}).get("name", tenant_id)\<close>.\<close>

definition tenant_name :: "json \<Rightarrow> json \<Rightarrow> json io" where
  "tenant_name tenants tenant_id = (case tenant_id of
       JStr t \<Rightarrow> bnd (jget tenants t (JObj [])) (\<lambda>meta. jget meta ''name'' tenant_id)
     | _ \<Rightarrow> bnd (jget tenants [] JNull) (\<lambda>_.
         if hashable tenant_id then ret tenant_id else raise (TypeError ''unhashable type'')))"

definition user_of :: "settings \<Rightarrow> json \<Rightarrow> json \<Rightarrow> json \<Rightarrow> json io" where
  "user_of s tenant_id payload id_token = bnd (known_roles payload) (\<lambda>cdm_roles.
     bnd (parse_tenants s) (\<lambda>tenants.
     bnd (jget payload ''sub'' (JStr [])) (\<lambda>sub.
     bnd (jget payload ''name'' JNull) (\<lambda>name.
     bnd (jget payload ''preferred_username'' (JStr [])) (\<lambda>username.
     bnd (jget payload ''email'' (JStr [])) (\<lambda>email.
     bnd (tenant_name tenants tenant_id) (\<lambda>tname.
       ret (JObj [(''sub'', sub), (''name'', jor name username), (''preferred_username'', username),
         (''email'', email), (''realm'', tenant_id), (''tenant_name'', tname), (''roles'', JArr cdm_roles),
         (''id_token'', id_token)]))))))))"

definition finish_login :: "settings \<Rightarrow> json \<Rightarrow> response \<Rightarrow> reply io" where
  "finish_login s tenant_id resp = bnd (resp_json resp) (\<lambda>token_data.
     bnd (jget token_data ''access_token'' (JStr [])) (\<lambda>access_token.
     bnd (jget token_data ''id_token'' (JStr [])) (\<lambda>id_token.
     bnd (decode_jwt_payload access_token) (\<lambda>payload.
     bnd (user_of s tenant_id payload id_token) (\<lambda>user.
     thn (session_set ''user'' user)
    (thn (session_pop ''oauth_state'') (thn (session_pop ''oauth_nonce'') (thn (session_pop ''oauth_tenant'')
     (ret (RedirectResponse ''/api/portal/dashboard''))))))))))"

definition portal_callback :: "callback_params \<Rightarrow> reply io" where
  "portal_callback cb = bnd get_settings (\<lambda>s.
     if opt_str_or (cb_error cb) [] \<noteq> []
     then ret (select_page (''Anmeldung fehlgeschlagen: '' @
            opt_str_or (cb_error_description cb) (opt_str_or (cb_error cb) [])) 400)
     else bnd (session_get ''oauth_state'' JNull) (\<lambda>stored_state. bnd (session_get ''oauth_tenant'' JNull) (\<lambda>tenant_id.
       let code = opt_str_or (cb_code cb) []; state = opt_str_or (cb_state cb) [] in
       if code = [] \<or> state = [] \<or> JStr state \<noteq> stored_state \<or> \<not> truth tenant_id
       then ret invalid_session_page
       else bnd (str_of tenant_id) (\<lambda>t. bnd (http (token_post s t code)) (\<lambda>resp.
         if rs_status resp \<noteq> 200 then ret exchange_failed_page
         else finish_login s tenant_id resp)))))"

section \<open>Dashboard and logout\<close>

definition effective_role :: "json list \<Rightarrow> string" where
  "effective_role user_roles = (if has_role user_roles admin_roles then ''admin''
     else if has_role user_roles operator_roles then ''operator''
     else if has_role user_roles viewer_roles then ''viewer'' else ''viewer'')"

definition portal_dashboard :: "reply io" where
  "portal_dashboard = bnd get_settings (\<lambda>s. bnd (session_get ''user'' JNull) (\<lambda>user.
     if \<not> truth user then ret (RedirectResponse ''/api/portal/'')
     else bnd (jget user ''roles'' (JArr [])) (\<lambda>roles. bnd (set_of roles) (\<lambda>user_roles.
       bnd (jget user ''realm'' (JStr ''cdm'')) (\<lambda>realm. bnd (str_of realm) (\<lambda>r.
         ret (TemplateResponse ''portal/dashboard.html'' 200
           [(''user'', user), (''effective_role'', JStr (effective_role user_roles)), (''realm'', realm),
            (''external_url'', JStr (external_url s)),
            (''keycloak_admin_url'', JStr (external_url s @ ''/auth/admin/'' @ r @ ''/console/''))])))))))"

definition portal_logout :: "reply io" where
  "portal_logout = bnd get_settings (\<lambda>s. bnd (session_get ''user'' (JObj [])) (\<lambda>user.
     bnd (jget user ''realm'' (JStr ''cdm'')) (\<lambda>realm. bnd (jget user ''id_token'' (JStr [])) (\<lambda>id_token.
     thn session_clear
    (bnd (str_of realm) (\<lambda>r. bnd (str_of id_token) (\<lambda>t.
       ret (RedirectResponse (external_url s @ ''/auth/realms/'' @ r @ ''/protocol/openid-connect/logout'' @
         ''?post_logout_redirect_uri='' @ external_url s @ ''/api/portal/'' @ ''&client_id=portal'' @
         (if truth id_token then ''&id_token_hint='' @ t else []))))))))))"

section \<open>Role levels\<close>

text \<open>The three levels of access, in their order; the dashboard shows the highest level of the user's roles.\<close>

datatype level = Viewer | Operator | Admin

fun rank :: "level \<Rightarrow> nat" where
  "rank Viewer = 0"
| "rank Operator = 1"
| "rank Admin = 2"

instantiation level :: linorder
begin

definition less_eq_level :: "level \<Rightarrow> level \<Rightarrow> bool" where
  "less_eq_level a b = (rank a \<le> rank b)"

definition less_level :: "level \<Rightarrow> level \<Rightarrow> bool" where
  "less_level a b = (rank a < rank b)"

instance
proof
  fix a b c :: level
  show "(a < b) = (a \<le> b \<and> \<not> b \<le> a)" "a \<le> a" "a \<le> b \<or> b \<le> a"
    by (auto simp: less_eq_level_def less_level_def)
  show "a \<le> b \<Longrightarrow> b \<le> c \<Longrightarrow> a \<le> c" by (simp add: less_eq_level_def)
  show "a \<le> b \<Longrightarrow> b \<le> a \<Longrightarrow> a = b" by (cases a; cases b) (simp_all add: less_eq_level_def)
qed

end

definition level_text :: "level \<Rightarrow> string" where
  "level_text l = (case l of Viewer \<Rightarrow> ''viewer'' | Operator \<Rightarrow> ''operator'' | Admin \<Rightarrow> ''admin'')"

definition level_of :: "string \<Rightarrow> level" where
  "level_of r = (if r \<in> admin_roles then Admin else if r \<in> operator_roles then Operator else Viewer)"

definition highest :: "string list \<Rightarrow> level" where
  "highest rs = Max (insert Viewer (level_of ` set rs))"

lemma Viewer_least [simp]: "Viewer \<le> l"
  by (cases l) (simp_all add: less_eq_level_def)

lemma Admin_greatest [simp]: "l \<le> Admin"
  by (cases l) (simp_all add: less_eq_level_def)

lemma highest_eq: "highest rs = (if \<exists>r\<in>set rs. r \<in> admin_roles then Admin
    else if \<exists>r\<in>set rs. r \<in> operator_roles then Operator else Viewer)"
proof -
  have "level_of r \<le> Operator" if "r \<notin> admin_roles" for r
    using that by (simp add: level_of_def less_eq_level_def)
  moreover have "level_of r = Viewer" if "r \<notin> admin_roles" "r \<notin> operator_roles" for r
    using that by (simp add: level_of_def)
  ultimately show ?thesis
    unfolding highest_def by (intro Max_eqI) (auto simp: level_of_def image_iff split: if_splits)
qed

section \<open>The session that a login leaves\<close>

lemma in_strings_filter:
  "filter_io (\<lambda>r. in_strings r S) xs e w = (Inr ys, w') \<Longrightarrow> w' = w \<and> (\<exists>ss. ys = map JStr ss \<and> set ss \<subseteq> S)"
proof (induction xs arbitrary: ys w')
  case Nil
  then show ?case by (auto simp: run_simps)
next
  case (Cons x xs)
  then obtain b zs where b: "in_strings x S e w = (Inr b, w)"
    and z: "filter_io (\<lambda>r. in_strings r S) xs e w = (Inr zs, w')" and ys: "ys = (if b then x # zs else zs)"
    by (auto simp: in_strings_def run_simps elim!: bnd_InrE split: if_splits)
  from Cons.IH [OF z] obtain ss where ss: "w' = w" "zs = map JStr ss" "set ss \<subseteq> S" by blast
  show ?case
  proof (cases b)
    case True
    with b obtain s where "s \<in> S" "x = JStr s" by (auto simp: in_strings_def run_simps split: if_splits)
    with ss ys True show ?thesis by (intro conjI exI [of _ "s # ss"]) auto
  qed (use ss ys in auto)
qed

lemma known_roles_value:
  assumes "known_roles payload e w = (Inr rs, w')"
  shows "w' = w \<and> (\<exists>ss. rs = map JStr ss \<and> set ss \<subseteq> admin_roles \<union> operator_roles \<union> viewer_roles)"
  using assms unfolding known_roles_def
  by (fastforce elim!: bnd_InrE dest!: in_strings_filter simp: jget_def jiter_def run_simps
      split: json.splits option.splits)

definition logged_in :: "json \<Rightarrow> json \<Rightarrow> bool" where
  "logged_in tenant_id u \<longleftrightarrow> (\<exists>ps ss. u = JObj ps \<and> dict_get ps ''realm'' = Some tenant_id \<and>
     dict_get ps ''roles'' = Some (JArr (map JStr ss)) \<and> set ss \<subseteq> admin_roles \<union> operator_roles \<union> viewer_roles)"

lemma keeps_user_of:
  "keeps g (known_roles p)" "keeps g (parse_tenants s)" "keeps g (tenant_name t i)" "keeps g (decode_jwt_payload tok)"
  unfolding known_roles_def parse_tenants_def tenant_name_def decode_jwt_payload_def
  by (intro keeps_rules)+

lemma user_of_value:
  assumes "user_of s tid payload idt e w = (Inr u, w')"
  shows "w' = w \<and> logged_in tid u"
proof
  have "keeps (\<lambda>w. w) (user_of s tid payload idt)"
    unfolding user_of_def by (intro keeps_rules keeps_user_of)
  then show "w' = w" using assms by (rule pure_world)
  show "logged_in tid u"
    using assms unfolding user_of_def logged_in_def
    by (auto simp: run_simps elim!: bnd_InrE dest!: known_roles_value)
qed

lemma finish_login_cases:
  assumes "finish_login s tid resp e w = (r, w')"
  shows "w' = w \<and> (\<exists>x. r = Inl x) \<or> (\<exists>u. logged_in tid u \<and> r = Inr (RedirectResponse ''/api/portal/dashboard'') \<and>
    w' = w\<lparr>w_session := dict_del ''oauth_tenant'' (dict_del ''oauth_nonce'' (dict_del ''oauth_state''
      (dict_set ''user'' u (w_session w))))\<rparr>)"
proof -
  let ?k = "\<lambda>u. thn (session_set ''user'' u) (thn (session_pop ''oauth_state'') (thn (session_pop ''oauth_nonce'')
     (thn (session_pop ''oauth_tenant'') (ret (RedirectResponse ''/api/portal/dashboard'')))))"
  let ?m = "bnd (resp_json resp) (\<lambda>d. bnd (jget d ''access_token'' (JStr [])) (\<lambda>a. bnd (jget d ''id_token'' (JStr [])) (\<lambda>i.
     bnd (decode_jwt_payload a) (\<lambda>p. user_of s tid p i))))"
  have f: "finish_login s tid resp = bnd ?m ?k" by (simp add: finish_login_def bnd_assoc)
  have "keeps (\<lambda>w. w) ?m" unfolding user_of_def by (intro keeps_rules keeps_user_of)
  then have w: "?m e w = (r', w1) \<Longrightarrow> w1 = w" for r' w1 by (rule pure_world)
  have u: "?m e w = (Inr u, w1) \<Longrightarrow> logged_in tid u" for u w1
    by (elim bnd_InrE) (blast dest: user_of_value)
  show ?thesis
  proof (cases r)
    case (Inl x)
    with assms f have "bnd ?m ?k e w = (Inl x, w')" by simp
    then show ?thesis
    proof (cases rule: bnd_InlE)
      case 1
      with w Inl show ?thesis by blast
    next
      case (2 u w1)
      then show ?thesis by (simp add: session_set_def session_pop_def run_simps)
    qed
  next
    case (Inr b)
    with assms f have "bnd ?m ?k e w = (Inr b, w')" by simp
    then obtain u' w1 where m: "?m e w = (Inr u', w1)" "?k u' e w1 = (Inr b, w')" by (rule bnd_InrE)
    from u [OF m(1)] w [OF m(1)] m(2) Inr show ?thesis
      by (auto simp: session_set_def session_pop_def run_simps)
  qed
qed

text \<open>When a callback changes the session at all, and to what.\<close>

lemma callback_cases:
  assumes "portal_callback cb e w = (r, w')"
  obtains (same) "w_session w' = w_session w" "\<forall>u. r \<noteq> Inr (RedirectResponse u)"
  | (login) code st tid p u where "cb_error cb = None \<or> cb_error cb = Some []"
      "cb_code cb = Some code" "code \<noteq> []" "cb_state cb = Some st" "st \<noteq> []"
      "dict_get (w_session w) ''oauth_state'' = Some (JStr st)" "dict_get (w_session w) ''oauth_tenant'' = Some tid" "truth tid"
      "e_http e (w_trace w) (token_post (e_settings e) (py_str (e_float_repr e) tid) code) = Answer p" "rs_status p = 200"
      "logged_in tid u" "r = Inr (RedirectResponse ''/api/portal/dashboard'')"
      "w' = w\<lparr>w_trace := w_trace w @ [token_post (e_settings e) (py_str (e_float_repr e) tid) code],
         w_session := dict_del ''oauth_tenant'' (dict_del ''oauth_nonce'' (dict_del ''oauth_state''
           (dict_set ''user'' u (w_session w))))\<rparr>"
proof -
  let ?s = "e_settings e"
  let ?tid = "case dict_get (w_session w) ''oauth_tenant'' of Some v \<Rightarrow> v | None \<Rightarrow> JNull"
  let ?st = "case dict_get (w_session w) ''oauth_state'' of Some v \<Rightarrow> v | None \<Rightarrow> JNull"
  let ?code = "opt_str_or (cb_code cb) []" and ?state = "opt_str_or (cb_state cb) []"
  let ?t = "py_str (e_float_repr e) ?tid"
  consider (err) "opt_str_or (cb_error cb) [] \<noteq> []"
    | (bad) "opt_str_or (cb_error cb) [] = []" "?code = [] \<or> ?state = [] \<or> JStr ?state \<noteq> ?st \<or> \<not> truth ?tid"
    | (good) "opt_str_or (cb_error cb) [] = []" "?code \<noteq> []" "?state \<noteq> []" "JStr ?state = ?st" "truth ?tid"
    by blast
  then show ?thesis
  proof cases
    case err
    with assms show ?thesis
      by (intro that(1)) (auto simp: portal_callback_def run_simps select_page_def)
  next
    case bad
    with assms show ?thesis
      by (intro that(1)) (auto simp: portal_callback_def run_simps session_get_def Let_def invalid_session_page_def select_page_def)
  next
    case good
    then obtain code st tid where c: "cb_code cb = Some code" "code \<noteq> []" "cb_state cb = Some st" "st \<noteq> []"
      "dict_get (w_session w) ''oauth_state'' = Some (JStr st)" "dict_get (w_session w) ''oauth_tenant'' = Some tid" "truth tid"
      "cb_error cb = None \<or> cb_error cb = Some []"
      by (auto simp: opt_str_or_def split: option.splits if_splits)
    have run: "bnd (http (token_post ?s (py_str (e_float_repr e) tid) code)) (\<lambda>resp.
        if rs_status resp \<noteq> 200 then ret exchange_failed_page else finish_login ?s tid resp) e w = (r, w')"
      using assms good c by (simp add: portal_callback_def run_simps session_get_def Let_def str_of_def opt_str_or_def cong: if_cong)
    obtain r1 w1 where h: "http (token_post ?s (py_str (e_float_repr e) tid) code) e w = (r1, w1)" by fastforce
    from h show ?thesis
    proof (cases rule: http_cases)
      case (answer p)
      show ?thesis
      proof (cases "rs_status p = 200")
        case False
        with run h answer show ?thesis
          by (intro that(1)) (auto simp: bnd_value run_simps exchange_failed_page_def select_page_def)
      next
        case True
        with run h answer have "finish_login ?s tid p e w1 = (r, w')" by (simp add: bnd_value)
        from finish_login_cases [OF this] answer True c show ?thesis
          by (elim disjE exE conjE) (auto intro: that)
      qed
    qed (use run h that(1) in \<open>auto simp: bnd_raise\<close>)
  qed
qed

lemma session_user_set [simp]:
  "session_user (w\<lparr>w_session := dict_set ''user'' u d\<rparr>) = u"
  "k \<noteq> ''user'' \<Longrightarrow> session_user (w\<lparr>w_session := dict_set k v d\<rparr>) = session_user (w\<lparr>w_session := d\<rparr>)"
  "k \<noteq> ''user'' \<Longrightarrow> session_user (w\<lparr>w_session := dict_del k d\<rparr>) = session_user (w\<lparr>w_session := d\<rparr>)"
  "session_user (w\<lparr>w_session := []\<rparr>) = JNull"
  "session_user (w\<lparr>w_trace := t\<rparr>) = session_user w"
  by (simp_all add: session_user_def)

lemma session_user_cong: "w_session w' = w_session w \<Longrightarrow> session_user w' = session_user w"
  by (simp add: session_user_def)

lemma session_cong: "session_user w' = session_user w \<Longrightarrow> session_ok w' = session_ok w"
  "session_user w' = session_user w \<Longrightarrow> is_cdm_admin w' = is_cdm_admin w"
  by (simp_all add: session_ok_def is_cdm_admin_def)

text \<open>A login that starts leaves three entries in the session and no user.\<close>

lemma token_run: "\<exists>t n. token_urlsafe e w = (Inr t, w\<lparr>w_draws := n\<rparr>) \<and> length t = 43"
proof -
  have "\<exists>bs n. random_bytes k e w = (Inr bs, w\<lparr>w_draws := n\<rparr>) \<and> is_bytes bs \<and> length bs = k" for k w
  proof (induction k arbitrary: w)
    case 0
    show ?case by (auto simp: run_simps is_bytes_def intro!: exI [of _ "w_draws w"])
  next
    case (Suc k)
    obtain bs n where "random_bytes k e (w\<lparr>w_draws := Suc (w_draws w)\<rparr>) = (Inr bs, w\<lparr>w_draws := n\<rparr>)" "is_bytes bs" "length bs = k"
      using Suc.IH [of "w\<lparr>w_draws := Suc (w_draws w)\<rparr>"] by auto
    then show ?case by (auto simp: bnd_def randbelow_def run_simps is_bytes_def)
  qed
  then obtain bs n where b: "random_bytes 32 e w = (Inr bs, w\<lparr>w_draws := n\<rparr>)" "is_bytes bs" "length bs = 32" by blast
  have "length (jwt_segment bs) = 43" by (simp add: jwt_segment_body [OF b(2)] length_b64_body b(3))
  then show ?thesis
    by (auto simp: token_urlsafe_def bnd_value [where m = "random_bytes 32", OF b(1)] run_simps jwt_segment_def)
qed

lemma start_login_run:
  "\<exists>st nonce n. start_login s t e w = (Inr (RedirectResponse (auth_url s t st nonce)),
     w\<lparr>w_draws := n, w_session := [(''oauth_state'', JStr st), (''oauth_nonce'', JStr nonce), (''oauth_tenant'', JStr t)]\<rparr>) \<and>
     length st = 43"
proof -
  obtain st n where a: "token_urlsafe e w = (Inr st, w\<lparr>w_draws := n\<rparr>)" "length st = 43" using token_run by blast
  obtain nonce n' where b: "token_urlsafe e (w\<lparr>w_draws := n\<rparr>) = (Inr nonce, w\<lparr>w_draws := n'\<rparr>)"
    using token_run [of e "w\<lparr>w_draws := n\<rparr>"] by auto
  show ?thesis
    using a b by (auto simp: start_login_def bnd_value session_clear_def session_set_def run_simps dict_set_def)
qed

lemma keeps_match: "keeps g (match_tenant i items)"
  by (induction i items rule: match_tenant.induct) (auto simp: lower_json_def intro!: keeps_rules split: json.split)

lemma login_cases:
  assumes "portal_login form e w = (r, w')"
  obtains (same) "w_session w' = w_session w" "\<forall>u. r \<noteq> Inr (RedirectResponse u)"
  | (started) t st nonce where "t \<noteq> []" "r = Inr (RedirectResponse (auth_url (e_settings e) t st nonce))"
      "w_session w' = [(''oauth_state'', JStr st), (''oauth_nonce'', JStr nonce), (''oauth_tenant'', JStr t)]"
proof -
  let ?s = "e_settings e"
  let ?i = "lower (strip (case form of None \<Rightarrow> [] | Some t \<Rightarrow> t))"
  let ?m = "bnd (parse_tenants ?s) (\<lambda>tenants. bnd (tenant_items tenants) (\<lambda>items. bnd (match_tenant ?i items) (\<lambda>found.
     if opt_str_or found [] = [] then live_realm ?s ?i else ret found)))"
  let ?k = "\<lambda>tenant. if opt_str_or tenant [] = [] then ret not_found_page else start_login ?s (opt_str_or tenant [])"
  have "keeps w_session (live_realm ?s ?i)"
    unfolding live_realm_def by (intro keeps_rules keeps_http) simp
  moreover have "keeps w_session (tenant_items j)" for j
    unfolding tenant_items_def by (intro keeps_rules)
  ultimately have k: "keeps w_session ?m" by (intro keeps_rules keeps_user_of keeps_match)
  have "bnd ?m ?k e w = (r, w')"
    using assms by (simp add: portal_login_def run_bnd_settings Let_def bnd_assoc)
  then show ?thesis
  proof (cases r)
    case (Inl x)
    with \<open>bnd ?m ?k e w = (r, w')\<close> have "bnd ?m ?k e w = (Inl x, w')" by simp
    then show ?thesis
    proof (cases rule: bnd_InlE)
      case 1
      with keepsD [OF k 1] Inl show ?thesis by (intro that(1)) auto
    next
      case (2 t w1)
      then show ?thesis
        using start_login_run [of ?s "opt_str_or t []" e w1] by (auto simp: run_simps split: if_splits)
    qed
  next
    case (Inr b)
    with \<open>bnd ?m ?k e w = (r, w')\<close> obtain t w1 where m: "?m e w = (Inr t, w1)" "?k t e w1 = (Inr b, w')"
      by (auto elim: bnd_InrE)
    from keepsD [OF k m(1)] m(2) Inr show ?thesis
      using start_login_run [of ?s "opt_str_or t []" e w1]
      by (cases "opt_str_or t [] = []") (auto simp: run_simps not_found_page_def select_page_def intro: that)
  qed
qed

lemma logout_cases:
  assumes "portal_logout e w = (r, w')"
  shows "w' = w\<lparr>w_session := []\<rparr> \<or> w' = w \<and> (\<exists>x. r = Inl x)"
proof -
  let ?k = "\<lambda>realm id_token. thn session_clear (bnd (str_of realm) (\<lambda>r. bnd (str_of id_token) (\<lambda>t.
       ret (RedirectResponse (external_url (e_settings e) @ ''/auth/realms/'' @ r @ ''/protocol/openid-connect/logout'' @
         ''?post_logout_redirect_uri='' @ external_url (e_settings e) @ ''/api/portal/'' @ ''&client_id=portal'' @
         (if truth id_token then ''&id_token_hint='' @ t else []))))))"
  obtain user where run: "bnd (jget user ''realm'' (JStr ''cdm'')) (\<lambda>realm. bnd (jget user ''id_token'' (JStr []))
      (\<lambda>id_token. ?k realm id_token)) e w = (r, w')"
    using assms by (simp add: portal_logout_def run_bnd_settings session_get_def run_bnd_gets)
  have k: "w' = w\<lparr>w_session := []\<rparr>" if "?k realm id_token e w = (r, w')" for realm id_token
    using that by (simp add: session_clear_def str_of_def run_simps)
  show ?thesis
  proof (cases user)
    case (JObj ps)
    then have "\<exists>realm id_token. ?k realm id_token e w = (r, w')"
      using run by (auto simp: jget_def run_bnd_ret)
    with k show ?thesis by blast
  qed (use run in \<open>auto simp: jget_def run_simps\<close>)
qed

lemma logout_value: "portal_logout e w = (Inr r, w') \<Longrightarrow> w' = w\<lparr>w_session := []\<rparr>"
  using logout_cases [of e w "Inr r" w'] by simp

section \<open>Properties\<close>

text \<open>C33. The callback logs a user in only for a request that carries the state stored in this session and a
  code that the token endpoint of the tenant's realm accepted; it stores a user of that realm with known
  roles only, and it consumes the state: a further callback in that session sends nothing and fails.\<close>

theorem callback_needs_state:
  assumes "portal_callback cb e w = (r, w')" "w_session w' \<noteq> w_session w"
  shows "\<exists>code st tid p. cb_code cb = Some code \<and> cb_state cb = Some st \<and> st \<noteq> [] \<and>
      dict_get (w_session w) ''oauth_state'' = Some (JStr st) \<and> dict_get (w_session w) ''oauth_tenant'' = Some tid \<and>
      e_http e (w_trace w) (token_post (e_settings e) (py_str (e_float_repr e) tid) code) = Answer p \<and>
      rs_status p = 200 \<and> logged_in tid (session_user w') \<and>
      (\<forall>cb2. \<exists>page. portal_callback cb2 e w' = (Inr page, w') \<and> (\<forall>u. page \<noteq> RedirectResponse u))"
  using assms(1)
proof (cases rule: callback_cases)
  case (login code st tid p u)
  have "dict_get (w_session w') ''oauth_state'' = None" "session_user w' = u"
    using login(13) by (simp_all add: session_user_def)
  moreover have "\<exists>page. portal_callback cb2 e w' = (Inr page, w') \<and> (\<forall>u. page \<noteq> RedirectResponse u)" for cb2
    using \<open>dict_get (w_session w') ''oauth_state'' = None\<close>
    by (auto simp: portal_callback_def run_simps session_get_def Let_def invalid_session_page_def select_page_def)
  ultimately show ?thesis using login by metis
qed (use assms(2) in simp)

text \<open>The three handlers of the portal that write the session keep it of the form that the guard of the
  admin portal relies on: no user, or a user whose roles are a list of strings.\<close>

theorem portal_keeps_session_ok:
  assumes "session_ok w"
  shows "session_ok (snd (portal_login form e w)) \<and> session_ok (snd (portal_callback cb e w)) \<and>
    session_ok (snd (portal_logout e w))"
proof (intro conjI)
  obtain r1 w1 where l: "portal_login form e w = (r1, w1)" by fastforce
  then show "session_ok (snd (portal_login form e w))"
  proof (cases rule: login_cases)
    case same
    from session_cong(1) [OF session_user_cong [OF same(1)]] l assms show ?thesis by simp
  next
    case (started t st nonce)
    with l show ?thesis by (simp add: session_ok_def session_user_def)
  qed
  obtain r2 w2 where c: "portal_callback cb e w = (r2, w2)" by fastforce
  then show "session_ok (snd (portal_callback cb e w))"
  proof (cases rule: callback_cases)
    case same
    from session_cong(1) [OF session_user_cong [OF same(1)]] c assms show ?thesis by simp
  next
    case (login code st tid p u)
    with c show ?thesis by (auto simp: session_ok_def logged_in_def session_user_def)
  qed
  obtain r3 w3 where o: "portal_logout e w = (r3, w3)" by fastforce
  show "session_ok (snd (portal_logout e w))"
    using logout_cases [OF o] o assms by (auto simp: session_ok_def)
qed

text \<open>Only a login in the realm \<open>cdm\<close> makes a session an administrator's session.\<close>

theorem admin_session_from_cdm_login:
  assumes "portal_callback cb e w = (r, w')" "\<not> is_cdm_admin w" "is_cdm_admin w'"
  shows "dict_get (w_session w) ''oauth_tenant'' = Some (JStr ''cdm'') \<and>
    (\<exists>code p. e_http e (w_trace w) (token_post (e_settings e) ''cdm'' code) = Answer p \<and> rs_status p = 200)"
  using assms(1)
proof (cases rule: callback_cases)
  case same
  from session_cong(2) [OF session_user_cong [OF same(1)]] assms(2,3) show ?thesis by simp
next
  case (login code st tid p u)
  then have "session_user w' = u" by (simp add: session_user_def)
  with login(11) assms(3) have "tid = JStr ''cdm''"
    by (auto simp: is_cdm_admin_def logged_in_def)
  with login(7,9,10) show ?thesis by (auto simp: py_str_def)
qed

text \<open>C35. The role that the dashboard shows is the highest level among the user's roles, a viewer at least.\<close>

theorem dashboard_role_is_highest:
  assumes "session_user w = JObj ps" "dict_get ps ''roles'' = Some (JArr (map JStr rs))"
  shows "\<exists>ctx. portal_dashboard e w = (Inr (TemplateResponse ''portal/dashboard.html'' 200 ctx), w) \<and>
    map_of ctx ''effective_role'' = Some (JStr (level_text (highest rs)))"
proof -
  have "ps \<noteq> []" using assms(2) by auto
  then show ?thesis
    using assms by (auto simp: portal_dashboard_def session_get_def session_user_def [symmetric] run_simps jget_def
        set_of_strings effective_role_def has_role_strings highest_eq level_text_def str_of_def)
qed

text \<open>A logout that answers empties the session, so that the dashboard redirects to the login and the
  admin portal refuses every request.\<close>

theorem logout_ends_session:
  assumes "portal_logout e w = (Inr r, w')"
  shows "w' = w\<lparr>w_session := []\<rparr> \<and> portal_dashboard e w' = (Inr (RedirectResponse ''/api/portal/''), w') \<and>
    create_tenant b e w' = (Inr unauthorized, w') \<and> delete_tenant rid e w' = (Inr unauthorized, w')"
proof -
  have w': "w' = w\<lparr>w_session := []\<rparr>" using assms by (rule logout_value)
  then have "dict_get (w_session w') ''user'' = None" by simp
  then show ?thesis
    using w' create_guard.refused_stranger delete_guard.refused_stranger
    by (simp add: portal_dashboard_def session_get_def run_simps)
qed

text \<open>The payload of a token whose segments are encoded as JWT prescribes is the document of the encoded bytes.\<close>

lemma decode_jwt_payload_encoded:
  assumes "is_bytes bs" "CHR ''.'' \<notin> set header" "loads_bytes e bs = Some claims"
  shows "decode_jwt_payload (JStr (header @ ''.'' @ jwt_segment bs @ ''.'' @ signature)) e w = (Inr claims, w)"
proof -
  let ?seg = "jwt_segment bs"
  have "CHR ''.'' \<notin> set ?seg"
  proof -
    from b64_body_no_dot [OF assms(1)] show ?thesis by (auto simp: jwt_segment_body [OF assms(1)] to_urlsafe_def split: if_splits)
  qed
  then have "split_on CHR ''.'' (header @ ''.'' @ ?seg @ ''.'' @ signature) = header # ?seg # split_on CHR ''.'' signature"
    using assms(2) split_on_sep [of "CHR ''.''" header] split_on_sep [of "CHR ''.''" ?seg] by simp
  then have n: "nth_part (header @ ''.'' @ ?seg @ ''.'' @ signature) 1 = ret ?seg"
    by (simp add: nth_part_def)
  have "(n + (4 - n mod 4) mod 4) mod 4 = 0" for n :: nat
  proof -
    have "(n + (4 - n mod 4) mod 4) mod 4 = (n mod 4 + (4 - n mod 4)) mod 4"
      by (simp only: mod_add_left_eq mod_add_right_eq)
    also have "n mod 4 + (4 - n mod 4) = 4" by (simp add: less_imp_le)
    finally show ?thesis by simp
  qed
  then have "urlsafe_b64decode (?seg @ replicate ((4 - length ?seg mod 4) mod 4) CHR ''='') = Some bs"
    unfolding jwt_segment_body [OF assms(1)] length_map
    by (intro urlsafe_b64decode_body [OF assms(1)]) blast
  with n assms(3) show ?thesis
    by (simp add: decode_jwt_payload_def run_simps try_except_def loads_def)
qed

text \<open>C34. Decoding is the inverse of encoding: the payload of a token in which the issuer wrote its claims with
  \<open>json.dumps\<close>, encoded as JWT prescribes, is decoded to these claims, whatever the padding that was left
  out.\<close>

theorem decode_jwt_payload_claims:
  assumes "plain_json claims" "CHR ''.'' \<notin> set header"
  shows "decode_jwt_payload (JStr (header @ ''.'' @ jwt_segment (write_text (json_dumps fr a ind claims)) @ ''.'' @ signature)) e w =
    (Inr claims, w)"
proof (rule decode_jwt_payload_encoded [OF _ assms(2)])
  show "is_bytes (write_text (json_dumps fr a ind claims))" by (simp add: is_bytes_def write_text_def utf8_all_bytes)
  show "loads_bytes e (write_text (json_dumps fr a ind claims)) = Some claims" using assms(1) by (rule loads_bytes_document)
qed

end
