(* ===== verification/PortalNonce.thy ===== *)
theory PortalNonce
  imports Portal
begin

text \<open>
  The nonce of a login. \<open>portal_login\<close> draws one and keeps it in the session, but \<open>portal_callback\<close> never compares it with
  the one in the id token: the callback does the same whatever nonce the session has.
\<close>

section \<open>Computations that do not look at the session\<close>

text \<open>\<open>blind g m\<close>: \<open>m\<close> does the same when the session is changed by \<open>g\<close>, and leaves it so changed.\<close>

definition with_session :: "((string, json) dict \<Rightarrow> (string, json) dict) \<Rightarrow> world \<Rightarrow> world" where
  "with_session g w = w\<lparr>w_session := g (w_session w)\<rparr>"

definition blind :: "((string, json) dict \<Rightarrow> (string, json) dict) \<Rightarrow> 'a io \<Rightarrow> bool" where
  "blind g m \<longleftrightarrow> (\<forall>e w. m e (with_session g w) = (fst (m e w), with_session g (snd (m e w))))"

named_theorems blind_rules

lemma blindD: "blind g m \<Longrightarrow> m e w = (r, w') \<Longrightarrow> m e (with_session g w) = (r, with_session g w')"
  by (simp add: blind_def)

lemma blind_basic [blind_rules]:
  "blind g (ret a)" "blind g (raise x)" "blind g (asks h)" "blind g get_settings" "blind g (lift_sum y)" "blind g (str_of v)"
  by (simp_all add: blind_def run_simps lift_sum_def str_of_def asks_def split: sum.split)

lemma blind_http [blind_rules]: "blind g (http r)"
  by (simp add: blind_def http_def with_session_def Let_def split: outcome.split)

lemma blind_bnd [blind_rules]:
  assumes "blind g m" "\<And>a. blind g (f a)"
  shows "blind g (bnd m f)"
  unfolding blind_def
proof (intro allI)
  fix e w
  obtain r w1 where m: "m e w = (r, w1)" by fastforce
  with blindD [OF assms(1) m] assms(2) show "bnd m f e (with_session g w) = (fst (bnd m f e w), with_session g (snd (bnd m f e w)))"
    by (cases r) (auto simp: bnd_def blind_def)
qed

lemma blind_try [blind_rules]:
  assumes "blind g m" "\<And>x. blind g (h x)"
  shows "blind g (try_except m h)"
  unfolding blind_def
proof (intro allI)
  fix e w
  obtain r w1 where m: "m e w = (r, w1)" by fastforce
  with blindD [OF assms(1) m] assms(2)
  show "try_except m h e (with_session g w) = (fst (try_except m h e w), with_session g (snd (try_except m h e w)))"
    by (cases r) (auto simp: try_except_def blind_def)
qed

lemma blind_if [blind_rules]: "blind g m \<Longrightarrow> blind g k \<Longrightarrow> blind g (if b then m else k)"
  by simp

lemma blind_option [blind_rules]:
  "blind g m \<Longrightarrow> (\<And>a. blind g (f a)) \<Longrightarrow> blind g (case x of None \<Rightarrow> m | Some a \<Rightarrow> f a)"
  by (simp split: option.split)

lemma blind_let [blind_rules]: "(\<And>x. blind g (f x)) \<Longrightarrow> blind g (let x = t in f x)"
  by simp

lemma blind_json [blind_rules]: "blind g (jget v k d)" "blind g (jiter v)" "blind g (in_strings v S)" "blind g (resp_json r)"
  unfolding jget_def jiter_def in_strings_def resp_json_def
  by (auto intro!: blind_rules split: json.split option.split)

lemma blind_filter [blind_rules]: "(\<And>x. blind g (p x)) \<Longrightarrow> blind g (filter_io p xs)"
  by (induction xs) (auto intro!: blind_rules)

lemma blind_case_json [blind_rules]:
  assumes "blind g m" "\<And>a. blind g (f1 a)" "\<And>a. blind g (f2 a)" "\<And>a. blind g (f3 a)" "\<And>a. blind g (f4 a)"
    "\<And>a. blind g (f5 a)" "\<And>a. blind g (f6 a)"
  shows "blind g (case_json m f1 f2 f3 f4 f5 f6 j)"
  using assms by (cases j) simp_all

lemma blind_parts [blind_rules]: "blind g (decode_jwt_payload t)" "blind g (parse_tenants s)" "blind g (known_roles p)"
    "blind g (tenant_name ts t)"
  unfolding decode_jwt_payload_def nth_part_def loads_def parse_tenants_def known_roles_def tenant_name_def
  by (intro blind_rules)+

lemma blind_user [blind_rules]: "blind g (user_of s t p i)"
  unfolding user_of_def by (intro blind_rules)

section \<open>The callback\<close>

definition set_nonce :: "json \<Rightarrow> world \<Rightarrow> world" where
  "set_nonce n = with_session (dict_set ''oauth_nonce'' n)"

text \<open>\<open>same_outcome n m\<close>: with another nonce \<open>m\<close> has the same result, logs in the same user and has sent the same requests.\<close>

definition same_outcome :: "json \<Rightarrow> 'a io \<Rightarrow> bool" where
  "same_outcome n m \<longleftrightarrow> (\<forall>e w. fst (m e (set_nonce n w)) = fst (m e w) \<and>
     session_user (snd (m e (set_nonce n w))) = session_user (snd (m e w)) \<and>
     w_trace (snd (m e (set_nonce n w))) = w_trace (snd (m e w)))"

lemma nonce_simps [simp]: "session_user (with_session (dict_set ''oauth_nonce'' n) w) = session_user w"
    "w_trace (with_session h w) = w_trace w"
  by (simp_all add: session_user_def with_session_def)

lemma blind_outcome: "blind (dict_set ''oauth_nonce'' n) m \<Longrightarrow> same_outcome n m"
  by (simp add: same_outcome_def set_nonce_def blind_def)

lemma bnd_outcome:
  assumes "blind (dict_set ''oauth_nonce'' n) m" "\<And>a. same_outcome n (f a)"
  shows "same_outcome n (bnd m f)"
  unfolding same_outcome_def
proof (intro allI)
  fix e w
  obtain r w1 where m: "m e w = (r, w1)" by fastforce
  from blindD [OF assms(1) m] m assms(2)
  show "fst (bnd m f e (set_nonce n w)) = fst (bnd m f e w) \<and> session_user (snd (bnd m f e (set_nonce n w))) = session_user (snd (bnd m f e w)) \<and>
      w_trace (snd (bnd m f e (set_nonce n w))) = w_trace (snd (bnd m f e w))"
    by (cases r) (auto simp: bnd_def same_outcome_def set_nonce_def)
qed

lemma if_outcome: "same_outcome n m \<Longrightarrow> same_outcome n k \<Longrightarrow> same_outcome n (if b then m else k)"
  by simp

lemma blind_session_get: "k \<noteq> ''oauth_nonce'' \<Longrightarrow> blind (dict_set ''oauth_nonce'' n) (session_get k d)"
  by (simp add: blind_def session_get_def gets_def with_session_def)

lemma finish_outcome: "same_outcome n (finish_login s t resp)"
proof -
  have "same_outcome n (thn (session_set ''user'' user) (thn (session_pop ''oauth_state'') (thn (session_pop ''oauth_nonce'')
      (thn (session_pop ''oauth_tenant'') (ret page)))))" for user and page :: reply
    by (simp add: same_outcome_def session_set_def session_pop_def set_nonce_def with_session_def session_user_def run_simps)
  then show ?thesis
    unfolding finish_login_def by (intro bnd_outcome blind_rules)
qed

text \<open>What the callback answers, whom it logs in and what it sends do not depend on the nonce.\<close>

lemma callback_ignores_nonce: "same_outcome n (portal_callback cb)"
  unfolding portal_callback_def Let_def
  by (intro bnd_outcome if_outcome finish_outcome blind_rules blind_session_get blind_outcome) simp_all

end
