(* ===== verification/AccessMatrix.thy ===== *)
theory AccessMatrix
  imports IOLogic PyTime "HOL-Library.List_Lexorder" "HOL-Library.Char_ord"
begin

text \<open>
  \<open>provider-stack/keycloak/generate-access-matrix.py\<close>: the script that reads the users of the realm
  \<open>cdm\<close> from Keycloak and prints, as Markdown, what each of them may do. The page is UTF-8 text; its
  symbols are written as the bytes of their encoding. The messages on the standard error stream are
  left out, and so is the reason phrase in the text of a \<open>SystemExit\<close>.
\<close>

section \<open>Levels of access\<close>

definition mark_full :: string where "mark_full = [CHR 0xE2, CHR 0x9C, CHR 0x85]"
definition mark_edit :: string where "mark_edit = [CHR 0xF0, CHR 0x9F, CHR 0x94, CHR 0xB5]"
definition mark_view :: string where "mark_view = [CHR 0xF0, CHR 0x9F, CHR 0x91, CHR 0x81]"
definition mark_warn :: string where "mark_warn = [CHR 0xE2, CHR 0x9A, CHR 0xA0, CHR 0xEF, CHR 0xB8, CHR 0x8F]"
definition mark_info :: string where "mark_info = [CHR 0xE2, CHR 0x84, CHR 0xB9, CHR 0xEF, CHR 0xB8, CHR 0x8F]"
definition mark_none :: string where "mark_none = [CHR 0xE2, CHR 0x9C, CHR 0x97]"

lemmas marks = mark_full_def mark_edit_def mark_view_def mark_warn_def mark_info_def mark_none_def

definition endpoint_access :: "(string, (string, string) dict) dict" where
  "endpoint_access =
    [(''grafana'',
       [(''cdm-admin'', mark_full @ '' Admin''), (''cdm-operator'', mark_edit @ '' Editor''),
        (''cdm-viewer'', mark_view @ '' Viewer''), (''platform-admin'', mark_full @ '' Admin (via broker)''),
        (''platform-operator'', mark_edit @ '' Editor (via broker)'')]),
     (''iot-bridge-api'',
       [(''cdm-admin'', mark_full @ '' Full''), (''cdm-operator'', mark_edit @ '' Read + deploy''),
        (''cdm-viewer'', mark_view @ '' Read-only''), (''platform-admin'', mark_full @ '' Full (via broker)''),
        (''platform-operator'', mark_view @ '' Read-only (via broker)'')]),
     (''tenant-portal'',
       [(''cdm-admin'', mark_full @ '' Admin view''), (''cdm-operator'', mark_edit @ '' Operator view''),
        (''cdm-viewer'', mark_view @ '' Viewer view''), (''platform-admin'', mark_full @ '' Admin view (via broker)''),
        (''platform-operator'', mark_edit @ '' Operator view (via broker)'')]),
     (''pgadmin'',
       [(''cdm-admin'', mark_warn @ '' DB Superuser [^1]''), (''cdm-operator'', mark_warn @ '' DB Superuser [^1]''),
        (''cdm-viewer'', mark_warn @ '' DB Superuser [^1]'')]),
     (''rabbitmq'',
       [(''platform-admin'', mark_full @ '' Administrator''), (''platform-operator'', mark_view @ '' Monitoring [^5]'')]),
     (''kc-cdm-admin'', [(''platform-admin'', mark_full @ '' Full [^4]'')]),
     (''kc-provider-admin'', [(''platform-admin'', mark_full @ '' Full [^4]'')])]"

definition endpoint_labels :: "(string \<times> string) list" where
  "endpoint_labels = [(''grafana'', ''Grafana''), (''iot-bridge-api'', ''IoT Bridge API''),
     (''tenant-portal'', ''Tenant Portal''), (''pgadmin'', ''pgAdmin''), (''rabbitmq'', ''RabbitMQ Mgmt''),
     (''kc-cdm-admin'', ''KC CDM Admin''), (''kc-provider-admin'', ''KC Provider Admin'')]"

fun first_access :: "(string, string) dict \<Rightarrow> string list \<Rightarrow> string" where
  "first_access mapping [] = mark_none"
| "first_access mapping (role # roles) = (case dict_get mapping role of Some a \<Rightarrow> a | None \<Rightarrow> first_access mapping roles)"

definition access_for :: "string list \<Rightarrow> string \<Rightarrow> string" where
  "access_for roles endpoint = first_access (case dict_get endpoint_access endpoint of Some m \<Rightarrow> m | None \<Rightarrow> []) roles"

section \<open>Keycloak\<close>

text \<open>\<open>_request\<close>: an HTTP error status and an unreachable host end the script.\<close>

definition matrix_request :: "request \<Rightarrow> json io" where
  "matrix_request r = bnd (try_except (http r) (\<lambda>exc. case exc of
        RequestError m \<Rightarrow> raise (SystemExit (''Cannot reach '' @ rq_url r @ '': '' @ m))
      | _ \<Rightarrow> raise exc)) (\<lambda>resp.
     if \<not> is_success resp
     then raise (SystemExit (''HTTP '' @ dec_int (rs_status resp) @ '' for '' @ rq_url r @ ''\<newline>'' @ rs_text resp))
     else resp_json resp)"

definition matrix_token_post :: "string \<Rightarrow> string \<Rightarrow> string \<Rightarrow> request" where
  "matrix_token_post base user password = \<lparr>rq_meth = POST,
     rq_url = base @ ''/auth/realms/master/protocol/openid-connect/token'', rq_auth = NoAuth,
     rq_body = FormBody [(''grant_type'', ''password''), (''client_id'', ''admin-cli''), (''username'', user),
       (''password'', password)], rq_verify = True\<rparr>"

definition get_admin_token :: "string \<Rightarrow> string \<Rightarrow> string \<Rightarrow> string io" where
  "get_admin_token base user password = bnd (matrix_request (matrix_token_post base user password))
     (\<lambda>result. bnd (jindex result ''access_token'') str_of)"

definition matrix_get :: "string \<Rightarrow> string \<Rightarrow> string \<Rightarrow> request" where
  "matrix_get base path token = \<lparr>rq_meth = GET, rq_url = base @ ''/'' @ dropWhile (\<lambda>c. c = CHR ''/'') path,
     rq_auth = Bearer token, rq_body = NoBody, rq_verify = True\<rparr>"

definition kc_get :: "string \<Rightarrow> string \<Rightarrow> string \<Rightarrow> json io" where
  "kc_get base path token = matrix_request (matrix_get base path token)"

record matrix_user =
  mu_username :: json
  mu_email :: json
  mu_enabled :: json
  mu_roles :: "string list"

definition internal_role :: "string \<Rightarrow> bool" where
  "internal_role n = (startswith n ''default-roles-'' \<or> startswith n ''uma_'')"

fun role_names :: "json list \<Rightarrow> string list io" where
  "role_names [] = ret []"
| "role_names (r # rs) = bnd (jindex r ''name'') (\<lambda>v. case v of
      JStr n \<Rightarrow> bnd (role_names rs) (\<lambda>ns. ret (if internal_role n then ns else n # ns))
    | _ \<Rightarrow> raise (AttributeError (squoted (type_name v) @ '' object has no attribute '' @ squoted ''startswith'')))"

definition users_path :: "string \<Rightarrow> string" where
  "users_path realm = ''auth/admin/realms/'' @ realm @ ''/users?max=200&briefRepresentation=false''"

definition roles_path :: "string \<Rightarrow> string \<Rightarrow> string" where
  "roles_path realm uid = ''auth/admin/realms/'' @ realm @ ''/users/'' @ uid @ ''/role-mappings/realm''"

text \<open>A lookup of roles that fails counts as no roles.\<close>

definition user_roles :: "string \<Rightarrow> string \<Rightarrow> string \<Rightarrow> string \<Rightarrow> json io" where
  "user_roles base token realm uid = try_except (kc_get base (roles_path realm uid) token)
     (\<lambda>exc. case exc of SystemExit _ \<Rightarrow> ret (JArr []) | _ \<Rightarrow> raise exc)"

definition read_user :: "string \<Rightarrow> string \<Rightarrow> string \<Rightarrow> json \<Rightarrow> matrix_user io" where
  "read_user base token realm user = bnd (jindex user ''id'') (\<lambda>v. bnd (str_of v) (\<lambda>uid.
     bnd (user_roles base token realm uid) (\<lambda>roles. bnd (jiter roles) (\<lambda>rs. bnd (role_names rs) (\<lambda>names.
     bnd (jget user ''username'' (JStr [])) (\<lambda>username. bnd (jget user ''email'' (JStr em_dash)) (\<lambda>email.
     bnd (jget user ''enabled'' (JBool False)) (\<lambda>enabled.
       ret \<lparr>mu_username = username, mu_email = email, mu_enabled = enabled, mu_roles = names\<rparr>))))))))"

text \<open>
  \<open>sorted(result, key=...)\<close>: user names are text; when there are several users and one is not, the
  comparison raises.
\<close>

definition text_value :: "json \<Rightarrow> string" where
  "text_value v = (case v of JStr s \<Rightarrow> s | _ \<Rightarrow> [])"

definition is_text :: "json \<Rightarrow> bool" where
  "is_text v = (case v of JStr _ \<Rightarrow> True | _ \<Rightarrow> False)"

definition sort_users :: "matrix_user list \<Rightarrow> matrix_user list io" where
  "sort_users us = (if list_all (\<lambda>u. is_text (mu_username u)) us then ret (sort_key (\<lambda>u. text_value (mu_username u)) us)
     else if length us \<le> 1 then ret us
     else raise (TypeError ''not supported between these instances''))"

definition get_users_with_roles :: "string \<Rightarrow> string \<Rightarrow> string \<Rightarrow> matrix_user list io" where
  "get_users_with_roles base token realm = bnd (kc_get base (users_path realm) token) (\<lambda>users.
     bnd (jiter users) (\<lambda>us. bnd (map_io (read_user base token realm) us) sort_users))"

section \<open>The page\<close>

definition enabled_badge :: "json \<Rightarrow> string" where
  "enabled_badge enabled = (if truth enabled then [] else '' *(disabled)*'')"

definition roles_text :: "string list \<Rightarrow> string" where
  "roles_text roles = (if roles \<noteq> [] then join '', '' (map (\<lambda>r. ''`'' @ r @ ''`'') roles) else ''*(none)*'')"

text \<open>A value that is concatenated with text must be text.\<close>

definition must_be_text :: "json \<Rightarrow> string io" where
  "must_be_text v = (case v of JStr s \<Rightarrow> ret s | _ \<Rightarrow> raise (TypeError ''str instance expected''))"

definition table_row :: "string list \<Rightarrow> string" where
  "table_row cols = ''| '' @ join '' | '' cols @ '' |''"

definition user_row :: "string \<Rightarrow> matrix_user \<Rightarrow> string io" where
  "user_row realm u = bnd (must_be_text (mu_username u)) (\<lambda>username. bnd (must_be_text (jor (mu_email u) (JStr em_dash))) (\<lambda>email.
     ret (table_row ([realm, username @ enabled_badge (mu_enabled u), email, roles_text (mu_roles u)] @
       map (\<lambda>(ep, _). access_for (mu_roles u) ep) endpoint_labels))))"

definition user_notes :: "string \<Rightarrow> matrix_user \<Rightarrow> string list io" where
  "user_notes realm u = bnd (str_of (mu_username u)) (\<lambda>username. ret (
     (if \<not> truth (mu_enabled u)
      then [mark_warn @ '' `'' @ realm @ ''/'' @ username @ ''` is **disabled** but still exists.''] else []) @
     (if mu_roles u = []
      then [mark_info @ '' `'' @ realm @ ''/'' @ username @ ''` has **no realm roles** assigned.''] else []) @
     (if realm = ''cdm'' \<and> list_ex (\<lambda>r. r = ''cdm-operator'' \<or> r = ''cdm-viewer'') (mu_roles u)
      then [mark_warn @ '' `cdm/'' @ username @ ''` (`'' @ roles_text (mu_roles u) @
        ''`) gets **postgres superuser** access via pgAdmin '' @ em_dash @
        '' restrict to `cdm-admin` only in production.''] else [])))"

definition stamp :: "instant \<Rightarrow> string" where
  "stamp t = (case ord2ymd (t div day_us + epoch_ordinal) of (y, m, d) \<Rightarrow>
     let s = t mod day_us div 1000000 in
     pad 4 y @ ''-'' @ pad 2 m @ ''-'' @ pad 2 d @ '' '' @ pad 2 (s div 3600) @ '':'' @ pad 2 (s div 60 mod 60) @ '' UTC'')"

definition matrix_columns :: "string list" where
  "matrix_columns = [''Realm'', ''Username'', ''Email'', ''Roles''] @ map snd endpoint_labels"

definition matrix_head :: "instant \<Rightarrow> string list" where
  "matrix_head now = [''<!-- Generated by generate-access-matrix.py on '' @ stamp now @ '' -->'', [],
     ''> **Snapshot generated:** '' @ stamp now @ ''  '',
     ''> Re-run `python3 keycloak/generate-access-matrix.py` to refresh.'', [],
     table_row matrix_columns, ''|'' @ join ''|'' (map (\<lambda>_. ''---'') matrix_columns) @ ''|'']"

definition matrix_notes :: "string list \<Rightarrow> string list" where
  "matrix_notes anomalies = (if anomalies \<noteq> []
     then [[], ''### Anomalies & Security Notes'', []] @ map (\<lambda>n. ''- '' @ n) anomalies else [])"

definition realm_users :: "(string, matrix_user list) dict \<Rightarrow> (string \<times> matrix_user) list" where
  "realm_users users_by_realm = concat (map (\<lambda>(realm, us). map (\<lambda>u. (realm, u)) us) users_by_realm)"

definition matrix_entry :: "string \<times> matrix_user \<Rightarrow> (string list \<times> string) io" where
  "matrix_entry p = bnd (user_notes (fst p) (snd p)) (\<lambda>ns. bnd (user_row (fst p) (snd p)) (\<lambda>row. ret (ns, row)))"

definition render_matrix :: "(string, matrix_user list) dict \<Rightarrow> string io" where
  "render_matrix users_by_realm = bnd now_utc (\<lambda>now.
     bnd (map_io matrix_entry (realm_users users_by_realm)) (\<lambda>entries.
       ret (join ''\<newline>'' (matrix_head now @ map snd entries @ matrix_notes (concat (map fst entries))))))"

definition page_intro :: string where
  "page_intro = ''# Access Matrix '' @ em_dash @ '' Live Snapshot\<newline>\<newline>'' @
     ''This file is **auto-generated** by `provider-stack/keycloak/generate-access-matrix.py`.\<newline>'' @
     ''For the canonical reference (including footnotes, endpoint descriptions, and role\<newline>'' @
     ''explanations) see [access-matrix.md](access-matrix.md).\<newline>\<newline>---\<newline>\<newline>'' @
     ''## Live User Access Matrix\<newline>\<newline>''"

definition page_legend :: string where
  "page_legend = ''\<newline>\<newline>---\<newline>\<newline>## Legend\<newline>\<newline>| Symbol | Meaning |\<newline>|---|---|\<newline>'' @
     ''| '' @ mark_full @ '' | Full / Admin access |\<newline>'' @
     ''| '' @ mark_edit @ '' | Editor / Write access |\<newline>'' @
     ''| '' @ mark_view @ '' | Read-only / Viewer access |\<newline>'' @
     ''| '' @ mark_warn @ '' | Access granted but requires attention |\<newline>'' @
     ''| '' @ mark_none @ '' | No access |\<newline>\<newline>'' @
     ''[^1]: pgAdmin grants all authenticated cdm realm users the shared `postgres` superuser\<newline>'' @
     ''      connection via `pg_service.conf`.  Restrict to `cdm-admin` only in production.\<newline>'' @
     ''[^4]: `platform-admin` = KC master-realm superadmin; `init-tenants.sh` grants realm-admin.\<newline>'' @
     ''[^5]: `rabbitmq.tag:monitoring` is registered but not a default scope '' @ em_dash @ '' assign explicitly.\<newline>''"

definition render_full_page :: "(string, matrix_user list) dict \<Rightarrow> string io" where
  "render_full_page users_by_realm = bnd (render_matrix users_by_realm) (\<lambda>matrix. ret (page_intro @ matrix @ page_legend))"

text \<open>The script: \<open>argv\<close> is \<open>sys.argv\<close> and \<open>env\<close> is \<open>os.environ\<close>; its result is what it prints.\<close>

definition environ_get :: "(string \<Rightarrow> string option) \<Rightarrow> string \<Rightarrow> string \<Rightarrow> string" where
  "environ_get env k d = (case env k of Some v \<Rightarrow> v | None \<Rightarrow> d)"

definition matrix_main :: "string list \<Rightarrow> (string \<Rightarrow> string option) \<Rightarrow> string io" where
  "matrix_main argv env = (let
     base_url = (if length argv > 1 then argv ! 1 else rstrip_char CHR ''/'' (environ_get env ''EXTERNAL_URL'' ''http://localhost:8888''));
     admin_user = environ_get env ''KC_ADMIN_USER'' ''admin'';
     admin_password = environ_get env ''KC_ADMIN_PASSWORD'' ''changeme'' in
     bnd (get_admin_token base_url admin_user admin_password) (\<lambda>token.
     bnd (try_except (get_users_with_roles base_url token ''cdm'')
            (\<lambda>exc. case exc of SystemExit _ \<Rightarrow> ret [] | _ \<Rightarrow> raise exc)) (\<lambda>users.
       render_full_page [(''cdm'', users)])))"

section \<open>Access of a list of roles\<close>

text \<open>The reference: the first role in the list that the endpoint knows decides.\<close>

lemma first_access_find:
  "first_access mapping roles = (case find (\<lambda>r. dict_get mapping r \<noteq> None) roles of
     Some r \<Rightarrow> the (dict_get mapping r) | None \<Rightarrow> mark_none)"
  by (induction roles) (auto split: option.split)

lemma endpoint_access_grants:
  assumes "dict_get endpoint_access ep = Some m" "dict_get m r = Some a"
  shows "a \<noteq> mark_none"
proof -
  have "\<forall>p\<in>set endpoint_access. \<forall>q\<in>set (snd p). snd q \<noteq> mark_none"
    by (simp add: endpoint_access_def marks)
  with assms show ?thesis by (fastforce dest: map_of_SomeD)
qed

lemma first_access_none:
  assumes "\<And>r a. dict_get mapping r = Some a \<Longrightarrow> a \<noteq> mark_none"
  shows "first_access mapping roles = mark_none \<longleftrightarrow> (\<forall>r\<in>set roles. dict_get mapping r = None)"
  using assms by (induction roles) (auto split: option.split)

section \<open>Users\<close>

lemma sort_users_value:
  assumes "sort_users us e w = (Inr vs, w')"
  shows "set vs = set us" "sorted (map (\<lambda>u. text_value (mu_username u)) vs)"
proof -
  have one: "sorted (map f us)" if "length us \<le> 1" for f :: "matrix_user \<Rightarrow> string"
    using that by (cases us) auto
  from assms show "set vs = set us" by (auto simp: sort_users_def run_simps split: if_splits)
  from assms one show "sorted (map (\<lambda>u. text_value (mu_username u)) vs)"
    by (auto simp: sort_users_def run_simps split: if_splits)
qed

section \<open>Properties\<close>

text \<open>The matrix shows no access for a user at an endpoint exactly when none of the user's roles grants
  anything there; and otherwise what it shows is what one of the user's roles grants.\<close>

lemma access_shown_is_granted:
  "(access_for roles ep = mark_none \<longleftrightarrow> (\<forall>r\<in>set roles. \<forall>m. dict_get endpoint_access ep = Some m \<longrightarrow> dict_get m r = None)) \<and>
   (access_for roles ep \<noteq> mark_none \<longrightarrow> (\<exists>m. dict_get endpoint_access ep = Some m \<and>
      (\<exists>r\<in>set roles. dict_get m r = Some (access_for roles ep))))"
proof (cases "dict_get endpoint_access ep")
  case None
  have "first_access [] roles = mark_none" by (induction roles) auto
  with None show ?thesis by (simp add: access_for_def)
next
  case (Some m)
  have "first_access m roles \<noteq> mark_none \<Longrightarrow> \<exists>r\<in>set roles. dict_get m r = Some (first_access m roles)"
    by (induction roles) (auto split: option.splits)
  with first_access_none [of m roles, OF endpoint_access_grants [OF Some]] Some show ?thesis
    by (auto simp: access_for_def)
qed

lemma access_none_iff:
  "access_for roles ep = mark_none \<longleftrightarrow> (\<forall>r\<in>set roles. \<forall>m. dict_get endpoint_access ep = Some m \<longrightarrow> dict_get m r = None)"
  using access_shown_is_granted by blast

text \<open>What is shown is not the highest level: a viewer's role listed before an administrator's hides it.\<close>

lemma access_depends_on_order:
  "access_for [''cdm-viewer'', ''cdm-admin''] ''grafana'' = mark_view @ '' Viewer'' \<and>
   access_for [''cdm-admin'', ''cdm-viewer''] ''grafana'' = mark_full @ '' Admin''"
  by (simp add: access_for_def endpoint_access_def)

end
