(* ===== verification/MatrixReport.thy ===== *)
theory MatrixReport
  imports AccessMatrix "HOL-Library.Multiset" "HOL-Library.Sublist"
begin

text \<open>
  The report of \<open>provider-stack/keycloak/generate-access-matrix.py\<close> against what Keycloak answers: whoever reads the
  page sees every user Keycloak lists, with the roles Keycloak gives that user, and a note for each one who gets the
  database as superuser without being an administrator.
\<close>

section \<open>What Keycloak answers\<close>

text \<open>The document Keycloak answers to a request, after the requests \<open>hist\<close>, when it answers with success.\<close>

definition document_of :: "env \<Rightarrow> request list \<Rightarrow> request \<Rightarrow> json option" where
  "document_of e hist r = (case e_http e hist r of Answer p \<Rightarrow> if is_success p then rs_json p else None | _ \<Rightarrow> None)"

definition json_elements :: "json \<Rightarrow> json list" where
  "json_elements j = (case j of JArr xs \<Rightarrow> xs | _ \<Rightarrow> [])"

definition role_name :: "json \<Rightarrow> string" where
  "role_name j = (case j of JObj ps \<Rightarrow> (case dict_get ps ''name'' of Some (JStr n) \<Rightarrow> n | _ \<Rightarrow> []) | _ \<Rightarrow> [])"

text \<open>The roles of a user: all that Keycloak names, but its internal ones; none when the lookup fails.\<close>

definition given_roles :: "env \<Rightarrow> request list \<Rightarrow> request \<Rightarrow> string list" where
  "given_roles e hist r = (case document_of e hist r of None \<Rightarrow> []
     | Some j \<Rightarrow> filter (\<lambda>n. \<not> internal_role n) (map role_name (json_elements j)))"

definition field_or :: "(string, json) dict \<Rightarrow> string \<Rightarrow> json \<Rightarrow> json" where
  "field_or ps k d = (case dict_get ps k of None \<Rightarrow> d | Some v \<Rightarrow> v)"

text \<open>
  A user of the report against the entry of the list: the fields are the entry's, and the roles are those Keycloak
  answered for the entry's id, in the course of the requests \<open>tr\<close>.
\<close>

definition roles_get :: "env \<Rightarrow> string \<Rightarrow> string \<Rightarrow> json \<Rightarrow> request" where
  "roles_get e base token uid = matrix_get base (roles_path ''cdm'' (py_str (e_float_repr e) uid)) token"

definition shown_user :: "env \<Rightarrow> string \<Rightarrow> string \<Rightarrow> request list \<Rightarrow> json \<Rightarrow> matrix_user \<Rightarrow> bool" where
  "shown_user e base token tr j u \<longleftrightarrow> (\<exists>ps uid hist. j = JObj ps \<and> dict_get ps ''id'' = Some uid \<and>
     mu_username u = field_or ps ''username'' (JStr []) \<and> mu_email u = field_or ps ''email'' (JStr em_dash) \<and>
     mu_enabled u = field_or ps ''enabled'' (JBool False) \<and>
     mu_roles u = given_roles e hist (roles_get e base token uid) \<and> prefix (hist @ [roles_get e base token uid]) tr)"

section \<open>Reading\<close>

lemma matrix_request_value:
  "matrix_request r e w = (Inr j, w') \<Longrightarrow> document_of e (w_trace w) r = Some j \<and> w_trace w' = w_trace w @ [r]"
  by (auto simp: matrix_request_def document_of_def try_except_def resp_json_def run_simps bnd_def http_def Let_def
      split: if_splits option.splits outcome.splits)

lemma matrix_request_exit:
  "matrix_request r e w = (Inl (SystemExit m), w') \<Longrightarrow> document_of e (w_trace w) r = None \<and> w_trace w' = w_trace w @ [r]"
  by (auto simp: matrix_request_def document_of_def try_except_def resp_json_def run_simps bnd_def http_def Let_def
      split: if_splits option.splits outcome.splits)

lemma index_value:
  assumes "bnd (jindex j k) f e w = (Inr b, w')"
  obtains ps v where "j = JObj ps" "dict_get ps k = Some v" "f v e w = (Inr b, w')"
  using assms by (cases j) (auto simp: jindex_def run_simps run_bnd_ret run_bnd_raise split: option.splits)

lemma role_names_value:
  "role_names rs e w = (Inr ns, w') \<Longrightarrow> ns = filter (\<lambda>n. \<not> internal_role n) (map role_name rs) \<and> w' = w"
proof (induction rs arbitrary: ns w)
  case (Cons r rs)
  from Cons.prems obtain ps v where r: "r = JObj ps" "dict_get ps ''name'' = Some v"
    "(case v of JStr n \<Rightarrow> bnd (role_names rs) (\<lambda>ns. ret (if internal_role n then ns else n # ns))
      | _ \<Rightarrow> raise (AttributeError (squoted (type_name v) @ '' object has no attribute '' @ squoted ''startswith''))) e w = (Inr ns, w')"
    by (auto elim: index_value)
  then show ?case
    by (cases v) (auto simp: run_simps role_name_def elim!: bnd_InrE dest!: Cons.IH)
qed (simp add: run_simps)

lemma elements_of_iter:
  assumes "bnd (jiter j) f e w = (Inr b, w')"
  obtains xs where "f xs e w = (Inr b, w')" "j = JArr xs \<or> (\<forall>x\<in>set xs. \<exists>s. x = JStr s) \<and> json_elements j = []"
  using assms by (cases j) (auto simp: jiter_def run_bnd_ret run_bnd_raise run_simps json_elements_def)

lemma role_names_strings: "\<forall>x\<in>set xs. \<exists>s. x = JStr s \<Longrightarrow> role_names xs e w = (Inr ns, w') \<Longrightarrow> xs = []"
  by (cases xs) (auto simp: jindex_def run_bnd_raise run_simps)

lemma user_roles_value:
  assumes "user_roles b t r uid e w = (Inr j, w')"
  shows "filter (\<lambda>n. \<not> internal_role n) (map role_name (json_elements j)) = given_roles e (w_trace w) (matrix_get b (roles_path r uid) t) \<and>
    w_trace w' = w_trace w @ [matrix_get b (roles_path r uid) t]"
proof -
  obtain q w1 where q: "matrix_request (matrix_get b (roles_path r uid) t) e w = (q, w1)" by fastforce
  show ?thesis
  proof (cases q)
    case (Inr j')
    with assms q matrix_request_value [OF q [unfolded Inr]] show ?thesis
      by (simp add: user_roles_def kc_get_def try_except_def given_roles_def)
  next
    case (Inl x)
    with assms q obtain m where "x = SystemExit m" "j = JArr []" "w' = w1"
      by (auto simp: user_roles_def kc_get_def try_except_def run_simps split: exn.splits)
    with matrix_request_exit q Inl show ?thesis by (simp add: given_roles_def json_elements_def)
  qed
qed

lemma read_user_value:
  assumes "read_user b t ''cdm'' j e w = (Inr u, w')"
  shows "shown_user e b t (w_trace w') j u"
proof -
  let ?user = "\<lambda>ps names. \<lparr>mu_username = field_or ps ''username'' (JStr []), mu_email = field_or ps ''email'' (JStr em_dash),
    mu_enabled = field_or ps ''enabled'' (JBool False), mu_roles = names\<rparr>"
  from assms obtain ps idj where j: "j = JObj ps" "dict_get ps ''id'' = Some idj"
    and r: "bnd (str_of idj) (\<lambda>uid. bnd (user_roles b t ''cdm'' uid) (\<lambda>roles. bnd (jiter roles) (\<lambda>rs. bnd (role_names rs) (\<lambda>names.
      ret (?user ps names))))) e w = (Inr u, w')"
    unfolding read_user_def by (elim index_value) (simp add: jget_def run_bnd_ret field_or_def)
  let ?uid = "py_str (e_float_repr e) idj"
  from r obtain roles w1 where u: "user_roles b t ''cdm'' ?uid e w = (Inr roles, w1)"
    and i: "bnd (jiter roles) (\<lambda>rs. bnd (role_names rs) (\<lambda>names. ret (?user ps names))) e w1 = (Inr u, w')"
    by (auto simp: str_of_def run_bnd_asks elim: bnd_InrE)
  from i obtain rs ns where n: "role_names rs e w1 = (Inr ns, w')" and v: "u = ?user ps ns"
    and rs: "roles = JArr rs \<or> (\<forall>x\<in>set rs. \<exists>s. x = JStr s) \<and> json_elements roles = []"
    by (elim elements_of_iter) (auto simp: run_simps elim!: bnd_InrE)
  from rs have "ns = filter (\<lambda>n. \<not> internal_role n) (map role_name (json_elements roles))"
    using role_names_value [OF n] role_names_strings [OF _ n] by (auto simp: json_elements_def)
  moreover have "w' = w1" using role_names_value [OF n] by simp
  ultimately show ?thesis using user_roles_value [OF u] j v unfolding shown_user_def roles_get_def by auto
qed

text \<open>The requests of a loop are those of its rounds, one after the other.\<close>

lemma keeps_role_names: "keeps g (role_names rs)"
proof (induction rs)
  case (Cons r rs)
  then show ?case by (auto intro!: keeps_rules)
qed (simp add: keeps_rules)

lemma sends_read_user: "sends (\<lambda>_. True) (read_user b t r j)"
  unfolding read_user_def user_roles_def kc_get_def matrix_request_def
  by (intro sends_rules sends_nothing [OF keeps_role_names] TrueI)

lemma map_io_traces:
  assumes "map_io f xs e w = (Inr ys, w')" "\<And>x. sends (\<lambda>_. True) (f x)"
  shows "list_all2 (\<lambda>x y. \<exists>v v'. f x e v = (Inr y, v') \<and> prefix (w_trace v') (w_trace w')) xs ys"
  using assms(1)
proof (induction xs arbitrary: ys w)
  case (Cons x xs)
  then obtain y w1 zs where y: "f x e w = (Inr y, w1)" "map_io f xs e w1 = (Inr zs, w')" "ys = y # zs"
    by (auto elim!: bnd_InrE simp: run_simps)
  have "sends (\<lambda>_. True) (map_io f xs)" by (induction xs) (auto intro!: sends_rules assms(2))
  from sendsE [OF this y(2)] have "prefix (w_trace w1) (w_trace w')" by (auto simp: prefix_def)
  with y Cons.IH show ?case by auto
qed (simp add: run_simps)

lemma shown_user_prefix: "shown_user e b t tr j u \<Longrightarrow> prefix tr tr' \<Longrightarrow> shown_user e b t tr' j u"
  unfolding shown_user_def by (auto intro: prefix_order.trans)

text \<open>Only a failed request ends the script; a failed lookup of roles does not.\<close>

definition no_exit :: "'a io \<Rightarrow> bool" where
  "no_exit m \<longleftrightarrow> (\<forall>e. hoare e (\<lambda>_. True) m (\<lambda>_ _. True) (\<lambda>x _. \<forall>msg. x \<noteq> SystemExit msg))"

lemma no_exit_bnd: "no_exit m \<Longrightarrow> (\<And>a. no_exit (f a)) \<Longrightarrow> no_exit (bnd m f)"
  unfolding no_exit_def by (blast intro: hoare_bnd)

lemma no_exit_basic:
  "no_exit (ret a)" "no_exit (str_of v)" "no_exit (jindex v k)" "no_exit (jget v k d)" "no_exit (jiter v)" "no_exit (raise (TypeError s))"
  by (auto simp: no_exit_def hoare_def run_simps str_of_def asks_def jindex_def jget_def jiter_def split: json.split option.split)

lemma no_exit_role_names: "no_exit (role_names rs)"
proof (induction rs)
  case (Cons r rs)
  have "no_exit (case v of JStr n \<Rightarrow> bnd (role_names rs) (\<lambda>ns. ret (if internal_role n then ns else n # ns))
      | _ \<Rightarrow> raise (AttributeError s))" for v s
    by (cases v) (simp_all add: no_exit_bnd [OF Cons.IH no_exit_basic(1)], simp_all add: no_exit_def hoare_def run_simps)
  then show ?case by (simp add: no_exit_bnd no_exit_basic)
qed (simp add: no_exit_basic)

lemma no_exit_user_roles: "no_exit (user_roles b t r uid)"
  unfolding no_exit_def user_roles_def hoare_def
  by (auto simp: try_except_def run_simps split: prod.split sum.split exn.splits)

lemma no_exit_read_user: "no_exit (read_user b t r j)"
  unfolding read_user_def by (intro no_exit_bnd no_exit_basic no_exit_user_roles no_exit_role_names)

lemma no_exit_map: "(\<And>x. no_exit (f x)) \<Longrightarrow> no_exit (map_io f xs)"
  by (induction xs) (simp_all add: no_exit_bnd no_exit_basic)

lemma no_exit_sort: "no_exit (sort_users us)"
  by (simp add: sort_users_def no_exit_basic)

text \<open>
  The users of the report against the list Keycloak answered to \<open>r\<close>: one for each entry, in the order of their names;
  none when the list was not answered.
\<close>

definition listed_users :: "env \<Rightarrow> string \<Rightarrow> string \<Rightarrow> request list \<Rightarrow> json option \<Rightarrow> matrix_user list \<Rightarrow> bool" where
  "listed_users e base token tr answer us \<longleftrightarrow> (case answer of None \<Rightarrow> us = []
     | Some j \<Rightarrow> \<exists>vs. list_all2 (shown_user e base token tr) (json_elements j) vs \<and> mset us = mset vs) \<and>
   sorted (map (\<lambda>u. text_value (mu_username u)) us)"

lemma get_users_value:
  assumes "get_users_with_roles b t ''cdm'' e w = (Inr us, w')"
  shows "listed_users e b t (w_trace w') (document_of e (w_trace w) (matrix_get b (users_path ''cdm'') t)) us"
proof -
  from assms obtain j w1 where j: "kc_get b (users_path ''cdm'') t e w = (Inr j, w1)"
    and r: "bnd (jiter j) (\<lambda>js. bnd (map_io (read_user b t ''cdm'') js) sort_users) e w1 = (Inr us, w')"
    unfolding get_users_with_roles_def by (rule bnd_InrE)
  from r obtain js vs w2 where m: "map_io (read_user b t ''cdm'') js e w1 = (Inr vs, w2)" and s: "sort_users vs e w2 = (Inr us, w')"
    and js: "j = JArr js \<or> (\<forall>x\<in>set js. \<exists>s. x = JStr s) \<and> json_elements j = []"
    by (elim elements_of_iter) (auto elim!: bnd_InrE)
  have "w' = w2" "mset us = mset vs" using s by (auto simp: sort_users_def run_simps split: if_splits)
  have vs: "list_all2 (shown_user e b t (w_trace w')) js vs"
    using map_io_traces [OF m sends_read_user] \<open>w' = w2\<close>
    by (auto elim!: list_all2_mono dest!: read_user_value intro: shown_user_prefix)
  have "js = json_elements j"
  proof (cases "j = JArr js")
    case False
    with js have strings: "\<forall>x\<in>set js. \<exists>s. x = JStr s" and "json_elements j = []" by auto
    moreover have "js = []"
      using vs strings by (cases js) (auto simp: list_all2_Cons1 shown_user_def)
    ultimately show ?thesis by simp
  qed (simp add: json_elements_def)
  moreover have "document_of e (w_trace w) (matrix_get b (users_path ''cdm'') t) = Some j"
    using j matrix_request_value by (simp add: kc_get_def)
  ultimately show ?thesis
    using vs \<open>mset us = mset vs\<close> sort_users_value(2) [OF s] by (auto simp: listed_users_def)
qed

lemma get_users_exit:
  assumes "get_users_with_roles b t ''cdm'' e w = (Inl (SystemExit m), w')"
  shows "document_of e (w_trace w) (matrix_get b (users_path ''cdm'') t) = None"
proof -
  let ?rest = "\<lambda>users. bnd (jiter users) (\<lambda>us. bnd (map_io (read_user b t ''cdm'') us) sort_users)"
  have "no_exit (?rest users)" for users
    by (intro no_exit_bnd no_exit_basic no_exit_map no_exit_read_user no_exit_sort)
  then have "?rest users e v \<noteq> (Inl (SystemExit m), v')" for users v v'
    unfolding no_exit_def by (blast dest: hoare_exn)
  with assms obtain w1 where "matrix_request (matrix_get b (users_path ''cdm'') t) e w = (Inl (SystemExit m), w1)"
    unfolding get_users_with_roles_def kc_get_def by (auto elim: bnd_InlE)
  from matrix_request_exit [OF this] show ?thesis by simp
qed

section \<open>The documented access\<close>

text \<open>
  The table of \<open>docs/architecture/access-matrix.md\<close>, which calls itself authoritative: for each role, what it
  may do in Grafana, the IoT Bridge API, the tenant portal, pgAdmin, RabbitMQ and the Keycloak console; the
  console of the provider, which the table leaves out, goes with the latter. The script adds notes to some cells.
\<close>

definition documented_access :: "(string, string option list) dict" where
  "documented_access =
    [(''cdm-admin'', [Some (mark_full @ '' Admin''), Some (mark_full @ '' Full''), Some (mark_full @ '' Admin view''),
        Some (mark_warn @ '' DB Superuser''), None, None, None]),
     (''cdm-operator'', [Some (mark_edit @ '' Editor''), Some (mark_edit @ '' Read + deploy''), Some (mark_edit @ '' Operator view''),
        Some (mark_warn @ '' DB Superuser''), None, None, None]),
     (''cdm-viewer'', [Some (mark_view @ '' Viewer''), Some (mark_view @ '' Read-only''), Some (mark_view @ '' Viewer view''),
        Some (mark_warn @ '' DB Superuser''), None, None, None]),
     (''platform-admin'', [Some (mark_full @ '' Admin''), Some (mark_full @ '' Full''), Some (mark_full @ '' Admin view''),
        None, Some (mark_full @ '' Administrator''), Some (mark_full @ '' Full''), Some (mark_full @ '' Full'')]),
     (''platform-operator'', [Some (mark_edit @ '' Editor''), Some (mark_view @ '' Read-only''), Some (mark_edit @ '' Operator view''),
        None, Some (mark_view @ '' Monitoring''), None, None])]"

definition documented_cell :: "nat \<Rightarrow> string \<Rightarrow> string option" where
  "documented_cell i role = (case dict_get documented_access role of None \<Rightarrow> None | Some cells \<Rightarrow> cells ! i)"

text \<open>What is due in a column: the entry of the first role, in Keycloak's order, that has one.\<close>

fun due_access :: "nat \<Rightarrow> string list \<Rightarrow> string option" where
  "due_access i [] = None"
| "due_access i (role # roles) = (case documented_cell i role of Some a \<Rightarrow> Some a | None \<Rightarrow> due_access i roles)"

definition cell_right :: "nat \<Rightarrow> string list \<Rightarrow> string \<Rightarrow> bool" where
  "cell_right i roles cell \<longleftrightarrow> (case due_access i roles of None \<Rightarrow> cell = mark_none | Some a \<Rightarrow> \<exists>note. cell = a @ note)"

definition row_right :: "matrix_user \<Rightarrow> string \<Rightarrow> bool" where
  "row_right u row \<longleftrightarrow> (\<exists>name mail cells. mu_username u = JStr name \<and>
     (mu_email u = JStr mail \<and> mail \<noteq> [] \<or> \<not> truth (mu_email u) \<and> mail = em_dash) \<and>
     length cells = 7 \<and> (\<forall>i<7. cell_right i (mu_roles u) (cells ! i)) \<and>
     row = ''| '' @ join '' | '' ([''cdm'', name @ (if truth (mu_enabled u) then [] else '' *(disabled)*''), mail,
       if mu_roles u = [] then ''*(none)*'' else join '', '' (map (\<lambda>r. ''`'' @ r @ ''`'') (mu_roles u))] @ cells) @ '' |'')"

definition columns_line :: string where
  "columns_line = ''| Realm | Username | Email | Roles | Grafana | IoT Bridge API | Tenant Portal | pgAdmin | '' @
     ''RabbitMQ Mgmt | KC CDM Admin | KC Provider Admin |''"

text \<open>The script's own table against the documented one, role by role.\<close>

abbreviation known_roles_of_docs :: "string set" where
  "known_roles_of_docs \<equiv> {''cdm-admin'', ''cdm-operator'', ''cdm-viewer'', ''platform-admin'', ''platform-operator''}"

lemma documented_cells:
  "documented_cell i ''cdm-admin'' = [Some (mark_full @ '' Admin''), Some (mark_full @ '' Full''), Some (mark_full @ '' Admin view''),
     Some (mark_warn @ '' DB Superuser''), None, None, None] ! i"
  "documented_cell i ''cdm-operator'' = [Some (mark_edit @ '' Editor''), Some (mark_edit @ '' Read + deploy''), Some (mark_edit @ '' Operator view''),
     Some (mark_warn @ '' DB Superuser''), None, None, None] ! i"
  "documented_cell i ''cdm-viewer'' = [Some (mark_view @ '' Viewer''), Some (mark_view @ '' Read-only''), Some (mark_view @ '' Viewer view''),
     Some (mark_warn @ '' DB Superuser''), None, None, None] ! i"
  "documented_cell i ''platform-admin'' = [Some (mark_full @ '' Admin''), Some (mark_full @ '' Full''), Some (mark_full @ '' Admin view''),
     None, Some (mark_full @ '' Administrator''), Some (mark_full @ '' Full''), Some (mark_full @ '' Full'')] ! i"
  "documented_cell i ''platform-operator'' = [Some (mark_edit @ '' Editor''), Some (mark_view @ '' Read-only''), Some (mark_edit @ '' Operator view''),
     None, Some (mark_view @ '' Monitoring''), None, None] ! i"
  "role \<notin> known_roles_of_docs \<Longrightarrow> documented_cell i role = None"
  by (simp_all add: documented_cell_def documented_access_def)

lemma endpoint_number: "length endpoint_labels = 7"
  by (simp add: endpoint_labels_def)

lemma seven: "i < 7 \<Longrightarrow> i = 0 \<or> i = 1 \<or> i = 2 \<or> i = 3 \<or> i = 4 \<or> i = 5 \<or> i = (6 :: nat)"
  by auto

definition column_right :: "nat \<Rightarrow> (string, string) dict \<Rightarrow> bool" where
  "column_right i m \<longleftrightarrow> (\<forall>role. case documented_cell i role of None \<Rightarrow> dict_get m role = None
     | Some a \<Rightarrow> \<exists>note. dict_get m role = Some (a @ note))"

lemma column_roles:
  assumes "\<forall>role\<in>known_roles_of_docs. case documented_cell i role of None \<Rightarrow> dict_get m role = None
     | Some a \<Rightarrow> \<exists>note. dict_get m role = Some (a @ note)" "set (map fst m) \<subseteq> known_roles_of_docs"
  shows "column_right i m"
  unfolding column_right_def
proof
  fix role
  show "case documented_cell i role of None \<Rightarrow> dict_get m role = None | Some a \<Rightarrow> \<exists>note. dict_get m role = Some (a @ note)"
  proof (cases "role \<in> known_roles_of_docs")
    case True
    with assms(1) show ?thesis by (rule bspec)
  next
    case False
    then have "documented_cell i role = None" by (rule documented_cells)
    moreover have "dict_get m role = None"
      using False assms(2) by (auto simp: map_of_eq_None_iff simp del: insert_iff)
    ultimately show ?thesis by simp
  qed
qed

lemma endpoint_columns:
  "column_right 0 [(''cdm-admin'', mark_full @ '' Admin''), (''cdm-operator'', mark_edit @ '' Editor''), (''cdm-viewer'', mark_view @ '' Viewer''),
     (''platform-admin'', mark_full @ '' Admin (via broker)''), (''platform-operator'', mark_edit @ '' Editor (via broker)'')]"
  "column_right 1 [(''cdm-admin'', mark_full @ '' Full''), (''cdm-operator'', mark_edit @ '' Read + deploy''), (''cdm-viewer'', mark_view @ '' Read-only''),
     (''platform-admin'', mark_full @ '' Full (via broker)''), (''platform-operator'', mark_view @ '' Read-only (via broker)'')]"
  "column_right 2 [(''cdm-admin'', mark_full @ '' Admin view''), (''cdm-operator'', mark_edit @ '' Operator view''), (''cdm-viewer'', mark_view @ '' Viewer view''),
     (''platform-admin'', mark_full @ '' Admin view (via broker)''), (''platform-operator'', mark_edit @ '' Operator view (via broker)'')]"
  "column_right 3 [(''cdm-admin'', mark_warn @ '' DB Superuser [^1]''), (''cdm-operator'', mark_warn @ '' DB Superuser [^1]''),
     (''cdm-viewer'', mark_warn @ '' DB Superuser [^1]'')]"
  "column_right 4 [(''platform-admin'', mark_full @ '' Administrator''), (''platform-operator'', mark_view @ '' Monitoring [^5]'')]"
  "column_right 5 [(''platform-admin'', mark_full @ '' Full [^4]'')]"
  "column_right 6 [(''platform-admin'', mark_full @ '' Full [^4]'')]"
  by (rule column_roles, simp add: documented_cells, simp)+

lemma endpoint_known:
  assumes "i < 7"
  shows "\<exists>m. dict_get endpoint_access (fst (endpoint_labels ! i)) = Some m \<and> column_right i m"
  using seven [OF assms]
  by (elim disjE) (simp_all add: endpoint_labels_def endpoint_access_def endpoint_columns endpoint_columns(2) [unfolded One_nat_def])

lemma access_cell_right:
  assumes "i < 7"
  shows "cell_right i roles (access_for roles (fst (endpoint_labels ! i)))"
proof -
  obtain m where m: "dict_get endpoint_access (fst (endpoint_labels ! i)) = Some m" "column_right i m"
    using endpoint_known [OF assms] by blast
  have "cell_right i roles (first_access m roles)"
  proof (induction roles)
    case (Cons role roles)
    with m(2) [unfolded column_right_def, rule_format, of role] show ?case by (cases "documented_cell i role") (auto simp: cell_right_def)
  qed (simp add: cell_right_def)
  with m(1) show ?thesis by (simp add: access_for_def)
qed

lemma matrix_head_lines:
  obtains preamble rule where "matrix_head now = preamble @ [columns_line, rule]" "\<forall>line\<in>set preamble. \<not> startswith line ''|''"
proof -
  have "table_row matrix_columns = columns_line"
    by (simp add: table_row_def matrix_columns_def endpoint_labels_def columns_line_def)
  then show ?thesis
    by (intro that [of "take 5 (matrix_head now)"]) (auto simp: matrix_head_def startswith_def)
qed

section \<open>The page\<close>

definition superuser_note :: "string \<Rightarrow> string list \<Rightarrow> string" where
  "superuser_note name roles = mark_warn @ '' `cdm/'' @ name @ ''` (`'' @ roles_text roles @
     ''`) gets **postgres superuser** access via pgAdmin '' @ em_dash @ '' restrict to `cdm-admin` only in production.''"

text \<open>Whoever is due to get pgAdmin (column 3) and is no administrator is named in the notes.\<close>

definition flagged :: "matrix_user \<Rightarrow> string list \<Rightarrow> bool" where
  "flagged u notes \<longleftrightarrow> (\<forall>name. mu_username u = JStr name \<and> due_access 3 (mu_roles u) \<noteq> None \<and>
     ''cdm-admin'' \<notin> set (mu_roles u) \<longrightarrow> superuser_note name (mu_roles u) \<in> set notes)"

lemma due_from_role: "due_access i roles \<noteq> None \<Longrightarrow> \<exists>role\<in>set roles. documented_cell i role \<noteq> None"
  by (induction roles) (auto split: option.splits)

lemma due_superuser:
  assumes "due_access 3 roles \<noteq> None" "''cdm-admin'' \<notin> set roles"
  shows "''cdm-operator'' \<in> set roles \<or> ''cdm-viewer'' \<in> set roles"
proof -
  obtain role where role: "role \<in> set roles" "documented_cell 3 role \<noteq> None" using due_from_role [OF assms(1)] by blast
  have "role = ''cdm-admin'' \<or> role = ''cdm-operator'' \<or> role = ''cdm-viewer'' \<or> role = ''platform-admin'' \<or> role = ''platform-operator''"
    by (rule ccontr) (use role(2) documented_cells(6) [of role 3] in simp)
  with role assms(2) show ?thesis by (elim disjE) (simp_all add: documented_cells)
qed

lemma notes_flag:
  assumes "user_notes ''cdm'' u e w = (Inr notes, w')"
  shows "flagged u notes"
  unfolding flagged_def superuser_note_def
proof (intro allI impI, elim conjE)
  fix name assume "mu_username u = JStr name" "due_access 3 (mu_roles u) \<noteq> None" "''cdm-admin'' \<notin> set (mu_roles u)"
  with due_superuser [of "mu_roles u"] assms show "mark_warn @ '' `cdm/'' @ name @ ''` (`'' @ roles_text (mu_roles u) @
      ''`) gets **postgres superuser** access via pgAdmin '' @ em_dash @ '' restrict to `cdm-admin` only in production.'' \<in> set notes"
    by (auto simp: user_notes_def str_of_def py_str_def run_simps list_ex_iff)
qed

lemma matrix_entry_value:
  assumes "matrix_entry (''cdm'', u) e w = (Inr q, w')"
  shows "row_right u (snd q) \<and> flagged u (fst q)"
proof
  from assms obtain ns w1 row w2 where n: "user_notes ''cdm'' u e w = (Inr ns, w1)" "fst q = ns"
    and r: "user_row ''cdm'' u e w1 = (Inr row, w2)" "snd q = row"
    by (auto simp: matrix_entry_def run_simps elim!: bnd_InrE)
  show "flagged u (fst q)" using notes_flag [OF n(1)] n(2) by simp
  let ?cells = "map (\<lambda>(ep, _). access_for (mu_roles u) ep) endpoint_labels"
  from r(1) obtain name mail where row: "mu_username u = JStr name" "jor (mu_email u) (JStr em_dash) = JStr mail"
    "row = table_row ([''cdm'', name @ enabled_badge (mu_enabled u), mail, roles_text (mu_roles u)] @ ?cells)"
    by (auto simp: user_row_def must_be_text_def run_simps elim!: bnd_InrE split: json.splits)
  have "mu_email u = JStr mail \<and> mail \<noteq> [] \<or> \<not> truth (mu_email u) \<and> mail = em_dash"
    using row(2) by (auto simp: jor_def truth_def split: if_splits)
  moreover have "length ?cells = 7" by (simp add: endpoint_number)
  moreover have "cell_right i (mu_roles u) (?cells ! i)" if "i < 7" for i
    using access_cell_right [OF that, of "mu_roles u"] that endpoint_number by (simp add: split_def)
  ultimately show "row_right u (snd q)"
    using row(1,3) r(2) unfolding row_right_def table_row_def enabled_badge_def roles_text_def
    by (intro exI [of _ name] exI [of _ mail] exI [of _ ?cells]) simp
qed

lemma list_all2_partner: "list_all2 P xs ys \<Longrightarrow> x \<in> set xs \<Longrightarrow> \<exists>y\<in>set ys. P x y"
  by (induction rule: list_all2_induct) auto

lemma render_value:
  assumes "render_matrix [(''cdm'', us)] e w = (Inr matrix, w')"
  obtains rows remarks where "matrix = join ''\<newline>'' (matrix_head (e_now e (w_ticks w)) @ rows @ matrix_notes remarks)"
    "list_all2 row_right us rows" "\<forall>u\<in>set us. flagged u remarks"
proof -
  from assms obtain qs w1 where m: "map_io matrix_entry (map (Pair ''cdm'') us) e (w\<lparr>w_ticks := Suc (w_ticks w)\<rparr>) = (Inr qs, w1)"
    and page: "matrix = join ''\<newline>'' (matrix_head (e_now e (w_ticks w)) @ map snd qs @ matrix_notes (concat (map fst qs)))"
    unfolding render_matrix_def run_bnd_now by (auto elim!: bnd_InrE simp: run_simps realm_users_def)
  have v: "list_all2 (\<lambda>u q. row_right u (snd q) \<and> flagged u (fst q)) us qs"
    using map_io_values [OF m] by (auto simp: list.rel_map elim!: list_all2_mono dest: matrix_entry_value)
  then have "list_all2 row_right us (map snd qs)" by (auto simp: list.rel_map elim!: list_all2_mono)
  moreover have "\<forall>u\<in>set us. flagged u (concat (map fst qs))"
  proof
    fix u assume "u \<in> set us"
    with list_all2_partner [OF v] obtain q where "q \<in> set qs" "flagged u (fst q)" by blast
    then show "flagged u (concat (map fst qs))" by (auto simp: flagged_def)
  qed
  ultimately show ?thesis using page by (intro that)
qed

lemma page_keeps_trace: "keeps w_trace (render_full_page d)"
proof -
  have t: "keeps w_trace now_utc" by (rule keeps_now) simp
  show ?thesis
    unfolding render_full_page_def render_matrix_def matrix_entry_def user_notes_def user_row_def must_be_text_def
    by (intro keeps_rules t)
qed

lemma admin_token_value:
  assumes "get_admin_token base user password e w = (Inr token, w')"
  obtains ps tok where "document_of e (w_trace w) (matrix_token_post base user password) = Some (JObj ps)"
    "dict_get ps ''access_token'' = Some tok" "token = py_str (e_float_repr e) tok"
    "w_trace w' = w_trace w @ [matrix_token_post base user password]"
proof -
  from assms obtain result w1 where r: "matrix_request (matrix_token_post base user password) e w = (Inr result, w1)"
    and v: "bnd (jindex result ''access_token'') str_of e w1 = (Inr token, w')"
    unfolding get_admin_token_def by (rule bnd_InrE)
  from v matrix_request_value [OF r] show ?thesis
    by (elim index_value) (auto simp: str_of_def asks_def intro: that)
qed

text \<open>Where the script asks, and the request it logs in with.\<close>

definition report_base :: "string list \<Rightarrow> (string \<Rightarrow> string option) \<Rightarrow> string" where
  "report_base argv environ = (if length argv > 1 then argv ! 1
     else rstrip_char CHR ''/'' (environ_get environ ''EXTERNAL_URL'' ''http://localhost:8888''))"

definition login_post :: "string list \<Rightarrow> (string \<Rightarrow> string option) \<Rightarrow> request" where
  "login_post argv environ = matrix_token_post (report_base argv environ)
     (environ_get environ ''KC_ADMIN_USER'' ''admin'') (environ_get environ ''KC_ADMIN_PASSWORD'' ''changeme'')"


end
