(* ===== verification/OidcProxy.thy ===== *)
theory OidcProxy
  imports IOLogic
begin

text \<open>
  \<open>provider-stack/pgadmin/oidc-proxy.py\<close>: the proxy that hands pgAdmin Keycloak's discovery document
  with the address of the keys replaced by the internal one. \<open>KEYCLOAK_INTERNAL_URL\<close> and
  \<open>KEYCLOAK_REALM\<close> are the record \<open>proxy_config\<close>; a reply is the status, the headers the handler adds and the
  bytes of the body. An
  exception that is not caught is reported by the server library, which then closes the connection.
\<close>

record proxy_config =
  px_keycloak :: string
  px_realm :: string

definition new_proxy_config :: "(string \<Rightarrow> string option) \<Rightarrow> proxy_config" where
  "new_proxy_config env = \<lparr>px_keycloak = (case env ''KEYCLOAK_INTERNAL_URL'' of Some v \<Rightarrow> v | None \<Rightarrow> ''http://keycloak:8080''),
     px_realm = (case env ''KEYCLOAK_REALM'' of Some v \<Rightarrow> v | None \<Rightarrow> ''provider'')\<rparr>"

definition discovery_path :: "proxy_config \<Rightarrow> string" where
  "discovery_path c = ''/auth/realms/'' @ px_realm c @ ''/.well-known/openid-configuration''"

definition jwks_path :: "proxy_config \<Rightarrow> string" where
  "jwks_path c = ''/auth/realms/'' @ px_realm c @ ''/protocol/openid-connect/certs''"

definition discovery_get :: "proxy_config \<Rightarrow> request" where
  "discovery_get c = \<lparr>rq_meth = GET, rq_url = px_keycloak c @ discovery_path c, rq_auth = NoAuth, rq_body = NoBody,
     rq_verify = True\<rparr>"

text \<open>\<open>urlopen\<close> raises a \<open>URLError\<close> for an unreachable host and an \<open>HTTPError\<close>, which is one, for an error status.\<close>

definition fetch_discovery :: "proxy_config \<Rightarrow> json io" where
  "fetch_discovery c = bnd (http (discovery_get c)) (\<lambda>resp.
     if \<not> is_success resp then raise (HTTPStatusError (''HTTP Error '' @ dec_int (rs_status resp))) else resp_json resp)"

definition set_jwks_uri :: "proxy_config \<Rightarrow> json \<Rightarrow> json io" where
  "set_jwks_uri c doc = (case doc of JObj ps \<Rightarrow> ret (JObj (dict_set ''jwks_uri'' (JStr (px_keycloak c @ jwks_path c)) ps))
     | JArr _ \<Rightarrow> raise (TypeError ''list indices must be integers or slices, not str'')
     | _ \<Rightarrow> raise (TypeError (squoted (type_name doc) @ '' object does not support item assignment'')))"

record wire_reply =
  xr_status :: int
  xr_headers :: "(string \<times> string) list"
  xr_body :: "nat list"

definition bare_reply :: "int \<Rightarrow> wire_reply" where
  "bare_reply status = \<lparr>xr_status = status, xr_headers = [], xr_body = []\<rparr>"

definition document_reply :: "(pyfloat \<Rightarrow> string) \<Rightarrow> json \<Rightarrow> wire_reply" where
  "document_reply fr doc = (let body = write_text (json_dumps fr True None doc) in
     \<lparr>xr_status = 200,
      xr_headers = [(''Content-Type'', ''application/json''), (''Content-Length'', dec_int (int (length body)))],
      xr_body = body\<rparr>)"

definition served_path :: "string \<Rightarrow> bool" where
  "served_path path = (rstrip_char CHR ''/'' path \<in> {'''', ''/openid-configuration''})"

definition do_GET :: "proxy_config \<Rightarrow> string \<Rightarrow> wire_reply io" where
  "do_GET c path = (if \<not> served_path path then ret (bare_reply 404)
     else bnd (try_except (bnd (fetch_discovery c) (\<lambda>doc. ret (Some doc)))
            (\<lambda>exc. case exc of RequestError _ \<Rightarrow> ret None | HTTPStatusError _ \<Rightarrow> ret None | _ \<Rightarrow> raise exc)) (\<lambda>r.
       case r of None \<Rightarrow> ret (bare_reply 502)
       | Some doc \<Rightarrow> bnd (set_jwks_uri c doc) (\<lambda>doc. bnd (asks e_float_repr) (\<lambda>fr. ret (document_reply fr doc)))))"

interpretation px_fetch: service_call "fetch_discovery c" "\<lambda>r. r = discovery_get c" for c
  by (rule service_callI) (auto simp: fetch_discovery_def intro!: keeps_rules sends_rules)

interpretation px_get: service_call "do_GET c path" "\<lambda>r. r = discovery_get c" for c path
proof (rule service_callI)
  have s: "keeps g (set_jwks_uri c d)" for g :: "world \<Rightarrow> 'a" and d
    by (cases d) (simp_all add: set_jwks_uri_def keeps_rules)
  show "keeps stores (do_GET c path)"
    unfolding do_GET_def by (intro keeps_rules s px_fetch.call_stores)
  show "sends (\<lambda>r. r = discovery_get c) (do_GET c path)"
    unfolding do_GET_def by (intro sends_rules px_fetch.call_sends sends_nothing [OF s])
qed

lemma fetch_value:
  "fetch_discovery c e w = (Inr d, w') \<Longrightarrow> \<exists>p. e_http e (w_trace w) (discovery_get c) = Answer p \<and> is_success p \<and> rs_json p = Some d"
  by (auto simp: fetch_discovery_def run_simps resp_json_def elim!: bnd_InrE http_cases split: if_splits option.splits)

lemma fetch_trace: "fetch_discovery c e w = (r, w') \<Longrightarrow> w_trace w' = w_trace w @ [discovery_get c]"
  by (auto simp: fetch_discovery_def http_def bnd_def run_simps Let_def resp_json_def
      split: outcome.splits if_splits option.splits)

lemma document_reply_facts:
  "xr_status (document_reply fr doc) = 200"
  "xr_headers (document_reply fr doc) = [(''Content-Type'', ''application/json''),
     (''Content-Length'', dec_int (int (length (xr_body (document_reply fr doc)))))]"
  "plain_json doc \<Longrightarrow> loads_bytes e (xr_body (document_reply fr doc)) = Some doc"
  by (simp_all add: document_reply_def Let_def loads_bytes_document)

lemma plain_set: "plain_json (JObj ps) \<Longrightarrow> plain_json (JObj (dict_set k (JStr v) ps))"
proof -
  have "list_all (\<lambda>(k, v). plain_json v) (dict_set k (JStr v) ps)" if "list_all (\<lambda>(k, v). plain_json v) ps"
    using that by (induction ps) (auto simp: dict_set_def)
  then show "plain_json (JObj ps) \<Longrightarrow> plain_json (JObj (dict_set k (JStr v) ps))" by simp
qed

lemma do_GET_cases:
  assumes "do_GET c path e w = (r, w')"
  obtains (unknown) "\<not> served_path path" "r = Inr (bare_reply 404)" "w' = w"
  | (unreachable) x where "served_path path" "fetch_discovery c e w = (Inl x, w')" "r = Inr (bare_reply 502) \<or> r = Inl x"
  | (no_object) doc x where "served_path path" "fetch_discovery c e w = (Inr doc, w')" "\<nexists>ps. doc = JObj ps" "r = Inl x"
  | (served) ps where "served_path path" "fetch_discovery c e w = (Inr (JObj ps), w')"
      "r = Inr (document_reply (e_float_repr e) (JObj (dict_set ''jwks_uri'' (JStr (px_keycloak c @ jwks_path c)) ps)))"
proof (cases "served_path path")
  case False
  with assms show ?thesis by (intro that(1)) (auto simp: do_GET_def run_simps)
next
  case path: True
  obtain r1 w1 where f: "fetch_discovery c e w = (r1, w1)" by fastforce
  show ?thesis
  proof (cases r1)
    case (Inl x)
    with assms f path have "w' = w1" "r = Inr (bare_reply 502) \<or> r = Inl x"
      by (auto simp: do_GET_def bnd_def try_except_def run_simps split: exn.splits)
    with f Inl path show ?thesis by (intro that(2)) auto
  next
    case (Inr doc)
    note run = assms [unfolded do_GET_def] f Inr path
    show ?thesis
    proof (cases "\<exists>ps. doc = JObj ps")
      case True
      then obtain ps where "doc = JObj ps" by blast
      with run show ?thesis by (intro that(4) [of ps]) (auto simp: bnd_def try_except_def set_jwks_uri_def run_simps)
    next
      case False
      with run obtain x where "r = Inl x" "w' = w1"
        by (cases doc) (auto simp: bnd_def try_except_def set_jwks_uri_def run_simps)
      with False f Inr path show ?thesis by (intro that(3)) auto
    qed
  qed
qed

text \<open>C40. C40.
  On any other path the proxy answers 404 and asks nobody. Otherwise it asks Keycloak once; when it answers 200,
  Keycloak did answer with an object, and who reads the body, whose length is announced, finds that object with
  one entry changed: \<open>jwks_uri\<close> is the internal address of the keys of the realm.
\<close>

theorem proxy_changes_jwks_only:
  assumes "do_GET c path e w = (Inr rep, w')"
  shows "(\<not> served_path path \<and> rep = bare_reply 404 \<and> w' = w) \<or>
    (served_path path \<and> w_trace w' = w_trace w @ [discovery_get c] \<and> (rep = bare_reply 502 \<or>
      (\<exists>p ps. e_http e (w_trace w) (discovery_get c) = Answer p \<and> is_success p \<and> rs_json p = Some (JObj ps) \<and> xr_status rep = 200 \<and>
        xr_headers rep = [(''Content-Type'', ''application/json''), (''Content-Length'', dec_int (int (length (xr_body rep))))] \<and>
        (plain_json (JObj ps) \<longrightarrow> loads_bytes e (xr_body rep) =
          Some (JObj (dict_set ''jwks_uri'' (JStr (px_keycloak c @ jwks_path c)) ps))))))"
  using assms
proof (cases rule: do_GET_cases)
  case (unreachable x)
  then show ?thesis by (auto dest: fetch_trace)
next
  case (served ps)
  let ?doc = "JObj (dict_set ''jwks_uri'' (JStr (px_keycloak c @ jwks_path c)) ps)"
  from served(3) have rep: "rep = document_reply (e_float_repr e) ?doc" by simp
  have "plain_json (JObj ps) \<Longrightarrow> loads_bytes e (xr_body rep) = Some ?doc"
    unfolding rep by (rule document_reply_facts(3)) (rule plain_set)
  with served(1) fetch_value [OF served(2)] fetch_trace [OF served(2)] show ?thesis
    by (auto simp: rep document_reply_facts(1,2))
qed auto

end
