(* ===== verification/PyFloatArith.thy ===== *)
theory PyFloatArith
  imports PyFloat Complex_Main
begin

text \<open>
  What the arithmetic of doubles means in the real numbers: rounding is monotonic enough that a quotient
  of at most \<open>c\<close> is a double of at most \<open>c\<close>.
\<close>

section \<open>Values\<close>

text \<open>The real number a double stands for.\<close>

fun float_val :: "pyfloat \<Rightarrow> real" where
  "float_val (Finite m e) = of_int m * 2 powi e"
| "float_val _ = 0"

lemma float_val_scale: "float_val (Finite m e) = of_int (m * 2 ^ nat e) / 2 ^ nat (- e)"
  by (simp add: power_int_def power_one_over)

lemma half_even_le: "0 < d \<Longrightarrow> n \<le> c * d \<Longrightarrow> half_even n d \<le> c"
proof -
  assume d: "0 < d" and n: "n \<le> c * d"
  have q: "n = n div d * d + n mod d" by simp
  show ?thesis
  proof (cases "n div d < c")
    case True
    then show ?thesis by (auto simp: half_even_def Let_def)
  next
    case False
    then have "c * d \<le> n div d * d" by simp
    with q n have "n div d * d = c * d" "n mod d = 0" by linarith+
    with d show ?thesis by (simp add: half_even_def Let_def)
  qed
qed

lemma bit_length_lower: "0 < n \<Longrightarrow> 2 ^ (bit_length n - 1) \<le> n"
proof (induction n rule: bit_length.induct)
  case (1 n)
  show ?case
  proof (cases "n div 2 = 0")
    case True
    with 1(2) have "n = 1" by auto
    then show ?thesis by (simp add: bit_length.simps [of "Suc 0"] bit_length.simps [of 0])
  next
    case False
    then have "0 < bit_length (n div 2)" by (simp add: bit_length.simps [of "n div 2"])
    moreover have "bit_length n = Suc (bit_length (n div 2))" using 1(2) by (simp add: bit_length.simps [of n])
    ultimately have "(2::nat) ^ (bit_length n - 1) = 2 * 2 ^ (bit_length (n div 2) - 1)"
      by (cases "bit_length (n div 2)") auto
    moreover have "(2::nat) ^ (bit_length (n div 2) - 1) \<le> n div 2" using 1 False by simp
    ultimately show ?thesis by linarith
  qed
qed

lemma bit_length_pos: "0 < n \<Longrightarrow> 0 < bit_length n"
  by (simp add: bit_length.simps [of n])

text \<open>A scaled quotient has at least 53 bits.\<close>

lemma float_exponent_lower:
  assumes "0 < n" "0 < d"
  shows "2 ^ 52 * scale_den d (float_exponent n d) \<le> scale_num n (float_exponent n d)"
proof -
  define e where "e = int (bit_length n) - int (bit_length d) - 53"
  have base: "2 ^ 52 * scale_den d e \<le> scale_num n e"
  proof -
    have "d < 2 ^ bit_length d" by (rule bit_length_bound)
    then have "2 ^ 52 * scale_den d e \<le> 2 ^ 52 * (2 ^ bit_length d * 2 ^ nat e)" by (simp add: scale_den_def)
    also have "\<dots> = 2 ^ (52 + bit_length d + nat e)" by (simp add: power_add)
    also have "52 + bit_length d + nat e = (bit_length n - 1) + nat (- e)"
      using bit_length_pos [OF assms(1)] by (auto simp: e_def)
    also have "(2::nat) ^ \<dots> = 2 ^ (bit_length n - 1) * 2 ^ nat (- e)" by (simp add: power_add)
    also have "\<dots> \<le> scale_num n e" using bit_length_lower [OF assms(1)] by (simp add: scale_num_def)
    finally show ?thesis .
  qed
  show ?thesis
  proof (cases "scale_num n e < 2 ^ 53 * scale_den d e")
    case True
    with base show ?thesis by (simp add: float_exponent_def Let_def e_def [symmetric])
  next
    case False
    then have ge: "2 ^ 53 * scale_den d e \<le> scale_num n e" by simp
    have "2 ^ 52 * scale_den d (e + 1) \<le> scale_num n (e + 1)"
    proof (cases "0 \<le> e")
      case True
      then have "nat (e + 1) = Suc (nat e)" "nat (- e) = 0" "nat (- e - 1) = 0" by auto
      with ge show ?thesis by (simp add: scale_num_def scale_den_def)
    next
      case e: False
      then have "nat (- e) = Suc (nat (- e - 1))" "nat e = 0" "nat (e + 1) = 0" by auto
      with ge show ?thesis by (simp add: scale_num_def scale_den_def)
    qed
    with False show ?thesis by (simp add: float_exponent_def Let_def e_def [symmetric])
  qed
qed

text \<open>A quotient of at most \<open>c\<close>, below \<open>2 ^ 53\<close>, is scaled up, not down.\<close>

lemma float_exponent_nonpos:
  assumes "0 < n" "0 < d" "n \<le> c * d" "c < 2 ^ 53"
  shows "float_exponent n d \<le> 0"
proof (rule ccontr)
  let ?e = "float_exponent n d"
  assume "\<not> ?e \<le> 0"
  then obtain k where k: "nat ?e = Suc k" "nat (- ?e) = 0" by (cases "nat ?e") auto
  have "2 ^ 53 * d \<le> 2 ^ 53 * 2 ^ k * d" by simp
  also have "\<dots> \<le> n" using float_exponent_lower [OF assms(1,2)] k by (simp add: scale_num_def scale_den_def ac_simps)
  also have "\<dots> < 2 ^ 53 * d" using assms by (meson le_less_trans mult_less_mono1)
  finally show False by simp
qed

text \<open>Rounding does not pass an integer below \<open>2 ^ 53\<close>.\<close>

lemma nearest_nat_le:
  assumes "0 < d" "n \<le> c * d" "c < 2 ^ 53"
  shows "0 \<le> float_val (nearest_nat n d) \<and> float_val (nearest_nat n d) \<le> of_nat c"
proof (cases "n = 0")
  case False
  let ?e = "float_exponent n d"
  have e: "?e \<le> 0" using False assms by (intro float_exponent_nonpos) auto
  then have "scale_num n ?e \<le> c * 2 ^ nat (- ?e) * scale_den d ?e"
    using assms(2) mult_le_mono1 [OF assms(2), of "2 ^ nat (- ?e)"] by (simp add: scale_num_def scale_den_def ac_simps)
  then have "half_even (scale_num n ?e) (scale_den d ?e) \<le> c * 2 ^ nat (- ?e)"
    using assms(1) by (intro half_even_le) (simp_all add: scale_den_def)
  then have "real (half_even (scale_num n ?e) (scale_den d ?e)) \<le> real c * 2 ^ nat (- ?e)"
    by (metis of_nat_le_iff of_nat_mult of_nat_numeral of_nat_power)
  with e False show ?thesis
    by (simp add: nearest_nat_def Let_def float_val_scale divide_le_eq del: float_val.simps)
qed (simp add: nearest_nat_def)

lemma nearest_le:
  assumes "0 < d" "0 \<le> z" "z \<le> int c * int d" "c < 2 ^ 53"
  shows "0 \<le> float_val (nearest z d) \<and> float_val (nearest z d) \<le> of_nat c"
proof -
  from assms(2,3) have "nat z \<le> c * d" by (simp add: nat_le_iff)
  from nearest_nat_le [OF assms(1) this assms(4)] assms(2) show ?thesis by (simp add: nearest_def)
qed

section \<open>Accuracy\<close>

lemma half_even_error:
  assumes "0 < d"
  shows "\<bar>real (half_even n d) - real n / real d\<bar> \<le> 1 / 2"
proof -
  define q r where "q = n div d" and "r = n mod d"
  have n: "real n / real d = real q + real r / real d"
  proof -
    have "n = q * d + r" by (simp add: q_def r_def)
    then have "real n = real q * real d + real r" by (metis of_nat_add of_nat_mult)
    then show ?thesis using assms by (simp add: field_simps)
  qed
  have r: "real r / real d < 1" "0 \<le> real r / real d" using assms by (simp_all add: r_def)
  show ?thesis
  proof (cases "2 * r < d \<or> (2 * r = d \<and> even q)")
    case True
    then have "2 * real r \<le> real d" by linarith
    then have "real r / real d \<le> 1 / 2" using assms by (simp add: field_simps)
    moreover have "half_even n d = q" using True by (simp add: half_even_def Let_def q_def r_def)
    ultimately show ?thesis using n r by simp
  next
    case False
    then have "real d \<le> 2 * real r" by linarith
    then have "1 / 2 \<le> real r / real d" using assms by (simp add: field_simps)
    moreover have "half_even n d = Suc q" using False by (simp only: half_even_def Let_def q_def [symmetric] r_def [symmetric] if_False)
    ultimately show ?thesis using n r by simp
  qed
qed

lemma nearest_nat_error:
  assumes "0 < d" "n \<le> c * d" "c < 2 ^ 53"
  shows "\<bar>float_val (nearest_nat n d) - real n / real d\<bar> \<le> real c / 2 ^ 53"
proof (cases "n = 0")
  case False
  let ?e = "float_exponent n d"
  define k where "k = nat (- ?e)"
  have e: "?e \<le> 0" using False assms by (intro float_exponent_nonpos) auto
  then have s: "scale_num n ?e = n * 2 ^ k" "scale_den d ?e = d" by (simp_all add: scale_num_def scale_den_def k_def)
  have v: "float_val (nearest_nat n d) = real (half_even (n * 2 ^ k) d) / 2 ^ k"
    using False e by (simp add: nearest_nat_def Let_def s float_val_scale k_def del: float_val.simps)
  have "float_val (nearest_nat n d) - real n / real d = (real (half_even (n * 2 ^ k) d) - real (n * 2 ^ k) / real d) / 2 ^ k"
    by (simp add: v diff_divide_distrib)
  then have "\<bar>float_val (nearest_nat n d) - real n / real d\<bar> = \<bar>real (half_even (n * 2 ^ k) d) - real (n * 2 ^ k) / real d\<bar> / 2 ^ k"
    by (simp only: abs_divide) simp
  also have "\<dots> \<le> (1 / 2) / 2 ^ k" by (rule divide_right_mono [OF half_even_error [OF assms(1)]]) simp
  also have "\<dots> \<le> real c / 2 ^ 53"
  proof -
    have "2 ^ 52 * d \<le> n * 2 ^ k" using float_exponent_lower [of n d] False assms(1) by (simp add: s)
    also have "\<dots> \<le> c * d * 2 ^ k" using assms(2) by simp
    finally have "2 ^ 52 \<le> c * 2 ^ k" using assms(1) by (simp add: ac_simps)
    then have "real (2 ^ 52) \<le> real (c * 2 ^ k)" by (simp only: of_nat_le_iff)
    then have "(2::real) ^ 52 \<le> real c * 2 ^ k" by (simp only: of_nat_mult of_nat_power of_nat_numeral)
    then have "2 ^ 52 / 2 ^ 53 / 2 ^ k \<le> real c * 2 ^ k / 2 ^ 53 / 2 ^ k" by (intro divide_right_mono) simp_all
    moreover have "(1 / 2 :: real) = 2 ^ 52 / 2 ^ 53" by simp
    moreover have "real c * 2 ^ k / 2 ^ 53 / 2 ^ k = real c / 2 ^ 53" by (simp add: divide_divide_eq_left mult.commute)
    ultimately show ?thesis by (simp only:)
  qed
  finally show ?thesis .
qed (simp add: nearest_nat_def)

lemma nearest_error:
  assumes "0 < d" "0 \<le> z" "z \<le> int c * int d" "c < 2 ^ 53"
  shows "\<bar>float_val (nearest z d) - real_of_int z / real d\<bar> \<le> real c / 2 ^ 53"
proof -
  from assms(2,3) have "nat z \<le> c * d" by (simp add: nat_le_iff)
  from nearest_nat_error [OF assms(1) this assms(4)] assms(2) show ?thesis by (simp add: nearest_def)
qed

end
