(* ===== verification/Monitor.thy ===== *)
theory Monitor
  imports PyFloatArith
begin

text \<open>
  \<open>provider-stack/system-monitor/monitor.py\<close>: the payloads that the monitor computes from
  \<open>/proc/loadavg\<close> and \<open>/proc/meminfo\<close> and its publishing loop. The arguments are the texts of the
  two files. Exponent notation, infinities and digit-group underscores, which the kernel never
  writes, are outside the number syntax. The script around them is MonitorMain.
\<close>

datatype proc_error = ProcValueError string | ProcIndexError | ProcKeyError string | ProcZeroDivision

section \<open>Texts\<close>

text \<open>\<open>s.split()\<close>.\<close>

fun words_from :: "string \<Rightarrow> string \<Rightarrow> string list" where
  "words_from acc [] = (if acc = [] then [] else [rev acc])"
| "words_from acc (c # cs) = (if c_space c then (if acc = [] then words_from [] cs else rev acc # words_from [] cs)
     else words_from (c # acc) cs)"

definition words :: "string \<Rightarrow> string list" where
  "words s = words_from [] s"

text \<open>\<open>for line in f\<close>, without the line ends; \<open>s.partition(":")\<close>, first and last part.\<close>

definition file_lines :: "string \<Rightarrow> string list" where
  "file_lines s = (let ls = split_on CHR ''\<newline>'' s in if last ls = [] then butlast ls else ls)"

definition before_colon :: "string \<Rightarrow> string" where
  "before_colon s = takeWhile (\<lambda>c. c \<noteq> CHR '':'') s"

definition after_colon :: "string \<Rightarrow> string" where
  "after_colon s = drop 1 (dropWhile (\<lambda>c. c \<noteq> CHR '':'') s)"

definition at_index :: "'a list \<Rightarrow> nat \<Rightarrow> proc_error + 'a" where
  "at_index xs i = (if i < length xs then Inr (xs ! i) else Inl ProcIndexError)"

definition unsigned :: "string \<Rightarrow> bool \<times> string" where
  "unsigned s = (case s of c # cs \<Rightarrow> if c = CHR ''-'' then (True, cs) else if c = CHR ''+'' then (False, cs) else (False, s)
     | [] \<Rightarrow> (False, s))"

text \<open>\<open>int(s)\<close> and \<open>float(s)\<close>.\<close>

definition parse_int :: "string \<Rightarrow> proc_error + int" where
  "parse_int s = (case unsigned (strip s) of (neg, ds) \<Rightarrow>
     if ds \<noteq> [] \<and> list_all c_digit ds then Inr (if neg then - int (undec ds) else int (undec ds))
     else Inl (ProcValueError (''invalid literal for int() with base 10: '' @ repr_str s)))"

definition parse_float :: "string \<Rightarrow> proc_error + pyfloat" where
  "parse_float s = (case unsigned (strip s) of (neg, t) \<Rightarrow>
     let whole = takeWhile (\<lambda>c. c \<noteq> CHR ''.'') t; frac = drop 1 (dropWhile (\<lambda>c. c \<noteq> CHR ''.'') t) in
     if whole @ frac \<noteq> [] \<and> list_all c_digit (whole @ frac)
     then let n = int (undec (whole @ frac)) in Inr (nearest (if neg then - n else n) (10 ^ length frac))
     else Inl (ProcValueError (''could not convert string to float: '' @ repr_str s)))"

section \<open>The readings\<close>

definition sum_bind :: "'e + 'a \<Rightarrow> ('a \<Rightarrow> 'e + 'b) \<Rightarrow> 'e + 'b" where
  "sum_bind m f = (case m of Inl x \<Rightarrow> Inl x | Inr a \<Rightarrow> f a)"

record cpu_load =
  cpu_load_1m :: pyfloat
  cpu_load_5m :: pyfloat
  cpu_load_15m :: pyfloat

definition float_at :: "string list \<Rightarrow> nat \<Rightarrow> proc_error + pyfloat" where
  "float_at parts i = sum_bind (at_index parts i) parse_float"

definition read_cpu_load :: "string \<Rightarrow> proc_error + cpu_load" where
  "read_cpu_load loadavg = (let parts = words loadavg in
     sum_bind (float_at parts 0) (\<lambda>a. sum_bind (float_at parts 1) (\<lambda>b. sum_bind (float_at parts 2) (\<lambda>c.
       Inr \<lparr>cpu_load_1m = a, cpu_load_5m = b, cpu_load_15m = c\<rparr>))))"

record memory =
  mem_total_kb :: int
  mem_available_kb :: int
  mem_used_kb :: int
  mem_used_percent :: pyfloat

fun mem_info :: "string list \<Rightarrow> (string, int) dict \<Rightarrow> proc_error + (string, int) dict" where
  "mem_info [] info = Inr info"
| "mem_info (line # lines) info = sum_bind (sum_bind (at_index (words (after_colon line)) 0) parse_int)
     (\<lambda>v. mem_info lines (dict_set (strip (before_colon line)) v info))"

definition info_at :: "(string, int) dict \<Rightarrow> string \<Rightarrow> proc_error + int" where
  "info_at info k = (case dict_get info k of None \<Rightarrow> Inl (ProcKeyError k) | Some v \<Rightarrow> Inr v)"

text \<open>\<open>round(mem_used / mem_total * 100, 2)\<close>.\<close>

definition percent :: "int \<Rightarrow> int \<Rightarrow> pyfloat" where
  "percent mem_used mem_total = round2 (float_times (nearest (if mem_total < 0 then - mem_used else mem_used) (nat \<bar>mem_total\<bar>)) 100)"

definition read_memory :: "string \<Rightarrow> proc_error + memory" where
  "read_memory meminfo = sum_bind (mem_info (file_lines meminfo) []) (\<lambda>info.
     sum_bind (info_at info ''MemTotal'') (\<lambda>mem_total. sum_bind (info_at info ''MemAvailable'') (\<lambda>mem_available.
       let mem_used = mem_total - mem_available in
       if mem_total = 0 then Inl ProcZeroDivision
       else Inr \<lparr>mem_total_kb = mem_total, mem_available_kb = mem_available, mem_used_kb = mem_used,
         mem_used_percent = percent mem_used mem_total\<rparr>)))"

section \<open>The loop\<close>

definition payload_json :: "cpu_load \<Rightarrow> memory \<Rightarrow> json" where
  "payload_json c m = JObj
     [(''cpu_load_1m'', JFloat (cpu_load_1m c)), (''cpu_load_5m'', JFloat (cpu_load_5m c)),
      (''cpu_load_15m'', JFloat (cpu_load_15m c)), (''mem_total_kb'', JInt (mem_total_kb m)),
      (''mem_available_kb'', JInt (mem_available_kb m)), (''mem_used_kb'', JInt (mem_used_kb m)),
      (''mem_used_percent'', JFloat (mem_used_percent m))]"

definition payload :: "string \<times> string \<Rightarrow> proc_error + json" where
  "payload files = sum_bind (read_cpu_load (fst files)) (\<lambda>c. sum_bind (read_memory (snd files)) (\<lambda>m. Inr (payload_json c m)))"

text \<open>
  The iterations until the script is interrupted, given the contents of the two files at each: what is
  handed to the MQTT client, and the exception that ended the loop, if one did.
\<close>

fun monitor_run :: "(string \<times> string) list \<Rightarrow> json list \<times> proc_error option" where
  "monitor_run [] = ([], None)"
| "monitor_run (files # rest) = (case payload files of
      Inl x \<Rightarrow> ([], Some x)
    | Inr p \<Rightarrow> (case monitor_run rest of (ps, err) \<Rightarrow> (p # ps, err)))"

section \<open>Lemmas\<close>

lemma sum_bind_Inr: "sum_bind m f = Inr b \<longleftrightarrow> (\<exists>a. m = Inr a \<and> f a = Inr b)"
  by (cases m) (simp_all add: sum_bind_def)

lemma read_memory_value:
  assumes "read_memory s = Inr m"
  shows "mem_total_kb m \<noteq> 0 \<and> mem_used_kb m = mem_total_kb m - mem_available_kb m \<and>
    mem_used_percent m = percent (mem_used_kb m) (mem_total_kb m)"
  using assms by (auto simp: read_memory_def sum_bind_Inr Let_def split: if_splits)

text \<open>A double between 0 and 1, times a positive integer, and rounded to two places.\<close>

lemma finite_ratio:
  assumes "0 \<le> float_val (Finite m e)" "float_val (Finite m e) \<le> of_nat c"
  shows "0 \<le> m * 2 ^ nat e" "m * 2 ^ nat e \<le> int c * 2 ^ nat (- e)"
proof -
  from assms have "0 \<le> real_of_int (m * 2 ^ nat e)" "real_of_int (m * 2 ^ nat e) \<le> of_nat c * 2 ^ nat (- e)"
    unfolding float_val_scale by (simp_all add: divide_le_eq zero_le_divide_iff) (auto simp: not_le [symmetric] dest: power_le_zero_eq [THEN iffD1])
  moreover have "of_nat c * 2 ^ nat (- e) = real_of_int (int c * 2 ^ nat (- e))" by simp
  ultimately show "0 \<le> m * 2 ^ nat e" "m * 2 ^ nat e \<le> int c * 2 ^ nat (- e)"
    by (metis of_int_0_le_iff, metis of_int_le_iff)
qed

lemma nearest_finite: "\<exists>m e. nearest z d = Finite m e"
  by (auto simp: nearest_def nearest_nat_def negate_float_def Let_def)

lemma half_even_int_le: "0 < d \<Longrightarrow> 0 \<le> z \<Longrightarrow> z \<le> int c * int d \<Longrightarrow> 0 \<le> half_even_int z d \<and> half_even_int z d \<le> int c"
  by (auto simp: half_even_int_def nat_le_iff intro!: half_even_le)

lemma percent_bounds:
  assumes "0 < mem_total" "0 \<le> used" "used \<le> mem_total"
  shows "0 \<le> float_val (percent used mem_total) \<and> float_val (percent used mem_total) \<le> 100"
proof -
  obtain m e where x: "nearest used (nat mem_total) = Finite m e" using nearest_finite by blast
  have "0 \<le> float_val (Finite m e) \<and> float_val (Finite m e) \<le> of_nat 1"
    using assms nearest_le [of "nat mem_total" used 1] by (simp add: x)
  then have 1: "0 \<le> m * 2 ^ nat e" "m * 2 ^ nat e \<le> int 1 * 2 ^ nat (- e)" using finite_ratio by blast+
  obtain k f where y: "float_times (Finite m e) 100 = Finite k f"
    using nearest_finite by (fastforce simp: float_times_def)
  have "0 \<le> float_val (Finite k f) \<and> float_val (Finite k f) \<le> of_nat 100"
    unfolding y [symmetric] float_times_def pyfloat.case using 1 by (intro nearest_le) (auto simp: ac_simps)
  then have 2: "0 \<le> k * 2 ^ nat f" "k * 2 ^ nat f \<le> int 100 * 2 ^ nat (- f)" using finite_ratio by blast+
  have 3: "0 \<le> half_even_int (k * 100 * 2 ^ nat f) (2 ^ nat (- f)) \<and> half_even_int (k * 100 * 2 ^ nat f) (2 ^ nat (- f)) \<le> int 10000"
    using 2 by (intro half_even_int_le) (auto simp: ac_simps)
  have "0 \<le> float_val (round2 (Finite k f)) \<and> float_val (round2 (Finite k f)) \<le> of_nat 100"
    unfolding round2_def pyfloat.case using 3 by (intro nearest_le) auto
  with assms x y show ?thesis by (simp add: percent_def)
qed

text \<open>
  How far the percentage is from the exact one: half of the last place that is kept, and the errors of
  the three roundings to doubles.
\<close>

lemma rounding_chain:
  fixes q a b h z :: real
  assumes "\<bar>a - q\<bar> \<le> 1 / D" "\<bar>b - 100 * a\<bar> \<le> 100 / D" "\<bar>h - 100 * b\<bar> \<le> 1 / 2" "\<bar>z - h / 100\<bar> \<le> 100 / D"
  shows "\<bar>z - 100 * q\<bar> \<le> 1 / 200 + 300 / D"
proof -
  define r where "r = 1 / D"
  have "100 / D = 100 * r" "300 / D = 300 * r" "1 / D = r" by (simp_all add: r_def)
  with assms show ?thesis by (simp only: abs_le_iff) linarith
qed

lemma percent_accurate:
  assumes "0 < mem_total" "0 \<le> used" "used \<le> mem_total"
  shows "\<bar>float_val (percent used mem_total) - 100 * real_of_int used / real_of_int mem_total\<bar> \<le> 1 / 200 + 300 / 2 ^ 53"
proof -
  let ?q = "real_of_int used / real_of_int mem_total"
  obtain m e where x: "nearest used (nat mem_total) = Finite m e" using nearest_finite by blast
  have e1: "\<bar>float_val (Finite m e) - ?q\<bar> \<le> 1 / 2 ^ 53"
    using assms nearest_error [of "nat mem_total" used 1] by (simp add: x)
  have "0 \<le> float_val (Finite m e) \<and> float_val (Finite m e) \<le> of_nat 1"
    using assms nearest_le [of "nat mem_total" used 1] by (simp add: x)
  then have 1: "0 \<le> m * 2 ^ nat e" "m * 2 ^ nat e \<le> int 1 * 2 ^ nat (- e)" using finite_ratio by blast+
  obtain k f where y: "float_times (Finite m e) 100 = Finite k f"
    using nearest_finite by (fastforce simp: float_times_def)
  have n2: "0 \<le> m * 100 * 2 ^ nat e" "m * 100 * 2 ^ nat e \<le> int 100 * int (2 ^ nat (- e))" using 1 by (auto simp: ac_simps)
  have e2: "\<bar>float_val (Finite k f) - 100 * float_val (Finite m e)\<bar> \<le> 100 / 2 ^ 53"
    using nearest_error [OF _ n2] unfolding y [symmetric] float_times_def pyfloat.case
    by (simp add: float_val_scale ac_simps del: float_val.simps)
  have "0 \<le> float_val (Finite k f) \<and> float_val (Finite k f) \<le> of_nat 100"
    unfolding y [symmetric] float_times_def pyfloat.case using n2 by (intro nearest_le) auto
  then have 2: "0 \<le> k * 2 ^ nat f" "k * 2 ^ nat f \<le> int 100 * 2 ^ nat (- f)" using finite_ratio by blast+
  define h where "h = half_even_int (k * 100 * 2 ^ nat f) (2 ^ nat (- f))"
  have h: "0 \<le> h \<and> h \<le> int 10000" unfolding h_def using 2 by (intro half_even_int_le) (auto simp: ac_simps)
  have e3: "\<bar>real_of_int h - 100 * float_val (Finite k f)\<bar> \<le> 1 / 2"
  proof -
    have "0 \<le> k * 100 * 2 ^ nat f" using 2(1) by (simp add: ac_simps)
    then show ?thesis
      using half_even_error [of "2 ^ nat (- f)" "nat (k * 100 * 2 ^ nat f)"]
      by (simp add: h_def half_even_int_def float_val_scale ac_simps del: float_val.simps)
  qed
  have "\<bar>float_val (nearest h 100) - real_of_int h / 100\<bar> \<le> 100 / 2 ^ 53"
    using nearest_error [of 100 h 100] h by simp
  moreover have "float_val (percent used mem_total) = float_val (nearest h 100)"
    using assms x y by (simp add: percent_def round2_def h_def)
  ultimately have "\<bar>float_val (percent used mem_total) - real_of_int h / 100\<bar> \<le> 100 / 2 ^ 53" by simp
  from rounding_chain [OF e1 e2 e3 this] show ?thesis by simp
qed

section \<open>Properties\<close>

text \<open>C37. The memory reading is consistent: used and available memory make up the total, and when the kernel
  reports between none and all of the memory as available, the percentage is the share of the memory that
  is used, correct to the two decimal places that are kept: it differs from the exact share by half a
  hundredth at most (and the errors of its three roundings, less than \<open>1 / 10 ^ 12\<close>), and it lies between
  0 and 100.\<close>

theorem memory_reading_bounds:
  assumes "read_memory s = Inr m" "0 \<le> mem_available_kb m" "mem_available_kb m \<le> mem_total_kb m"
  shows "mem_used_kb m + mem_available_kb m = mem_total_kb m \<and>
    \<bar>float_val (mem_used_percent m) - 100 * (real_of_int (mem_total_kb m - mem_available_kb m) / real_of_int (mem_total_kb m))\<bar>
      \<le> 5 / 1000 + 1 / 10 ^ 12 \<and>
    0 \<le> float_val (mem_used_percent m) \<and> float_val (mem_used_percent m) \<le> 100"
proof -
  note v = read_memory_value [OF assms(1)]
  then have u: "0 < mem_total_kb m" "0 \<le> mem_used_kb m" "mem_used_kb m \<le> mem_total_kb m"
    "mem_used_kb m = mem_total_kb m - mem_available_kb m" using assms(2,3) by auto
  have "(1 / 200 + 300 / 2 ^ 53 :: real) \<le> 5 / 1000 + 1 / 10 ^ 12" by simp
  with percent_accurate [OF u(1-3)] percent_bounds [OF u(1-3)] v u(4) show ?thesis by simp
qed

text \<open>The monitor publishes one payload per interval for as long as the files can be read, and stops at
  the first reading that fails; what the broker answers has no influence.\<close>

theorem monitor_publishes_until_error:
  "monitor_run fs = (map (\<lambda>f. projr (payload f)) (takeWhile (\<lambda>f. \<not> isl (payload f)) fs),
     case dropWhile (\<lambda>f. \<not> isl (payload f)) fs of [] \<Rightarrow> None | f # _ \<Rightarrow> Some (projl (payload f)))"
  by (induction fs) (auto split: sum.split prod.split)

end
