(* ===== verification/PortalWitnesses.thy ===== *)
theory PortalWitnesses
  imports SampleRuns PortalNonce MatrixReport OidcProxy Monitor
begin

text \<open>
  The properties of the portals and of the provider's scripts, each applied to a concrete input: a
  browser without a session, an administrator's session, a login at the realm \<open>cdm\<close>.
\<close>

section \<open>The guards\<close>

lemma no_admin: "\<not> is_cdm_admin empty_world" "get_cdm_admin e empty_world = (Inr JNull, empty_world)"
  by (simp_all add: is_cdm_admin_def session_user_def empty_world_def get_cdm_admin_def session_get_def run_simps)

lemma admin_portal_guarded_witness:
  "create_tenant (Some JNull) sample_env empty_world = (Inr unauthorized, empty_world) \<and>
   delete_tenant ''acme'' sample_env empty_world = (Inr unauthorized, empty_world)"
  using admin_portal_guarded [OF sample_session(2) no_admin(1), of "Some JNull" sample_env "''acme''"] by simp

text \<open>The claims of the sample token, which are an administrator's.\<close>

definition sample_claims :: json where
  "sample_claims = JObj [(''realm_access'', JObj [(''roles'', JArr [JStr ''cdm-admin''])])]"

abbreviation sample_bytes :: "nat list" where
  "sample_bytes \<equiv> write_text (json_dumps (\<lambda>_. []) True None sample_claims)"

lemma sample_loads: "loads_bytes e sample_bytes = Some sample_claims"
  by (rule loads_bytes_document) (simp add: sample_claims_def dict_wf_def)

lemma sample_token: "token_claims sample_jwt sample_env w = (Inr sample_claims, w)"
proof -
  have d: "b64decode (padded_segment sample_payload_b64) = Some sample_bytes" by (simp only: sample_claims_def) code_simp
  have n: "nth_part sample_jwt (Suc 0) = ret sample_payload_b64" by (simp add: nth_part_def)
  show ?thesis by (simp add: token_claims_def n try_except_def d loads_def sample_loads run_simps)
qed

lemma sample_roles: "claim_roles sample_claims e w = (Inr (JArr [JStr ''cdm-admin'']), w)"
  by (simp add: claim_roles_def sample_claims_def jget_def run_simps)

lemma sample_admin_roles: "set_of (JArr [JStr ''cdm-admin'']) e w = (Inr [JStr ''cdm-admin''], w)" "has_role [JStr ''cdm-admin''] admin_roles"
  by (simp_all add: set_of_def jiter_def hashable_def run_simps has_role_def admin_roles_def)

lemma sample_bearer:
  "\<exists>u w'. require_cdm_admin (Some sample_header) sample_env empty_world = (Inr u, w')"
proof -
  have "jget sample_claims ''preferred_username'' (JStr []) e w = (Inr (JStr []), w)" for e w
    by (simp add: sample_claims_def jget_def run_simps)
  then show ?thesis
    by (simp add: require_cdm_admin_def no_admin(2) bnd_def startswith_def Let_def sample_http sample_simps(9) sample_token
        sample_roles sample_admin_roles run_simps)
qed

lemma require_cdm_admin_sound_witness:
  "\<exists>token p claims. sample_header = ''Bearer '' @ token \<and> is_success p \<and>
     e_http sample_env [] (userinfo_get default_settings token) = Answer p \<and>
     (\<exists>w'. fst (token_claims token sample_env w') = Inr claims)"
proof -
  obtain u w' where r: "require_cdm_admin (Some sample_header) sample_env empty_world = (Inr u, w')"
    using sample_bearer by blast
  from require_cdm_admin_sound [OF r sample_session(2)] no_admin(1) show ?thesis
    by (auto simp: sample_simps empty_world_def)
qed

definition admin_world :: world where
  "admin_world = empty_world\<lparr>w_session := [(''user'', JObj [(''realm'', JStr ''cdm''), (''roles'', JArr [JStr ''cdm-admin''])])]\<rparr>"

lemma admin_guard: "get_cdm_admin e admin_world = (Inr (session_user admin_world), admin_world)" "truth (session_user admin_world)"
  "session_ok admin_world" "is_cdm_admin admin_world"
proof -
  show a: "session_ok admin_world" "is_cdm_admin admin_world"
    by (simp_all add: admin_world_def is_cdm_admin_def session_ok_def session_user_def)
      (auto simp: admin_roles_def intro: exI [of _ "[''cdm-admin'']"])
  show "get_cdm_admin e admin_world = (Inr (session_user admin_world), admin_world)" "truth (session_user admin_world)"
    using guard_run [OF a(1), of e] a(2) by (auto simp: truth_def is_cdm_admin_def)
qed

abbreviation acme_body :: json where
  "acme_body \<equiv> JObj [(''realm_id'', JStr ''acme'')]"

lemma acme_fields: "body_text acme_body ''realm_id'' [] e w = (Inr ''acme'', w)"
  "k \<noteq> ''realm_id'' \<Longrightarrow> body_text acme_body k d e w = (Inr (strip d), w)"
proof -
  have "strip ''acme'' = ''acme''" by code_simp
  then show "body_text acme_body ''realm_id'' [] e w = (Inr ''acme'', w)"
    by (simp add: body_text_def jget_def str_of_def py_str_def run_simps)
  show "k \<noteq> ''realm_id'' \<Longrightarrow> body_text acme_body k d e w = (Inr (strip d), w)"
    by (simp add: body_text_def jget_def str_of_def py_str_def run_simps)
qed

lemma sample_kc_token: "kc_admin_token default_settings sample_env w =
    (Inr sample_jwt, w\<lparr>w_trace := w_trace w @ [admin_token_post default_settings]\<rparr>)"
  by (simp add: kc_admin_token_def str_of_def py_str_def sample_run)

lemma sample_create:
  "admin_token_post default_settings \<in> set (w_trace (snd (create_tenant_checked default_settings ''acme'' d m u sample_env w)))"
proof -
  obtain r w' where run: "create_tenant_checked default_settings ''acme'' d m u sample_env w = (r, w')" by fastforce
  have "isidentifier ''acme''" "''acme'' \<notin> protected_realms" by (code_simp, simp add: protected_realms_def)
  with run obtain p w1 where p: "random_password sample_env w = (Inr p, w1)" and k:
    "bnd (create_in_keycloak default_settings ''acme'' d u m p) (\<lambda>(r1, e1). bnd (create_in_rabbitmq default_settings ''acme'') (\<lambda>(r2, e2).
       ret (JSONResponse 200 (JObj
         [(''realm_id'', JStr ''acme''), (''display_name'', JStr d), (''admin_user'', JStr u), (''admin_email'', JStr m),
          (''admin_password'', JStr p), (''results'', str_dict (r1 @ r2)), (''errors'', str_dict (e1 @ e2)),
          (''hint'', JStr create_hint)])))) sample_env w1 = (r, w')"
    using choices_run [of password_alphabet 24 sample_env w] by (auto simp: create_tenant_checked_def random_password_def bnd_value)
  let ?rest = "thn (kc_create_realm default_settings ''acme'' d sample_jwt)
     (thn (kc_create_user default_settings ''acme'' u m p [''cdm-admin''] sample_jwt) (ret ([(''keycloak'', ''created'')], []) :: outcomes io))"
  let ?w = "w1\<lparr>w_trace := w_trace w1 @ [admin_token_post default_settings]\<rparr>"
  have "sends (\<lambda>_. True) ?rest" by (intro sends_rules kc_realm.call_logs kc_user.call_logs)
  moreover obtain q w2 where q: "?rest sample_env ?w = (q, w2)" by fastforce
  ultimately obtain qs where "w_trace w2 = w_trace ?w @ qs" by (rule sendsE)
  then have "admin_token_post default_settings \<in> set (w_trace w2)" by simp
  moreover have "\<exists>o1. create_in_keycloak default_settings ''acme'' d u m p sample_env w1 = (Inr o1, w2)"
    using q by (cases q) (auto simp: create_in_keycloak_def try_except_def sample_kc_token bnd_value [where m = "kc_admin_token s" for s] run_simps)
  moreover obtain r3 w3 where r: "create_in_rabbitmq default_settings ''acme'' sample_env w2 = (r3, w3)" by fastforce
  moreover have "prefix (w_trace w2) (w_trace w3)" using r by (rule create_rmq.history_kept)
  moreover have "w' = w3" if "create_in_keycloak default_settings ''acme'' d u m p sample_env w1 = (Inr o1, w2)" for o1
    using k that r by (cases r3) (auto simp: bnd_def run_simps split: prod.splits)
  ultimately show ?thesis using run by (auto simp: prefix_def)
qed

lemma create_tenant_scope_witness:
  "\<exists>rs. w_trace (snd (create_tenant (Some acme_body) sample_env admin_world)) = rs \<and> rs \<noteq> [] \<and>
     list_all (about_tenant default_settings ''acme'') rs"
proof -
  have l: "lower ''acme'' = ''acme''" by code_simp
  obtain d m u where run: "create_tenant (Some acme_body) sample_env admin_world =
      create_tenant_checked default_settings ''acme'' d m u sample_env admin_world"
    by (simp add: create_tenant_def run_bnd_settings bnd_value [where m = get_cdm_admin, OF admin_guard(1)] admin_guard(2) Let_def sample_simps
        bnd_value [where m = "body_text a b c" for a b c, OF acme_fields(1)] bnd_value [where m = "body_text a b c" for a b c, OF acme_fields(2)] l)
  have "w_trace admin_world = []" by (simp add: admin_world_def empty_world_def)
  with create_tenant_scope [OF prod.collapse [symmetric], of "Some acme_body" sample_env admin_world]
  show ?thesis using sample_create [of d m u admin_world] by (auto simp: run acme_fields(1) l sample_simps)
qed

text \<open>Keycloak's usual answer to a password login has more fields than the token.\<close>

lemma delete_protection_bypass_witness:
  "\<exists>e. is_cdm_admin admin_world \<and> (\<exists>r\<in>set (w_trace (snd (delete_tenant ''master?'' e admin_world))).
    rq_meth r = DELETE \<and> rq_url r = rq_url (realm_delete (e_settings e) ''master'' ''tok'') @ ''?'')"
proof -
  let ?ps = "[(''access_token'', JStr ''tok''), (''expires_in'', JInt 60), (''token_type'', JStr ''Bearer'')]"
  let ?p = "sample_answer\<lparr>rs_json := Some (JObj ?ps)\<rparr>"
  let ?e = "sample_env\<lparr>e_http := \<lambda>_ _. Answer ?p\<rparr>"
  have "e_http ?e (w_trace admin_world) (admin_token_post (e_settings ?e)) = Answer ?p" "is_success ?p"
    "rs_json ?p = Some (JObj ?ps)" "dict_get ?ps ''access_token'' = Some (JStr ''tok'')"
    by (simp_all add: is_success_def sample_answer_def)
  from admin_guard(4) delete_protection_bypass [OF admin_guard(3,4) this] show ?thesis by blast
qed

section \<open>Login\<close>

definition login_world :: world where
  "login_world = empty_world\<lparr>w_session := [(''oauth_state'', JStr ''s''), (''oauth_tenant'', JStr ''cdm'')]\<rparr>"

definition sample_params :: "string \<Rightarrow> callback_params" where
  "sample_params st = \<lparr>cb_code = Some ''c'', cb_state = Some st, cb_error = None, cb_error_description = None\<rparr>"

lemma sample_decode: "decode_jwt_payload (JStr sample_jwt) sample_env w = (Inr sample_claims, w)"
proof -
  have d: "urlsafe_b64decode sample_payload_b64 = Some sample_bytes" by (simp only: sample_claims_def) code_simp
  have n: "nth_part sample_jwt (Suc 0) = ret sample_payload_b64" by (simp add: nth_part_def)
  show ?thesis by (simp add: decode_jwt_payload_def n try_except_def d loads_def sample_loads run_simps)
qed

text \<open>The tenants of the default settings.\<close>

definition sample_tenants :: json where
  "sample_tenants = JObj [(''cdm'', JObj [(''name'', JStr ''CDM Platform'')]), (''tenant1'', JObj [(''name'', JStr ''Acme Devices GmbH'')]),
     (''tenant2'', JObj [(''name'', JStr ''Beta Industries Ltd'')])]"

lemma sample_parse_tenants: "parse_tenants default_settings e w = (Inr sample_tenants, w)"
proof -
  have "json_loads (portal_tenants_json default_settings) = Doc sample_tenants" by (simp only: sample_tenants_def) code_simp
  then show ?thesis by (simp add: parse_tenants_def loads_text_def run_simps)
qed

lemma sample_user:
  obtains u where "user_of default_settings (JStr ''cdm'') sample_claims i sample_env w = (Inr u, w)"
    "\<exists>ps. u = JObj ps \<and> dict_get ps ''realm'' = Some (JStr ''cdm'') \<and> dict_get ps ''roles'' = Some (JArr [JStr ''cdm-admin''])"
proof -
  have k: "known_roles sample_claims sample_env w = (Inr [JStr ''cdm-admin''], w)"
    by (simp add: known_roles_def sample_claims_def jget_def jiter_def in_strings_def hashable_def admin_roles_def run_simps)
  have t: "tenant_name sample_tenants (JStr ''cdm'') sample_env w = (Inr (JStr ''CDM Platform''), w)"
    by (simp add: tenant_name_def sample_tenants_def jget_def bnd_def hashable_def run_simps)
  have j: "jget sample_claims n d sample_env w = (Inr d, w)" if "n \<noteq> ''realm_access''" for n d
    using that by (simp add: sample_claims_def jget_def run_simps)
  show ?thesis
    by (rule that [of "JObj [(''sub'', JStr []), (''name'', jor JNull (JStr [])), (''preferred_username'', JStr []),
         (''email'', JStr []), (''realm'', JStr ''cdm''), (''tenant_name'', JStr ''CDM Platform''), (''roles'', JArr [JStr ''cdm-admin'']),
         (''id_token'', i)]"])
      (simp_all add: user_of_def bnd_def k sample_parse_tenants t j run_simps)
qed

lemma sample_callback:
  assumes "dict_get (w_session w) ''oauth_state'' = Some (JStr st)" "st \<noteq> []" "dict_get (w_session w) ''oauth_tenant'' = Some (JStr ''cdm'')"
  obtains r w' where "portal_callback (sample_params st) sample_env w = (Inr r, w')" "is_cdm_admin w'" "w_session w' \<noteq> w_session w"
proof -
  let ?w = "w\<lparr>w_trace := w_trace w @ [token_post default_settings ''cdm'' ''c'']\<rparr>"
  obtain u where u: "user_of default_settings (JStr ''cdm'') sample_claims (JStr []) sample_env ?w = (Inr u, ?w)"
    "\<exists>ps. u = JObj ps \<and> dict_get ps ''realm'' = Some (JStr ''cdm'') \<and> dict_get ps ''roles'' = Some (JArr [JStr ''cdm-admin''])"
    by (rule sample_user)
  let ?s = "dict_del ''oauth_tenant'' (dict_del ''oauth_nonce'' (dict_del ''oauth_state'' (dict_set ''user'' u (w_session w))))"
  have "finish_login default_settings (JStr ''cdm'') sample_answer sample_env ?w =
      (Inr (RedirectResponse ''/api/portal/dashboard''), ?w\<lparr>w_session := ?s\<rparr>)"
    by (simp add: finish_login_def resp_json_def sample_simps jget_def bnd_def sample_decode u(1) session_set_def session_pop_def run_simps)
  moreover have "portal_callback (sample_params st) sample_env w = finish_login default_settings (JStr ''cdm'') sample_answer sample_env ?w"
    using assms by (simp add: portal_callback_def sample_params_def session_get_def opt_str_or_def str_of_def py_str_def
        bnd_def sample_http sample_simps run_simps Let_def)
  moreover have "is_cdm_admin (?w\<lparr>w_session := ?s\<rparr>)"
    using u(2) by (auto simp: is_cdm_admin_def session_user_def admin_roles_def intro!: exI [of _ "[''cdm-admin'']"])
  moreover have "dict_get ?s ''oauth_state'' = None" by simp
  then have "?s \<noteq> w_session w" using assms(1) by (metis option.distinct(1))
  then have "w_session (?w\<lparr>w_session := ?s\<rparr>) \<noteq> w_session w" by simp
  ultimately show ?thesis by (metis that)
qed

lemma login_callback:
  obtains r w' where "portal_callback (sample_params ''s'') sample_env login_world = (Inr r, w')" "is_cdm_admin w'"
    "w_session w' \<noteq> w_session login_world"
  by (rule sample_callback [of login_world "''s''"]) (simp_all add: login_world_def)

lemma callback_needs_state_witness:
  "\<exists>r w'. portal_callback (sample_params ''s'') sample_env login_world = (Inr r, w') \<and> logged_in (JStr ''cdm'') (session_user w')"
proof -
  obtain r w' where c: "portal_callback (sample_params ''s'') sample_env login_world = (Inr r, w')" "w_session w' \<noteq> w_session login_world"
    by (rule login_callback)
  from c(1) callback_needs_state [OF c] show ?thesis by (auto simp: login_world_def)
qed

lemma admin_session_from_cdm_login_witness:
  "\<exists>r w'. portal_callback (sample_params ''s'') sample_env login_world = (Inr r, w') \<and> is_cdm_admin w' \<and>
     dict_get (w_session login_world) ''oauth_tenant'' = Some (JStr ''cdm'')"
proof -
  obtain r w' where c: "portal_callback (sample_params ''s'') sample_env login_world = (Inr r, w')" "is_cdm_admin w'"
    by (rule login_callback)
  have n: "\<not> is_cdm_admin login_world" by (simp add: is_cdm_admin_def session_user_def login_world_def)
  from c admin_session_from_cdm_login [OF c(1) n c(2)] show ?thesis by blast
qed

lemma portal_keeps_session_ok_witness: "session_ok (snd (portal_callback (sample_params ''s'') sample_env empty_world))"
  using portal_keeps_session_ok [OF sample_session(2), of None sample_env "sample_params ''s''"] by simp

lemma decode_jwt_payload_claims_witness:
  "decode_jwt_payload (JStr (''h'' @ ''.'' @ jwt_segment (write_text (json_dumps (\<lambda>_. []) True None sample_claims)) @ ''.'' @ ''s''))
     sample_env empty_world = (Inr sample_claims, empty_world)"
  by (rule decode_jwt_payload_claims) (simp_all add: sample_claims_def dict_wf_def)

lemma dashboard_role_is_highest_witness:
  "\<exists>ctx. portal_dashboard sample_env admin_world = (Inr (TemplateResponse ''portal/dashboard.html'' 200 ctx), admin_world) \<and>
     map_of ctx ''effective_role'' = Some (JStr (level_text (highest [''cdm-admin''])))"
  by (rule dashboard_role_is_highest [of _ "[(''realm'', JStr ''cdm''), (''roles'', JArr [JStr ''cdm-admin''])]"])
    (simp_all add: admin_world_def session_user_def)

section \<open>The access matrix\<close>

text \<open>A realm with one user, who has the role of a viewer.\<close>

definition realm_answer :: "request \<Rightarrow> json" where
  "realm_answer r = (if rq_meth r = POST then JObj [(''access_token'', JStr ''tok'')]
     else if rq_url r = ''http://localhost:8888/auth/admin/realms/cdm/users?max=200&briefRepresentation=false''
     then JArr [JObj [(''id'', JStr ''7''), (''username'', JStr ''eve''), (''email'', JStr ''eve@acme''), (''enabled'', JBool True)]]
     else JArr [JObj [(''name'', JStr ''cdm-viewer'')], JObj [(''name'', JStr ''uma_authorization'')]])"

definition realm_env :: env where
  "realm_env = sample_env\<lparr>e_http := (\<lambda>_ r. Answer \<lparr>rs_status = 200, rs_json = Some (realm_answer r), rs_text = [], rs_location = None\<rparr>)\<rparr>"

lemma realm_document: "document_of realm_env hist r = Some (realm_answer r)"
  by (simp add: document_of_def realm_env_def is_success_def)

lemma realm_request: "matrix_request r realm_env w = (Inr (realm_answer r), w\<lparr>w_trace := w_trace w @ [r]\<rparr>)"
  by (simp add: matrix_request_def try_except_def bnd_def http_def realm_env_def is_success_def resp_json_def run_simps)

lemma realm_answers [simp]:
  "realm_answer (matrix_get ''http://localhost:8888'' (users_path ''cdm'') ''tok'') =
      JArr [JObj [(''id'', JStr ''7''), (''username'', JStr ''eve''), (''email'', JStr ''eve@acme''), (''enabled'', JBool True)]]"
  "realm_answer (matrix_get ''http://localhost:8888'' (roles_path ''cdm'' ''7'') ''tok'') =
      JArr [JObj [(''name'', JStr ''cdm-viewer'')], JObj [(''name'', JStr ''uma_authorization'')]]"
  "realm_answer (login_post argv environ) = JObj [(''access_token'', JStr ''tok'')]"
  by (simp_all add: realm_answer_def matrix_get_def users_path_def roles_path_def login_post_def matrix_token_post_def)

lemma realm_users: "\<exists>u w'. get_users_with_roles ''http://localhost:8888'' ''tok'' ''cdm'' realm_env w = (Inr [u], w') \<and>
    mu_username u = JStr ''eve'' \<and> truth (mu_email u) \<and> (\<exists>m. mu_email u = JStr m)"
  by (simp add: get_users_with_roles_def kc_get_def realm_request read_user_def user_roles_def try_except_def bnd_def jiter_def
        jindex_def jget_def str_of_def asks_def py_str_def sort_users_def is_text_def truth_def run_simps)

lemma realm_page:
  assumes "mu_username u = JStr n" "truth (mu_email u)" "mu_email u = JStr m"
  shows "\<exists>page w'. render_full_page [(''cdm'', [u])] e w = (Inr page, w')"
proof -
  have "\<exists>q. matrix_entry (''cdm'', u) e v = (Inr q, v)" for v
    using assms by (simp add: matrix_entry_def user_notes_def user_row_def must_be_text_def jor_def str_of_def bnd_def asks_def ret_def)
  then obtain q where q: "matrix_entry (''cdm'', u) e (w\<lparr>w_ticks := Suc (w_ticks w)\<rparr>) = (Inr q, w\<lparr>w_ticks := Suc (w_ticks w)\<rparr>)" by blast
  show ?thesis
    by (simp add: render_full_page_def render_matrix_def realm_users_def bnd_assoc run_bnd_now)
      (simp add: bnd_def q ret_def)
qed


section \<open>Monitor and proxy\<close>

lemma memory_reading_bounds_witness:
  "\<exists>m. read_memory ''MemTotal: 4 kB\<newline>MemAvailable: 1 kB\<newline>'' = Inr m \<and> mem_used_kb m = 3 \<and>
     \<bar>float_val (mem_used_percent m) - 75\<bar> \<le> 5 / 1000 + 1 / 10 ^ 12"
proof -
  let ?s = "''MemTotal: 4 kB\<newline>MemAvailable: 1 kB\<newline>''"
  have "mem_info (file_lines ?s) [] = Inr [(''MemTotal'', 4), (''MemAvailable'', 1)]" by code_simp
  then obtain m where m: "read_memory ?s = Inr m" "mem_total_kb m = 4" "mem_available_kb m = 1"
    by (simp add: read_memory_def sum_bind_def info_at_def Let_def)
  from m memory_reading_bounds [OF m(1)] show ?thesis by auto
qed

lemma proxy_changes_jwks_only_witness:
  "\<exists>rep w' qs. do_GET (new_proxy_config (\<lambda>_. None)) ''/'' sample_env empty_world = (Inr rep, w') \<and>
     xr_status rep = 200 \<and> loads_bytes sample_env (xr_body rep) = Some (JObj qs) \<and> dict_get qs ''crt'' = Some (JStr ''CERT'') \<and>
     dict_get qs ''jwks_uri'' = Some (JStr ''http://keycloak:8080/auth/realms/provider/protocol/openid-connect/certs'')"
proof -
  let ?c = "new_proxy_config (\<lambda>_. None)"
  have p: "served_path ''/''" by code_simp
  obtain rep w' where d: "do_GET ?c ''/'' sample_env empty_world = (Inr rep, w')" and r: "xr_status rep = 200"
    by (simp add: do_GET_def p fetch_discovery_def try_except_def set_jwks_uri_def document_reply_facts(1) sample_run)
  have j: "px_keycloak ?c @ jwks_path ?c = ''http://keycloak:8080/auth/realms/provider/protocol/openid-connect/certs''"
    by (simp add: new_proxy_config_def jwks_path_def)
  have "rep \<noteq> bare_reply 502" using r by (auto simp: bare_reply_def)
  with d r p j proxy_changes_jwks_only [OF d] show ?thesis
    by (auto simp: sample_simps dict_wf_def intro!: exI [of _ rep])
qed

end
