(* ===== verification/Service.thy ===== *)
theory Service
  imports JoinHandshake JoinFlow Enrollment Webhooks Portal
begin

text \<open>
  The handlers of all routers, \<open>routers/health.py\<close> among them, as one function of a call. A request
  is a value of the type \<open>call\<close>, one constructor for each route; \<open>serve\<close> runs its handler. The browsers'
  sessions travel in signed cookies: a request carries the session of any cookie the service has issued,
  however old, or none.
\<close>

section \<open>The routes\<close>

record health_response =
  he_status :: string
  he_service :: string

definition health :: "health_response io" where
  "health = ret \<lparr>he_status = ''ok'', he_service = ''iot-bridge-api''\<rparr>"

datatype call =
    Health
  | Enroll string enrollment_request
  | DeviceEvent thingsboard_webhook_event
  | Telemetry thingsboard_webhook_event
  | SelectTenant
  | Login "string option"
  | Callback callback_params
  | Dashboard
  | Logout
  | AdminDashboard
  | CreateTenant "json option"
  | DeleteTenant string
  | AddProvisioner string "json option"
  | PrepareTenant tenant_prepare_request "string option"
  | JoinHandshake join_handshake_payload "string option"
  | SubmitJoin string join_request_payload
  | ListJoins
  | ApproveJoin string
  | RejectJoin string string
  | JoinStatus string

datatype answer =
    AHealth health_response
  | AEnrolled enrollment_response
  | ADevice webhook_response
  | ATelemetry telemetry_webhook_response
  | APage reply
  | APrepared tenant_prepare_response
  | AHandshake join_handshake_response
  | AStatus join_status_response

definition answers :: "('a \<Rightarrow> answer) \<Rightarrow> 'a io \<Rightarrow> answer io" where
  "answers f m = bnd m (\<lambda>a. ret (f a))"

fun serve :: "call \<Rightarrow> answer io" where
  "serve Health = answers AHealth health"
| "serve (Enroll d b) = answers AEnrolled (enroll_endpoint d b)"
| "serve (DeviceEvent ev) = answers ADevice (webhook_endpoint ev)"
| "serve (Telemetry ev) = answers ATelemetry (telemetry_endpoint ev)"
| "serve SelectTenant = answers APage portal_select"
| "serve (Login form) = answers APage (portal_login form)"
| "serve (Callback cb) = answers APage (portal_callback cb)"
| "serve Dashboard = answers APage portal_dashboard"
| "serve Logout = answers APage portal_logout"
| "serve AdminDashboard = answers APage admin_dashboard"
| "serve (CreateTenant b) = answers APage (create_tenant b)"
| "serve (DeleteTenant rid) = answers APage (delete_tenant rid)"
| "serve (AddProvisioner rid b) = answers APage (add_oidc_provisioner rid b)"
| "serve (PrepareTenant b auth) = answers APrepared (prepare_tenant b auth)"
| "serve (JoinHandshake p k) = answers AHandshake (join_handshake p k)"
| "serve (SubmitJoin t p) = answers APage (submit_join_request t p)"
| "serve ListJoins = answers APage list_join_requests"
| "serve (ApproveJoin t) = answers APage (approve_join_request t)"
| "serve (RejectJoin t reason) = answers APage (reject_join_request t reason)"
| "serve (JoinStatus t) = answers AStatus (get_join_status t)"

section \<open>Which request touches which store\<close>

text \<open>What a request leaves alone: everything stored but the one store of its component.\<close>

fun untouched :: "call \<Rightarrow> world \<Rightarrow> world" where
  "untouched (Enroll d b) w = stores (w\<lparr>w_peers := None, w_wg_conf := None\<rparr>)"
| "untouched (DeviceEvent ev) w = stores (w\<lparr>w_peers := None\<rparr>)"
| "untouched (Telemetry ev) w = stores (w\<lparr>w_telemetry := [], w_open_pools := 0\<rparr>)"
| "untouched (Login form) w = stores (w\<lparr>w_session := []\<rparr>)"
| "untouched (Callback cb) w = stores (w\<lparr>w_session := []\<rparr>)"
| "untouched Logout w = stores (w\<lparr>w_session := []\<rparr>)"
| "untouched (PrepareTenant b auth) w = stores (w\<lparr>w_keys := None\<rparr>)"
| "untouched (JoinHandshake p k) w = stores (w\<lparr>w_keys := None\<rparr>)"
| "untouched (SubmitJoin t p) w = stores (w\<lparr>w_joins := None\<rparr>)"
| "untouched (ApproveJoin t) w = stores (w\<lparr>w_joins := None\<rparr>)"
| "untouched (RejectJoin t reason) w = stores (w\<lparr>w_joins := None\<rparr>)"
| "untouched c w = stores w"

lemma keeps_answers: "keeps g m \<Longrightarrow> keeps g (answers f m)"
  unfolding answers_def by (intro keeps_rules)

text \<open>Parts of the world that are stored, and a store that is left out.\<close>

lemma keeps_part: "keeps stores m \<Longrightarrow> (\<And>w. g (stores w) = g w) \<Longrightarrow> keeps g m"
  unfolding keeps_def by metis

lemma keeps_via: "keeps h m \<Longrightarrow> (\<And>w w'. h w' = h w \<Longrightarrow> g w' = g w) \<Longrightarrow> keeps g m"
  unfolding keeps_def by metis


lemma enroll_rest: "keeps (untouched (Enroll d b)) (enroll_endpoint d b)"
proof -
  have a: "keeps (untouched (Enroll d b)) (allocate_ip c x)" for c x by (rule keeps_allocate) (simp add: stores_def)
  have g: "keeps (untouched (Enroll d b)) (generate_client_config c x y z)" for c x y z by (rule keeps_generate) (simp add: stores_def)
  have p: "keeps stores m \<Longrightarrow> keeps (untouched (Enroll d b)) m" for m :: "'x io" by (erule keeps_part) (simp add: stores_def)
  show ?thesis unfolding enroll_endpoint_def enroll_device_def validate_csr_def
    by (intro keeps_rules a g p [OF en_sign.call_stores] p [OF en_target.call_stores])
qed

lemma device_rest: "keeps (untouched (DeviceEvent ev)) (webhook_endpoint ev)"
proof -
  have a: "keeps (untouched (DeviceEvent ev)) (allocate_ip c x)" for c x by (rule keeps_allocate) (simp add: stores_def)
  have p: "keeps stores m \<Longrightarrow> keeps (untouched (DeviceEvent ev)) m" for m :: "'x io" by (erule keeps_part) (simp add: stores_def)
  show ?thesis unfolding webhook_endpoint_def thingsboard_webhook_def Let_def
    by (intro keeps_rules a p [OF wh_query.call_stores] p [OF wh_create.call_stores])
qed

lemma telemetry_rest: "keeps (untouched (Telemetry ev)) (telemetry_endpoint ev)"
proof -
  have m: "keeps (untouched (Telemetry ev)) (write_metrics c rows)" for c rows
    unfolding write_metrics_def get_pool_def execute_many_def
    by (intro keeps_rules keeps_now keeps_modify) (simp_all add: stores_def)
  show ?thesis unfolding telemetry_endpoint_def thingsboard_telemetry_def metric_row_of_def Let_def
    by (intro keeps_rules m)
qed

lemma select_rest: "keeps stores portal_select"
  unfolding portal_select_def by (intro keeps_rules)

lemma login_rest: "keeps (untouched (Login form)) (portal_login form)"
proof -
  have s: "keeps (untouched (Login form)) (session_set k v)" "keeps (untouched (Login form)) session_clear" for k v
    unfolding session_set_def session_clear_def by (rule keeps_modify, simp add: stores_def)+
  have p: "keeps stores m \<Longrightarrow> keeps (untouched (Login form)) m" for m :: "'x io" by (erule keeps_part) (simp add: stores_def)
  show ?thesis unfolding portal_login_def live_realm_def tenant_items_def start_login_def Let_def
    by (intro keeps_rules keeps_user_of keeps_match s p [OF keeps_stores(3)]) (simp_all add: stores_def)
qed

lemma callback_rest: "keeps (untouched (Callback cb)) (portal_callback cb)"
proof -
  have s: "keeps (untouched (Callback cb)) (session_set k v)" "keeps (untouched (Callback cb)) (session_pop k)" for k v
    unfolding session_set_def session_pop_def by (rule keeps_modify, simp add: stores_def)+
  have p: "keeps stores m \<Longrightarrow> keeps (untouched (Callback cb)) m" for m :: "'x io" by (erule keeps_part) (simp add: stores_def)
  show ?thesis unfolding portal_callback_def finish_login_def user_of_def session_get_def Let_def
    by (intro keeps_rules keeps_user_of s p [OF keeps_stores(3)])
qed


lemma logout_rest: "keeps (untouched Logout) portal_logout"
proof -
  have s: "keeps (untouched Logout) session_clear" unfolding session_clear_def by (rule keeps_modify) (simp add: stores_def)
  show ?thesis unfolding portal_logout_def session_get_def by (intro keeps_rules s)
qed

lemma pages_rest: "keeps stores portal_dashboard" "keeps stores admin_dashboard"
  unfolding portal_dashboard_def admin_dashboard_def session_get_def dashboard_realms_def dashboard_vhosts_def
    dashboard_provisioners_def kc_list_realms_def json_or_empty_def Let_def
  by (intro keeps_rules keeps_get_cdm_admin kc_token.call_stores rmq_list.call_stores sca_list.call_stores
      join_file.keeps_load)+

lemma tenants_rest: "keeps stores (create_tenant b)" "keeps stores (delete_tenant rid)" "keeps stores (add_oidc_provisioner rid b)"
  unfolding create_tenant_def delete_tenant_def add_oidc_provisioner_def delete_in_keycloak_def delete_in_rabbitmq_def Let_def
  by (intro keeps_rules keeps_get_cdm_admin keeps_body_text create_checked.call_stores kc_token.call_stores
      kc_delete.call_stores rmq_remove.call_stores sca_add.call_stores)+

lemma untouched_stores: "untouched Health = stores" "untouched SelectTenant = stores" "untouched Dashboard = stores"
  "untouched AdminDashboard = stores" "untouched (CreateTenant b) = stores" "untouched (DeleteTenant rid) = stores"
  "untouched (AddProvisioner rid b) = stores" "untouched ListJoins = stores" "untouched (JoinStatus t) = stores"
  "untouched (SubmitJoin t p) = (\<lambda>w. stores (w\<lparr>w_joins := None\<rparr>))" "untouched (ApproveJoin t) = (\<lambda>w. stores (w\<lparr>w_joins := None\<rparr>))"
  "untouched (RejectJoin t reason) = (\<lambda>w. stores (w\<lparr>w_joins := None\<rparr>))"
  "untouched (PrepareTenant pb auth) = (\<lambda>w. stores (w\<lparr>w_keys := None\<rparr>))" "untouched (JoinHandshake hp k) = (\<lambda>w. stores (w\<lparr>w_keys := None\<rparr>))"
  by (simp_all add: fun_eq_iff)

lemma keys_rest: "keeps (\<lambda>w. stores (w\<lparr>w_keys := None\<rparr>)) (prepare_tenant b auth)" "keeps (\<lambda>w. stores (w\<lparr>w_keys := None\<rparr>)) (join_handshake p k)"
proof -
  have g: "keeps (\<lambda>w. stores (w\<lparr>w_keys := None\<rparr>)) (create_key t d)" "keeps (\<lambda>w. stores (w\<lparr>w_keys := None\<rparr>)) (validate_and_consume x)" for t d x
    by (rule keeps_via [OF keeps_but_keys(1)] keeps_via [OF keeps_but_keys(2)],
        drule arg_cong [of _ _ stores], simp add: but_keys_def)+
  have p: "keeps stores m \<Longrightarrow> keeps (\<lambda>w. stores (w\<lparr>w_keys := None\<rparr>)) m" for m :: "'x io" by (erule keeps_part) (simp add: stores_def)
  show "keeps (\<lambda>w. stores (w\<lparr>w_keys := None\<rparr>)) (prepare_tenant b auth)"
    unfolding prepare_tenant_def check_tenant_id_def
    by (intro keeps_rules g p [OF bearer_guard.call_stores] p [OF keeps_stores(1)])
  show "keeps (\<lambda>w. stores (w\<lparr>w_keys := None\<rparr>)) (join_handshake p k)"
    unfolding join_handshake_def authenticate_key_def Let_def
    by (intro keeps_rules g p [OF j_run.call_stores])
qed

lemma joins_rest: "keeps (\<lambda>w. stores (w\<lparr>w_joins := None\<rparr>)) (submit_join_request t j)"
  "keeps (\<lambda>w. stores (w\<lparr>w_joins := None\<rparr>)) (approve_join_request t)"
  "keeps (\<lambda>w. stores (w\<lparr>w_joins := None\<rparr>)) (reject_join_request t reason)"
proof -
  have s: "keeps (\<lambda>w. stores (w\<lparr>w_joins := None\<rparr>)) (save_store d)" for d
    unfolding save_store_def by (rule keeps_modify) (simp add: stores_def)
  have l: "keeps g load_store" for g :: "world \<Rightarrow> 'x" by (rule join_file.keeps_load)
  have p: "keeps stores m \<Longrightarrow> keeps (\<lambda>w. stores (w\<lparr>w_joins := None\<rparr>)) m" for m :: "'x io" by (erule keeps_part) (simp add: stores_def)
  show "keeps (\<lambda>w. stores (w\<lparr>w_joins := None\<rparr>)) (submit_join_request t j)"
    unfolding submit_join_request_def check_tenant_id_def by (intro keeps_rules s l p [OF keeps_stores(1)])
  show "keeps (\<lambda>w. stores (w\<lparr>w_joins := None\<rparr>)) (approve_join_request t)"
    unfolding approve_join_request_def approve_check_def approve_commit_def get_request_def
    by (intro keeps_rules s l keeps_get_cdm_admin p [OF keeps_stores(1)] p [OF j_approve.call_stores])
  show "keeps (\<lambda>w. stores (w\<lparr>w_joins := None\<rparr>)) (reject_join_request t reason)"
    unfolding reject_join_request_def get_request_def
    by (intro keeps_rules s l keeps_get_cdm_admin p [OF keeps_stores(1)])
qed

lemma reads_rest: "keeps stores list_join_requests" "keeps stores (get_join_status t)"
  unfolding list_join_requests_def get_join_status_def get_request_def Let_def
  by (intro keeps_rules keeps_get_cdm_admin join_file.keeps_load)+

lemma serve_rest: "keeps (untouched c) (serve c)"
proof (cases c)
  case Health
  then show ?thesis by (simp add: keeps_answers health_def keeps_rules untouched_stores)
qed (simp_all add: keeps_answers enroll_rest device_rest telemetry_rest select_rest login_rest callback_rest logout_rest
    pages_rest tenants_rest keys_rest joins_rest reads_rest untouched_stores)


section \<open>The history of requests\<close>

text \<open>Every request the service sends is added to the history, whatever a handler does.\<close>

abbreviation logs :: "'a io \<Rightarrow> bool" where
  "logs m \<equiv> sends (\<lambda>_. True) m"

lemma logs_nothing: "keeps w_trace m \<Longrightarrow> logs m"
  by (rule sends_nothing)

lemmas logs_calls = en_sign.call_logs en_target.call_logs wh_query.call_logs wh_create.call_logs kc_token.call_logs
  kc_delete.call_logs rmq_list.call_logs rmq_remove.call_logs sca_list.call_logs sca_add.call_logs create_checked.call_logs
  bearer_guard.call_logs j_run.call_logs j_approve.call_logs

lemma logs_stores:
  "logs load_store" "logs (save_store d)" "logs (create_key t n)" "logs (validate_and_consume k)" "logs get_cdm_admin"
  "logs (write_metrics c rows)" "logs (session_get k j)" "logs (session_set k j)" "logs (session_pop k)" "logs session_clear"
  "logs (body_text b k n)" "logs (match_tenant n items)" "logs (known_roles p)" "logs (parse_tenants s)" "logs (tenant_name j i)"
  "logs (decode_jwt_payload tok)"
proof -
  show "logs (write_metrics c rows)"
    by (intro logs_nothing keeps_via [OF keeps_write_metrics]) (drule arg_cong [of _ _ w_trace], simp add: but_telemetry_def)
  show "logs (create_key t n)" "logs (validate_and_consume k)"
    by (intro logs_nothing keeps_via [OF keeps_but_keys(1)] keeps_via [OF keeps_but_keys(2)],
        drule arg_cong [of _ _ w_trace], simp add: but_keys_def)+
qed (simp_all add: logs_nothing join_file.keeps_load keeps_get_cdm_admin keeps_body_text keeps_match keeps_user_of save_store_def
    session_get_def session_set_def session_pop_def session_clear_def keeps_rules keeps_modify)

lemma devices_log: "logs (enroll_endpoint d b)" "logs (webhook_endpoint ev)" "logs (telemetry_endpoint ev)"
  unfolding enroll_endpoint_def enroll_device_def validate_csr_def webhook_endpoint_def thingsboard_webhook_def
    telemetry_endpoint_def thingsboard_telemetry_def metric_row_of_def Let_def
  by (intro sends_rules logs_calls logs_stores)+

lemma portal_logs: "logs (portal_login form)" "logs (portal_callback cb)" "logs portal_logout" "logs portal_dashboard"
  unfolding portal_login_def live_realm_def tenant_items_def start_login_def portal_callback_def finish_login_def user_of_def
    portal_logout_def portal_dashboard_def Let_def
  by (intro sends_rules logs_calls logs_stores; simp?)+

lemma admin_logs: "logs admin_dashboard" "logs (create_tenant j)" "logs (delete_tenant rid)" "logs (add_oidc_provisioner rid j)"
  unfolding admin_dashboard_def dashboard_realms_def dashboard_vhosts_def dashboard_provisioners_def kc_list_realms_def
    json_or_empty_def create_tenant_def delete_tenant_def delete_in_keycloak_def delete_in_rabbitmq_def add_oidc_provisioner_def Let_def
  by (intro sends_rules logs_calls logs_stores; simp?)+

lemma join_logs: "logs (prepare_tenant b auth)" "logs (join_handshake p k)" "logs (submit_join_request t q)" "logs list_join_requests"
  "logs (approve_join_request t)" "logs (reject_join_request t reason)" "logs (get_join_status t)"
  unfolding prepare_tenant_def check_tenant_id_def join_handshake_def authenticate_key_def submit_join_request_def
    list_join_requests_def approve_join_request_def approve_check_def approve_commit_def reject_join_request_def
    get_join_status_def get_request_def Let_def
  by (intro sends_rules logs_calls logs_stores; simp?)+

lemma serve_logs: "logs (serve c)"
proof -
  have a: "logs m \<Longrightarrow> logs (answers f m)" for m :: "'x io" and f unfolding answers_def by (intro sends_rules)
  show ?thesis
    by (cases c) (simp_all add: a health_def portal_select_def devices_log portal_logs admin_logs join_logs sends_rules)
qed

end
