(* ===== verification/ServiceRuns.thy ===== *)
theory ServiceRuns
  imports Service
begin

text \<open>
  Runs of the API: any sequence of requests of any clients, from the first start of the service. Between
  two requests the services behind it may do anything (\<open>e_http\<close> sees the whole history). A browser sends
  the session of a cookie it was given, and no other: the cookie is signed. It need not be the last one,
  since the cookie is all there is of a session; that a cookie ends after an hour is left out, which only
  adds runs.
\<close>

section \<open>Steps\<close>

type_synonym cookie = "(string, json) dict"

text \<open>An exception that is not an \<open>HTTPException\<close> is answered outside of the session middleware, without a cookie.\<close>

definition sets_cookie :: "exn + answer \<Rightarrow> bool" where
  "sets_cookie r = (case r of Inr _ \<Rightarrow> True | Inl x \<Rightarrow> (case x of HTTPException _ _ \<Rightarrow> True | _ \<Rightarrow> False))"

definition with_cookie :: "cookie \<Rightarrow> world \<Rightarrow> world" where
  "with_cookie s w = w\<lparr>w_session := s\<rparr>"

text \<open>
  The state is the world, the approvals that are in flight, and the cookies that were handed out. A request
  is handled in one step, except that an approval also runs stage by stage, with other requests between its stages;
  it does not change the session.
\<close>

inductive service_step :: "env \<Rightarrow> world \<times> approval list \<times> cookie set \<Rightarrow> world \<times> approval list \<times> cookie set \<Rightarrow> bool" for e where
  request: "s \<in> insert [] cookies \<Longrightarrow> serve c e (with_cookie s w) = (r, w') \<Longrightarrow>
    service_step e (w, as, cookies) (w', as, if sets_cookie r then insert (w_session w') cookies else cookies)"
| approval: "s \<in> insert [] cookies \<Longrightarrow> approve_stage e (with_cookie s w, as) (w', as') \<Longrightarrow>
    service_step e (w, as, cookies) (w', as', cookies)"

lemma with_cookie_simps [simp]:
  "w_session (with_cookie s w) = s" "w_trace (with_cookie s w) = w_trace w" "keys (with_cookie s w) = keys w"
  "joins (with_cookie s w) = joins w" "peers (with_cookie s w) = peers w" "w_keys (with_cookie s w) = w_keys w"
  "w_ticks (with_cookie s w) = w_ticks w"
  by (simp_all add: with_cookie_def keys_def joins_def peers_def)

lemma ok_with_cookie [simp]:
  "keys_ok (with_cookie s w) = keys_ok w" "joins_ok (with_cookie s w) = joins_ok w" "peers_ok c (with_cookie s w) = peers_ok c w"
  by (simp_all add: keys_ok_def joins_ok_def peers_ok_def)

section \<open>The invariant\<close>

definition cookie_ok :: "cookie \<Rightarrow> bool" where
  "cookie_ok s = session_ok (with_cookie s empty_world)"

definition stores_ok :: "env \<Rightarrow> world \<Rightarrow> bool" where
  "stores_ok e w \<longleftrightarrow> keys_ok w \<and> (\<forall>c. get_wg_config (e_settings e) = Inr c \<longrightarrow> peers_ok c w)"

lemma session_ok_cookie: "session_ok w = cookie_ok (w_session w)"
  by (simp add: cookie_ok_def session_ok_def session_user_def)

lemma empty_ok: "stores_ok e empty_world" "cookie_ok []" "joins_ok empty_world"
  by (simp_all add: stores_ok_def keys_ok_def joins_ok_def peers_ok_def keys_def joins_def peers_def dict_wf_def dict_values_def
      empty_world_def cookie_ok_def session_ok_def session_user_def)

lemma answered: "answers f m e w = (r, w') \<Longrightarrow> \<exists>r0. m e w = (r0, w')"
  by (auto simp: answers_def bnd_def run_simps split: sum.splits prod.splits)

text \<open>The requests that may change each of the stores.\<close>

definition key_call :: "call \<Rightarrow> bool" where
  "key_call c = (case c of PrepareTenant _ _ \<Rightarrow> True | JoinHandshake _ _ \<Rightarrow> True | _ \<Rightarrow> False)"

definition join_call :: "call \<Rightarrow> bool" where
  "join_call c = (case c of SubmitJoin _ _ \<Rightarrow> True | ApproveJoin _ \<Rightarrow> True | RejectJoin _ _ \<Rightarrow> True | _ \<Rightarrow> False)"

definition peer_call :: "call \<Rightarrow> bool" where
  "peer_call c = (case c of Enroll _ _ \<Rightarrow> True | DeviceEvent _ \<Rightarrow> True | _ \<Rightarrow> False)"

definition session_call :: "call \<Rightarrow> bool" where
  "session_call c = (case c of Login _ \<Rightarrow> True | Callback _ \<Rightarrow> True | Logout \<Rightarrow> True | _ \<Rightarrow> False)"

lemmas call_kinds = key_call_def join_call_def peer_call_def session_call_def

lemma untouched_part:
  "\<not> key_call c \<Longrightarrow> w_keys (untouched c w) = w_keys w" "\<not> join_call c \<Longrightarrow> w_joins (untouched c w) = w_joins w"
  "\<not> peer_call c \<Longrightarrow> w_peers (untouched c w) = w_peers w" "\<not> session_call c \<Longrightarrow> w_session (untouched c w) = w_session w"
  by (cases c; simp add: call_kinds stores_def)+

lemma serve_kept:
  assumes "serve c e w = (r, w')"
  shows "\<not> key_call c \<Longrightarrow> keys w' = keys w" "\<not> join_call c \<Longrightarrow> joins w' = joins w"
    "\<not> peer_call c \<Longrightarrow> peers w' = peers w" "\<not> session_call c \<Longrightarrow> w_session w' = w_session w"
  using keepsD [OF serve_rest assms] untouched_part [of c w] untouched_part [of c w']
  by (simp_all add: keys_def joins_def peers_def)

text \<open>What the requests that do change a store leave behind.\<close>

lemma prepare_cases:
  assumes "prepare_tenant b auth e w = (r, w')"
  obtains (kept) x where "r = Inl x" "keys w' = keys w"
  | (created) u w1 k w2 where "require_cdm_admin auth e w = (Inr u, w1)" "keys w1 = keys w"
      "create_key (pq_tenant_id b) (pq_display_name b) e w1 = (Inr k, w2)" "w_trace w' = w_trace w1" "keys w' = keys w2"
proof -
  obtain r1 w1 where g: "require_cdm_admin auth e w = (r1, w1)" by fastforce
  have k: "keys w1 = keys w" by (simp add: keys_def stores_fields(2) [OF bearer_guard.frame [OF g]])
  show ?thesis
  proof (cases r1)
    case (Inl x)
    with assms g k show ?thesis by (intro that(1)) (auto simp: prepare_tenant_def bnd_raise)
  next
    case (Inr u)
    obtain n key where c: "create_key (pq_tenant_id b) (pq_display_name b) e w1 = (Inr key, w1\<lparr>w_draws := n, w_ticks := Suc (w_ticks w1),
        w_keys := Some (dict_set key (new_key_entry key (pq_tenant_id b) (pq_display_name b) (e_now e (w_ticks w1))) (keys w1))\<rparr>)"
      by (rule create_key_run)
    from assms g Inr have run: "thn (check_tenant_id (pq_tenant_id b)) (bnd (create_key (pq_tenant_id b) (pq_display_name b)) (\<lambda>key.
        bnd now_utc (\<lambda>now. ret \<lparr>pr_tenant_id = pq_tenant_id b, pr_display_name = pq_display_name b, pr_join_key = key,
          pr_expires_at = isoformat (now + hours join_key_ttl_hours)\<rparr>))) e w1 = (r, w')"
      by (simp add: prepare_tenant_def bnd_value)
    show ?thesis
    proof (cases "valid_tenant_id (pq_tenant_id b)")
      case True
      with run c g Inr k show ?thesis
        by (intro that(2) [OF _ k c]) (auto simp: check_tenant_id_def run_simps bnd_value [where m = "create_key x y" for x y, OF c])
    next
      case False
      with run k show ?thesis by (intro that(1)) (auto simp: check_tenant_id_def run_simps)
    qed
  qed
qed

lemma key_calls_ok:
  "keys_ok w \<Longrightarrow> prepare_tenant b auth e w = (r, w') \<Longrightarrow> keys_ok w'"
  "keys_ok w \<Longrightarrow> join_handshake p k e w = (r', w'') \<Longrightarrow> keys_ok w''"
proof -
  have cong: "keys_ok v = keys_ok w" if "keys v = keys w" for v w using that by (simp add: keys_ok_def)
  show "keys_ok w'" if "keys_ok w" "prepare_tenant b auth e w = (r, w')"
    using that(2) by (cases rule: prepare_cases) (use that(1) cong create_preserves_ok in blast)+
  have "preserves keys_ok (validate_and_consume x)" for x by (rule preservesI) (rule consume_preserves_ok)
  moreover have "preserves keys_ok (run_provisioning t d p s)" for t d s
    by (rule preserves_keeps [OF j_run.keys_kept]) (simp add: keys_ok_def keys_def)
  ultimately have "preserves keys_ok (join_handshake p k)"
    unfolding join_handshake_def authenticate_key_def Let_def
    by (intro preserves_rules) (auto intro: preserves_rules split: exn.split)
  then show "keys_ok w \<Longrightarrow> join_handshake p k e w = (r', w'') \<Longrightarrow> keys_ok w''" by (rule preservesD)
qed

lemma peer_calls_ok:
  assumes "get_wg_config (e_settings e) = Inr c" "peers_ok c w"
  shows "enroll_endpoint d b e w = (r, w') \<Longrightarrow> peers_ok c w'" "webhook_endpoint ev e w = (r', w'') \<Longrightarrow> peers_ok c w''"
proof -
  have "enroll_endpoint d b e w = enroll_device (get_step_ca_client (e_settings e)) (get_hawkbit_client (e_settings e)) c d b e w"
    "webhook_endpoint ev e w = thingsboard_webhook (get_hawkbit_client (e_settings e)) c ev e w"
    using assms(1) by (simp_all add: enroll_endpoint_def webhook_endpoint_def run_bnd_settings lift_sum_def run_bnd_ret)
  then show "enroll_endpoint d b e w = (r, w') \<Longrightarrow> peers_ok c w'" "webhook_endpoint ev e w = (r', w'') \<Longrightarrow> peers_ok c w''"
    using preservesD [OF enroll_preserves(1)] preservesD [OF webhook_preserves(1)] assms(2) by metis+
qed

lemma session_calls_ok:
  assumes "cookie_ok (w_session w)"
  shows "portal_login f e w = (r, w') \<Longrightarrow> cookie_ok (w_session w')" "portal_callback cb e w = (r, w') \<Longrightarrow> cookie_ok (w_session w')"
    "portal_logout e w = (r, w') \<Longrightarrow> cookie_ok (w_session w')"
proof -
  show "cookie_ok (w_session w')" if "portal_login f e w = (r, w')"
    using that by (cases rule: login_cases) (use assms in \<open>simp_all add: cookie_ok_def session_ok_def session_user_def\<close>)
  show "cookie_ok (w_session w')" if "portal_callback cb e w = (r, w')"
    using that
  proof (cases rule: callback_cases)
    case (login code st tid p u)
    then show ?thesis by (auto simp: cookie_ok_def session_ok_def session_user_def logged_in_def)
  qed (use assms in simp)
  show "cookie_ok (w_session w')" if "portal_logout e w = (r, w')"
    using logout_cases [OF that] assms empty_ok(2) by auto
qed

lemma serve_ok:
  assumes "stores_ok e w" "cookie_ok (w_session w)" "serve c e w = (r, w')"
  shows "stores_ok e w' \<and> cookie_ok (w_session w')"
proof (intro conjI)
  note kept = serve_kept [OF assms(3)]
  have "keys_ok w'"
  proof (cases "key_call c")
    case True
    then consider b auth where "c = PrepareTenant b auth" | p k where "c = JoinHandshake p k"
      by (auto simp: key_call_def split: call.splits)
    then show ?thesis
      using assms(1,3) by cases (auto simp: stores_ok_def dest!: answered dest: key_calls_ok(1) key_calls_ok(2))
  next
    case False
    with kept(1) assms(1) show ?thesis by (simp add: stores_ok_def keys_ok_def)
  qed
  moreover have "peers_ok cfg w'" if "get_wg_config (e_settings e) = Inr cfg" for cfg
  proof (cases "peer_call c")
    case True
    then consider d b where "c = Enroll d b" | ev where "c = DeviceEvent ev"
      by (auto simp: peer_call_def split: call.splits)
    moreover have "peers_ok cfg w" using assms(1) that by (simp add: stores_ok_def)
    ultimately show ?thesis
      using assms(3) by cases (auto dest!: answered dest: peer_calls_ok(1) [OF that] peer_calls_ok(2) [OF that])
  next
    case False
    with kept(3) assms(1) that show ?thesis by (simp add: stores_ok_def peers_ok_def)
  qed
  ultimately show "stores_ok e w'" by (simp add: stores_ok_def)
  show "cookie_ok (w_session w')"
  proof (cases "session_call c")
    case True
    then consider f where "c = Login f" | cb where "c = Callback cb" | "c = Logout"
      by (auto simp: session_call_def split: call.splits)
    then show ?thesis
      using assms(2,3) by cases (auto dest!: answered dest: session_calls_ok(1) session_calls_ok(2) session_calls_ok(3))
  next
    case False
    with kept(4) assms(2) show ?thesis by simp
  qed
qed

lemma stores_ok_cookie [simp]: "stores_ok e (with_cookie s w) = stores_ok e w"
  by (simp add: stores_ok_def)

text \<open>The stages of an approval change the file of requests only.\<close>

lemma stage_rest: "keeps (\<lambda>w. stores (w\<lparr>w_joins := None\<rparr>)) (thn get_cdm_admin (approve_check t))"
  "keeps (\<lambda>w. stores (w\<lparr>w_joins := None\<rparr>)) (approve_provision s t x)"
  "keeps (\<lambda>w. stores (w\<lparr>w_joins := None\<rparr>)) (approve_commit s t b)"
proof -
  have p: "keeps stores m \<Longrightarrow> keeps (\<lambda>w. stores (w\<lparr>w_joins := None\<rparr>)) m" for m :: "'x io" by (erule keeps_part) (simp add: stores_def)
  have v: "keeps (\<lambda>w. stores (w\<lparr>w_joins := None\<rparr>)) (save_store d)" for d
    unfolding save_store_def by (rule keeps_modify) (simp add: stores_def)
  show "keeps (\<lambda>w. stores (w\<lparr>w_joins := None\<rparr>)) (approve_provision s t x)" by (rule p [OF j_approve.call_stores])
  show "keeps (\<lambda>w. stores (w\<lparr>w_joins := None\<rparr>)) (thn get_cdm_admin (approve_check t))"
    "keeps (\<lambda>w. stores (w\<lparr>w_joins := None\<rparr>)) (approve_commit s t b)"
    unfolding approve_check_def approve_commit_def get_request_def
    by (intro keeps_rules v join_file.keeps_load keeps_get_cdm_admin p [OF keeps_stores(1)])+
qed

lemma stage_logs: "logs (thn get_cdm_admin (approve_check t))" "logs (approve_provision s t x)" "logs (approve_commit s t b)"
  unfolding approve_check_def approve_commit_def get_request_def
  by (intro sends_rules logs_calls logs_stores)+

lemma stage_run:
  assumes "approve_stage e (w, as) (w', as')"
  obtains (kept) "keys w' = keys w" "peers w' = peers w" "w_session w' = w_session w" "\<exists>rs. w_trace w' = w_trace w @ rs"
proof -
  have run: thesis if "keeps (\<lambda>w. stores (w\<lparr>w_joins := None\<rparr>)) m" "logs m" "m e w = (r, w')" for m :: "'x io" and r
  proof (rule kept)
    let ?a = "ApproveJoin []"
    have "untouched ?a w' = untouched ?a w" using keepsD [OF that(1,3)] by simp
    then show "keys w' = keys w" "peers w' = peers w" "w_session w' = w_session w"
      using untouched_part [of ?a w] untouched_part [of ?a w'] by (simp_all add: call_kinds keys_def peers_def del: untouched.simps)
    show "\<exists>rs. w_trace w' = w_trace w @ rs" by (rule sendsE [OF that(2,3)]) blast
  qed
  from assms show thesis
    by (cases rule: approve_stage.cases) (auto intro: run [OF stage_rest(1) stage_logs(1)] run [OF stage_rest(2) stage_logs(2)]
      run [OF stage_rest(3) stage_logs(3)])
qed

text \<open>What a run of the service does to the file of requests is a run of the approval flow.\<close>

lemma service_step_flow:
  assumes "service_step e (w, as, cs) (w', as', cs')"
  shows "(flow_step e)\<^sup>*\<^sup>* (w, as) (w', as')"
proof -
  have enter: "flow_step e (w, as) (with_cookie s w, as)" for s by (rule flow_step.elsewhere) simp
  have "\<exists>s. (flow_step e)\<^sup>*\<^sup>* (with_cookie s w, as) (w', as')"
    using assms
  proof (cases rule: service_step.cases)
    case (request s c r)
    show ?thesis
    proof (cases "join_call c")
      case False
      with serve_kept(2) [OF request(4)] have "flow_step e (with_cookie s w, as) (w', as)" by (intro flow_step.elsewhere) simp
      with request(1) show ?thesis by blast
    next
      case True
      then consider t p where "c = SubmitJoin t p" | t where "c = ApproveJoin t" | t m where "c = RejectJoin t m"
        by (auto simp: join_call_def split: call.splits)
      then show ?thesis
      proof cases
        case 1
        with request(4) answered obtain r0 where "submit_join_request t p e (with_cookie s w) = (r0, w')" by fastforce
        from flow_step.submit [OF this, of as] request(1) show ?thesis by blast
      next
        case 3
        with request(4) answered obtain r0 where "reject_join_request t m e (with_cookie s w) = (r0, w')" by fastforce
        from flow_step.reject [OF this, of as] request(1) show ?thesis by blast
      next
        case 2
        with request(4) answered obtain r0 where a: "approve_join_request t e (with_cookie s w) = (r0, w')" by fastforce
        have "(flow_step e)\<^sup>*\<^sup>* (with_cookie s w, as) (w', as)"
          using a
        proof (cases rule: approve_cases)
          case (failed x)
          then show ?thesis by (intro r_into_rtranclp flow_step.elsewhere) simp
        next
          case approved
          with a show ?thesis by (auto intro: approval_is_flow)
        qed
        with request(1) show ?thesis by blast
      qed
    qed
  next
    case (approval s)
    from flow_step.approval [OF approval(3)] show ?thesis by blast
  qed
  with enter show ?thesis by (blast intro: converse_rtranclp_into_rtranclp)
qed

lemma service_flow:
  assumes "(service_step e)\<^sup>*\<^sup>* (w, as, cs) (w', as', cs')"
  shows "(flow_step e)\<^sup>*\<^sup>* (w, as) (w', as')"
  using assms
proof (induction "(w', as', cs')" arbitrary: w' as' cs' rule: rtranclp_induct)
  case (step y)
  obtain w1 as1 cs1 where y: "y = (w1, as1, cs1)" by (cases y)
  from step(3) [OF y] service_step_flow [OF step(2) [unfolded y]] show ?case by (rule rtranclp_trans)
qed simp

lemma service_ok:
  assumes "(service_step e)\<^sup>*\<^sup>* (empty_world, [], {}) (w, as, cookies)"
  shows "stores_ok e w \<and> (\<forall>s\<in>cookies. cookie_ok s)"
  using assms
proof (induction "(w, as, cookies)" arbitrary: w as cookies rule: rtranclp_induct)
  case base
  show ?case by (simp add: empty_ok)
next
  case (step y)
  from step(2) show ?case
  proof (cases rule: service_step.cases)
    case (request s cs c w0 r)
    from step(3) [OF request(1)] have ok: "stores_ok e w0" "\<forall>s\<in>cs. cookie_ok s" by simp_all
    with request(3) empty_ok(2) have "cookie_ok s" by auto
    with serve_ok [of e "with_cookie s w0" c r w] ok request show ?thesis by auto
  next
    case (approval s w0 as0)
    from approval(3) show ?thesis
      by (rule stage_run) (use step(3) [OF approval(1)] in \<open>simp add: stores_ok_def keys_ok_def peers_ok_def\<close>)
  qed
qed

section \<open>Administrators in the history\<close>

text \<open>The token endpoint of the realm \<open>cdm\<close> has accepted an authorisation code.\<close>

definition cdm_login :: "env \<Rightarrow> request list \<Rightarrow> bool" where
  "cdm_login e tr \<longleftrightarrow> (\<exists>pre post code p. tr = pre @ token_post (e_settings e) ''cdm'' code # post \<and>
     e_http e pre (token_post (e_settings e) ''cdm'' code) = Answer p \<and> rs_status p = 200)"

text \<open>Keycloak has accepted a bearer token whose claims have an administrator's role.\<close>

definition admin_token :: "env \<Rightarrow> string \<Rightarrow> bool" where
  "admin_token e token \<longleftrightarrow> (\<exists>w claims roles rs. token_claims token e w = (Inr claims, w) \<and>
     claim_roles claims e w = (Inr roles, w) \<and> set_of roles e w = (Inr rs, w) \<and> has_role rs admin_roles)"

definition bearer_accepted :: "env \<Rightarrow> request list \<Rightarrow> bool" where
  "bearer_accepted e tr \<longleftrightarrow> (\<exists>pre post token p. tr = pre @ userinfo_get (e_settings e) token # post \<and>
     e_http e pre (userinfo_get (e_settings e) token) = Answer p \<and> is_success p \<and> admin_token e token)"

definition admin_seen :: "env \<Rightarrow> request list \<Rightarrow> bool" where
  "admin_seen e tr \<longleftrightarrow> cdm_login e tr \<or> bearer_accepted e tr"

lemma seen_grows: "cdm_login e tr \<Longrightarrow> cdm_login e (tr @ rs)" "admin_seen e tr \<Longrightarrow> admin_seen e (tr @ rs)"
  unfolding admin_seen_def cdm_login_def bearer_accepted_def by (metis append.assoc append_Cons)+

lemma serve_grows:
  assumes "serve c e w = (r, w')"
  shows "cdm_login e (w_trace w) \<Longrightarrow> cdm_login e (w_trace w')" "admin_seen e (w_trace w) \<Longrightarrow> admin_seen e (w_trace w')"
  using sendsE [OF serve_logs assms] by (metis seen_grows(1), metis seen_grows(2))

definition admin_cookie :: "cookie \<Rightarrow> bool" where
  "admin_cookie s = is_cdm_admin (with_cookie s empty_world)"

lemma is_admin_cookie: "is_cdm_admin w = admin_cookie (w_session w)"
  by (simp add: admin_cookie_def is_cdm_admin_def session_user_def)

lemma no_admin_cookie: "\<not> admin_cookie []"
  by (simp add: admin_cookie_def is_cdm_admin_def session_user_def)

text \<open>A session becomes an administrator's by a login at the realm \<open>cdm\<close> only.\<close>

lemma new_admin_cookie:
  assumes "serve c e w = (r, w')" "admin_cookie (w_session w')" "\<not> admin_cookie (w_session w)"
  shows "cdm_login e (w_trace w')"
proof -
  have "session_call c" using serve_kept(4) [OF assms(1)] assms(2,3) by metis
  then consider f where "c = Login f" | cb where "c = Callback cb" | "c = Logout"
    by (auto simp: session_call_def split: call.splits)
  then show ?thesis
  proof cases
    case 1
    then obtain r0 where "portal_login f e w = (r0, w')" using assms(1) answered by fastforce
    then show ?thesis
      by (cases rule: login_cases) (use assms(2,3) in \<open>simp_all add: admin_cookie_def is_cdm_admin_def session_user_def\<close>)
  next
    case 2
    then obtain r0 where "portal_callback cb e w = (r0, w')" using assms(1) answered by fastforce
    then show ?thesis
    proof (cases rule: callback_cases)
      case (login code st tid p u)
      then have "session_user w' = u" by (simp add: session_user_def)
      with login(11) assms(2) have "tid = JStr ''cdm''"
        by (auto simp: is_admin_cookie [symmetric] is_cdm_admin_def logged_in_def)
      with login(9,10,13) show ?thesis by (auto simp: cdm_login_def py_str_def)
    qed (use assms(2,3) in simp)
  next
    case 3
    then obtain r0 where "portal_logout e w = (r0, w')" using assms(1) answered by fastforce
    from logout_cases [OF this] assms(2,3) no_admin_cookie show ?thesis by auto
  qed
qed

text \<open>The first key is made by an administrator.\<close>

lemma new_key:
  assumes "serve c e w = (r, w')" "keys w' \<noteq> []" "keys w = []" "cookie_ok (w_session w)" "\<not> admin_cookie (w_session w)"
  shows "bearer_accepted e (w_trace w')"
proof -
  have "key_call c" using serve_kept(1) [OF assms(1)] assms(2,3) by metis
  then consider b auth where "c = PrepareTenant b auth" | p k where "c = JoinHandshake p k"
    by (auto simp: key_call_def split: call.splits)
  then show ?thesis
  proof cases
    case 1
    then obtain r0 where "prepare_tenant b auth e w = (r0, w')" using assms(1) answered by fastforce
    then show ?thesis
    proof (cases rule: prepare_cases)
      case (created u w1 k w2)
      from created(1) show ?thesis
      proof (cases rule: require_value)
        case session
        with guard_run [of w e] assms(4,5) show ?thesis by (simp add: session_ok_cookie is_admin_cookie)
      next
        case (bearer token p claims roles rs)
        have "admin_token e token" unfolding admin_token_def using bearer(5-8) by blast
        with bearer(2-4) created(4) show ?thesis unfolding bearer_accepted_def by fastforce
      qed
    qed (use assms(2,3) in simp)
  next
    case 2
    have "preserves (\<lambda>w. keys w = []) (validate_and_consume x)" for x
      by (rule preservesI) (use consume_missing in force)
    moreover have "preserves (\<lambda>w. keys w = []) (run_provisioning t d p s)" for t d s
      by (rule preserves_keeps [OF j_run.keys_kept]) (simp add: keys_def)
    ultimately have "preserves (\<lambda>w. keys w = []) (join_handshake p k)"
      unfolding join_handshake_def authenticate_key_def Let_def
      by (intro preserves_rules) (auto intro: preserves_rules split: exn.split)
    moreover obtain r0 where "join_handshake p k e w = (r0, w')" using 2 assms(1) answered by fastforce
    ultimately have "keys w' = []" using assms(3) by (rule preservesD)
    with assms(2) show ?thesis by simp
  qed
qed

lemma admins_logged_in:
  assumes "(service_step e)\<^sup>*\<^sup>* (empty_world, [], {}) (w, as, cookies)"
  shows "(\<forall>s\<in>cookies. admin_cookie s \<longrightarrow> cdm_login e (w_trace w)) \<and> (keys w \<noteq> [] \<longrightarrow> admin_seen e (w_trace w))"
  using assms
proof (induction "(w, as, cookies)" arbitrary: w as cookies rule: rtranclp_induct)
  case base
  show ?case by (simp add: keys_def empty_world_def)
next
  case (step y)
  from step(2) show ?case
  proof (cases rule: service_step.cases)
    case (request s cs c w0 r)
    from step(3) [OF request(1)] have old: "\<forall>s\<in>cs. admin_cookie s \<longrightarrow> cdm_login e (w_trace w0)"
      "keys w0 \<noteq> [] \<longrightarrow> admin_seen e (w_trace w0)" by simp_all
    have s: "admin_cookie s \<Longrightarrow> cdm_login e (w_trace w0)" using request(3) old(1) no_admin_cookie by auto
    have "cookie_ok s" using service_ok [of e w0 as cs] step(1) request(1,3) empty_ok(2) by auto
    note run = request(4) and grows = serve_grows [OF request(4)]
    have "admin_cookie (w_session w) \<Longrightarrow> cdm_login e (w_trace w)"
      using new_admin_cookie [OF run] grows(1) s by auto
    moreover have "keys w \<noteq> [] \<Longrightarrow> admin_seen e (w_trace w)"
      using new_key [OF run] old(2) grows(2) s \<open>cookie_ok s\<close> by (auto simp: admin_seen_def)
    ultimately show ?thesis using old(1) grows(1) request(2) by auto
  next
    case (approval s w0 as0)
    from step(3) [OF approval(1)] have old: "\<forall>s\<in>cookies. admin_cookie s \<longrightarrow> cdm_login e (w_trace w0)"
      "keys w0 \<noteq> [] \<longrightarrow> admin_seen e (w_trace w0)" by simp_all
    from approval(3) show ?thesis by (rule stage_run) (use old seen_grows in force)
  qed
qed

text \<open>The operations of the admin portal.\<close>

definition admin_call :: "call \<Rightarrow> bool" where
  "admin_call c = (case c of AdminDashboard \<Rightarrow> True | CreateTenant _ \<Rightarrow> True | DeleteTenant _ \<Rightarrow> True
     | AddProvisioner _ _ \<Rightarrow> True | _ \<Rightarrow> False)"

section \<open>Properties\<close>

text \<open>C5. Whatever the clients request, whatever the services behind answer, and however other requests come between
  the stages of an approval, the files of the service stay well-formed, and so does every session it hands
  out; and the entry that an approval in flight is going to update is there.\<close>

theorem service_invariant:
  assumes "(service_step e)\<^sup>*\<^sup>* (empty_world, [], {}) (w, as, cookies)"
  shows "keys_ok w \<and> joins_ok w \<and> (\<forall>a\<in>set as. dict_get (joins w) (approval_tenant a) \<noteq> None) \<and>
    (\<forall>c. get_wg_config (e_settings e) = Inr c \<longrightarrow> peers_ok c w) \<and> (\<forall>s\<in>cookies. session_ok (with_cookie s w))"
proof -
  have "flow_ok (w, as)" using flow_reach_ok [OF service_flow [OF assms]] empty_ok(3) by (simp add: flow_ok_def)
  with service_ok [OF assms] show ?thesis by (simp add: stores_ok_def flow_ok_def session_ok_cookie)
qed

text \<open>C6. A request changes no store but the one of its own component: enrolment the addresses, telemetry its
  table, the portal the session, the JOIN workflow its two files, and everything else nothing at all.\<close>

theorem service_footprint:
  assumes "serve c e w = (r, w')"
  shows "untouched c w' = untouched c w"
  using serve_rest assms by (rule keepsD)

text \<open>C3. The operations of the admin portal need a login: in every run of the service, when one of them sends
  anything to Keycloak, RabbitMQ or step-ca, the token endpoint of the realm \<open>cdm\<close> has accepted a code before.\<close>

theorem admin_needs_login:
  assumes "(service_step e)\<^sup>*\<^sup>* (empty_world, [], {}) (w, as, cookies)" "s \<in> insert [] cookies" "admin_call c"
    "serve c e (with_cookie s w) = (r, w')" "w_trace w' \<noteq> w_trace w"
  shows "cdm_login e (w_trace w)"
proof (rule ccontr)
  assume no: "\<not> cdm_login e (w_trace w)"
  have "cookie_ok s" using service_ok [OF assms(1)] assms(2) empty_ok(2) by auto
  moreover have "\<not> admin_cookie s" using admins_logged_in [OF assms(1)] assms(2) no no_admin_cookie by auto
  ultimately have g: "session_ok (with_cookie s w)" "\<not> is_cdm_admin (with_cookie s w)"
    by (simp_all add: session_ok_cookie is_admin_cookie)
  note refused = create_guard.refused [OF g] delete_guard.refused [OF g] provisioner_guard.refused [OF g] dashboard_guard.refused [OF g]
  have "w' = with_cookie s w"
    using assms(3,4) by (cases c) (simp_all add: admin_call_def answers_def bnd_def refused run_simps)
  with assms(5) show False by simp
qed

text \<open>C2. A tenant gets its bundle through the handshake only after an administrator was there: in every run of
  the service, a handshake that returns was preceded by a login at the realm \<open>cdm\<close> or by an administrator's
  bearer token that Keycloak accepted.\<close>

theorem handshake_needs_admin:
  assumes "(service_step e)\<^sup>*\<^sup>* (empty_world, [], {}) (w, as, cookies)"
    "serve (JoinHandshake p k) e (with_cookie s w) = (Inr a, w')"
  shows "admin_seen e (w_trace w)"
proof -
  from assms(2) obtain b where "join_handshake p k e (with_cookie s w) = (Inr b, w')"
    by (auto simp: answers_def run_simps elim!: bnd_InrE)
  then have "keys w \<noteq> []"
  proof (cases rule: handshake_run)
    case (run ent w1)
    have "dict_get (keys w) (presented_key k) \<noteq> None"
      using run(2) consume_missing [of "with_cookie s w" "presented_key k" e] by auto
    then show ?thesis by auto
  qed simp
  with admins_logged_in [OF assms(1)] show ?thesis by blast
qed

text \<open>C4. The approval flow needs nobody: whatever the service has stored, a client that shows neither cookie nor
  token submits a CSR for a tenant that is not approved yet, approves its own request and polls the
  certificate. All it takes is that, in this very run, step-ca signs the CSR when the approval asks for it,
  and the bridge CSR if there is one; what the broker and Keycloak answer does not matter.\<close>

theorem stranger_gets_certificate:
  assumes "valid_tenant_id t" "status_of w t \<noteq> Some Approved" "serve (SubmitJoin t p) e (with_cookie [] w) = (r, w1)"
    "sign_sub_ca (e_settings e) (jp_sub_ca_csr p) t e (with_cookie [] w1) = (Inr ((JStr crt, JStr root), None), v1)"
    "provision_broker (e_settings e) t e v1 = (Inr e2, v2)"
    "sign_mqtt_bridge (e_settings e) (jp_mqtt_bridge_csr p) t e v2 = (Inr (JStr bridge, e3), v3)"
  shows "(\<exists>j. r = Inr (APage (JSONResponse 202 j))) \<and> (\<exists>k w2 st w3.
    serve (ApproveJoin t) e (with_cookie [] w1) = (Inr (APage (JSONResponse 200 k)), w2) \<and>
    serve (JoinStatus t) e (with_cookie [] w2) = (Inr (AStatus st), w3) \<and> js_signed_cert st = Some crt \<and>
    js_root_ca_cert st = Some root \<and> js_mqtt_bridge_cert st = Some bridge)"
proof -
  obtain r0 where s0: "submit_join_request t p e (with_cookie [] w) = (r0, w1)"
    using assms(3) answered by fastforce
  have nap: "status_of (with_cookie [] w) t \<noteq> Some Approved" using assms(2) by (simp add: status_of_def)
  obtain j now where s: "submit_join_request t p e (with_cookie [] w) = (Inr (JSONResponse 202 j), w1)"
      "joins w1 = dict_set t (new_join_entry t p now) (joins w)"
    using s0 by (cases rule: submit_cases) (use s0 assms(1) nap in auto)
  let ?x = "new_join_entry t p now" and ?v = "with_cookie [] w1"
  have x: "dict_get (joins ?v) t = Some ?x" "je_status ?x = Pending" "je_mqtt_bridge_csr ?x = jp_mqtt_bridge_csr p"
    "je_sub_ca_csr ?x = jp_sub_ca_csr p"
    using s(2) by (simp_all add: new_join_entry_def)
  have ok: "session_ok ?v" by (simp add: session_ok_def session_user_def)
  obtain b v4 where b: "approve_provision (e_settings e) t ?x e ?v = (Inr b, v4)" "bn_signed_cert b = JStr crt"
    "bn_root_ca_cert b = JStr root" "bn_mqtt_bridge_cert b = JStr bridge"
    using provision_run(2) [of "e_settings e" ?x t e ?v, OF _ assms(5)] assms(4,6) x(3,4) by metis
  let ?y = "approved_entry (e_settings e) t b (e_now e (w_ticks v4)) ?x"
  from approval_run [OF ok x(1,2) b(1)] obtain k w2 where a: "approve_join_request t e ?v = (Inr (JSONResponse 200 k), w2)"
    "joins w2 = dict_set t ?y (joins ?v)" by (metis joins_simps)
  have y: "je_signed_cert ?y = JStr crt" "je_root_ca_cert ?y = JStr root" "je_mqtt_bridge_cert ?y = JStr bridge"
    by (simp_all add: approved_entry_def b)
  have "get_request t e (with_cookie [] w2) = (Inr ?y, with_cookie [] w2)" using a(2) by (simp add: get_request_run)
  moreover have "as_opt_str (JStr x) = ret (Some x)" for x
    by (simp add: as_opt_str_def as_str_def fun_eq_iff bnd_def run_simps)
  ultimately obtain st where "get_join_status t e (with_cookie [] w2) = (Inr st, with_cookie [] w2)" "js_signed_cert st = Some crt"
    "js_root_ca_cert st = Some root" "js_mqtt_bridge_cert st = Some bridge"
    by (simp add: get_join_status_def bnd_value [where m = "get_request t"] y run_simps)
  with s(1) a(1) assms(3) show ?thesis by (auto simp: answers_def bnd_value run_simps)
qed

end
