(* ===== verification/ServiceWitnesses.thy ===== *)
theory ServiceWitnesses
  imports PortalWitnesses ServiceRuns
begin

text \<open>
  Runs of the API in the sample deployment: an administrator logs in and deletes a tenant, an
  administrator's bearer token makes a key with which a tenant joins, and a stranger joins by himself.
\<close>

section \<open>The first request\<close>

lemma first_request:
  "serve c e (with_cookie [] empty_world) = (r, w) \<Longrightarrow> sets_cookie r \<Longrightarrow> (service_step e)\<^sup>*\<^sup>* (empty_world, [], {}) (w, [], {w_session w})"
  using service_step.request [of "[]" "{}" c e empty_world r w "[]"] by (auto intro: r_into_rtranclp)

lemma no_cookie: "with_cookie [] empty_world = empty_world"
  by (simp add: with_cookie_def empty_world_def)

lemma sample_submit:
  obtains j w where "serve (SubmitJoin ''acme'' sample_request) sample_env (with_cookie [] empty_world) = (Inr (APage j), w)"
    "joins w = [(''acme'', new_join_entry ''acme'' sample_request 0)]"
proof -
  obtain j w where "submit_join_request ''acme'' sample_request sample_env empty_world = (Inr j, w)"
    "joins w = [(''acme'', new_join_entry ''acme'' sample_request 0)]"
    using sample_valid by (simp add: submit_join_request_def check_tenant_id_def run_simps join_file.load_bnd join_file.save_thn
        save_store_def joins_def empty_world_def dict_set_def sample_simps)
  then show ?thesis by (intro that) (simp_all add: no_cookie answers_def bnd_value run_simps)
qed

text \<open>A request is submitted, and its approval has begun.\<close>

lemma service_invariant_witness:
  "\<exists>w a s. (service_step sample_env)\<^sup>*\<^sup>* (empty_world, [], {}) (w, [a], {s}) \<and> dict_get (joins w) (approval_tenant a) \<noteq> None \<and> joins_ok w"
proof -
  obtain j w where s: "serve (SubmitJoin ''acme'' sample_request) sample_env (with_cookie [] empty_world) = (Inr (APage j), w)"
    "joins w = [(''acme'', new_join_entry ''acme'' sample_request 0)]" by (rule sample_submit)
  let ?x = "new_join_entry ''acme'' sample_request 0" and ?v = "with_cookie [] w"
  from first_request [OF s(1)] have r: "(service_step sample_env)\<^sup>*\<^sup>* (empty_world, [], {}) (w, [], {w_session w})" by (simp add: sets_cookie_def)
  have "session_ok ?v" by (simp add: session_ok_def session_user_def)
  then have "thn get_cdm_admin (approve_check ''acme'') sample_env ?v = (Inr ?x, ?v)"
    using s(2) by (simp add: run_thn bnd_value [where m = get_cdm_admin, OF guard_run] approve_check_def bnd_def [of "get_request t" for t]
        get_request_run run_simps new_join_entry_def)
  from service_step.approval [OF _ approve_stage.start [OF this], of "{w_session w}" "[]"] r
  have f: "(service_step sample_env)\<^sup>*\<^sup>* (empty_world, [], {}) (?v, [Provisioning ''acme'' ?x], {w_session w})"
    by (simp add: rtranclp.rtrancl_into_rtrancl)
  from service_invariant [OF f] have "dict_get (joins ?v) (approval_tenant (Provisioning ''acme'' ?x)) \<noteq> None" "joins_ok ?v" by simp_all
  with f show ?thesis by blast
qed

lemma service_footprint_witness: "w_keys (snd (serve (SubmitJoin ''acme'' sample_request) sample_env empty_world)) = None"
proof -
  obtain r w where s: "serve (SubmitJoin ''acme'' sample_request) sample_env empty_world = (r, w)" by fastforce
  from arg_cong [OF service_footprint [OF s], of w_keys] s show ?thesis by (simp add: stores_def empty_world_def)
qed

text \<open>A stranger joins, after the tenant \<open>rival\<close> has been approved.\<close>

lemma stranger_gets_certificate_witness:
  "\<exists>w j w1 k w2 st w3. status_of w ''rival'' = Some Approved \<and>
     serve (SubmitJoin ''acme'' sample_request) sample_env (with_cookie [] w) = (Inr (APage (JSONResponse 202 j)), w1) \<and>
     serve (ApproveJoin ''acme'') sample_env (with_cookie [] w1) = (Inr (APage (JSONResponse 200 k)), w2) \<and>
     serve (JoinStatus ''acme'') sample_env (with_cookie [] w2) = (Inr (AStatus st), w3) \<and> js_signed_cert st = Some ''CERT''"
proof -
  define w where "w = empty_world\<lparr>w_joins := Some [(''rival'', (new_join_entry ''rival'' sample_request 0)\<lparr>je_status := Approved\<rparr>)]\<rparr>"
  let ?s = "e_settings sample_env"
  have o: "status_of w ''rival'' = Some Approved" "status_of w ''acme'' \<noteq> Some Approved" by (simp_all add: w_def status_of_def joins_def)
  obtain r w1 where s: "serve (SubmitJoin ''acme'' sample_request) sample_env (with_cookie [] w) = (r, w1)" by fastforce
  obtain v1 where c: "sign_sub_ca ?s (jp_sub_ca_csr sample_request) ''acme'' sample_env (with_cookie [] w1) =
      (Inr ((JStr ''CERT'', JStr ''CA''), None), v1)"
    using sample_sign_sub_ca by (auto simp: sample_simps sample_request_def)
  obtain e2 v2 where b: "provision_broker ?s ''acme'' sample_env v1 = (Inr e2, v2)" using broker_never_raises by blast
  have m: "sign_mqtt_bridge ?s (jp_mqtt_bridge_csr sample_request) ''acme'' sample_env v2 = (Inr (JStr [], None), v2)"
    by (simp add: sample_request_def bridge_skipped run_simps)
  from stranger_gets_certificate [OF sample_valid o(2) s c b m] o(1) s show ?thesis by blast
qed

section \<open>A key\<close>

lemma key_presented: "key_format k \<Longrightarrow> presented_key (Some k) = k \<and> k \<noteq> []"
proof -
  assume k: "key_format k"
  have "set (join sep gs) \<subseteq> set sep \<union> \<Union> (set ` set gs)" for sep gs by (induction sep gs rule: join.induct) auto
  with k have "set k \<subseteq> insert CHR ''-'' (set key_alphabet)" by (fastforce simp: key_format_def)
  moreover have "\<forall>c\<in>insert CHR ''-'' (set key_alphabet). \<not> c_space c" by (simp add: key_alphabet_def c_space_def)
  ultimately have n: "\<forall>c\<in>set k. \<not> c_space c" by blast
  have d: "dropWhile c_space s = s" if "\<forall>c\<in>set s. \<not> c_space c" for s using that by (cases s) auto
  have "strip k = k" using n by (simp add: strip_def d)
  moreover have "k \<noteq> []" using key_format_length [OF k] by auto
  ultimately show ?thesis by (simp add: presented_key_def)
qed

lemma sample_prepare:
  obtains a w k where "serve (PrepareTenant \<lparr>pq_tenant_id = ''acme'', pq_display_name = ''Acme''\<rparr> (Some sample_header)) sample_env
      (with_cookie [] empty_world) = (Inr a, w)"
    "key_format k" "dict_get (keys w) k = Some (new_key_entry k ''acme'' ''Acme'' 0)" "w_ticks w = 2"
proof -
  let ?b = "\<lparr>pq_tenant_id = ''acme'', pq_display_name = ''Acme''\<rparr>"
  obtain u w1 where r: "require_cdm_admin (Some sample_header) sample_env empty_world = (Inr u, w1)"
    using sample_bearer by blast
  have w1: "keys w1 = []" "w_ticks w1 = 0" using r
    by (cases rule: require_value; simp add: keys_def empty_world_def)+
  obtain k n where k: "create_key ''acme'' ''Acme'' sample_env w1 = (Inr k, w1\<lparr>w_draws := n, w_ticks := Suc (w_ticks w1),
      w_keys := Some (dict_set k (new_key_entry k ''acme'' ''Acme'' (e_now sample_env (w_ticks w1))) (keys w1))\<rparr>)" "key_format k"
    by (rule create_key_run)
  obtain a w where p: "prepare_tenant ?b (Some sample_header) sample_env empty_world = (Inr a, w)"
    "keys w = [(k, new_key_entry k ''acme'' ''Acme'' 0)]" "w_ticks w = 2"
    using sample_valid by (simp add: prepare_tenant_def bnd_value [where m = "require_cdm_admin x" for x, OF r] check_tenant_id_def
        bnd_value [where m = "create_key x y" for x y, OF k(1)] w1 sample_simps dict_set_def run_simps)
  then show ?thesis by (intro that [of "APrepared a" w k]) (simp_all add: no_cookie answers_def bnd_value run_simps k(2))
qed

lemma handshake_needs_admin_witness:
  "\<exists>w s k a w'. (service_step sample_env)\<^sup>*\<^sup>* (empty_world, [], {}) (w, [], {s}) \<and>
     serve (JoinHandshake sample_payload (Some k)) sample_env (with_cookie [] w) = (Inr a, w') \<and> admin_seen sample_env (w_trace w)"
proof -
  obtain a w k where p: "serve (PrepareTenant \<lparr>pq_tenant_id = ''acme'', pq_display_name = ''Acme''\<rparr> (Some sample_header)) sample_env
      (with_cookie [] empty_world) = (Inr a, w)" and k: "key_format k" "dict_get (keys w) k = Some (new_key_entry k ''acme'' ''Acme'' 0)" "w_ticks w = 2"
    by (rule sample_prepare)
  from first_request [OF p] have r: "(service_step sample_env)\<^sup>*\<^sup>* (empty_world, [], {}) (w, [], {w_session w})" by (simp add: sets_cookie_def)
  have "dict_get (keys (with_cookie [] w)) k = Some (new_key_entry k ''acme'' ''Acme'' 0)" using k(2) by simp
  moreover have "e_now sample_env (w_ticks (with_cookie [] w)) \<le> ke_expires_at (new_key_entry k ''acme'' ''Acme'' 0)"
    using k(3) by (simp add: sample_simps new_key_entry_def hours_def join_key_ttl_hours_def)
  ultimately obtain ent w1 where c: "validate_and_consume k sample_env (with_cookie [] w) = (Inr ent, w1)"
    using consume_valid sample_key_open(2) by metis
  obtain b w' where h: "join_handshake sample_payload (Some k) sample_env (with_cookie [] w) = (Inr b, w')"
    using key_presented [OF k(1)] by (auto intro: sample_provisioned [OF c])
  then have s: "serve (JoinHandshake sample_payload (Some k)) sample_env (with_cookie [] w) = (Inr (AHandshake b), w')"
    by (simp add: answers_def bnd_value run_simps)
  from handshake_needs_admin [OF r s] r s show ?thesis by blast
qed

section \<open>Logging in\<close>

lemma sample_login:
  obtains u st nonce w where "serve (Login (Some ''cdm'')) sample_env (with_cookie [] empty_world) = (Inr (APage u), w)"
    "w_session w = [(''oauth_state'', JStr st), (''oauth_nonce'', JStr nonce), (''oauth_tenant'', JStr ''cdm'')]" "length st = 43"
proof -
  have i: "lower (strip ''cdm'') = ''cdm''" by code_simp
  have m: "match_tenant ''cdm'' ((''cdm'', j) # ts) = ret (Some ''cdm'')" for j ts by simp
  obtain st nonce n where s: "start_login default_settings ''cdm'' sample_env empty_world = (Inr (RedirectResponse (auth_url default_settings ''cdm'' st nonce)),
     empty_world\<lparr>w_draws := n, w_session := [(''oauth_state'', JStr st), (''oauth_nonce'', JStr nonce), (''oauth_tenant'', JStr ''cdm'')]\<rparr>)" "length st = 43"
    using start_login_run by blast
  have "portal_login (Some ''cdm'') sample_env empty_world = start_login default_settings ''cdm'' sample_env empty_world"
    by (simp add: portal_login_def run_bnd_settings sample_simps i Let_def bnd_value [where m = "parse_tenants s" for s, OF sample_parse_tenants]
        sample_tenants_def tenant_items_def run_bnd_ret m opt_str_or_def del: match_tenant.simps)
  with s(1) have "serve (Login (Some ''cdm'')) sample_env (with_cookie [] empty_world) =
      (Inr (APage (RedirectResponse (auth_url default_settings ''cdm'' st nonce))),
       empty_world\<lparr>w_draws := n, w_session := [(''oauth_state'', JStr st), (''oauth_nonce'', JStr nonce), (''oauth_tenant'', JStr ''cdm'')]\<rparr>)"
    by (simp add: no_cookie answers_def bnd_value run_simps)
  then show ?thesis by (rule that) (simp, rule s(2))
qed

text \<open>The login, the callback, and then a tenant is deleted with the cookie of the callback.\<close>

lemma sample_admin:
  obtains w cookies s where "(service_step sample_env)\<^sup>*\<^sup>* (empty_world, [], {}) (w, [], cookies)" "s \<in> cookies" "admin_cookie s" "cookie_ok s"
proof -
  obtain u st nonce w1 where l: "serve (Login (Some ''cdm'')) sample_env (with_cookie [] empty_world) = (Inr (APage u), w1)"
    and s: "w_session w1 = [(''oauth_state'', JStr st), (''oauth_nonce'', JStr nonce), (''oauth_tenant'', JStr ''cdm'')]" "length st = 43"
    by (rule sample_login)
  from first_request [OF l] have r1: "(service_step sample_env)\<^sup>*\<^sup>* (empty_world, [], {}) (w1, [], {w_session w1})" by (simp add: sets_cookie_def)
  let ?v = "with_cookie (w_session w1) w1"
  obtain r w2 where c: "portal_callback (sample_params st) sample_env ?v = (Inr r, w2)" "is_cdm_admin w2"
    by (rule sample_callback [of ?v st]) (use s in auto)
  then have "serve (Callback (sample_params st)) sample_env ?v = (Inr (APage r), w2)"
    by (simp add: answers_def bnd_value run_simps)
  from service_step.request [OF _ this, of "{w_session w1}"]
  have "service_step sample_env (w1, [], {w_session w1}) (w2, [], insert (w_session w2) {w_session w1})" by (simp add: sets_cookie_def)
  with r1 have r2: "(service_step sample_env)\<^sup>*\<^sup>* (empty_world, [], {}) (w2, [], insert (w_session w2) {w_session w1})" by (rule rtranclp.rtrancl_into_rtrancl)
  from service_ok [OF r2] c(2) show ?thesis
    by (intro that [OF r2, of "w_session w2"]) (simp_all add: is_admin_cookie)
qed

lemma delete_sends:
  assumes "session_ok w" "is_cdm_admin w" "delete_tenant ''acme'' sample_env w = (r, w')"
  shows "w_trace w' \<noteq> w_trace w"
proof -
  let ?s = "e_settings sample_env"
  have t: "truth (session_user w)" using assms(2) by (auto simp: is_cdm_admin_def truth_def)
  have k: "kc_admin_token ?s sample_env w = (Inr sample_jwt, w\<lparr>w_trace := w_trace w @ [admin_token_post ?s]\<rparr>)"
    by (simp add: kc_admin_token_def str_of_def py_str_def sample_run)
  have "\<exists>x w1. delete_in_keycloak ?s ''acme'' sample_env w = (Inr x, w1) \<and> length (w_trace w1) > length (w_trace w)"
    by (simp add: delete_in_keycloak_def try_except_def k kc_delete_realm_def thn_def
        bnd_def sample_http sample_simps(8) run_simps)
  then obtain x w1 where d: "delete_in_keycloak ?s ''acme'' sample_env w = (Inr x, w1)" "length (w_trace w1) > length (w_trace w)" by blast
  obtain r2 w2 where q: "delete_in_rabbitmq ?s ''acme'' sample_env w1 = (r2, w2)" by fastforce
  have l: "logs (delete_in_rabbitmq ?s ''acme'')" unfolding delete_in_rabbitmq_def by (intro sends_rules logs_calls)
  obtain rs where "w_trace w2 = w_trace w1 @ rs" by (rule sendsE [OF l q])
  moreover have "w' = w2"
    using assms(3) by (simp add: delete_tenant_def run_bnd_settings guard_run [OF assms(1)] assms(2) t
        protected_realms_def d(1) bnd_def q run_simps split: prod.splits sum.splits)
  ultimately have "length (w_trace w') \<ge> length (w_trace w1)" by simp
  with d(2) show ?thesis by auto
qed

lemma admin_needs_login_witness:
  "\<exists>w cookies s r w'. (service_step sample_env)\<^sup>*\<^sup>* (empty_world, [], {}) (w, [], cookies) \<and> s \<in> cookies \<and>
     serve (DeleteTenant ''acme'') sample_env (with_cookie s w) = (r, w') \<and> cdm_login sample_env (w_trace w)"
proof -
  obtain w cookies s where r: "(service_step sample_env)\<^sup>*\<^sup>* (empty_world, [], {}) (w, [], cookies)" and s: "s \<in> cookies" "admin_cookie s" "cookie_ok s"
    by (rule sample_admin)
  obtain x w' where d: "delete_tenant ''acme'' sample_env (with_cookie s w) = (x, w')" by fastforce
  then obtain y where a: "serve (DeleteTenant ''acme'') sample_env (with_cookie s w) = (y, w')"
    by (cases x) (auto simp: answers_def bnd_def run_simps)
  have "session_ok (with_cookie s w)" "is_cdm_admin (with_cookie s w)" using s(2,3) by (simp_all add: session_ok_cookie is_admin_cookie)
  from delete_sends [OF this d] have t: "w_trace w' \<noteq> w_trace w" by simp
  have "s \<in> insert [] cookies" "admin_call (DeleteTenant ''acme'')" using s(1) by (simp_all add: admin_call_def)
  from admin_needs_login [OF r this a t] r s(1) a show ?thesis by blast
qed

end
