(* ===== verification/Bodies.thy ===== *)
theory Bodies
  imports Service
begin

text \<open>
  \<open>app/models.py\<close> on the wire: a request body is an instance of its model exactly when it is a JSON object with
  the required fields, every field has a value of its declared type, and a declared pattern matches; missing
  fields get the declared defaults and other keys are ignored, as Pydantic documents. A response is the JSON
  object of the fields of its model in the order of their declaration. \<^const>\<open>None\<close> is a refused body.
\<close>

section \<open>Fields\<close>

definition required_str :: "(string, json) dict \<Rightarrow> string \<Rightarrow> string option" where
  "required_str ps k = (case dict_get ps k of Some (JStr s) \<Rightarrow> Some s | _ \<Rightarrow> None)"

definition default_str :: "(string, json) dict \<Rightarrow> string \<Rightarrow> string \<Rightarrow> string option" where
  "default_str ps k d = (case dict_get ps k of None \<Rightarrow> Some d | Some (JStr s) \<Rightarrow> Some s | _ \<Rightarrow> None)"

definition optional_str :: "(string, json) dict \<Rightarrow> string \<Rightarrow> string option option" where
  "optional_str ps k = (case dict_get ps k of None \<Rightarrow> Some None | Some JNull \<Rightarrow> Some None
     | Some (JStr s) \<Rightarrow> Some (Some s) | _ \<Rightarrow> None)"

definition json_object :: "json \<Rightarrow> (string, json) dict option" where
  "json_object j = (case j of JObj ps \<Rightarrow> Some ps | _ \<Rightarrow> None)"

definition parse_object :: "((string, json) dict \<Rightarrow> 'a option) \<Rightarrow> json option \<Rightarrow> 'a option" where
  "parse_object f body = Option.bind body (\<lambda>j. Option.bind (json_object j) f)"

section \<open>Requests\<close>

definition parse_enrollment_request :: "json option \<Rightarrow> enrollment_request option" where
  "parse_enrollment_request = parse_object (\<lambda>ps.
     Option.bind (required_str ps ''csr'') (\<lambda>csr. Option.bind (required_str ps ''device_name'') (\<lambda>name.
     Option.bind (default_str ps ''device_type'' ''generic'') (\<lambda>type. Option.bind (optional_str ps ''wg_public_key'') (\<lambda>wg.
       Some \<lparr>er_csr = csr, er_device_name = name, er_device_type = type, er_wg_public_key = wg\<rparr>)))))"

definition dict_field :: "(string, json) dict \<Rightarrow> string \<Rightarrow> (string, json) dict option" where
  "dict_field ps k = (case dict_get ps k of None \<Rightarrow> Some [] | Some j \<Rightarrow> json_object j)"

definition dict_or_str_field :: "(string, json) dict \<Rightarrow> string \<Rightarrow> json option" where
  "dict_or_str_field ps k = (case dict_get ps k of None \<Rightarrow> Some (JObj []) | Some (JObj d) \<Rightarrow> Some (JObj d)
     | Some (JStr s) \<Rightarrow> Some (JStr s) | _ \<Rightarrow> None)"

definition parse_webhook_event :: "json option \<Rightarrow> thingsboard_webhook_event option" where
  "parse_webhook_event = parse_object (\<lambda>ps.
     Option.bind (default_str ps ''msgType'' ''UNKNOWN'') (\<lambda>m. Option.bind (dict_field ps ''metadata'') (\<lambda>meta.
     Option.bind (dict_or_str_field ps ''data'') (\<lambda>data. Some \<lparr>ev_msgType = m, ev_metadata = meta, ev_data = data\<rparr>))))"

definition parse_prepare_request :: "json option \<Rightarrow> tenant_prepare_request option" where
  "parse_prepare_request = parse_object (\<lambda>ps.
     Option.bind (required_str ps ''tenant_id'') (\<lambda>t. Option.bind (required_str ps ''display_name'') (\<lambda>d.
       if tenant_id_pattern t then Some \<lparr>pq_tenant_id = t, pq_display_name = d\<rparr> else None)))"

definition parse_handshake_payload :: "json option \<Rightarrow> join_handshake_payload option" where
  "parse_handshake_payload = parse_object (\<lambda>ps.
     Option.bind (required_str ps ''sub_ca_csr'') (\<lambda>csr. Option.bind (required_str ps ''wg_pubkey'') (\<lambda>wg.
     Option.bind (default_str ps ''keycloak_url'' []) (\<lambda>kc. Option.bind (default_str ps ''mqtt_bridge_csr'' []) (\<lambda>m.
       Some \<lparr>hp_sub_ca_csr = csr, hp_wg_pubkey = wg, hp_keycloak_url = kc, hp_mqtt_bridge_csr = m\<rparr>)))))"

definition parse_join_request :: "json option \<Rightarrow> join_request_payload option" where
  "parse_join_request = parse_object (\<lambda>ps.
     Option.bind (required_str ps ''display_name'') (\<lambda>d. Option.bind (required_str ps ''sub_ca_csr'') (\<lambda>csr.
     Option.bind (required_str ps ''wg_pubkey'') (\<lambda>wg. Option.bind (default_str ps ''keycloak_url'' []) (\<lambda>kc.
     Option.bind (default_str ps ''mqtt_bridge_csr'' []) (\<lambda>m.
       Some \<lparr>jp_display_name = d, jp_sub_ca_csr = csr, jp_wg_pubkey = wg, jp_keycloak_url = kc, jp_mqtt_bridge_csr = m\<rparr>))))))"

definition parse_approve_request :: "json option \<Rightarrow> unit option" where
  "parse_approve_request = parse_object (\<lambda>ps. Some ())"

definition parse_reject_request :: "json option \<Rightarrow> string option" where
  "parse_reject_request = parse_object (\<lambda>ps. default_str ps ''reason'' [])"

section \<open>Responses\<close>

definition enrollment_response_json :: "enrollment_response \<Rightarrow> json" where
  "enrollment_response_json r = JObj [(''certificate'', JStr (es_certificate r)), (''ca_chain'', JStr (es_ca_chain r)),
     (''wireguard_ip'', JStr (es_wireguard_ip r)), (''wireguard_config'', JStr (es_wireguard_config r))]"

definition webhook_response_json :: "webhook_response \<Rightarrow> json" where
  "webhook_response_json r = JObj [(''status'', JStr (wr_status r)), (''device_id'', opt_json (wr_device_id r)),
     (''wireguard_ip'', opt_json (wr_wireguard_ip r)), (''reason'', opt_json (wr_reason r))]"

definition telemetry_response_json :: "telemetry_webhook_response \<Rightarrow> json" where
  "telemetry_response_json r = JObj [(''status'', JStr (tr_status r)), (''device_id'', opt_json (tr_device_id r)),
     (''tenant_id'', opt_json (tr_tenant_id r)), (''points_written'', JInt (int (tr_points_written r))),
     (''reason'', opt_json (tr_reason r))]"

definition health_response_json :: "health_response \<Rightarrow> json" where
  "health_response_json r = JObj [(''status'', JStr (he_status r)), (''service'', JStr (he_service r))]"

definition prepare_hint :: string where
  "prepare_hint = ''Set PROVIDER_URL=<this-api-base> and JOIN_KEY=<join_key> in the '' @
     ''Tenant-Stack .env, then run `docker compose up`.''"

definition prepare_response_json :: "tenant_prepare_response \<Rightarrow> json" where
  "prepare_response_json r = JObj [(''tenant_id'', JStr (pr_tenant_id r)), (''display_name'', JStr (pr_display_name r)),
     (''join_key'', JStr (pr_join_key r)), (''expires_at'', JStr (pr_expires_at r)), (''hint'', JStr prepare_hint)]"

definition handshake_response_json :: "join_handshake_response \<Rightarrow> json" where
  "handshake_response_json r = JObj [(''tenant_id'', JStr (hr_tenant_id r)), (''status'', JStr (hr_status r)),
     (''signed_cert'', JStr (hr_signed_cert r)), (''root_ca_cert'', JStr (hr_root_ca_cert r)),
     (''rabbitmq_url'', opt_json (hr_rabbitmq_url r)), (''rabbitmq_vhost'', opt_json (hr_rabbitmq_vhost r)),
     (''rabbitmq_user'', opt_json (hr_rabbitmq_user r)), (''mqtt_bridge_cert'', opt_json (hr_mqtt_bridge_cert r)),
     (''cdm_idp_client_id'', opt_json (hr_cdm_idp_client_id r)),
     (''cdm_idp_client_secret'', opt_json (hr_cdm_idp_client_secret r)),
     (''cdm_discovery_url'', opt_json (hr_cdm_discovery_url r))]"

definition status_response_json :: "join_status_response \<Rightarrow> json" where
  "status_response_json r = JObj [(''tenant_id'', JStr (js_tenant_id r)), (''status'', JStr (js_status r)),
     (''signed_cert'', opt_json (js_signed_cert r)), (''root_ca_cert'', opt_json (js_root_ca_cert r)),
     (''rabbitmq_url'', opt_json (js_rabbitmq_url r)), (''rabbitmq_vhost'', opt_json (js_rabbitmq_vhost r)),
     (''rabbitmq_user'', opt_json (js_rabbitmq_user r)), (''mqtt_bridge_cert'', opt_json (js_mqtt_bridge_cert r)),
     (''cdm_idp_client_id'', opt_json (js_cdm_idp_client_id r)),
     (''cdm_idp_client_secret'', opt_json (js_cdm_idp_client_secret r)),
     (''cdm_discovery_url'', opt_json (js_cdm_discovery_url r)), (''wg_server_pubkey'', opt_json (js_wg_server_pubkey r)),
     (''wg_server_endpoint'', opt_json (js_wg_server_endpoint r)), (''wg_client_ip'', opt_json (js_wg_client_ip r)),
     (''rejected_reason'', opt_json (js_rejected_reason r))]"

text \<open>
  What goes back to the client: a document, a redirect or a page, or what FastAPI makes of an exception; the
  list of errors of a refused body is Pydantic's.
\<close>

datatype http_reply = Reply reply | PlainText int string | ValidationErrors

definition answer_reply :: "answer \<Rightarrow> reply" where
  "answer_reply a = (case a of AHealth r \<Rightarrow> JSONResponse 200 (health_response_json r)
     | AEnrolled r \<Rightarrow> JSONResponse 200 (enrollment_response_json r) | ADevice r \<Rightarrow> JSONResponse 200 (webhook_response_json r)
     | ATelemetry r \<Rightarrow> JSONResponse 200 (telemetry_response_json r) | APage r \<Rightarrow> r
     | APrepared r \<Rightarrow> JSONResponse 200 (prepare_response_json r) | AHandshake r \<Rightarrow> JSONResponse 200 (handshake_response_json r)
     | AStatus r \<Rightarrow> JSONResponse 200 (status_response_json r))"

definition detail :: "int \<Rightarrow> string \<Rightarrow> http_reply" where
  "detail code d = Reply (JSONResponse code (JObj [(''detail'', JStr d)]))"

definition exception_reply :: "exn \<Rightarrow> http_reply" where
  "exception_reply x = (case x of HTTPException code d \<Rightarrow> detail code d | _ \<Rightarrow> PlainText 500 ''Internal Server Error'')"

definition respond :: "answer io \<Rightarrow> http_reply io" where
  "respond m = (\<lambda>e w. case m e w of (Inl x, w') \<Rightarrow> (Inr (exception_reply x), w')
     | (Inr a, w') \<Rightarrow> (Inr (Reply (answer_reply a)), w'))"

lemma prepare_pattern: "parse_prepare_request body = Some r \<Longrightarrow> tenant_id_pattern (pq_tenant_id r)"
  by (auto simp: parse_prepare_request_def parse_object_def split: Option.bind_splits if_splits)

end
