(* ===== verification/Routes.thy ===== *)
theory Routes
  imports Bodies
begin

text \<open>
  \<open>app/main.py\<close> and the decorators of the routers: the application with its session middleware, the table of
  its routes in the order the routers are included, the choice of the handler for an HTTP request, and the
  request as a whole, from its bytes to the reply. How a path is matched against a template is Starlette's and
  a parameter (\<open>path_match\<close>); \<open>documented\<close> says what its documentation says, that a parameter stands for one
  non-empty segment. A path is the decoded one; the redirect that adds or drops a slash at the end is left out,
  and a body is taken to be of the content type that its handler reads.
\<close>

section \<open>The table\<close>

record http_request =
  hq_meth :: meth
  hq_path :: string
  hq_query :: "(string, string) dict"
  hq_headers :: "(string, string) dict"
  hq_form :: "(string, string) dict"
  hq_body :: "nat list"

record route =
  rt_meth :: meth
  rt_path :: string
  rt_response :: "string option"
  rt_handler :: "string list \<Rightarrow> json option \<Rightarrow> http_request \<Rightarrow> call option"

definition add :: "meth \<Rightarrow> string \<Rightarrow> string option \<Rightarrow> (string list \<Rightarrow> json option \<Rightarrow> http_request \<Rightarrow> call option) \<Rightarrow> route" where
  "add m path response h = \<lparr>rt_meth = m, rt_path = path, rt_response = response, rt_handler = h\<rparr>"

text \<open>\<open>APIRouter(prefix=p)\<close> with its routes, included in the application.\<close>

definition include_router :: "string \<Rightarrow> route list \<Rightarrow> route list" where
  "include_router p rs = map (\<lambda>r. r\<lparr>rt_path := p @ rt_path r\<rparr>) rs"

definition health_routes :: "route list" where
  "health_routes = [add GET ''/health'' (Some ''HealthResponse'') (\<lambda>vs j q. Some Health)]"

definition enrollment_routes :: "route list" where
  "enrollment_routes =
     [add POST ''/{device_id}/enroll'' (Some ''EnrollmentResponse'')
        (\<lambda>vs j q. map_option (Enroll (hd vs)) (parse_enrollment_request j))]"

definition webhook_routes :: "route list" where
  "webhook_routes =
     [add POST ''/thingsboard'' (Some ''WebhookResponse'') (\<lambda>vs j q. map_option DeviceEvent (parse_webhook_event j)),
      add POST ''/thingsboard/telemetry'' (Some ''TelemetryWebhookResponse'')
        (\<lambda>vs j q. map_option Telemetry (parse_webhook_event j))]"

definition callback_query :: "(string, string) dict \<Rightarrow> callback_params" where
  "callback_query d = \<lparr>cb_code = dict_get d ''code'', cb_state = dict_get d ''state'', cb_error = dict_get d ''error'',
     cb_error_description = dict_get d ''error_description''\<rparr>"

definition portal_routes :: "route list" where
  "portal_routes =
     [add GET ''/'' None (\<lambda>vs j q. Some SelectTenant),
      add POST ''/login'' None (\<lambda>vs j q. Some (Login (dict_get (hq_form q) ''tenant_id''))),
      add GET ''/callback'' None (\<lambda>vs j q. Some (Callback (callback_query (hq_query q)))),
      add GET ''/dashboard'' None (\<lambda>vs j q. Some Dashboard), add GET ''/logout'' None (\<lambda>vs j q. Some Logout)]"

definition admin_routes :: "route list" where
  "admin_routes =
     [add GET ''/'' None (\<lambda>vs j q. Some AdminDashboard), add POST ''/tenants'' None (\<lambda>vs j q. Some (CreateTenant j)),
      add DELETE ''/tenants/{realm_id}'' None (\<lambda>vs j q. Some (DeleteTenant (hd vs))),
      add POST ''/tenants/{realm_id}/provisioner'' None (\<lambda>vs j q. Some (AddProvisioner (hd vs) j))]"

definition join_routes :: "route list" where
  "join_routes =
     [add POST ''/tenants/prepare'' (Some ''TenantPrepareResponse'')
        (\<lambda>vs j q. map_option (\<lambda>b. PrepareTenant b (dict_get (hq_headers q) ''authorization'')) (parse_prepare_request j)),
      add POST ''/join'' (Some ''JoinHandshakeResponse'')
        (\<lambda>vs j q. map_option (\<lambda>b. JoinHandshake b (dict_get (hq_headers q) ''x-join-key'')) (parse_handshake_payload j)),
      add POST ''/join-request/{tenant_id}'' None (\<lambda>vs j q. map_option (SubmitJoin (hd vs)) (parse_join_request j)),
      add GET ''/join-requests'' None (\<lambda>vs j q. Some ListJoins),
      add POST ''/tenants/{tenant_id}/approve'' None (\<lambda>vs j q. map_option (\<lambda>_. ApproveJoin (hd vs)) (parse_approve_request j)),
      add POST ''/tenants/{tenant_id}/reject'' None (\<lambda>vs j q. map_option (RejectJoin (hd vs)) (parse_reject_request j)),
      add GET ''/tenants/{tenant_id}/join-status'' (Some ''JoinStatusResponse'') (\<lambda>vs j q. Some (JoinStatus (hd vs)))]"

definition app_routes :: "route list" where
  "app_routes = include_router [] health_routes @ include_router ''/devices'' enrollment_routes @
     include_router ''/webhooks'' webhook_routes @ include_router ''/portal'' portal_routes @
     include_router ''/portal/admin'' admin_routes @ include_router ''/portal/admin'' join_routes"

record session_middleware =
  sm_secret_key :: string
  sm_session_cookie :: string
  sm_max_age :: int
  sm_https_only :: bool
  sm_same_site :: string

record application =
  ap_title :: string
  ap_description :: string
  ap_version :: string
  ap_root_path :: string
  ap_session :: session_middleware
  ap_routes :: "route list"

definition create_app :: "(string, string) dict \<Rightarrow> settings \<Rightarrow> application" where
  "create_app environ s = \<lparr>ap_title = ''IoT Bridge API'',
     ap_description = ''Glue service that synchronises device state between '' @ ''step-ca (PKI), ThingsBoard, hawkBit, and WireGuard.'',
     ap_version = ''0.1.0'', ap_root_path = (case dict_get environ ''ROOT_PATH'' of None \<Rightarrow> [] | Some p \<Rightarrow> p),
     ap_session = \<lparr>sm_secret_key = portal_session_secret s, sm_session_cookie = ''cdm_portal_session'', sm_max_age = 3600,
       sm_https_only = False, sm_same_site = ''lax''\<rparr>,
     ap_routes = app_routes\<rparr>"

section \<open>Choosing the handler\<close>

type_synonym path_match = "string \<Rightarrow> string \<Rightarrow> string list option"

definition is_param :: "string \<Rightarrow> bool" where
  "is_param t = (t \<noteq> [] \<and> hd t = CHR ''{'')"

definition segment_ok :: "string \<Rightarrow> bool" where
  "segment_ok v = (v \<noteq> [] \<and> CHR ''/'' \<notin> set v)"

text \<open>The segments of a path that is a template with values for its parameters.\<close>

fun fill :: "string list \<Rightarrow> string list \<Rightarrow> string list option" where
  "fill [] vs = (if vs = [] then Some [] else None)"
| "fill (t # ts) vs = (if is_param t
     then case vs of [] \<Rightarrow> None | v # vs' \<Rightarrow> if segment_ok v then map_option (Cons v) (fill ts vs') else None
     else map_option (Cons t) (fill ts vs))"

definition segments :: "string \<Rightarrow> string list" where
  "segments t = split_on CHR ''/'' t"

definition documented :: "path_match \<Rightarrow> bool" where
  "documented pm \<longleftrightarrow> (\<forall>t path vs. pm t path = Some vs \<longleftrightarrow> (\<exists>segs. fill (segments t) vs = Some segs \<and> path = join ''/'' segs))"

datatype routed = Routed "call option" | MethodNotAllowed | NotFound

definition dispatch :: "path_match \<Rightarrow> json option \<Rightarrow> http_request \<Rightarrow> routed" where
  "dispatch pm j q = (case find (\<lambda>r. rt_meth r = hq_meth q \<and> pm (rt_path r) (hq_path q) \<noteq> None) app_routes of
       Some r \<Rightarrow> (case pm (rt_path r) (hq_path q) of Some vs \<Rightarrow> Routed (rt_handler r vs j q) | None \<Rightarrow> NotFound)
     | None \<Rightarrow> if \<exists>r\<in>set app_routes. pm (rt_path r) (hq_path q) \<noteq> None then MethodNotAllowed else NotFound)"

text \<open>A request from its bytes to the reply; a body that is not JSON is no body.\<close>

definition handle_http :: "path_match \<Rightarrow> http_request \<Rightarrow> http_reply io" where
  "handle_http pm q = bnd (asks (\<lambda>e. loads_bytes e (hq_body q))) (\<lambda>j. case dispatch pm j q of
       NotFound \<Rightarrow> ret (detail 404 ''Not Found'') | MethodNotAllowed \<Rightarrow> ret (detail 405 ''Method Not Allowed'')
     | Routed None \<Rightarrow> ret ValidationErrors | Routed (Some c) \<Rightarrow> respond (serve c))"

section \<open>No request has two handlers\<close>

fun compatible :: "string list \<Rightarrow> string list \<Rightarrow> bool" where
  "compatible [] [] = True"
| "compatible (t # ts) (u # us) = ((is_param t \<or> is_param u \<or> t = u) \<and> compatible ts us)"
| "compatible _ _ = False"

lemma fill_compatible: "fill ts vs = Some segs \<Longrightarrow> fill us ws = Some segs \<Longrightarrow> compatible ts us"
  by (induction ts us arbitrary: vs ws segs rule: compatible.induct) (auto split: if_splits list.splits)

lemma fill_segments: "fill ts vs = Some segs \<Longrightarrow> \<forall>t\<in>set ts. CHR ''/'' \<notin> set t \<Longrightarrow> (\<forall>s\<in>set segs. CHR ''/'' \<notin> set s) \<and> length segs = length ts"
  by (induction ts arbitrary: vs segs) (auto simp: segment_ok_def split: if_splits list.splits)

lemma split_on_pieces: "\<forall>t\<in>set (split_on c s). c \<notin> set t"
  by (induction s) (auto split: list.split)

lemma filled_path: "fill (segments t) vs = Some segs \<Longrightarrow> segments (join ''/'' segs) = segs"
proof -
  assume f: "fill (segments t) vs = Some segs"
  have "\<forall>s\<in>set segs. CHR ''/'' \<notin> set s" "length segs = length (segments t)"
    using fill_segments [OF f] split_on_pieces [of "CHR ''/''" t] by (simp_all add: segments_def)
  moreover have "segments t \<noteq> []" by (simp add: segments_def split_on_nonempty)
  ultimately show ?thesis unfolding segments_def by (intro split_on_join) (auto simp: segments_def)
qed

lemma compatible_sym: "compatible ts us = compatible us ts"
  by (induction ts us rule: compatible.induct) auto

definition table :: "(meth \<times> string list) list" where
  "table = map (\<lambda>r. (rt_meth r, segments (rt_path r))) app_routes"

lemma routes_separate: "sorted_wrt (\<lambda>(m, ts) (n, us). m = n \<longrightarrow> \<not> compatible ts us) table"
  by code_simp

lemma sorted_wrt_pairs: "sorted_wrt P xs \<Longrightarrow> x \<in> set xs \<Longrightarrow> y \<in> set xs \<Longrightarrow> x = y \<or> P x y \<or> P y x"
  by (induction xs) auto

lemma route_unique:
  assumes "r \<in> set app_routes" "s \<in> set app_routes" "rt_meth r = rt_meth s" "compatible (segments (rt_path r)) (segments (rt_path s))"
  shows "r = s"
proof -
  have "sorted_wrt (\<lambda>r s. rt_meth r = rt_meth s \<longrightarrow> \<not> compatible (segments (rt_path r)) (segments (rt_path s))) app_routes"
    using routes_separate by (simp add: table_def sorted_wrt_map)
  from sorted_wrt_pairs [OF this assms(1,2)] assms(3,4) compatible_sym show ?thesis by metis
qed

lemma routed_iff:
  assumes "documented pm"
  shows "dispatch pm j q = Routed c \<longleftrightarrow> (\<exists>r\<in>set app_routes. \<exists>vs segs. rt_meth r = hq_meth q \<and>
    fill (segments (rt_path r)) vs = Some segs \<and> hq_path q = join ''/'' segs \<and> c = rt_handler r vs j q)"
proof
  assume "dispatch pm j q = Routed c"
  then obtain r vs where "find (\<lambda>r. rt_meth r = hq_meth q \<and> pm (rt_path r) (hq_path q) \<noteq> None) app_routes = Some r"
    "pm (rt_path r) (hq_path q) = Some vs" "c = rt_handler r vs j q"
    by (auto simp: dispatch_def split: option.splits if_splits)
  then show "\<exists>r\<in>set app_routes. \<exists>vs segs. rt_meth r = hq_meth q \<and> fill (segments (rt_path r)) vs = Some segs \<and>
      hq_path q = join ''/'' segs \<and> c = rt_handler r vs j q"
    using assms by (auto simp: find_Some_iff documented_def) (metis nth_mem)
next
  assume "\<exists>r\<in>set app_routes. \<exists>vs segs. rt_meth r = hq_meth q \<and> fill (segments (rt_path r)) vs = Some segs \<and>
      hq_path q = join ''/'' segs \<and> c = rt_handler r vs j q"
  then obtain r vs segs where r: "r \<in> set app_routes" "rt_meth r = hq_meth q" "fill (segments (rt_path r)) vs = Some segs"
    "hq_path q = join ''/'' segs" "c = rt_handler r vs j q" by blast
  have p: "pm (rt_path r) (hq_path q) = Some vs" using assms r(3,4) by (auto simp: documented_def)
  obtain r' where q: "find (\<lambda>r. rt_meth r = hq_meth q \<and> pm (rt_path r) (hq_path q) \<noteq> None) app_routes = Some r'"
    using r(1,2) p by (cases "find (\<lambda>r. rt_meth r = hq_meth q \<and> pm (rt_path r) (hq_path q) \<noteq> None) app_routes") (auto simp: find_None_iff)
  then have q1: "r' \<in> set app_routes" "rt_meth r' = hq_meth q" "pm (rt_path r') (hq_path q) \<noteq> None"
    by (auto simp: find_Some_iff)
  then obtain ws segs' where s: "fill (segments (rt_path r')) ws = Some segs'" "hq_path q = join ''/'' segs'"
    using assms by (auto simp: documented_def)
  have "segs' = segs" using filled_path [OF r(3)] filled_path [OF s(1)] r(4) s(2) by simp
  with fill_compatible [OF r(3)] s(1) have "compatible (segments (rt_path r)) (segments (rt_path r'))" by simp
  with route_unique [OF r(1) q1(1)] r(2) q1(2) have "r' = r" by simp
  with q p r(5) show "dispatch pm j q = Routed c" by (simp add: dispatch_def)
qed

text \<open>C17. 
  The routing table is exact: under the documented matching of paths, a request is handled by a route exactly
  when its method is the route's and its path is the route's template with values for the parameters, whatever
  the order of the routes; the handler gets these values.
\<close>

theorem routing_exact:
  assumes "documented pm"
  shows "dispatch pm j q = Routed c \<longleftrightarrow> (\<exists>r\<in>set app_routes. \<exists>vs segs. rt_meth r = hq_meth q \<and>
    fill (segments (rt_path r)) vs = Some segs \<and> hq_path q = join ''/'' segs \<and> c = rt_handler r vs j q)"
  using assms by (rule routed_iff)

section \<open>A matcher\<close>

fun unfill :: "string list \<Rightarrow> string list \<Rightarrow> string list option" where
  "unfill [] [] = Some []"
| "unfill (t # ts) (s # ss) = (if is_param t then if segment_ok s then map_option (Cons s) (unfill ts ss) else None
     else if s = t then unfill ts ss else None)"
| "unfill _ _ = None"

definition segment_match :: path_match where
  "segment_match t path = unfill (segments t) (segments path)"

lemma unfill_fill: "unfill ts ss = Some vs \<longleftrightarrow> fill ts vs = Some ss"
  by (induction ts ss arbitrary: vs rule: unfill.induct) (auto split: if_splits list.splits)

lemma segment_match_documented: "documented segment_match"
proof -
  have "(\<exists>segs. fill (segments t) vs = Some segs \<and> path = join ''/'' segs) \<longleftrightarrow> fill (segments t) vs = Some (segments path)" for t path vs
    using filled_path [of t vs] join_split_on [of "CHR ''/''" path] by (metis segments_def)
  then show ?thesis by (simp add: documented_def segment_match_def unfill_fill)
qed

section \<open>What reaches the handlers\<close>

text \<open>The ids of a path are non-empty and have no slash, and a tenant is prepared under an id with the declared pattern.\<close>

definition call_ok :: "call \<Rightarrow> bool" where
  "call_ok c = (case c of Enroll d b \<Rightarrow> segment_ok d | DeleteTenant t \<Rightarrow> segment_ok t | AddProvisioner t b \<Rightarrow> segment_ok t
     | SubmitJoin t p \<Rightarrow> segment_ok t | ApproveJoin t \<Rightarrow> segment_ok t | RejectJoin t r \<Rightarrow> segment_ok t | JoinStatus t \<Rightarrow> segment_ok t
     | PrepareTenant b a \<Rightarrow> tenant_id_pattern (pq_tenant_id b) | _ \<Rightarrow> True)"

lemma table_segments:
  "segments ''/devices/{device_id}/enroll'' = [[], ''devices'', ''{device_id}'', ''enroll'']"
  "segments ''/portal/admin/tenants/{realm_id}'' = [[], ''portal'', ''admin'', ''tenants'', ''{realm_id}'']"
  "segments ''/portal/admin/tenants/{realm_id}/provisioner'' = [[], ''portal'', ''admin'', ''tenants'', ''{realm_id}'', ''provisioner'']"
  "segments ''/portal/admin/join-request/{tenant_id}'' = [[], ''portal'', ''admin'', ''join-request'', ''{tenant_id}'']"
  "segments ''/portal/admin/tenants/{tenant_id}/approve'' = [[], ''portal'', ''admin'', ''tenants'', ''{tenant_id}'', ''approve'']"
  "segments ''/portal/admin/tenants/{tenant_id}/reject'' = [[], ''portal'', ''admin'', ''tenants'', ''{tenant_id}'', ''reject'']"
  "segments ''/portal/admin/tenants/{tenant_id}/join-status'' = [[], ''portal'', ''admin'', ''tenants'', ''{tenant_id}'', ''join-status'']"
  by code_simp+

lemma route_call_ok:
  assumes "r \<in> set app_routes" "fill (segments (rt_path r)) vs = Some segs" "rt_handler r vs j q = Some c"
  shows "call_ok c"
  using assms
  by (auto simp: app_routes_def include_router_def health_routes_def enrollment_routes_def webhook_routes_def portal_routes_def
      admin_routes_def join_routes_def add_def table_segments is_param_def call_ok_def prepare_pattern split: list.splits if_splits)

lemma dispatch_call_ok: "documented pm \<Longrightarrow> dispatch pm j q = Routed (Some c) \<Longrightarrow> call_ok c"
  unfolding dispatch_def documented_def
  by (auto split: option.splits if_splits simp: find_Some_iff) (metis nth_mem route_call_ok)

text \<open>A request over HTTP either changes nothing or is one call of the service.\<close>

lemma http_is_call:
  assumes "documented pm" "handle_http pm q e w = (r, w')"
  obtains (refused) "w' = w" | (served) c where "call_ok c" "w' = snd (serve c e w)"
proof (cases "dispatch pm (loads_bytes e (hq_body q)) q")
  case (Routed x)
  show ?thesis
  proof (cases x)
    case None
    with Routed assms(2) that(1) show ?thesis by (auto simp: handle_http_def run_simps)
  next
    case (Some c)
    with Routed assms(2) have "w' = snd (serve c e w)"
      by (auto simp: handle_http_def run_simps respond_def split: sum.splits prod.splits)
    with dispatch_call_ok [OF assms(1) Routed [unfolded Some]] that(2) show ?thesis by blast
  qed
qed (use assms(2) that(1) in \<open>auto simp: handle_http_def run_simps\<close>)

text \<open>C18. 
  What reaches a handler is well typed: the ids of devices and tenants in it are single segments of a path, not
  empty and without a slash, and a tenant is prepared only under an id that matches the declared pattern.
\<close>

theorem dispatched_call_ok:
  assumes "documented pm" "dispatch pm j q = Routed (Some c)"
  shows "call_ok c"
  using assms by (rule dispatch_call_ok)

definition plain_request :: "meth \<Rightarrow> string \<Rightarrow> nat list \<Rightarrow> http_request" where
  "plain_request m path body = \<lparr>hq_meth = m, hq_path = path, hq_query = [], hq_headers = [], hq_form = [], hq_body = body\<rparr>"

text \<open>
  The id in the path of a request can hold any character but a slash, so the one that gets past the protection
  of the realms (\<open>delete_protection_bypass\<close>) arrives at the handler; one with a path below a realm does not.
\<close>

lemma delete_path:
  "dispatch segment_match None (plain_request DELETE ''/portal/admin/tenants/master?'' []) = Routed (Some (DeleteTenant ''master?''))"
  "dispatch segment_match None (plain_request DELETE ''/portal/admin/tenants/master/users'' []) = NotFound"
  "dispatch segment_match None (plain_request GET ''/portal/admin/tenants/acme'' []) = MethodNotAllowed"
  by code_simp+

lemma routing_exact_witness:
  "dispatch segment_match (Some (JObj [])) (plain_request POST ''/portal/admin/tenants/acme/approve'' []) = Routed (Some (ApproveJoin ''acme''))"
proof -
  let ?r = "add POST ''/portal/admin/tenants/{tenant_id}/approve'' None (\<lambda>vs j q. map_option (\<lambda>_. ApproveJoin (hd vs)) (parse_approve_request j))"
  let ?segs = "[[], ''portal'', ''admin'', ''tenants'', ''acme'', ''approve'']"
  have "?r \<in> set app_routes" by (simp add: app_routes_def include_router_def join_routes_def add_def)
  moreover have "fill (segments (rt_path ?r)) [''acme''] = Some ?segs"
    "join ''/'' ?segs = ''/portal/admin/tenants/acme/approve''"
    by code_simp+
  ultimately show ?thesis
    unfolding routing_exact [OF segment_match_documented]
    by (intro bexI [of _ ?r] exI [of _ "[''acme'']"] exI [of _ ?segs] conjI)
      (simp_all add: add_def plain_request_def parse_approve_request_def parse_object_def json_object_def)
qed

lemma dispatched_call_ok_witness: "call_ok (DeleteTenant ''master?'')"
  by (rule dispatched_call_ok [OF segment_match_documented delete_path(1)])

end
