(* ===== verification/Endpoints.thy ===== *)
theory Endpoints
  imports Routes
begin

text \<open>
  The API as its clients see it, independently of the table of routes: for every call of the service the method
  and the path it is requested with (\<open>docs/use-cases/tenant-onboarding.md\<close> lists the ones of the JOIN workflow)
  and what the request carries. The lemmas show that the routers and the parsers of the bodies agree with it.
\<close>

section \<open>The request for a call\<close>

fun endpoint :: "call \<Rightarrow> meth \<times> string" where
  "endpoint Health = (GET, ''/health'')"
| "endpoint (Enroll d b) = (POST, ''/devices/'' @ d @ ''/enroll'')"
| "endpoint (DeviceEvent ev) = (POST, ''/webhooks/thingsboard'')"
| "endpoint (Telemetry ev) = (POST, ''/webhooks/thingsboard/telemetry'')"
| "endpoint SelectTenant = (GET, ''/portal/'')"
| "endpoint (Login form) = (POST, ''/portal/login'')"
| "endpoint (Callback cb) = (GET, ''/portal/callback'')"
| "endpoint Dashboard = (GET, ''/portal/dashboard'')"
| "endpoint Logout = (GET, ''/portal/logout'')"
| "endpoint AdminDashboard = (GET, ''/portal/admin/'')"
| "endpoint (CreateTenant b) = (POST, ''/portal/admin/tenants'')"
| "endpoint (DeleteTenant t) = (DELETE, ''/portal/admin/tenants/'' @ t)"
| "endpoint (AddProvisioner t b) = (POST, ''/portal/admin/tenants/'' @ t @ ''/provisioner'')"
| "endpoint (PrepareTenant b a) = (POST, ''/portal/admin/tenants/prepare'')"
| "endpoint (JoinHandshake p k) = (POST, ''/portal/admin/join'')"
| "endpoint (SubmitJoin t p) = (POST, ''/portal/admin/join-request/'' @ t)"
| "endpoint ListJoins = (GET, ''/portal/admin/join-requests'')"
| "endpoint (ApproveJoin t) = (POST, ''/portal/admin/tenants/'' @ t @ ''/approve'')"
| "endpoint (RejectJoin t r) = (POST, ''/portal/admin/tenants/'' @ t @ ''/reject'')"
| "endpoint (JoinStatus t) = (GET, ''/portal/admin/tenants/'' @ t @ ''/join-status'')"

text \<open>The ids that a path holds.\<close>

fun path_ids :: "call \<Rightarrow> string list" where
  "path_ids (Enroll d b) = [d]"
| "path_ids (DeleteTenant t) = [t]"
| "path_ids (AddProvisioner t b) = [t]"
| "path_ids (SubmitJoin t p) = [t]"
| "path_ids (ApproveJoin t) = [t]"
| "path_ids (RejectJoin t r) = [t]"
| "path_ids (JoinStatus t) = [t]"
| "path_ids c = []"

text \<open>A body with fields: the key of each, the value it may be left out for, and its value.\<close>

definition body_has :: "json option \<Rightarrow> (string \<times> json option \<times> json) list \<Rightarrow> bool" where
  "body_has j fs = (case Option.bind j json_object of None \<Rightarrow> False
     | Some ps \<Rightarrow> \<forall>(k, d, v)\<in>set fs. (case dict_get ps k of None \<Rightarrow> d | Some x \<Rightarrow> Some x) = Some v)"

definition event_fields :: "thingsboard_webhook_event \<Rightarrow> (string \<times> json option \<times> json) list" where
  "event_fields ev = [(''msgType'', Some (JStr ''UNKNOWN''), JStr (ev_msgType ev)),
     (''metadata'', Some (JObj []), JObj (ev_metadata ev)), (''data'', Some (JObj []), ev_data ev)]"

definition event_data :: "json \<Rightarrow> bool" where
  "event_data j = (case j of JObj d \<Rightarrow> True | JStr s \<Rightarrow> True | _ \<Rightarrow> False)"

fun carries :: "http_request \<Rightarrow> json option \<Rightarrow> call \<Rightarrow> bool" where
  "carries q j (Enroll d b) = body_has j [(''csr'', None, JStr (er_csr b)), (''device_name'', None, JStr (er_device_name b)),
     (''device_type'', Some (JStr ''generic''), JStr (er_device_type b)), (''wg_public_key'', Some JNull, opt_json (er_wg_public_key b))]"
| "carries q j (DeviceEvent ev) = (body_has j (event_fields ev) \<and> event_data (ev_data ev))"
| "carries q j (Telemetry ev) = (body_has j (event_fields ev) \<and> event_data (ev_data ev))"
| "carries q j (Login form) = (form = dict_get (hq_form q) ''tenant_id'')"
| "carries q j (Callback cb) = (cb_code cb = dict_get (hq_query q) ''code'' \<and> cb_state cb = dict_get (hq_query q) ''state'' \<and>
     cb_error cb = dict_get (hq_query q) ''error'' \<and> cb_error_description cb = dict_get (hq_query q) ''error_description'')"
| "carries q j (CreateTenant b) = (b = j)"
| "carries q j (AddProvisioner t b) = (b = j)"
| "carries q j (PrepareTenant b a) = (body_has j [(''tenant_id'', None, JStr (pq_tenant_id b)),
     (''display_name'', None, JStr (pq_display_name b))] \<and> tenant_id_pattern (pq_tenant_id b) \<and>
     a = dict_get (hq_headers q) ''authorization'')"
| "carries q j (JoinHandshake p k) = (body_has j [(''sub_ca_csr'', None, JStr (hp_sub_ca_csr p)),
     (''wg_pubkey'', None, JStr (hp_wg_pubkey p)), (''keycloak_url'', Some (JStr []), JStr (hp_keycloak_url p)),
     (''mqtt_bridge_csr'', Some (JStr []), JStr (hp_mqtt_bridge_csr p))] \<and> k = dict_get (hq_headers q) ''x-join-key'')"
| "carries q j (SubmitJoin t p) = body_has j [(''display_name'', None, JStr (jp_display_name p)),
     (''sub_ca_csr'', None, JStr (jp_sub_ca_csr p)), (''wg_pubkey'', None, JStr (jp_wg_pubkey p)),
     (''keycloak_url'', Some (JStr []), JStr (jp_keycloak_url p)), (''mqtt_bridge_csr'', Some (JStr []), JStr (jp_mqtt_bridge_csr p))]"
| "carries q j (ApproveJoin t) = body_has j []"
| "carries q j (RejectJoin t r) = body_has j [(''reason'', Some (JStr []), JStr r)]"
| "carries q j c = True"

definition located :: "http_request \<Rightarrow> call \<Rightarrow> bool" where
  "located q c \<longleftrightarrow> hq_path q = snd (endpoint c) \<and> list_all segment_ok (path_ids c)"

definition requests :: "http_request \<Rightarrow> json option \<Rightarrow> call \<Rightarrow> bool" where
  "requests q j c \<longleftrightarrow> located q c \<and> hq_meth q = fst (endpoint c) \<and> carries q j c"

text \<open>Why a request is for no call: its path is nobody's, its method is another one, its body is not the declared one.\<close>

definition refusal :: "http_request \<Rightarrow> http_reply" where
  "refusal q = (if \<nexists>c. located q c then detail 404 ''Not Found''
     else if \<nexists>c. located q c \<and> hq_meth q = fst (endpoint c) then detail 405 ''Method Not Allowed'' else ValidationErrors)"

section \<open>The bodies\<close>

lemmas body_parts = body_has_def event_fields_def event_data_def parse_object_def json_object_def required_str_def
  default_str_def optional_str_def dict_field_def dict_or_str_field_def

lemma parse_enrollment_iff: "parse_enrollment_request j = Some b \<longleftrightarrow> carries q j (Enroll d b)"
  by (cases b; cases j) (auto simp: parse_enrollment_request_def body_parts opt_json_def split: option.splits json.splits)

lemma parse_event_iff: "parse_webhook_event j = Some ev \<longleftrightarrow> carries q j (DeviceEvent ev)"
  by (cases ev; cases j) (auto simp: parse_webhook_event_def body_parts split: option.splits json.splits)

lemma parse_prepare_iff: "parse_prepare_request j = Some b \<longleftrightarrow> carries q j (PrepareTenant b (dict_get (hq_headers q) ''authorization''))"
  by (cases b; cases j) (auto simp: parse_prepare_request_def body_parts split: option.splits json.splits)

lemma parse_handshake_iff: "parse_handshake_payload j = Some p \<longleftrightarrow> carries q j (JoinHandshake p (dict_get (hq_headers q) ''x-join-key''))"
  by (cases p; cases j) (auto simp: parse_handshake_payload_def body_parts split: option.splits json.splits)

lemma parse_join_iff: "parse_join_request j = Some p \<longleftrightarrow> carries q j (SubmitJoin t p)"
  by (cases p; cases j) (auto simp: parse_join_request_def body_parts split: option.splits json.splits)

lemma parse_reject_iff: "parse_reject_request j = Some r \<longleftrightarrow> carries q j (RejectJoin t r)"
  by (cases j) (auto simp: parse_reject_request_def body_parts split: option.splits json.splits)

lemma parse_approve_iff: "parse_approve_request j = Some u \<longleftrightarrow> carries q j (ApproveJoin t)"
  by (cases j) (auto simp: parse_approve_request_def body_parts split: option.splits json.splits)

section \<open>The paths\<close>

text \<open>A path that is a template with values for its parameters.\<close>

definition fits :: "string \<Rightarrow> string \<Rightarrow> string list \<Rightarrow> bool" where
  "fits t p vs \<longleftrightarrow> (\<exists>segs. fill (segments t) vs = Some segs \<and> p = join ''/'' segs)"

lemma fits_one:
  assumes "segments t = ts @ u # us" "is_param u" "list_all (\<lambda>x. \<not> is_param x) (ts @ us)"
  shows "fits t p vs \<longleftrightarrow> (\<exists>v. vs = [v] \<and> segment_ok v \<and> p = join ''/'' (ts @ v # us))"
proof -
  have fixed: "fill us vs = (if vs = [] then Some us else None)" if "list_all (\<lambda>x. \<not> is_param x) us" for us vs
    using that by (induction us) auto
  have "fill (ts @ u # us) vs = (case vs of [v] \<Rightarrow> if segment_ok v then Some (ts @ v # us) else None | _ \<Rightarrow> None)"
    using assms(2,3) by (induction ts) (auto simp: fixed split: list.splits)
  then show ?thesis by (auto simp: fits_def assms(1) split: list.splits if_splits)
qed

lemma fits_none:
  assumes "list_all (\<lambda>x. \<not> is_param x) (segments t)"
  shows "fits t p vs \<longleftrightarrow> vs = [] \<and> p = t"
proof -
  have "fill us vs = (if vs = [] then Some us else None)" if "list_all (\<lambda>x. \<not> is_param x) us" for us
    using that by (induction us) auto
  with assms show ?thesis by (simp add: fits_def segments_def join_split_on)
qed

lemma fits_fixed:
  "fits ''/health'' p vs \<longleftrightarrow> vs = [] \<and> p = ''/health''"
  "fits ''/webhooks/thingsboard'' p vs \<longleftrightarrow> vs = [] \<and> p = ''/webhooks/thingsboard''"
  "fits ''/webhooks/thingsboard/telemetry'' p vs \<longleftrightarrow> vs = [] \<and> p = ''/webhooks/thingsboard/telemetry''"
  "fits ''/portal/'' p vs \<longleftrightarrow> vs = [] \<and> p = ''/portal/''"
  "fits ''/portal/login'' p vs \<longleftrightarrow> vs = [] \<and> p = ''/portal/login''"
  "fits ''/portal/callback'' p vs \<longleftrightarrow> vs = [] \<and> p = ''/portal/callback''"
  "fits ''/portal/dashboard'' p vs \<longleftrightarrow> vs = [] \<and> p = ''/portal/dashboard''"
  "fits ''/portal/logout'' p vs \<longleftrightarrow> vs = [] \<and> p = ''/portal/logout''"
  "fits ''/portal/admin/'' p vs \<longleftrightarrow> vs = [] \<and> p = ''/portal/admin/''"
  "fits ''/portal/admin/tenants'' p vs \<longleftrightarrow> vs = [] \<and> p = ''/portal/admin/tenants''"
  "fits ''/portal/admin/tenants/prepare'' p vs \<longleftrightarrow> vs = [] \<and> p = ''/portal/admin/tenants/prepare''"
  "fits ''/portal/admin/join'' p vs \<longleftrightarrow> vs = [] \<and> p = ''/portal/admin/join''"
  "fits ''/portal/admin/join-requests'' p vs \<longleftrightarrow> vs = [] \<and> p = ''/portal/admin/join-requests''"
  by (rule fits_none, code_simp)+

lemma fits_id:
  "fits ''/devices/{device_id}/enroll'' p vs \<longleftrightarrow> (\<exists>v. vs = [v] \<and> segment_ok v \<and> p = ''/devices/'' @ v @ ''/enroll'')"
  "fits ''/portal/admin/tenants/{realm_id}'' p vs \<longleftrightarrow> (\<exists>v. vs = [v] \<and> segment_ok v \<and> p = ''/portal/admin/tenants/'' @ v)"
  "fits ''/portal/admin/tenants/{realm_id}/provisioner'' p vs \<longleftrightarrow> (\<exists>v. vs = [v] \<and> segment_ok v \<and> p = ''/portal/admin/tenants/'' @ v @ ''/provisioner'')"
  "fits ''/portal/admin/join-request/{tenant_id}'' p vs \<longleftrightarrow> (\<exists>v. vs = [v] \<and> segment_ok v \<and> p = ''/portal/admin/join-request/'' @ v)"
  "fits ''/portal/admin/tenants/{tenant_id}/approve'' p vs \<longleftrightarrow> (\<exists>v. vs = [v] \<and> segment_ok v \<and> p = ''/portal/admin/tenants/'' @ v @ ''/approve'')"
  "fits ''/portal/admin/tenants/{tenant_id}/reject'' p vs \<longleftrightarrow> (\<exists>v. vs = [v] \<and> segment_ok v \<and> p = ''/portal/admin/tenants/'' @ v @ ''/reject'')"
  "fits ''/portal/admin/tenants/{tenant_id}/join-status'' p vs \<longleftrightarrow> (\<exists>v. vs = [v] \<and> segment_ok v \<and> p = ''/portal/admin/tenants/'' @ v @ ''/join-status'')"
proof -
  show "fits ''/devices/{device_id}/enroll'' p vs \<longleftrightarrow> (\<exists>v. vs = [v] \<and> segment_ok v \<and> p = ''/devices/'' @ v @ ''/enroll'')"
    by (subst fits_one [of _ "[[], ''devices'']" "''{device_id}''" "[''enroll'']"]) (simp_all add: table_segments is_param_def)
  show "fits ''/portal/admin/tenants/{realm_id}'' p vs \<longleftrightarrow> (\<exists>v. vs = [v] \<and> segment_ok v \<and> p = ''/portal/admin/tenants/'' @ v)"
    by (subst fits_one [of _ "[[], ''portal'', ''admin'', ''tenants'']" "''{realm_id}''" "[]"]) (simp_all add: table_segments is_param_def)
  show "fits ''/portal/admin/tenants/{realm_id}/provisioner'' p vs \<longleftrightarrow> (\<exists>v. vs = [v] \<and> segment_ok v \<and> p = ''/portal/admin/tenants/'' @ v @ ''/provisioner'')"
    by (subst fits_one [of _ "[[], ''portal'', ''admin'', ''tenants'']" "''{realm_id}''" "[''provisioner'']"]) (simp_all add: table_segments is_param_def)
  show "fits ''/portal/admin/join-request/{tenant_id}'' p vs \<longleftrightarrow> (\<exists>v. vs = [v] \<and> segment_ok v \<and> p = ''/portal/admin/join-request/'' @ v)"
    by (subst fits_one [of _ "[[], ''portal'', ''admin'', ''join-request'']" "''{tenant_id}''" "[]"]) (simp_all add: table_segments is_param_def)
  show "fits ''/portal/admin/tenants/{tenant_id}/approve'' p vs \<longleftrightarrow> (\<exists>v. vs = [v] \<and> segment_ok v \<and> p = ''/portal/admin/tenants/'' @ v @ ''/approve'')"
    by (subst fits_one [of _ "[[], ''portal'', ''admin'', ''tenants'']" "''{tenant_id}''" "[''approve'']"]) (simp_all add: table_segments is_param_def)
  show "fits ''/portal/admin/tenants/{tenant_id}/reject'' p vs \<longleftrightarrow> (\<exists>v. vs = [v] \<and> segment_ok v \<and> p = ''/portal/admin/tenants/'' @ v @ ''/reject'')"
    by (subst fits_one [of _ "[[], ''portal'', ''admin'', ''tenants'']" "''{tenant_id}''" "[''reject'']"]) (simp_all add: table_segments is_param_def)
  show "fits ''/portal/admin/tenants/{tenant_id}/join-status'' p vs \<longleftrightarrow> (\<exists>v. vs = [v] \<and> segment_ok v \<and> p = ''/portal/admin/tenants/'' @ v @ ''/join-status'')"
    by (subst fits_one [of _ "[[], ''portal'', ''admin'', ''tenants'']" "''{tenant_id}''" "[''join-status'']"]) (simp_all add: table_segments is_param_def)
qed

section \<open>The table of routes serves exactly the API\<close>

definition some_route :: "(meth \<Rightarrow> string \<Rightarrow> (string list \<Rightarrow> json option \<Rightarrow> http_request \<Rightarrow> call option) \<Rightarrow> bool) \<Rightarrow> bool" where
  "some_route P \<longleftrightarrow> (\<exists>r\<in>set app_routes. P (rt_meth r) (rt_path r) (rt_handler r))"

lemmas some_route_table = some_route_def app_routes_def include_router_def health_routes_def enrollment_routes_def
  webhook_routes_def portal_routes_def admin_routes_def join_routes_def add_def

lemmas parse_iffs = parse_enrollment_iff parse_event_iff parse_prepare_iff parse_handshake_iff parse_join_iff parse_reject_iff
  parse_approve_iff

lemma callback_query_iff: "callback_query d = cb \<longleftrightarrow> cb_code cb = dict_get d ''code'' \<and> cb_state cb = dict_get d ''state'' \<and>
  cb_error cb = dict_get d ''error'' \<and> cb_error_description cb = dict_get d ''error_description''"
  by (cases cb) (auto simp: callback_query_def)

lemma route_for_call:
  "some_route (\<lambda>m t h. m = hq_meth q \<and> (\<exists>vs. fits t (hq_path q) vs \<and> h vs j q = Some c)) \<longleftrightarrow> requests q j c"
  by (cases c) (auto simp: some_route_table fits_fixed fits_id requests_def located_def callback_query_iff parse_iffs [where q = q, unfolded carries.simps])

lemma ex_call: "(\<exists>c. P c) \<longleftrightarrow> P Health \<or> (\<exists>d b. P (Enroll d b)) \<or> (\<exists>ev. P (DeviceEvent ev)) \<or> (\<exists>ev. P (Telemetry ev)) \<or>
  P SelectTenant \<or> (\<exists>f. P (Login f)) \<or> (\<exists>cb. P (Callback cb)) \<or> P Dashboard \<or> P Logout \<or> P AdminDashboard \<or>
  (\<exists>b. P (CreateTenant b)) \<or> (\<exists>t. P (DeleteTenant t)) \<or> (\<exists>t b. P (AddProvisioner t b)) \<or> (\<exists>b a. P (PrepareTenant b a)) \<or>
  (\<exists>p k. P (JoinHandshake p k)) \<or> (\<exists>t p. P (SubmitJoin t p)) \<or> P ListJoins \<or> (\<exists>t. P (ApproveJoin t)) \<or>
  (\<exists>t r. P (RejectJoin t r)) \<or> (\<exists>t. P (JoinStatus t))"
  (is "?l \<longleftrightarrow> ?r")
proof
  assume ?l
  then obtain c where "P c" by blast
  then show ?r by (cases c; blast)
qed blast

lemma route_for_path: "some_route (\<lambda>m t h. \<exists>vs. fits t (hq_path q) vs) \<longleftrightarrow> (\<exists>c. located q c)"
  unfolding ex_call by (simp add: some_route_table fits_fixed [abs_def] fits_id [abs_def] located_def conj_commute)

lemma route_for_method:
  "some_route (\<lambda>m t h. m = hq_meth q \<and> (\<exists>vs. fits t (hq_path q) vs)) \<longleftrightarrow> (\<exists>c. located q c \<and> hq_meth q = fst (endpoint c))"
  unfolding ex_call by (simp add: some_route_table fits_fixed [abs_def] fits_id [abs_def] located_def conj_commute eq_commute [of "hq_meth q"])

text \<open>The choice of the handler, in the terms of the API.\<close>

lemma dispatch_requests:
  assumes "documented pm"
  shows "dispatch pm j q = Routed (Some c) \<longleftrightarrow> requests q j c"
  unfolding routed_iff [OF assms] route_for_call [symmetric] some_route_def fits_def by (auto simp: eq_commute [of "Some c"])

lemma matches_fits: "documented pm \<Longrightarrow> (pm t p \<noteq> None) = (\<exists>vs. fits t p vs)"
  by (auto simp: documented_def fits_def)

lemma dispatch_unknown:
  assumes "documented pm"
  shows "dispatch pm j q = NotFound \<longleftrightarrow> (\<nexists>c. located q c)"
proof -
  have "dispatch pm j q = NotFound \<longleftrightarrow> \<not> some_route (\<lambda>m t h. \<exists>vs. fits t (hq_path q) vs)"
    unfolding dispatch_def some_route_def matches_fits [OF assms, symmetric]
    by (auto simp: find_None_iff find_Some_iff split: option.split)
  then show ?thesis by (simp add: route_for_path)
qed

lemma dispatch_routed:
  assumes "documented pm"
  shows "(\<exists>x. dispatch pm j q = Routed x) \<longleftrightarrow> (\<exists>c. located q c \<and> hq_meth q = fst (endpoint c))"
  unfolding routed_iff [OF assms] route_for_method [symmetric] some_route_def fits_def by metis

text \<open>A request over HTTP as a whole: it is the call that it is a request for, or it is refused and nothing happens.\<close>

lemma handle_requested:
  assumes "documented pm" "requests q (loads_bytes e (hq_body q)) c"
  shows "handle_http pm q e w = respond (serve c) e w"
proof -
  from dispatch_requests [OF assms(1)] assms(2) have "dispatch pm (loads_bytes e (hq_body q)) q = Routed (Some c)" by blast
  then show ?thesis by (simp add: handle_http_def run_simps)
qed

lemma handle_refused:
  assumes "documented pm" "\<nexists>c. requests q (loads_bytes e (hq_body q)) c"
  shows "handle_http pm q e w = (Inr (refusal q), w)"
proof -
  let ?j = "loads_bytes e (hq_body q)"
  note facts = dispatch_unknown [OF assms(1), of ?j q] dispatch_routed [OF assms(1), of ?j q] dispatch_requests [OF assms(1), of ?j q]
  show ?thesis
  proof (cases "dispatch pm ?j q")
    case (Routed x)
    with facts(3) assms(2) have "x = None" by (cases x) auto
    with Routed facts show ?thesis by (auto simp: handle_http_def run_simps refusal_def)
  qed (use facts in \<open>auto simp: handle_http_def run_simps refusal_def\<close>)
qed

end
