(* ===== verification/HttpRuns.thy ===== *)
theory HttpRuns
  imports Endpoints ServiceRuns
begin

text \<open>
  Runs of the API over HTTP: any requests, well-formed or not, of browsers with any cookie they were given. They
  are runs of the service, so what ServiceRuns shows of those holds for the API as the network sees it, and
  which call of it a request is can be read off the API (\<open>requests\<close>, in Endpoints).
\<close>

definition renews_cookie :: "http_reply \<Rightarrow> bool" where
  "renews_cookie r = (case r of PlainText _ _ \<Rightarrow> False | _ \<Rightarrow> True)"

inductive http_step :: "env \<Rightarrow> path_match \<Rightarrow> world \<times> cookie set \<Rightarrow> world \<times> cookie set \<Rightarrow> bool" for e pm where
  http: "s \<in> insert [] cookies \<Longrightarrow> handle_http pm q e (with_cookie s w) = (Inr r, w') \<Longrightarrow>
    http_step e pm (w, cookies) (w', if renews_cookie r then insert (w_session w') cookies else cookies)"

inductive_cases http_stepE: "http_step e pm (w, cookies) (w', cookies')"

lemma serve_health: "serve Health e w = (Inr (AHealth \<lparr>he_status = ''ok'', he_service = ''iot-bridge-api''\<rparr>), w)"
  by (simp add: answers_def health_def run_simps)

lemma handle_http_cases:
  assumes "handle_http pm q e w = (Inr r, w')"
  obtains c r0 where "serve c e w = (r0, w')" "renews_cookie r = sets_cookie r0"
proof (cases "\<exists>c. dispatch pm (loads_bytes e (hq_body q)) q = Routed (Some c)")
  case True
  then obtain c where c: "dispatch pm (loads_bytes e (hq_body q)) q = Routed (Some c)" by blast
  obtain r0 w0 where s: "serve c e w = (r0, w0)" by fastforce
  with c assms have "w0 = w'" "r = (case r0 of Inl x \<Rightarrow> exception_reply x | Inr a \<Rightarrow> Reply (answer_reply a))"
    by (auto simp: handle_http_def run_simps respond_def split: sum.splits)
  with s that show ?thesis
    by (auto simp: renews_cookie_def sets_cookie_def exception_reply_def detail_def split: sum.splits exn.splits)
next
  case False
  with assms have "w' = w" "renews_cookie r"
    by (auto simp: handle_http_def run_simps renews_cookie_def detail_def split: routed.splits option.splits)
  with serve_health [of e w] show ?thesis by (intro that [of Health]) (auto simp: sets_cookie_def)
qed

lemma http_step_service: "http_step e pm (w, cookies) (w', cookies') \<Longrightarrow> service_step e (w, [], cookies) (w', [], cookies')"
proof -
  assume "http_step e pm (w, cookies) (w', cookies')"
  then obtain s q r where s: "s \<in> insert [] cookies" and h: "handle_http pm q e (with_cookie s w) = (Inr r, w')"
    and c: "cookies' = (if renews_cookie r then insert (w_session w') cookies else cookies)"
    by (rule http_stepE) blast
  from h obtain d r0 where "serve d e (with_cookie s w) = (r0, w')" "renews_cookie r = sets_cookie r0" by (rule handle_http_cases)
  with service_step.request [OF s this(1), of "[]"] c show ?thesis by simp
qed

lemma http_run_service:
  assumes "(http_step e pm)\<^sup>*\<^sup>* (empty_world, {}) (w, cookies)"
  shows "(service_step e)\<^sup>*\<^sup>* (empty_world, [], {}) (w, [], cookies)"
  using assms
proof (induction "(w, cookies)" arbitrary: w cookies rule: rtranclp_induct)
  case (step y)
  obtain w1 cs1 where y: "y = (w1, cs1)" by (cases y)
  with step(3) [of w1 cs1] step(2) http_step_service show ?case by (meson rtranclp.rtrancl_into_rtrancl)
qed simp


end
