(* ===== verification/HttpWitnesses.thy ===== *)
theory HttpWitnesses
  imports ServiceWitnesses HttpRuns
begin

text \<open>The run of one HTTP request, a tenant's submission with its body as bytes, on the sample deployment.\<close>

definition submit_document :: json where
  "submit_document = JObj [(''display_name'', JStr ''Acme''), (''sub_ca_csr'', JStr ''csr''), (''wg_pubkey'', JStr ''wg'')]"

definition submit_http :: http_request where
  "submit_http = plain_request POST ''/portal/admin/join-request/acme'' (write_text (json_dumps (\<lambda>f. []) True None submit_document))"

lemma submit_dispatched:
  "dispatch segment_match (Some submit_document) submit_http = Routed (Some (SubmitJoin ''acme''
     \<lparr>jp_display_name = ''Acme'', jp_sub_ca_csr = ''csr'', jp_wg_pubkey = ''wg'', jp_keycloak_url = [], jp_mqtt_bridge_csr = []\<rparr>))"
proof -
  have "dispatch segment_match (Some submit_document) (plain_request POST ''/portal/admin/join-request/acme'' bs) = Routed (Some (SubmitJoin ''acme''
     \<lparr>jp_display_name = ''Acme'', jp_sub_ca_csr = ''csr'', jp_wg_pubkey = ''wg'', jp_keycloak_url = [], jp_mqtt_bridge_csr = []\<rparr>))" for bs
    by code_simp
  then show ?thesis by (simp add: submit_http_def)
qed

definition submit_call :: call where
  "submit_call = SubmitJoin ''acme''
     \<lparr>jp_display_name = ''Acme'', jp_sub_ca_csr = ''csr'', jp_wg_pubkey = ''wg'', jp_keycloak_url = [], jp_mqtt_bridge_csr = []\<rparr>"

lemma submit_requested: "requests submit_http (loads_bytes sample_env (hq_body submit_http)) submit_call"
proof -
  have "loads_bytes sample_env (hq_body submit_http) = Some submit_document"
    unfolding submit_http_def plain_request_def http_request.simps
    by (rule loads_bytes_document) (simp add: submit_document_def dict_wf_def)
  with submit_dispatched show ?thesis by (simp add: dispatch_requests [OF segment_match_documented, symmetric] submit_call_def)
qed

lemma submit_served:
  obtains r w where "respond (serve submit_call) sample_env empty_world = (Inr r, w)"
    "\<exists>x. dict_get (joins w) ''acme'' = Some x \<and> je_status x = Pending"
proof -
  let ?p = "\<lparr>jp_display_name = ''Acme'', jp_sub_ca_csr = ''csr'', jp_wg_pubkey = ''wg'', jp_keycloak_url = [], jp_mqtt_bridge_csr = []\<rparr>"
  obtain j w where s: "submit_join_request ''acme'' ?p sample_env empty_world = (Inr j, w)"
    "joins w = [(''acme'', new_join_entry ''acme'' ?p 0)]"
    using sample_valid by (simp add: submit_join_request_def check_tenant_id_def run_simps join_file.load_bnd join_file.save_thn
        save_store_def sample_simps dict_set_def empty_world_def joins_def)
  from s(1) have "respond (serve submit_call) sample_env empty_world = (Inr (Reply j), w)"
    by (simp add: run_simps respond_def answers_def bnd_def answer_reply_def submit_call_def)
  from that [OF this] s(2) show ?thesis by (simp add: sample_pending)
qed


end
