(* ===== verification/IsoTime.thy ===== *)
theory IsoTime
  imports PyTime
begin

text \<open>
  \<open>datetime.fromisoformat\<close> on the texts that \<open>isoformat\<close> writes for a UTC time, and that it gives back the
  instant: the calendar of CPython is a bijection between ordinals and dates.
\<close>

section \<open>Ordinals of dates\<close>

definition is_leap :: "int \<Rightarrow> bool" where
  "is_leap y = (y mod 4 = 0 \<and> (y mod 100 \<noteq> 0 \<or> y mod 400 = 0))"

definition days_before_year :: "int \<Rightarrow> int" where
  "days_before_year year = (let y = year - 1 in y * 365 + y div 4 - y div 100 + y div 400)"

definition ymd2ord :: "int \<Rightarrow> int \<Rightarrow> int \<Rightarrow> int" where
  "ymd2ord year month day = days_before_year year +
     (days_before_month ! nat month + (if month > 2 \<and> is_leap year then 1 else 0)) + day"

definition days_in :: "int \<Rightarrow> int \<Rightarrow> int" where
  "days_in y m = days_in_month ! nat m + (if m = 2 \<and> is_leap y then 1 else 0)"

definition max_ordinal :: int where
  "max_ordinal = 3652059"

definition month_day_ok :: "bool \<Rightarrow> int \<Rightarrow> bool" where
  "month_day_ok leap n = (case month_day leap n of (m, d) \<Rightarrow>
     days_before_month ! nat m + (if m > 2 \<and> leap then 1 else 0) + d = n + 1 \<and> 1 \<le> m \<and> m \<le> 12 \<and>
     1 \<le> d \<and> d \<le> days_in_month ! nat m + (if m = 2 \<and> leap then 1 else 0))"

lemma month_day_inverse: "0 \<le> n \<Longrightarrow> n \<le> 364 \<Longrightarrow> month_day_ok leap n"
proof -
  assume n: "0 \<le> n" "n \<le> 364"
  have "list_all (month_day_ok True) [0..364]" "list_all (month_day_ok False) [0..364]" by code_simp+
  with n show ?thesis by (cases leap) (simp_all add: list_all_iff)
qed

lemma div_part: "0 < k \<Longrightarrow> 0 \<le> r \<Longrightarrow> r < k \<Longrightarrow> (k * q + r) div k = (q :: int) \<and> (k * q + r) mod k = r"
  by (simp add: div_pos_pos_trivial)

lemma year_parts:
  assumes "0 \<le> p" "p \<le> 3" "0 \<le> r" "r \<le> 24" "0 \<le> s" "s \<le> (3 :: int)"
  shows "days_before_year (400 * q + 100 * p + 4 * r + s + 1) = 146097 * q + 36524 * p + 1461 * r + 365 * s"
    "is_leap (400 * q + 100 * p + 4 * r + s + 1) \<longleftrightarrow> s = 3 \<and> (r \<noteq> 24 \<or> p = 3)"
proof -
  let ?y = "400 * q + 100 * p + 4 * r + s"
  have y: "?y = 4 * (100 * q + 25 * p + r) + s" "?y = 100 * (4 * q + p) + (4 * r + s)" "?y = 400 * q + (100 * p + 4 * r + s)"
    by simp_all
  have "?y div 4 = 100 * q + 25 * p + r" unfolding y(1) by (rule div_part [THEN conjunct1]) (use assms in simp_all)
  moreover have "?y div 100 = 4 * q + p" unfolding y(2) by (rule div_part [THEN conjunct1]) (use assms in simp_all)
  moreover have "?y div 400 = q" unfolding y(3) by (rule div_part [THEN conjunct1]) (use assms in simp_all)
  ultimately show "days_before_year (?y + 1) = 146097 * q + 36524 * p + 1461 * r + 365 * s"
    by (simp add: days_before_year_def Let_def)
  have m: "(k * z + t + 1) mod k = (if t = k - 1 then 0 else t + 1)" if "0 \<le> t" "t < k" for k z t :: int
  proof (cases "t = k - 1")
    case True
    then have "k * z + t + 1 = k * (z + 1)" by (simp add: algebra_simps)
    then show ?thesis using True by simp
  next
    case False
    then show ?thesis using that div_part [of k "t + 1" z] by (simp add: add.assoc)
  qed
  have "(?y + 1) mod 4 = 0 \<longleftrightarrow> s = 3" unfolding y(1) by (subst m) (use assms in auto)
  moreover have "(?y + 1) mod 100 = 0 \<longleftrightarrow> 4 * r + s = 99" unfolding y(2) by (subst m) (use assms in auto)
  moreover have "(?y + 1) mod 400 = 0 \<longleftrightarrow> 100 * p + 4 * r + s = 399" unfolding y(3) by (subst m) (use assms in auto)
  moreover have r: "4 * r + s = 99 \<longleftrightarrow> r = 24 \<and> s = 3" using assms by linarith
  moreover have "100 * p + 4 * r + s = 399 \<longleftrightarrow> p = 3 \<and> r = 24 \<and> s = 3"
  proof
    assume h: "100 * p + 4 * r + s = 399"
    then have "p = 3" using assms by linarith
    with h r show "p = 3 \<and> r = 24 \<and> s = 3" by simp
  qed simp
  ultimately show "is_leap (?y + 1) \<longleftrightarrow> s = 3 \<and> (r \<noteq> 24 \<or> p = 3)" unfolding is_leap_def by (simp only:) blast
qed

lemma ord2ymd_inverse:
  assumes "1 \<le> n" "n \<le> max_ordinal" "ord2ymd n = (y, m, d)"
  shows "ymd2ord y m d = n \<and> 1 \<le> y \<and> y \<le> 9999 \<and> 1 \<le> m \<and> m \<le> 12 \<and> 1 \<le> d \<and> d \<le> days_in y m"
proof -
  define q a where "q = (n - 1) div 146097" and "a = (n - 1) mod 146097"
  define p b where "p = a div 36524" and "b = a mod 36524"
  define r c where "r = b div 1461" and "c = b mod 1461"
  define s e where "s = c div 365" and "e = c mod 365"
  have n: "n - 1 = 146097 * q + a" "a = 36524 * p + b" "b = 1461 * r + c" "c = 365 * s + e"
    by (simp_all add: q_def a_def p_def b_def r_def c_def s_def e_def)
  have bounds: "0 \<le> a" "a < 146097" "0 \<le> b" "b < 36524" "0 \<le> c" "c < 1461" "0 \<le> e" "e < 365"
    by (simp_all add: a_def b_def c_def e_def)
  have q: "0 \<le> q" "q \<le> 24" using n(1) bounds(1,2) assms(1,2) unfolding max_ordinal_def by linarith+
  have p: "0 \<le> p" "p \<le> 4" using n(2) bounds(1-4) by linarith+
  have r: "0 \<le> r" "r \<le> 24" using n(3) bounds(3-6) by linarith+
  have s: "0 \<le> s" "s \<le> 4" using n(4) bounds(5-8) by linarith+
  let ?y = "q * 400 + 1 + p * 100 + r * 4 + s"
  have ymd: "(y, m, d) = (if s = 4 \<or> p = 4 then (?y - 1, 12, 31) else (?y, month_day (s = 3 \<and> (r \<noteq> 24 \<or> p = 3)) e))"
    using assms(3) unfolding ord2ymd_def Let_def q_def p_def r_def s_def a_def b_def c_def e_def by simp
  show ?thesis
  proof (cases "p = 4")
    case True
    then have z: "b = 0" "r = 0" "c = 0" "s = 0" "e = 0" using n bounds r s by linarith+
    have "n = 146097 * q + 146097" using n True z by linarith
    moreover have "y = 400 * q + 400" "m = 12" "d = 31" using ymd True z by auto
    moreover have "days_before_year (400 * q + 400) = 146097 * q + 145731" by (simp add: days_before_year_def Let_def)
    ultimately show ?thesis using q assms(2) by (simp add: ymd2ord_def is_leap_def days_before_month_def days_in_def days_in_month_def max_ordinal_def)
  next
    case p4: False
    then have p3: "p \<le> 3" using p by linarith
    show ?thesis
    proof (cases "s = 4")
      case True
      then have "e = 0" using n(4) bounds(6-7) by linarith
      then have r23: "r \<le> 23" using True n(3,4) bounds(4) r by linarith
      have y: "y = 400 * q + 100 * p + 4 * r + 3 + 1" "m = 12" "d = 31" using ymd True by auto
      have "is_leap y" "days_before_year y = 146097 * q + 36524 * p + 1461 * r + 1095"
        using year_parts [of p r 3 q] p(1) p3 r(1) r23 unfolding y(1) by simp_all
      with n True \<open>e = 0\<close> p(1) p3 q r(1) r23 show ?thesis unfolding ymd2ord_def y(2,3) by (simp add: days_before_month_def days_in_def days_in_month_def y(1))
    next
      case False
      then have s3: "s \<le> 3" using s by linarith
      define leap where "leap = (s = 3 \<and> (r \<noteq> 24 \<or> p = 3))"
      have md: "month_day leap e = (m, d)" "y = ?y" using ymd p4 False by (auto simp: leap_def)
      have "is_leap y = leap" "days_before_year y = 146097 * q + 36524 * p + 1461 * r + 365 * s"
        using year_parts [of p r s q] p(1) p3 r s(1) s3 md(2) by (simp_all add: leap_def algebra_simps)
      moreover have "month_day_ok leap e" using bounds(7,8) by (intro month_day_inverse) auto
      moreover have "1 \<le> y" "y \<le> 9999" using md(2) q p(1) p3 r s(1) s3 n assms(2) bounds(7,8) unfolding max_ordinal_def by linarith+
      ultimately show ?thesis using n by (simp add: month_day_ok_def md(1) ymd2ord_def days_in_def)
    qed
  qed
qed

section \<open>Reading a time\<close>

text \<open>\<open>datetime.fromisoformat(s)\<close>; texts of another shape than those of \<open>isoformat\<close> are \<^const>\<open>None\<close> here.\<close>

definition all_digits :: "string \<Rightarrow> bool" where
  "all_digits s = (s \<noteq> [] \<and> list_all c_digit s)"

definition fields_instant :: "int \<Rightarrow> int \<Rightarrow> int \<Rightarrow> int \<Rightarrow> int \<Rightarrow> int \<Rightarrow> int \<Rightarrow> instant option" where
  "fields_instant y m d hour minute second micro =
     (if 1 \<le> y \<and> 1 \<le> m \<and> m \<le> 12 \<and> 1 \<le> d \<and> d \<le> days_in y m \<and> hour < 24 \<and> minute < 60 \<and> second < 60
      then Some ((ymd2ord y m d - epoch_ordinal) * day_us + ((hour * 60 + minute) * 60 + second) * 1000000 + micro)
      else None)"

definition fromisoformat :: "string \<Rightarrow> instant option" where
  "fromisoformat s = (let
     y = take 4 s; m = take 2 (drop 5 s); d = take 2 (drop 8 s); hour = take 2 (drop 11 s); minute = take 2 (drop 14 s);
     second = take 2 (drop 17 s); tail = drop 19 s; micro = (if length tail = 13 then take 6 (drop 1 tail) else ''000000'');
     num = (\<lambda>x. int (undec x)) in
     if list_all all_digits [y, m, d, hour, minute, second, micro] \<and>
        s = y @ ''-'' @ m @ ''-'' @ d @ ''T'' @ hour @ '':'' @ minute @ '':'' @ second @ tail \<and>
        (tail = ''+00:00'' \<or> tail = ''.'' @ micro @ ''+00:00'')
     then fields_instant (num y) (num m) (num d) (num hour) (num minute) (num second) (num micro) else None)"

lemma pad_facts:
  assumes "0 \<le> n" "n < 10 ^ k" "0 < k"
  shows "length (pad k n) = k" "undec (pad k n) = nat n" "all_digits (pad k n)"
proof -
  have "nat n < 10 ^ k" using assms(1,2) by (simp add: nat_less_iff)
  then have l: "length (dec (nat n)) \<le> k" using length_dec [of "nat n" "k - 1"] assms(3) by simp
  then show "length (pad k n) = k" by (simp add: pad_def Let_def)
  have "undec (replicate j CHR ''0'' @ s) = undec s" for j s by (induction j) (simp_all add: undec_def)
  then show "undec (pad k n) = nat n" by (simp add: pad_def Let_def undec_dec)
  show "all_digits (pad k n)" using dec_digits [of "nat n"] dec_nonempty [of "nat n"]
    by (auto simp: all_digits_def pad_def Let_def list_all_iff c_digit_def)
qed

lemma fromisoformat_fields:
  assumes "length A = 4" "length B = 2" "length C = 2" "length D = 2" "length E = 2" "length F = 2"
    "list_all all_digits [A, B, C, D, E, F, G]" "tail = ''+00:00'' \<and> G = ''000000'' \<or> tail = ''.'' @ G @ ''+00:00'' \<and> length G = 6"
  shows "fromisoformat (A @ ''-'' @ B @ ''-'' @ C @ ''T'' @ D @ '':'' @ E @ '':'' @ F @ tail) =
    fields_instant (int (undec A)) (int (undec B)) (int (undec C)) (int (undec D)) (int (undec E)) (int (undec F)) (int (undec G))"
  using assms(7,8) by (elim disjE conjE) (simp_all add: fromisoformat_def Let_def assms(1-6))

definition micro_text :: "int \<Rightarrow> string" where
  "micro_text micro = (if micro = 0 then [] else ''.'' @ pad 6 micro) @ ''+00:00''"

definition fields_text :: "int \<Rightarrow> int \<Rightarrow> int \<Rightarrow> int \<Rightarrow> int \<Rightarrow> int \<Rightarrow> int \<Rightarrow> string" where
  "fields_text y m d hour minute second micro = pad 4 y @ ''-'' @ pad 2 m @ ''-'' @ pad 2 d @ ''T'' @ pad 2 hour @ '':'' @
     pad 2 minute @ '':'' @ pad 2 second @ micro_text micro"

definition fields_ok :: "int \<Rightarrow> int \<Rightarrow> int \<Rightarrow> int \<Rightarrow> int \<Rightarrow> int \<Rightarrow> int \<Rightarrow> bool" where
  "fields_ok y m d hour minute second micro = (1 \<le> y \<and> y \<le> 9999 \<and> 1 \<le> m \<and> m \<le> 12 \<and> 1 \<le> d \<and> d \<le> 31 \<and> 0 \<le> hour \<and> hour < 24 \<and>
     0 \<le> minute \<and> minute < 60 \<and> 0 \<le> second \<and> second < 60 \<and> 0 \<le> micro \<and> micro < 1000000)"

lemma days_in_month_31:
  assumes "1 \<le> m" "m \<le> 12"
  shows "days_in y m \<le> 31"
proof -
  have "list_all (\<lambda>m. days_in_month ! nat m \<le> 31 \<and> (m = 2 \<longrightarrow> days_in_month ! nat m \<le> 30)) [1..12]" by code_simp
  with assms show ?thesis by (auto simp: list_all_iff days_in_def)
qed

text \<open>The fields of an instant, and the instant they are.\<close>

lemma instant_fields:
  assumes "1 \<le> t div day_us + epoch_ordinal" "t div day_us + epoch_ordinal \<le> max_ordinal"
  obtains y m d h mi s u where "isoformat t = fields_text y m d h mi s u" "fields_ok y m d h mi s u" "d \<le> days_in y m"
    "ymd2ord y m d = t div day_us + epoch_ordinal" "t mod day_us = ((h * 60 + mi) * 60 + s) * 1000000 + u"
proof -
  define us sec where "us = t mod day_us" and "sec = us div 1000000"
  have us: "0 \<le> us" "us < day_us" by (simp_all add: us_def day_us_def)
  have sec: "us = sec * 1000000 + us mod 1000000" "0 \<le> us mod 1000000" "us mod 1000000 < 1000000" by (simp_all add: sec_def)
  have sec_range: "0 \<le> sec" "sec < 86400" using us sec unfolding day_us_def by linarith+
  have hms: "0 \<le> sec div 3600" "sec div 3600 < 24" "0 \<le> sec div 60 mod 60" "sec div 60 mod 60 < 60" "0 \<le> sec mod 60" "sec mod 60 < 60"
    using sec_range by (simp_all add: div_less_iff_less_mult pos_imp_zdiv_nonneg_iff)
  have "sec div 3600 = sec div 60 div 60" by (simp add: zdiv_zmult2_eq [symmetric])
  then have parts: "(sec div 3600 * 60 + sec div 60 mod 60) * 60 + sec mod 60 = sec" by (metis div_mult_mod_eq)
  obtain y m d where ymd: "ord2ymd (t div day_us + epoch_ordinal) = (y, m, d)" by (cases "ord2ymd (t div day_us + epoch_ordinal)")
  note o = ord2ymd_inverse [OF assms ymd]
  show ?thesis
  proof (rule that)
    show "isoformat t = fields_text y m d (sec div 3600) (sec div 60 mod 60) (sec mod 60) (us mod 1000000)"
      by (simp add: isoformat_def ymd Let_def fields_text_def micro_text_def us_def [symmetric] sec_def [symmetric])
    show "fields_ok y m d (sec div 3600) (sec div 60 mod 60) (sec mod 60) (us mod 1000000)"
      using o hms sec(2,3) days_in_month_31 [of m y] by (auto simp: fields_ok_def)
    show "d \<le> days_in y m" "ymd2ord y m d = t div day_us + epoch_ordinal" using o by simp_all
    show "t mod day_us = ((sec div 3600 * 60 + sec div 60 mod 60) * 60 + sec mod 60) * 1000000 + us mod 1000000"
      unfolding parts using sec(1) by (simp add: us_def)
  qed
qed

text \<open>\<open>fromisoformat\<close> is the inverse of \<open>isoformat\<close> on every instant a \<open>datetime\<close> can hold.\<close>

lemma fromisoformat_isoformat:
  assumes "1 \<le> t div day_us + epoch_ordinal" "t div day_us + epoch_ordinal \<le> max_ordinal"
  shows "fromisoformat (isoformat t) = Some t"
proof -
  obtain y m d h mi s u where t: "isoformat t = fields_text y m d h mi s u" "fields_ok y m d h mi s u" "d \<le> days_in y m"
    "ymd2ord y m d = t div day_us + epoch_ordinal" "t mod day_us = ((h * 60 + mi) * 60 + s) * 1000000 + u"
    by (rule instant_fields [OF assms])
  let ?G = "if u = 0 then ''000000'' else pad 6 u"
  have r: "0 \<le> y" "y < 10 ^ 4" "0 \<le> m" "m < 10 ^ 2" "0 \<le> d" "d < 10 ^ 2" "0 \<le> h" "h < 10 ^ 2" "0 \<le> mi" "mi < 10 ^ 2"
    "0 \<le> s" "s < 10 ^ 2" "0 \<le> u" "u < 10 ^ 6" using t(2) by (auto simp: fields_ok_def)
  have G: "int (undec ?G) = u" "all_digits ?G" using pad_facts [of u 6] r(13,14)
    by (auto simp: undec_def all_digits_def c_digit_def)
  have "fromisoformat (isoformat t) = fields_instant y m d h mi s u"
    unfolding t(1) fields_text_def micro_text_def using r G pad_facts [of y 4] pad_facts [of m 2] pad_facts [of d 2] pad_facts [of h 2]
      pad_facts [of mi 2] pad_facts [of s 2] pad_facts [of u 6]
    by (subst fromisoformat_fields [where G = ?G]) simp_all
  also have "\<dots> = Some ((ymd2ord y m d - epoch_ordinal) * day_us + ((h * 60 + mi) * 60 + s) * 1000000 + u)"
    using t(2,3) by (simp add: fields_instant_def fields_ok_def)
  finally show ?thesis using t(4,5) by (metis add_diff_cancel_right' div_mult_mod_eq add.assoc)
qed

end
