(* ===== verification/StoreFiles.thy ===== *)
theory StoreFiles
  imports JoinKeys JoinStore Replies WireGuard IsoTime
begin

text \<open>
  The three files of the service as bytes. The stores of the model are dictionaries of records; the code keeps
  JSON objects, reads them with \<open>json.loads(path.read_text())\<close> and writes them with \<open>json.dumps\<close>. Here the
  entries are encoded as the code's dict literals, the contract of such a file is the locale \<open>file_codec\<close>,
  and \<open>validate_and_consume\<close> is written a second time, on the file and the JSON entries as the code has
  them, and refined. The last section is about a crash while a file is written.
\<close>

section \<open>A dictionary in a file\<close>

definition store_json :: "('v \<Rightarrow> json) \<Rightarrow> (string, 'v) dict \<Rightarrow> json" where
  "store_json enc d = JObj (map (\<lambda>(k, v). (k, enc v)) d)"

definition store_of :: "(json \<Rightarrow> 'v option) \<Rightarrow> json \<Rightarrow> (string, 'v) dict option" where
  "store_of decode j = (case j of JObj ps \<Rightarrow> those (map (\<lambda>(k, v). map_option (Pair k) (decode v)) ps) | _ \<Rightarrow> None)"

text \<open>\<open>path.write_text(json.dumps(data, indent=2, ensure_ascii=a))\<close> and \<open>json.loads(path.read_text())\<close>.\<close>

definition dump_file :: "env \<Rightarrow> bool \<Rightarrow> json \<Rightarrow> nat list" where
  "dump_file e a data = write_text (json_dumps (e_float_repr e) a (Some 2) data)"

definition load_file :: "env \<Rightarrow> nat list option \<Rightarrow> exn + json" where
  "load_file e file = (case file of None \<Rightarrow> Inr (JObj [])
     | Some b \<Rightarrow> (case loads_text e (read_text b) of None \<Rightarrow> Inl (ValueError ''Expecting value'') | Some j \<Rightarrow> Inr j))"

lemma load_dump: "plain_json j \<Longrightarrow> load_file e (Some (dump_file e a j)) = Inr j"
  by (simp add: load_file_def dump_file_def loads_text_def document_file)

lemma store_json_get: "dict_get (map (\<lambda>(k, v). (k, enc v)) d) k = map_option enc (dict_get d k)"
  by (induction d) auto

lemma store_json_set: "map (\<lambda>(k, v). (k, enc v)) (dict_set k x d) = dict_set k (enc x) (map (\<lambda>(k, v). (k, enc v)) d)"
  by (induction d) (auto simp: dict_set_def)

lemma store_json_wf: "dict_wf (map (\<lambda>(k, v). (k, enc v)) d) = dict_wf d"
  by (simp add: dict_wf_def case_prod_unfold comp_def)

locale file_codec =
  fixes enc :: "'v \<Rightarrow> json" and decode :: "json \<Rightarrow> 'v option" and ok :: "'v \<Rightarrow> bool"
  assumes plain_enc: "ok v \<Longrightarrow> plain_json (enc v)"
    and decode_enc: "ok v \<Longrightarrow> decode (enc v) = Some v"
begin

lemma plain_store: "dict_wf d \<Longrightarrow> list_all ok (dict_values d) \<Longrightarrow> plain_json (store_json enc d)"
  by (fastforce simp: store_json_def store_json_wf dict_values_def list_all_iff intro: plain_enc)

lemma store_decodes: "list_all ok (dict_values d) \<Longrightarrow> store_of decode (store_json enc d) = Some d"
proof -
  assume "list_all ok (dict_values d)"
  then have "those (map (\<lambda>(k, v). map_option (Pair k) (decode (enc v))) d) = Some d"
    by (induction d) (auto simp: dict_values_def decode_enc)
  then show ?thesis by (simp add: store_of_def store_json_def case_prod_unfold comp_def)
qed

text \<open>What is saved is what is loaded.\<close>

lemma file_roundtrip:
  assumes "dict_wf d" "list_all ok (dict_values d)"
  obtains j where "load_file e (Some (dump_file e a (store_json enc d))) = Inr j" "store_of decode j = Some d"
  using load_dump [OF plain_store [OF assms]] store_decodes [OF assms(2)] by blast

end

section \<open>Fields\<close>

definition str_field :: "json \<Rightarrow> string \<Rightarrow> string option" where
  "str_field j k = (case j of JObj ps \<Rightarrow> (case dict_get ps k of Some (JStr s) \<Rightarrow> Some s | _ \<Rightarrow> None) | _ \<Rightarrow> None)"

definition opt_field :: "json \<Rightarrow> string \<Rightarrow> string option option" where
  "opt_field j k = (case j of JObj ps \<Rightarrow> (case dict_get ps k of Some (JStr s) \<Rightarrow> Some (Some s) | Some JNull \<Rightarrow> Some None | _ \<Rightarrow> None)
     | _ \<Rightarrow> None)"

definition any_field :: "json \<Rightarrow> string \<Rightarrow> json option" where
  "any_field j k = (case j of JObj ps \<Rightarrow> dict_get ps k | _ \<Rightarrow> None)"

definition time_field :: "json \<Rightarrow> string \<Rightarrow> instant option" where
  "time_field j k = Option.bind (str_field j k) fromisoformat"

definition opt_time_field :: "json \<Rightarrow> string \<Rightarrow> instant option option" where
  "opt_time_field j k = Option.bind (opt_field j k)
     (\<lambda>x. case x of None \<Rightarrow> Some None | Some s \<Rightarrow> map_option Some (fromisoformat s))"

definition time_ok :: "instant \<Rightarrow> bool" where
  "time_ok t = (1 \<le> t div day_us + epoch_ordinal \<and> t div day_us + epoch_ordinal \<le> max_ordinal)"

lemma read_time: "time_ok t \<Longrightarrow> fromisoformat (isoformat t) = Some t"
  by (simp add: time_ok_def fromisoformat_isoformat)

definition opt_ok :: "instant option \<Rightarrow> bool" where
  "opt_ok x = (case x of None \<Rightarrow> True | Some t \<Rightarrow> time_ok t)"

definition key_status_of :: "string \<Rightarrow> key_status option" where
  "key_status_of s = find (\<lambda>x. key_status_text x = s) [Open, Used, Revoked, Expired]"

definition join_status_of :: "string \<Rightarrow> join_status option" where
  "join_status_of s = find (\<lambda>x. join_status_text x = s) [Pending, Approved, Rejected]"

lemma status_of_text [simp]: "key_status_of (key_status_text s) = Some s" "join_status_of (join_status_text t) = Some t"
  by (cases s; simp add: key_status_of_def key_status_text_def) (cases t; simp add: join_status_of_def join_status_text_def)

lemma field_simps_JObj [simp]:
  "any_field (JObj ps) k = dict_get ps k"
  "dict_get ps k = Some (JStr s) \<Longrightarrow> str_field (JObj ps) k = Some s"
  "dict_get ps k = Some (opt_json x) \<Longrightarrow> opt_field (JObj ps) k = Some x"
  "dict_get ps k = Some (JStr (isoformat t)) \<Longrightarrow> time_ok t \<Longrightarrow> time_field (JObj ps) k = Some t"
  "dict_get ps k = Some (opt_time y) \<Longrightarrow> opt_ok y \<Longrightarrow> opt_time_field (JObj ps) k = Some y"
  by (auto simp: any_field_def str_field_def opt_field_def opt_json_def opt_time_def time_field_def opt_time_field_def
      opt_ok_def read_time split: option.splits)

section \<open>The three files\<close>

text \<open>The entry of a JOIN key, as the dict literal in \<open>create_key\<close>.\<close>

definition key_json :: "key_entry \<Rightarrow> json" where
  "key_json x = JObj
     [(''key'', JStr (ke_key x)), (''tenant_id'', JStr (ke_tenant_id x)), (''display_name'', JStr (ke_display_name x)),
      (''status'', JStr (key_status_text (ke_status x))), (''created_at'', JStr (isoformat (ke_created_at x))),
      (''expires_at'', JStr (isoformat (ke_expires_at x))), (''used_at'', opt_time (ke_used_at x))]"

definition key_of_json :: "json \<Rightarrow> key_entry option" where
  "key_of_json j = (case (str_field j ''key'', str_field j ''tenant_id'', str_field j ''display_name'',
       Option.bind (str_field j ''status'') key_status_of, time_field j ''created_at'', time_field j ''expires_at'',
       opt_time_field j ''used_at'') of
     (Some k, Some t, Some d, Some s, Some c, Some x, Some u) \<Rightarrow> Some \<lparr>ke_key = k, ke_tenant_id = t,
       ke_display_name = d, ke_status = s, ke_created_at = c, ke_expires_at = x, ke_used_at = u\<rparr>
   | _ \<Rightarrow> None)"

definition key_times_ok :: "key_entry \<Rightarrow> bool" where
  "key_times_ok x = (time_ok (ke_created_at x) \<and> time_ok (ke_expires_at x) \<and> opt_ok (ke_used_at x))"

lemma plain_opt [simp]: "plain_json (opt_json x)" "plain_json (opt_time y)"
  by (simp_all add: opt_json_def opt_time_def split: option.split)

lemma plain_key [simp]: "plain_json (key_json x)"
  by (simp add: key_json_def dict_wf_def)

interpretation key_codec: file_codec key_json key_of_json key_times_ok
  by (unfold_locales, simp, simp add: key_of_json_def key_json_def key_times_ok_def)

definition join_of_json :: "json \<Rightarrow> join_entry option" where
  "join_of_json j = (case (str_field j ''tenant_id'', str_field j ''display_name'', str_field j ''sub_ca_csr'',
       str_field j ''mqtt_bridge_csr'', str_field j ''wg_pubkey'', str_field j ''keycloak_url'',
       Option.bind (str_field j ''status'') join_status_of, time_field j ''requested_at'') of
     (Some t, Some d, Some s, Some m, Some w, Some k, Some st, Some r) \<Rightarrow>
       (case (opt_time_field j ''approved_at'', opt_time_field j ''rejected_at'', opt_field j ''rejected_reason'',
          any_field j ''signed_cert'', any_field j ''root_ca_cert'', any_field j ''mqtt_bridge_cert'') of
        (Some a, Some rj, Some rr, Some c, Some rc, Some mc) \<Rightarrow>
          (case (opt_field j ''rabbitmq_url'', opt_field j ''rabbitmq_vhost'', opt_field j ''rabbitmq_user'',
             opt_field j ''cdm_idp_client_id'', opt_field j ''cdm_idp_client_secret'', opt_field j ''cdm_discovery_url'',
             opt_field j ''wg_server_pubkey'', opt_field j ''wg_server_endpoint'', opt_field j ''wg_client_ip'') of
           (Some ru, Some rv, Some rus, Some ci, Some cs, Some du, Some sp, Some se, Some ip) \<Rightarrow>
             Some \<lparr>je_tenant_id = t, je_display_name = d, je_sub_ca_csr = s, je_mqtt_bridge_csr = m, je_wg_pubkey = w,
               je_keycloak_url = k, je_status = st, je_requested_at = r, je_approved_at = a, je_rejected_at = rj,
               je_rejected_reason = rr, je_signed_cert = c, je_root_ca_cert = rc, je_rabbitmq_url = ru,
               je_rabbitmq_vhost = rv, je_rabbitmq_user = rus, je_mqtt_bridge_cert = mc, je_cdm_idp_client_id = ci,
               je_cdm_idp_client_secret = cs, je_cdm_discovery_url = du, je_wg_server_pubkey = sp,
               je_wg_server_endpoint = se, je_wg_client_ip = ip\<rparr>
         | _ \<Rightarrow> None)
      | _ \<Rightarrow> None)
   | _ \<Rightarrow> None)"

definition join_entry_plain :: "join_entry \<Rightarrow> bool" where
  "join_entry_plain x = (time_ok (je_requested_at x) \<and> opt_ok (je_approved_at x) \<and> opt_ok (je_rejected_at x) \<and>
     plain_json (je_signed_cert x) \<and> plain_json (je_root_ca_cert x) \<and> plain_json (je_mqtt_bridge_cert x))"

lemma plain_entry: "join_entry_plain x \<Longrightarrow> plain_json (entry_json x)"
  by (simp add: entry_json_def dict_wf_def join_entry_plain_def)

interpretation join_codec: file_codec entry_json join_of_json join_entry_plain
proof
  fix x :: join_entry
  assume ok: "join_entry_plain x"
  then show "plain_json (entry_json x)" by (rule plain_entry)
  from ok show "join_of_json (entry_json x) = Some x"
    by (simp add: join_of_json_def entry_json_def join_entry_plain_def)
qed

definition peer_of_json :: "json \<Rightarrow> string option" where
  "peer_of_json j = (case j of JStr s \<Rightarrow> Some s | _ \<Rightarrow> None)"

interpretation peer_codec: file_codec JStr peer_of_json "\<lambda>_. True"
  by unfold_locales (simp_all add: peer_of_json_def)

section \<open>The key store on its file\<close>

text \<open>
  \<open>validate_and_consume\<close> and \<open>create_key\<close> once more, statement by statement on JSON values and on the bytes of the
  file (the argument and part of the result), which the handlers of the model replace by records.
\<close>

definition json_item :: "json \<Rightarrow> string \<Rightarrow> exn + json" where
  "json_item j k = (case j of JObj ps \<Rightarrow> (case dict_get ps k of None \<Rightarrow> Inl (KeyError (repr_str k)) | Some v \<Rightarrow> Inr v)
     | JArr _ \<Rightarrow> Inl (TypeError ''list indices must be integers or slices, not str'')
     | JStr _ \<Rightarrow> Inl (TypeError (''string indices must be integers, not '' @ squoted ''str''))
     | _ \<Rightarrow> Inl (TypeError (no_subscript j)))"

text \<open>\<open>j[k] = v\<close>, and the same for what a key was read from before, which is an object.\<close>

definition store_item :: "string \<Rightarrow> json \<Rightarrow> json \<Rightarrow> exn + json" where
  "store_item k v j = (case j of JObj ps \<Rightarrow> Inr (JObj (dict_set k v ps))
     | JArr _ \<Rightarrow> Inl (TypeError ''list indices must be integers or slices, not str'')
     | _ \<Rightarrow> Inl (TypeError (squoted (type_name j) @ '' object does not support item assignment'')))"

definition set_item :: "string \<Rightarrow> json \<Rightarrow> json \<Rightarrow> json" where
  "set_item k v j = (case j of JObj ps \<Rightarrow> JObj (dict_set k v ps) | _ \<Rightarrow> j)"

definition read_expiry :: "json \<Rightarrow> exn + instant" where
  "read_expiry entry = (case json_item entry ''expires_at'' of Inl x \<Rightarrow> Inl x
     | Inr (JStr s) \<Rightarrow> (case fromisoformat s of None \<Rightarrow> Inl (ValueError (''Invalid isoformat string: '' @ repr_str s))
         | Some t \<Rightarrow> Inr t)
     | Inr _ \<Rightarrow> Inl (TypeError ''fromisoformat: argument must be str''))"

definition consume_entry :: "string \<Rightarrow> (string, json) dict \<Rightarrow> json \<Rightarrow> nat list option \<Rightarrow> ((exn + json) \<times> nat list option) io" where
  "consume_entry key ks entry file = (case json_item entry ''status'' of Inl x \<Rightarrow> ret (Inl x, file)
   | Inr status \<Rightarrow> if status \<noteq> JStr ''open''
     then bnd (asks e_float_repr) (\<lambda>fr. ret (Inl (ValueError (''JOIN key is '' @ py_repr fr status @ '' '' @ en_dash @
       '' each key may only be used once.'')), file))
     else (case read_expiry entry of Inl x \<Rightarrow> ret (Inl x, file)
     | Inr expires_at \<Rightarrow> bnd now_utc (\<lambda>now. bnd (asks dump_file) (\<lambda>dump.
         if now > expires_at
         then ret (Inl (ValueError ''JOIN key has expired.''),
           Some (dump False (JObj (dict_set key (set_item ''status'' (JStr ''expired'') entry) ks))))
         else bnd now_utc (\<lambda>used_at.
           let entry = set_item ''used_at'' (JStr (isoformat used_at)) (set_item ''status'' (JStr ''used'') entry) in
           ret (Inr entry, Some (dump False (JObj (dict_set key entry ks)))))))))"

definition consume_file :: "string \<Rightarrow> nat list option \<Rightarrow> ((exn + json) \<times> nat list option) io" where
  "consume_file key file = bnd (asks load_file) (\<lambda>loadf. case loadf file of Inl x \<Rightarrow> ret (Inl x, file)
     | Inr (JObj ks) \<Rightarrow> (case dict_get ks key of Some entry \<Rightarrow>
           if entry = JNull then ret (Inl (KeyError (repr_str (''JOIN key not found: '' @ repr_str key))), file)
           else consume_entry key ks entry file
         | None \<Rightarrow> ret (Inl (KeyError (repr_str (''JOIN key not found: '' @ repr_str key))), file))
     | Inr v \<Rightarrow> ret (Inl (AttributeError (squoted (type_name v) @ '' object has no attribute '' @ squoted ''get'')), file))"

definition create_file :: "string \<Rightarrow> string \<Rightarrow> nat list option \<Rightarrow> ((exn + json) \<times> nat list option) io" where
  "create_file tenant_id display_name file = bnd generate_join_key (\<lambda>key. bnd now_utc (\<lambda>now. bnd (asks load_file) (\<lambda>loadf.
     bnd (asks dump_file) (\<lambda>dump. case loadf file of Inl x \<Rightarrow> ret (Inl x, file)
     | Inr ks \<Rightarrow> (case store_item key (JObj
         [(''key'', JStr key), (''tenant_id'', JStr tenant_id), (''display_name'', JStr display_name),
          (''status'', JStr ''open''), (''created_at'', JStr (isoformat now)),
          (''expires_at'', JStr (isoformat (now + hours join_key_ttl_hours))), (''used_at'', JNull)]) ks of
         Inl x \<Rightarrow> ret (Inl x, file)
       | Inr ks \<Rightarrow> ret (Inr (JStr key), Some (dump False ks)))))))"

text \<open>The file of a world's keys, and the rest of the world.\<close>

definition key_file_bytes :: "env \<Rightarrow> world \<Rightarrow> nat list option" where
  "key_file_bytes e w = map_option (\<lambda>d. dump_file e False (store_json key_json d)) (w_keys w)"

definition without_keys :: "world \<Rightarrow> world" where
  "without_keys w = w\<lparr>w_keys := None\<rparr>"

definition key_dates_ok :: "world \<Rightarrow> bool" where
  "key_dates_ok w \<longleftrightarrow> dict_wf (keys w) \<and> list_all key_times_ok (dict_values (keys w))"

lemma load_key_file: "key_dates_ok w \<Longrightarrow> load_file e (key_file_bytes e w) = Inr (store_json key_json (keys w))"
  by (cases "w_keys w") (simp_all add: key_file_bytes_def keys_def key_dates_ok_def load_dump key_codec.plain_store,
      simp add: load_file_def store_json_def)

lemma key_json_items:
  "json_item (key_json x) ''status'' = Inr (JStr (key_status_text (ke_status x)))"
  "key_times_ok x \<Longrightarrow> read_expiry (key_json x) = Inr (ke_expires_at x)"
  "set_item ''status'' (JStr (key_status_text s)) (key_json x) = key_json (x\<lparr>ke_status := s\<rparr>)"
  "set_item ''used_at'' (JStr (isoformat t)) (key_json x) = key_json (x\<lparr>ke_used_at := Some t\<rparr>)"
  by (simp_all add: json_item_def read_expiry_def set_item_def key_json_def dict_set_def key_times_ok_def read_time opt_time_def)

lemma store_json_update: "JObj (dict_set k (enc x) (map (\<lambda>(k, v). (k, enc v)) d)) = store_json enc (dict_set k x d)"
  by (simp add: store_json_def store_json_set)

lemma key_dates_at: "key_dates_ok w \<Longrightarrow> dict_get (keys w) k = Some x \<Longrightarrow> key_times_ok x"
  unfolding key_dates_ok_def list_all_iff dict_values_def by (metis image_eqI map_of_SomeD set_map snd_conv)

lemma key_json_not_null: "key_json x \<noteq> JNull"
  by (simp add: key_json_def)

text \<open>The branches of \<open>consume_entry\<close> on an encoded entry.\<close>

lemma consume_entry_closed: "ke_status x \<noteq> Open \<Longrightarrow>
    consume_entry k ks (key_json x) file e w = (Inr (Inl (not_open_error (ke_status x)), file), w)"
  by (cases "ke_status x") (simp_all add: consume_entry_def key_json_items run_simps not_open_error_def key_status_text_def)

lemma consume_entry_expired: "ke_status x = Open \<Longrightarrow> key_times_ok x \<Longrightarrow> ke_expires_at x < e_now e (w_ticks w) \<Longrightarrow>
    consume_entry k ks (key_json x) file e w = (Inr (Inl (ValueError ''JOIN key has expired.''),
      Some (dump_file e False (JObj (dict_set k (key_json (x\<lparr>ke_status := Expired\<rparr>)) ks)))), w\<lparr>w_ticks := Suc (w_ticks w)\<rparr>)"
  using key_json_items(3) [of Expired x]
  by (simp add: consume_entry_def key_json_items run_simps key_status_text_def)

lemma consume_entry_used: "ke_status x = Open \<Longrightarrow> key_times_ok x \<Longrightarrow> e_now e (w_ticks w) \<le> ke_expires_at x \<Longrightarrow>
    u = x\<lparr>ke_status := Used, ke_used_at := Some (e_now e (Suc (w_ticks w)))\<rparr> \<Longrightarrow>
    consume_entry k ks (key_json x) file e w = (Inr (Inr (key_json u),
      Some (dump_file e False (JObj (dict_set k (key_json u) ks)))), w\<lparr>w_ticks := Suc (Suc (w_ticks w))\<rparr>)"
  using key_json_items(3) [of Used x]
  by (simp add: consume_entry_def key_json_items run_simps key_status_text_def Let_def)

lemma consume_file_run: "key_dates_ok w \<Longrightarrow> consume_file k (key_file_bytes e w) e w' = (case dict_get (keys w) k of
      None \<Rightarrow> (Inr (Inl (KeyError (repr_str (''JOIN key not found: '' @ repr_str k))), key_file_bytes e w), w')
    | Some x \<Rightarrow> consume_entry k (map (\<lambda>(k, v). (k, key_json v)) (keys w)) (key_json x) (key_file_bytes e w) e w')"
  by (simp add: consume_file_def run_simps load_key_file store_json_def store_json_get key_json_not_null split: option.split)

lemma key_file_bytes_set [simp]: "key_file_bytes e (w\<lparr>w_keys := Some d\<rparr>) = Some (dump_file e False (store_json key_json d))"
  by (simp add: key_file_bytes_def)

lemma consume_file_refines:
  assumes ok: "key_dates_ok w" and run: "validate_and_consume k e w = (r, w')"
  shows "consume_file k (key_file_bytes e w) e (without_keys w) = (Inr (map_sum id key_json r, key_file_bytes e w'), without_keys w')"
  using run
proof (cases rule: consume_cases)
  case (closed ent)
  then show ?thesis by (simp add: consume_file_run [OF ok] consume_entry_closed)
next
  case (expired ent)
  with key_dates_at [OF ok expired(1)] show ?thesis
    by (simp add: consume_file_run [OF ok] consume_entry_expired without_keys_def store_json_update)
next
  case (used ent)
  with key_dates_at [OF ok used(1)] show ?thesis
    by (simp add: consume_file_run [OF ok] consume_entry_used [OF _ _ _ refl] without_keys_def store_json_update)
qed (simp add: consume_file_run [OF ok])

text \<open>A new key: the generator does not look at the keys.\<close>

lemma choices_without: "choices al n e (without_keys w) = (fst (choices al n e w), without_keys (snd (choices al n e w)))"
proof (induction n arbitrary: w)
  case 0
  show ?case by (simp add: run_simps)
next
  case (Suc n)
  have "without_keys (w\<lparr>w_draws := m\<rparr>) = (without_keys w)\<lparr>w_draws := m\<rparr>" for m by (simp add: without_keys_def)
  moreover have "w_draws (without_keys w) = w_draws w" by (simp add: without_keys_def)
  moreover obtain cs w2 where "choices al n e (w\<lparr>w_draws := Suc (w_draws w)\<rparr>) = (Inr cs, w2)"
    using choices_run [of al n e "w\<lparr>w_draws := Suc (w_draws w)\<rparr>"] by blast
  ultimately show ?case
    using Suc.IH [of "w\<lparr>w_draws := Suc (w_draws w)\<rparr>"] by (auto simp: bnd_def randbelow_def run_simps)
qed

lemma key_groups_without: "key_groups n e (without_keys w) = (fst (key_groups n e w), without_keys (snd (key_groups n e w)))"
proof (induction n arbitrary: w)
  case 0
  show ?case by (simp add: run_simps)
next
  case (Suc n)
  obtain g w1 where g: "choices key_alphabet 4 e w = (Inr g, w1)" using choices_run [of key_alphabet 4 e w] by blast
  obtain gs w2 where "key_groups n e w1 = (Inr gs, w2)" using key_groups_run [of n e w1] by blast
  with g Suc.IH [of w1] show ?case by (simp add: bnd_def choices_without run_simps)
qed

lemma generate_without: "generate_join_key e w = (Inr k, w') \<Longrightarrow> generate_join_key e (without_keys w) = (Inr k, without_keys w')"
proof -
  assume "generate_join_key e w = (Inr k, w')"
  moreover obtain gs w1 where "key_groups 4 e w = (Inr gs, w1)" using key_groups_run [of 4 e w] by blast
  ultimately show ?thesis by (simp add: generate_join_key_def bnd_def key_groups_without run_simps)
qed

lemma new_key_json: "JObj [(''key'', JStr k), (''tenant_id'', JStr t), (''display_name'', JStr d), (''status'', JStr ''open''),
    (''created_at'', JStr (isoformat now)), (''expires_at'', JStr (isoformat (now + hours join_key_ttl_hours))), (''used_at'', JNull)] =
    key_json (new_key_entry k t d now)"
  by (simp add: key_json_def new_key_entry_def key_status_text_def opt_time_def)

lemma create_file_refines:
  assumes ok: "key_dates_ok w" and run: "create_key t d e w = (r, w')"
  shows "create_file t d (key_file_bytes e w) e (without_keys w) = (Inr (map_sum id JStr r, key_file_bytes e w'), without_keys w')"
proof -
  obtain k n where g: "generate_join_key e w = (Inr k, w\<lparr>w_draws := n\<rparr>)" using generate_run by blast
  have "create_key t d e w = (Inr k, w\<lparr>w_draws := n, w_ticks := Suc (w_ticks w),
      w_keys := Some (dict_set k (new_key_entry k t d (e_now e (w_ticks w))) (keys w))\<rparr>)"
    by (simp add: create_key_def bnd_value [where m = generate_join_key, OF g] run_simps key_file.load_bnd key_file.save_thn
        save_keys_def)
  with run have r: "r = Inr k" "w' = w\<lparr>w_draws := n, w_ticks := Suc (w_ticks w),
      w_keys := Some (dict_set k (new_key_entry k t d (e_now e (w_ticks w))) (keys w))\<rparr>" by simp_all
  have "load_file e (key_file_bytes e w) = Inr (store_json key_json (keys w))" by (rule load_key_file [OF ok])
  then show ?thesis
    by (simp add: create_file_def bnd_value [where m = generate_join_key, OF generate_without [OF g, unfolded without_keys_def]] run_simps r new_key_json
        store_item_def store_json_def store_json_set without_keys_def)
qed

text \<open>Any sequence of calls.\<close>

datatype key_call = CreateKey string string | PresentKey string

definition attempt :: "'a io \<Rightarrow> (exn + 'a) io" where
  "attempt m = (\<lambda>e w. case m e w of (r, w') \<Rightarrow> (Inr r, w'))"

definition record_call :: "key_call \<Rightarrow> (exn + json) io" where
  "record_call c = (case c of CreateKey t d \<Rightarrow> attempt (bnd (create_key t d) (\<lambda>k. ret (JStr k)))
     | PresentKey k \<Rightarrow> attempt (bnd (validate_and_consume k) (\<lambda>x. ret (key_json x))))"

definition file_call :: "key_call \<Rightarrow> nat list option \<Rightarrow> ((exn + json) \<times> nat list option) io" where
  "file_call c file = (case c of CreateKey t d \<Rightarrow> create_file t d file | PresentKey k \<Rightarrow> consume_file k file)"

fun record_calls :: "key_call list \<Rightarrow> (exn + json) list io" where
  "record_calls [] = ret []"
| "record_calls (c # cs) = bnd (record_call c) (\<lambda>r. bnd (record_calls cs) (\<lambda>rs. ret (r # rs)))"

fun file_calls :: "key_call list \<Rightarrow> nat list option \<Rightarrow> ((exn + json) list \<times> nat list option) io" where
  "file_calls [] file = ret ([], file)"
| "file_calls (c # cs) file = bnd (file_call c file) (\<lambda>(r, file). bnd (file_calls cs file) (\<lambda>(rs, file). ret (r # rs, file)))"

definition clock_ok :: "env \<Rightarrow> bool" where
  "clock_ok e \<longleftrightarrow> (\<forall>n. time_ok (e_now e n) \<and> time_ok (e_now e n + hours join_key_ttl_hours))"

lemma dict_values_set: "set (dict_values (dict_set k v d)) \<subseteq> insert v (set (dict_values d))"
  by (induction d) (auto simp: dict_set_def dict_values_def)

lemma key_dates_set: "key_dates_ok w \<Longrightarrow> key_times_ok x \<Longrightarrow> keys w' = dict_set k x (keys w) \<Longrightarrow> key_dates_ok w'"
  using dict_values_set [of k x "keys w"] by (auto simp: key_dates_ok_def list_all_iff)

lemma create_key_dates:
  assumes "clock_ok e" "key_dates_ok w" "create_key t d e w = (r, w')"
  shows "key_dates_ok w'"
proof -
  obtain k n where "create_key t d e w = (Inr k, w\<lparr>w_draws := n, w_ticks := Suc (w_ticks w),
      w_keys := Some (dict_set k (new_key_entry k t d (e_now e (w_ticks w))) (keys w))\<rparr>)" by (rule create_key_run)
  then show ?thesis
    using assms by (intro key_dates_set [OF assms(2), of "new_key_entry k t d (e_now e (w_ticks w))"])
      (auto simp: key_times_ok_def new_key_entry_def clock_ok_def opt_ok_def)
qed

lemma consume_dates:
  assumes clock: "clock_ok e" and ok: "key_dates_ok w" and run: "validate_and_consume k e w = (r, w')"
  shows "key_dates_ok w'"
  using run
proof (cases rule: consume_cases)
  case (expired ent)
  with key_dates_at [OF ok expired(1)] show ?thesis
    by (intro key_dates_set [OF ok, of "ent\<lparr>ke_status := Expired\<rparr>" _ k]) (auto simp: key_times_ok_def)
next
  case (used ent)
  with key_dates_at [OF ok used(1)] clock show ?thesis
    by (intro key_dates_set [OF ok, of "ent\<lparr>ke_status := Used, ke_used_at := Some (e_now e (Suc (w_ticks w)))\<rparr>" _ k])
      (auto simp: key_times_ok_def opt_ok_def clock_ok_def)
qed (use ok in auto)

lemma record_call_refines:
  assumes "clock_ok e" "key_dates_ok w" "record_call c e w = (Inr r, w')"
  shows "file_call c (key_file_bytes e w) e (without_keys w) = (Inr (r, key_file_bytes e w'), without_keys w') \<and> key_dates_ok w'"
proof (cases c)
  case (CreateKey t d)
  obtain x w1 where x: "create_key t d e w = (x, w1)" by (cases "create_key t d e w")
  with CreateKey assms(3) have "r = map_sum id JStr x" "w' = w1"
    by (auto simp: record_call_def attempt_def bnd_def ret_def split: sum.splits)
  with create_file_refines [OF assms(2) x] create_key_dates [OF assms(1,2) x] CreateKey show ?thesis
    by (simp add: file_call_def)
next
  case (PresentKey k)
  obtain x w1 where x: "validate_and_consume k e w = (x, w1)" by (cases "validate_and_consume k e w")
  with PresentKey assms(3) have "r = map_sum id key_json x" "w' = w1"
    by (auto simp: record_call_def attempt_def bnd_def ret_def split: sum.splits)
  with consume_file_refines [OF assms(2) x] consume_dates [OF assms(1,2) x] PresentKey show ?thesis
    by (simp add: file_call_def)
qed

lemma record_call_returns: "\<exists>r w'. record_call c e w = (Inr r, w')"
  by (cases c) (auto simp: record_call_def attempt_def split: prod.split)

text \<open>C19. The model of the key store on records and the code on its JSON file do the same, for any calls.\<close>

theorem key_file_refines:
  assumes "clock_ok e" "key_dates_ok w" "record_calls cs e w = (Inr rs, w')"
  shows "file_calls cs (key_file_bytes e w) e (without_keys w) = (Inr (rs, key_file_bytes e w'), without_keys w')"
  using assms(2,3)
proof (induction cs arbitrary: w rs)
  case Nil
  then show ?case by (simp add: run_simps)
next
  case (Cons c cs)
  obtain r w1 where r: "record_call c e w = (Inr r, w1)" using record_call_returns by blast
  with Cons.prems(2) obtain rs1 where rs: "record_calls cs e w1 = (Inr rs1, w')" "rs = r # rs1"
    by (auto simp: bnd_def ret_def split: sum.splits prod.splits)
  note step = record_call_refines [OF assms(1) Cons.prems(1) r]
  show ?case
    using step Cons.IH [OF step [THEN conjunct2] rs(1)] rs(2) by (simp add: bnd_def run_simps)
qed

section \<open>A crash while a file is written\<close>

text \<open>
  The two JSON stores write a temporary file and rename it over the old one; the peers file is overwritten in
  place. A crash leaves the operations before it done, and of a write any beginning of the bytes; a rename is
  atomic.
\<close>

datatype fs_op = WriteText string "nat list" | Replace string string

type_synonym files = "(string, nat list) dict"

definition fs_run :: "fs_op \<Rightarrow> files \<Rightarrow> files" where
  "fs_run op fs = (case op of WriteText p b \<Rightarrow> dict_set p b fs
     | Replace p q \<Rightarrow> (case dict_get fs p of None \<Rightarrow> fs | Some b \<Rightarrow> dict_set q b (dict_del p fs)))"

fun crash_states :: "fs_op list \<Rightarrow> files \<Rightarrow> files list" where
  "crash_states [] fs = [fs]"
| "crash_states (op # ops) fs = fs # (case op of WriteText p b \<Rightarrow> map (\<lambda>n. dict_set p (take n b) fs) [0..<length b]
     | Replace _ _ \<Rightarrow> []) @ crash_states ops (fs_run op fs)"

text \<open>\<open>Path.with_suffix\<close>.\<close>

definition with_suffix :: "string \<Rightarrow> string \<Rightarrow> string" where
  "with_suffix path suf = (let eman = takeWhile (\<lambda>c. c \<noteq> CHR ''/'') (rev path); ext = takeWhile (\<lambda>c. c \<noteq> CHR ''.'') eman;
     stem = drop (Suc (length ext)) eman in
     if ext = [] \<or> stem = [] then path @ suf else take (length path - Suc (length ext)) path @ suf)"

definition save_keys_ops :: "env \<Rightarrow> settings \<Rightarrow> json \<Rightarrow> fs_op list" where
  "save_keys_ops e s data = (let path = join_keys_db_path s; tmp = with_suffix path ''.keys.tmp'' in
     [WriteText tmp (dump_file e False data), Replace tmp path])"

definition save_store_ops :: "env \<Rightarrow> settings \<Rightarrow> json \<Rightarrow> fs_op list" where
  "save_store_ops e s data = (let path = join_requests_db_path s; tmp = with_suffix path ''.tmp'' in
     [WriteText tmp (dump_file e False data), Replace tmp path])"

definition save_peers_ops :: "env \<Rightarrow> string \<Rightarrow> json \<Rightarrow> fs_op list" where
  "save_peers_ops e path data = [WriteText path (dump_file e True data)]"

lemma with_suffix_examples:
  "with_suffix ''/data/join-keys.json'' ''.keys.tmp'' = ''/data/join-keys.keys.tmp''"
  "with_suffix ''/data.d/keys'' ''.tmp'' = ''/data.d/keys.tmp''" "with_suffix ''/data/.keys'' ''.tmp'' = ''/data/.keys.tmp''"
  by code_simp+

lemma replace_is_atomic:
  assumes "st \<in> set (crash_states [WriteText tmp b, Replace tmp path] fs)" "tmp \<noteq> path"
  shows "dict_get st path = dict_get fs path \<or> dict_get st path = Some b"
  using assms by (auto simp: fs_run_def)

lemma replace_keeps_file:
  assumes "st \<in> set (crash_states [WriteText tmp (dump_file e False data), Replace tmp path] fs)" "tmp \<noteq> path" "plain_json data"
  shows "load_file e (dict_get st path) \<in> {load_file e (dict_get fs path), Inr data}"
  using replace_is_atomic [OF assms(1,2)] assms(3) by (auto simp: load_dump)

text \<open>C21. 
  After a crash at any moment of saving one of the two stores of the JOIN workflow, the next start finds the old
  store or the new one, when its document has no doubles and the temporary file is another one than the store.
\<close>

theorem crash_keeps_stores:
  assumes "plain_json data" "with_suffix (join_keys_db_path s) ''.keys.tmp'' \<noteq> join_keys_db_path s"
    "with_suffix (join_requests_db_path s) ''.tmp'' \<noteq> join_requests_db_path s"
  shows "(\<forall>st\<in>set (crash_states (save_keys_ops e s data) fs). load_file e (dict_get st (join_keys_db_path s)) \<in>
      {load_file e (dict_get fs (join_keys_db_path s)), Inr data}) \<and>
    (\<forall>st\<in>set (crash_states (save_store_ops e s data) fs). load_file e (dict_get st (join_requests_db_path s)) \<in>
      {load_file e (dict_get fs (join_requests_db_path s)), Inr data})"
  unfolding save_keys_ops_def save_store_ops_def Let_def
  by (intro conjI ballI replace_keeps_file [OF _ assms(2) assms(1)] replace_keeps_file [OF _ assms(3) assms(1)])

text \<open>The peers file is overwritten in place: a crash can leave it empty, and then it can not be loaded any more.\<close>

lemma crash_loses_peers:
  "\<exists>st\<in>set (crash_states (save_peers_ops e path (store_json JStr d)) fs).
     load_file e (dict_get st path) = Inl (ValueError ''Expecting value'')"
proof -
  have "dump_file e True (store_json JStr d) \<noteq> []"
    by (simp add: dump_file_def write_text_def json_dumps_def store_json_def utf8_def)
  then have "dict_set path [] fs \<in> set (crash_states (save_peers_ops e path (store_json JStr d)) fs)"
    by (force simp: save_peers_ops_def image_iff)
  moreover have "json_loads (read_text []) = NotJson" by code_simp
  ultimately show ?thesis by (force simp: load_file_def loads_text_def)
qed

section \<open>Round trip\<close>

text \<open>
  What \<open>save_store\<close> writes, \<open>load_store\<close> reads: the file of JOIN requests holds every field of every entry, its
  times included.
\<close>

lemma join_file_roundtrip:
  assumes "dict_wf d" "list_all join_entry_plain (dict_values d)"
  shows "map_sum id (store_of join_of_json) (load_file e (Some (dump_file e False (store_json entry_json d)))) = Inr (Some d)"
  by (rule join_codec.file_roundtrip [OF assms, of e False]) simp

lemma key_file_roundtrip:
  "key_dates_ok w \<Longrightarrow> map_sum id (store_of key_of_json) (load_file e (key_file_bytes e w)) = Inr (Some (keys w))"
  by (simp add: load_key_file key_codec.store_decodes key_dates_ok_def)

lemma peers_file_roundtrip:
  assumes "dict_wf d"
  shows "map_sum id (store_of peer_of_json) (load_file e (Some (dump_file e True (store_json JStr d)))) = Inr (Some d)"
  by (rule peer_codec.file_roundtrip [of d e True]) (use assms in \<open>simp_all add: list_all_iff\<close>)

end
