(* ===== verification/IsoOrder.thy ===== *)
theory IsoOrder
  imports IsoTime "HOL-Library.List_Lexorder" "HOL-Library.Char_ord"
begin

text \<open>
  The texts of \<open>isoformat\<close> are ordered like the instants: comparing two of them as strings, which the program does
  to sort, is comparing the times. A text without microseconds goes on with a plus sign, which is before the
  point of the others.
\<close>

section \<open>Comparing strings of fields\<close>

lemma less_append: "length a = length b \<Longrightarrow> a @ x < b @ y \<longleftrightarrow> a < b \<or> (a = b \<and> x < (y :: string))"
  by (induction a b rule: list_induct2) auto

lemma undec_Cons: "undec (c # s) = (ord c - 48) * 10 ^ length s + undec s"
proof -
  have "foldl (\<lambda>n c. 10 * n + (ord c - 48)) k s = k * 10 ^ length s + foldl (\<lambda>n c. 10 * n + (ord c - 48)) 0 s" for k
  proof (induction s arbitrary: k)
    case (Cons c s)
    show ?case unfolding foldl.simps Cons.IH [of "10 * k + (ord c - 48)"] Cons.IH [of "10 * 0 + (ord c - 48)"]
      by (simp add: algebra_simps)
  qed simp
  from this [of "ord c - 48"] show ?thesis by (simp add: undec_def)
qed

lemma undec_less: "list_all c_digit s \<Longrightarrow> undec s < 10 ^ length s"
proof (induction s)
  case (Cons c s)
  then have "ord c - 48 \<le> 9" "undec s < 10 ^ length s" by (auto simp: c_digit_def)
  then have "(ord c - 48) * 10 ^ length s + undec s < (ord c - 48) * 10 ^ length s + 10 ^ length s" by simp
  also have "\<dots> \<le> 9 * 10 ^ length s + 10 ^ length s" using \<open>ord c - 48 \<le> 9\<close> by simp
  finally show ?case by (simp add: undec_Cons)
qed (simp add: undec_def)

lemma char_less: "(c :: char) < d \<longleftrightarrow> ord c < ord d"
  by (simp add: less_char_def)

lemma digits_less: "length s = length t \<Longrightarrow> list_all c_digit s \<Longrightarrow> list_all c_digit t \<Longrightarrow> s < t \<longleftrightarrow> undec s < undec t"
proof (induction s t rule: list_induct2)
  case (Cons c s d t)
  then have l: "undec s < 10 ^ length s" "undec t < 10 ^ length s" using undec_less by fastforce+
  have c: "48 \<le> ord c" "48 \<le> ord d" using Cons.prems by (simp_all add: c_digit_def)
  have far: "i * 10 ^ length s + a < j * 10 ^ length s + b" if "i < j" "a < 10 ^ length s" for i j a b :: nat
  proof -
    have "i * 10 ^ length s + 10 ^ length s \<le> j * 10 ^ length s"
      using that(1) by (metis Suc_leI mult_Suc add.commute mult_le_mono1)
    with that(2) show ?thesis by linarith
  qed
  consider "ord c < ord d" | "ord d < ord c" | "c = d" by (metis linorder_neqE_nat of_char_eq_iff)
  then show ?case
  proof cases
    case 1
    with c have "ord c - 48 < ord d - 48" by linarith
    from far [OF this l(1), of "undec t"] 1 Cons.hyps show ?thesis by (simp add: undec_Cons char_less)
  next
    case 2
    with c have "ord d - 48 < ord c - 48" by linarith
    from far [OF this l(2), of "undec s"] 2 Cons.hyps show ?thesis by (auto simp: undec_Cons char_less)
  next
    case 3
    with Cons show ?thesis by (simp add: undec_Cons)
  qed
qed simp

lemma pad_order:
  assumes "0 \<le> m" "m < 10 ^ k" "0 \<le> n" "n < 10 ^ k" "0 < k"
  shows "pad k m < pad k n \<longleftrightarrow> m < n" "pad k m = pad k n \<longleftrightarrow> m = n"
proof -
  note m = pad_facts [OF assms(1,2,5)] and n = pad_facts [OF assms(3,4,5)]
  show "pad k m < pad k n \<longleftrightarrow> m < n"
    using m n assms by (subst digits_less) (auto simp: all_digits_def)
  show "pad k m = pad k n \<longleftrightarrow> m = n"
    using m(2) n(2) assms(1,3) by (metis nat_eq_iff2 nat_le_iff eq_nat_nat_iff)
qed

section \<open>Dates\<close>

lemma div_step: "0 < k \<Longrightarrow> (y :: int) div k = (y - 1) div k + (if y mod k = 0 then 1 else 0)"
proof -
  assume k: "0 < k"
  have y: "y = k * (y div k) + y mod k" "0 \<le> y mod k" "y mod k < k" using k by simp_all
  show ?thesis
  proof (cases "y mod k = 0")
    case True
    then have "y - 1 = k * (y div k - 1) + (k - 1)" using y(1) by (simp add: algebra_simps)
    moreover have "(k * (y div k - 1) + (k - 1)) div k = y div k - 1" by (rule div_part [THEN conjunct1]) (use k in simp_all)
    ultimately have "(y - 1) div k = y div k - 1" by (simp only:)
    with True show ?thesis by simp
  next
    case False
    then have "y - 1 = k * (y div k) + (y mod k - 1)" using y(1) by simp
    moreover have "(k * (y div k) + (y mod k - 1)) div k = y div k" by (rule div_part [THEN conjunct1]) (use k y(2,3) False in simp_all)
    ultimately have "(y - 1) div k = y div k" by (simp only:)
    with False show ?thesis by simp
  qed
qed

lemma days_next_year: "days_before_year (y + 1) = days_before_year y + 365 + (if is_leap y then 1 else 0)"
proof -
  define c :: "int \<Rightarrow> int" where "c k = (if y mod k = 0 then 1 else 0)" for k
  have "y mod 100 = 0 \<longrightarrow> y mod 4 = 0" "y mod 400 = 0 \<longrightarrow> y mod 100 = 0"
    using mod_mod_cancel [of 4 100 y] mod_mod_cancel [of 100 400 y] by auto
  then have "(if A = 0 \<and> (B \<noteq> 0 \<or> C = 0) then 1 else 0) = (if A = 0 then 1 else 0) - (if B = 0 then 1 else 0) + (if C = 0 then 1 else (0 :: int))"
    if "A = y mod 4" "B = y mod 100" "C = y mod 400" for A B C
    unfolding that [symmetric] by (cases "A = 0"; cases "B = 0"; cases "C = 0"; simp)
  from this [OF refl refl refl] have "(if is_leap y then 1 else 0) = c 4 - c 100 + c 400" unfolding is_leap_def c_def .
  moreover have "y div 4 = (y - 1) div 4 + c 4" "y div 100 = (y - 1) div 100 + c 100" "y div 400 = (y - 1) div 400 + c 400"
    unfolding c_def by (rule div_step; simp)+
  moreover have "days_before_year (y + 1) = y * 365 + y div 4 - y div 100 + y div 400"
    "days_before_year y = (y - 1) * 365 + (y - 1) div 4 - (y - 1) div 100 + (y - 1) div 400"
    by (simp_all only: days_before_year_def Let_def add_diff_cancel_right')
  moreover have "e = a + x \<Longrightarrow> f = b + x' \<Longrightarrow> g = h + x'' \<Longrightarrow> p = y * 365 + e - f + g \<Longrightarrow> q = (y - 1) * 365 + a - b + h \<Longrightarrow>
      l = x - x' + x'' \<Longrightarrow> p = q + 365 + l" for a b e f g h l p q x x' x'' :: int by simp
  ultimately show ?thesis by blast
qed

lemma days_before_year_mono: "y \<le> z \<Longrightarrow> days_before_year y \<le> days_before_year z"
proof (induction z rule: int_ge_induct)
  case (step z)
  with days_next_year [of z] show ?case by simp
qed simp

definition month_start :: "bool \<Rightarrow> int \<Rightarrow> int" where
  "month_start leap m = days_before_month ! nat m + (if m > 2 \<and> leap then 1 else 0)"

definition month_length :: "bool \<Rightarrow> int \<Rightarrow> int" where
  "month_length leap m = days_in_month ! nat m + (if m = 2 \<and> leap then 1 else 0)"

lemma months_in_order:
  assumes "1 \<le> m" "m < k" "k \<le> 12"
  shows "month_start leap m + month_length leap m \<le> month_start leap k"
proof -
  have "list_all (\<lambda>m. list_all (\<lambda>k. m < k \<longrightarrow> list_all (\<lambda>leap. month_start leap m + month_length leap m \<le> month_start leap k) [True, False])
      [1..12]) [1..12]" by code_simp
  with assms show ?thesis by (cases leap) (simp_all add: list_all_iff)
qed

lemma months_in_year:
  assumes "1 \<le> m" "m \<le> 12"
  shows "0 \<le> month_start leap m" "month_start leap m + month_length leap m \<le> 365 + (if leap then 1 else 0)"
proof -
  have "list_all (\<lambda>m. list_all (\<lambda>leap. 0 \<le> month_start leap m \<and> month_start leap m + month_length leap m \<le> 365 + (if leap then 1 else 0))
      [True, False]) [1..12]" by code_simp
  with assms show "0 \<le> month_start leap m" "month_start leap m + month_length leap m \<le> 365 + (if leap then 1 else 0)"
    by (cases leap; simp add: list_all_iff)+
qed

text \<open>Dates compare field by field.\<close>

lemma date_less:
  assumes "1 \<le> m" "m \<le> 12" "1 \<le> d" "d \<le> days_in y m" "1 \<le> m'" "m' \<le> 12" "1 \<le> d'" "d' \<le> days_in y' m'"
    "y < y' \<or> y = y' \<and> (m < m' \<or> m = m' \<and> d < d')"
  shows "ymd2ord y m d < ymd2ord y' m' d'"
proof -
  have o: "ymd2ord y m d = days_before_year y + month_start (is_leap y) m + d"
    "ymd2ord y' m' d' = days_before_year y' + month_start (is_leap y') m' + d'"
    "days_in y m = month_length (is_leap y) m" "days_in y' m' = month_length (is_leap y') m'"
    by (simp_all add: ymd2ord_def month_start_def month_length_def days_in_def)
  consider "y < y'" | "y = y'" "m < m'" | "y = y'" "m = m'" "d < d'" using assms(9) by blast
  then show ?thesis
  proof cases
    case 1
    then have "days_before_year (y + 1) \<le> days_before_year y'" by (intro days_before_year_mono) simp
    with days_next_year [of y] months_in_year [OF assms(1,2), of "is_leap y"] months_in_year(1) [OF assms(5,6), of "is_leap y'"] o assms(4,7)
    show ?thesis by linarith
  next
    case 2
    with months_in_order [OF assms(1) 2(2) assms(6), of "is_leap y"] o assms(4,7) show ?thesis by simp
  next
    case 3
    with o show ?thesis by simp
  qed
qed

section \<open>Texts\<close>

lemma field_less:
  assumes "0 \<le> m" "m < 10 ^ k" "0 \<le> n" "n < 10 ^ k" "0 < k"
  shows "pad k m @ x < pad k n @ y \<longleftrightarrow> m < n \<or> m = n \<and> x < y"
  using less_append [of "pad k m" "pad k n" x y] pad_order [OF assms] pad_facts(1) [OF assms(1,2,5)] pad_facts(1) [OF assms(3,4,5)]
  by auto

lemma micro_less:
  assumes "0 \<le> m" "m < n" "n < 1000000"
  shows "micro_text m < micro_text n"
proof (cases "m = 0")
  case True
  then show ?thesis using assms by (simp add: micro_text_def char_less)
next
  case False
  then show ?thesis using assms field_less [of m 6 n "''+00:00''" "''+00:00''"] by (simp add: micro_text_def)
qed

lemma fields_less:
  assumes "fields_ok y m d h mi s u" "fields_ok y' m' d' h' mi' s' u'"
    "y < y' \<or> y = y' \<and> (m < m' \<or> m = m' \<and> (d < d' \<or> d = d' \<and> (h < h' \<or> h = h' \<and> (mi < mi' \<or> mi = mi' \<and>
      (s < s' \<or> s = s' \<and> u < u')))))"
  shows "fields_text y m d h mi s u < fields_text y' m' d' h' mi' s' u'"
  using assms micro_less [of u u'] by (auto simp: fields_text_def fields_ok_def field_less)

lemma time_fields_less:
  assumes "((h * 60 + mi) * 60 + s) * 1000000 + u < ((h' * 60 + mi') * 60 + s') * 1000000 + (u' :: int)"
    "0 \<le> mi" "mi < 60" "0 \<le> s" "s < 60" "0 \<le> u" "u < 1000000" "0 \<le> mi'" "mi' < 60" "0 \<le> s'" "s' < 60" "0 \<le> u'" "u' < 1000000"
  shows "h < h' \<or> h = h' \<and> (mi < mi' \<or> mi = mi' \<and> (s < s' \<or> s = s' \<and> u < u'))"
proof (rule ccontr)
  assume n: "\<not> ?thesis"
  consider "h' < h" | "h = h'" "mi' < mi" | "h = h'" "mi = mi'" "s' < s" | "h = h'" "mi = mi'" "s = s'" "u' \<le> u"
    using n by linarith
  then show False using assms unfolding distrib_right by cases simp_all
qed

theorem isoformat_less:
  assumes "1 \<le> t div day_us + epoch_ordinal" "t div day_us + epoch_ordinal \<le> max_ordinal"
    "1 \<le> v div day_us + epoch_ordinal" "v div day_us + epoch_ordinal \<le> max_ordinal" "t < v"
  shows "isoformat t < isoformat v"
proof -
  obtain y m d h mi s u where t: "isoformat t = fields_text y m d h mi s u" "fields_ok y m d h mi s u" "d \<le> days_in y m"
    "ymd2ord y m d = t div day_us + epoch_ordinal" "t mod day_us = ((h * 60 + mi) * 60 + s) * 1000000 + u"
    by (rule instant_fields [OF assms(1,2)])
  obtain y' m' d' h' mi' s' u' where v: "isoformat v = fields_text y' m' d' h' mi' s' u'" "fields_ok y' m' d' h' mi' s' u'" "d' \<le> days_in y' m'"
    "ymd2ord y' m' d' = v div day_us + epoch_ordinal" "v mod day_us = ((h' * 60 + mi') * 60 + s') * 1000000 + u'"
    by (rule instant_fields [OF assms(3,4)])
  have r: "1 \<le> m" "m \<le> 12" "1 \<le> d" "1 \<le> m'" "m' \<le> 12" "1 \<le> d'" using t(2) v(2) by (simp_all add: fields_ok_def)
  have earlier: "ymd2ord y' m' d' < ymd2ord y m d" if "y' < y \<or> y' = y \<and> (m' < m \<or> m' = m \<and> d' < d)"
    using that by (rule date_less [OF r(4-6) v(3) r(1-3) t(3)])
  have le: "t div day_us \<le> v div day_us" using assms(5) by (simp add: day_us_def zdiv_mono1)
  show ?thesis
    unfolding t(1) v(1)
  proof (rule fields_less [OF t(2) v(2)])
    consider "y < y' \<or> y = y' \<and> (m < m' \<or> m = m' \<and> d < d')" | "y = y'" "m = m'" "d = d'"
      using earlier t(4) v(4) le by linarith
    then show "y < y' \<or> y = y' \<and> (m < m' \<or> m = m' \<and> (d < d' \<or> d = d' \<and> (h < h' \<or> h = h' \<and> (mi < mi' \<or> mi = mi' \<and>
      (s < s' \<or> s = s' \<and> u < u')))))"
    proof cases
      case 2
      with t(4) v(4) have "t div day_us = v div day_us" by simp
      with assms(5) have "t mod day_us < v mod day_us" by (metis add_less_cancel_left mult_div_mod_eq)
      with t(5) v(5) have "h < h' \<or> h = h' \<and> (mi < mi' \<or> mi = mi' \<and> (s < s' \<or> s = s' \<and> u < u'))"
        using t(2) v(2) by (intro time_fields_less) (simp_all add: fields_ok_def)
      with 2 show ?thesis by blast
    qed blast
  qed
qed

end
