(* ===== verification/JoinFile.thy ===== *)
theory JoinFile
  imports Complex_Main StoreFiles Join IsoOrder
begin

text \<open>
  The handlers of \<open>routers/join.py\<close> on the JSON file of the requests, as the code has them: entries are JSON
  objects, read with \<open>[k]\<close> and \<open>get\<close> and changed with \<open>update\<close>, and the list is sorted by the text of the time.
  Each function takes the bytes of the file and returns the bytes it leaves. They do what the handlers of Join
  do on records. The provisioning between the check and the commit of an approval does not touch the file.
\<close>

section \<open>Sorting\<close>

text \<open>\<open>sorted(xs, key=f, reverse=True)\<close>, which keeps the order of equal elements.\<close>

definition sorted_reverse :: "('a \<Rightarrow> 'k :: linorder) \<Rightarrow> 'a list \<Rightarrow> 'a list" where
  "sorted_reverse f xs = rev (sort_key f (rev xs))"

lemma sorted_reverse_times:
  fixes f :: "'a \<Rightarrow> string"
  assumes "\<And>x y. x \<in> set xs \<Longrightarrow> y \<in> set xs \<Longrightarrow> f x < f y \<longleftrightarrow> g x < (g y :: int)"
  shows "sorted_reverse f xs = sort_key (\<lambda>x. - g x) xs"
proof -
  let ?ys = "sort_key f (rev xs)"
  have eq: "f x = f y \<longleftrightarrow> g x = g y" if "x \<in> set xs" "y \<in> set xs" for x y
    using assms [OF that] assms [OF that(2,1)] by (metis linorder_neqE not_less_iff_gr_or_eq)
  have "sort_key (\<lambda>x. - g x) xs = rev ?ys"
  proof (rule properties_for_sort_key)
    show "mset (rev ?ys) = mset xs" by simp
    show "filter (\<lambda>x. - g k = - g x) (rev ?ys) = filter (\<lambda>x. - g k = - g x) xs" if "k \<in> set (rev ?ys)" for k
    proof -
      have "filter (\<lambda>x. - g k = - g x) zs = filter (\<lambda>x. f x = f k) zs" if "set zs \<subseteq> set xs" for zs
        using that \<open>k \<in> set (rev ?ys)\<close> eq by (intro filter_cong refl) auto
      then have "filter (\<lambda>x. - g k = - g x) (rev ?ys) = rev (filter (\<lambda>x. f x = f k) ?ys)"
        "filter (\<lambda>x. - g k = - g x) xs = filter (\<lambda>x. f x = f k) xs" by (simp_all add: rev_filter)
      then show ?thesis by (simp add: sort_key_stable rev_filter)
    qed
    have "sorted (map f ?ys)" by simp
    then have "sorted_wrt (\<lambda>x y. f x \<le> f y) ?ys" by (simp add: sorted_map)
    then have "sorted_wrt (\<lambda>x y. g x \<le> g y) ?ys"
      by (rule sorted_wrt_mono_rel [rotated]) (use assms in \<open>auto simp: not_less [symmetric]\<close>)
    then show "sorted (map (\<lambda>x. - g x) (rev ?ys))" by (simp add: sorted_map sorted_wrt_rev)
  qed
  then show ?thesis by (simp add: sorted_reverse_def)
qed

section \<open>The handlers\<close>

definition load_joins_file :: "nat list option \<Rightarrow> json io" where
  "load_joins_file file = bnd (asks load_file) (\<lambda>loadf. lift_sum (loadf file))"

definition get_request_file :: "string \<Rightarrow> nat list option \<Rightarrow> json io" where
  "get_request_file tenant_id file = bnd (load_joins_file file) (\<lambda>store. bnd (jget store tenant_id JNull) (\<lambda>entry.
     if \<not> truth entry then raise (HTTPException 404 (''No JOIN request found for tenant '' @ squoted tenant_id)) else ret entry))"

text \<open>\<open>tenant_id in store and store[tenant_id].get("status") == "approved"\<close>; a document that is no object is refused.\<close>

definition already_approved :: "string \<Rightarrow> json \<Rightarrow> bool io" where
  "already_approved tenant_id store = (case store of
       JObj ps \<Rightarrow> if dict_get ps tenant_id = None then ret False
         else bnd (jindex store tenant_id) (\<lambda>entry. bnd (jget entry ''status'' JNull) (\<lambda>s. ret (s = JStr ''approved'')))
     | _ \<Rightarrow> raise (TypeError (no_subscript store)))"

definition submitted_json :: "string \<Rightarrow> join_request_payload \<Rightarrow> instant \<Rightarrow> json" where
  "submitted_json tenant_id payload now = JObj
     [(''tenant_id'', JStr tenant_id), (''display_name'', JStr (jp_display_name payload)),
      (''sub_ca_csr'', JStr (jp_sub_ca_csr payload)), (''mqtt_bridge_csr'', JStr (jp_mqtt_bridge_csr payload)),
      (''wg_pubkey'', JStr (jp_wg_pubkey payload)), (''keycloak_url'', JStr (jp_keycloak_url payload)),
      (''status'', JStr ''pending''), (''requested_at'', JStr (isoformat now)), (''approved_at'', JNull), (''rejected_at'', JNull),
      (''rejected_reason'', JNull), (''signed_cert'', JNull), (''root_ca_cert'', JNull), (''rabbitmq_url'', JNull),
      (''rabbitmq_vhost'', JNull), (''rabbitmq_user'', JNull), (''mqtt_bridge_cert'', JNull), (''cdm_idp_client_id'', JNull),
      (''cdm_idp_client_secret'', JNull), (''cdm_discovery_url'', JNull), (''wg_server_pubkey'', JNull),
      (''wg_server_endpoint'', JNull), (''wg_client_ip'', JNull)]"

definition submit_file :: "string \<Rightarrow> join_request_payload \<Rightarrow> nat list option \<Rightarrow> (reply \<times> nat list option) io" where
  "submit_file tenant_id payload file = thn (check_tenant_id tenant_id) (bnd (load_joins_file file) (\<lambda>store.
     bnd (already_approved tenant_id store) (\<lambda>approved.
       if approved then raise (HTTPException 409 (''Tenant '' @ squoted tenant_id @ '' is already approved.''))
       else bnd now_utc (\<lambda>now. bnd (asks dump_file) (\<lambda>dump.
         ret (JSONResponse 202 (JObj [(''status'', JStr ''pending''), (''tenant_id'', JStr tenant_id),
             (''message'', JStr ''JOIN request received. Awaiting Provider Admin approval.''),
             (''poll_url'', JStr (''/portal/admin/tenants/'' @ tenant_id @ ''/join-status''))]),
           Some (dump False (set_item tenant_id (submitted_json tenant_id payload now) store))))))))"

text \<open>
  \<open>sorted(store.values(), key=lambda e: e.get("requested_at", ""), reverse=True)\<close>, for times that are texts or
  finite numbers. Several times of other types or of both are refused; Python would still order lists and the
  doubles that are not finite, which this leaves out.
\<close>

definition requested_text :: "json \<Rightarrow> string" where
  "requested_text j = (case str_field j ''requested_at'' of None \<Rightarrow> [] | Some s \<Rightarrow> s)"

text \<open>The number that a JSON number is, if it is one.\<close>

definition number_of :: "json \<Rightarrow> rat option" where
  "number_of j = (case j of JBool b \<Rightarrow> Some (of_bool b) | JInt i \<Rightarrow> Some (of_int i)
     | JFloat (Finite m e) \<Rightarrow> Some (if e < 0 then of_int m / 2 ^ nat (- e) else of_int (m * 2 ^ nat e))
     | _ \<Rightarrow> None)"

definition requested_number :: "json \<Rightarrow> rat" where
  "requested_number j = (case j of JObj ps \<Rightarrow>
       (case Option.bind (dict_get ps ''requested_at'') number_of of None \<Rightarrow> 0 | Some r \<Rightarrow> r) | _ \<Rightarrow> 0)"

definition is_str :: "json \<Rightarrow> bool" where
  "is_str j = (case j of JStr _ \<Rightarrow> True | _ \<Rightarrow> False)"

definition values_of :: "json \<Rightarrow> json list io" where
  "values_of j = (case j of JObj ps \<Rightarrow> ret (dict_values ps)
     | _ \<Rightarrow> raise (AttributeError (squoted (type_name j) @ '' object has no attribute '' @ squoted ''values'')))"

definition list_file :: "nat list option \<Rightarrow> (reply \<times> nat list option) io" where
  "list_file file = thn get_cdm_admin (bnd (load_joins_file file) (\<lambda>store. bnd (values_of store) (\<lambda>entries.
     bnd (map_io (\<lambda>x. jget x ''requested_at'' (JStr [])) entries) (\<lambda>times.
     bnd (if list_all is_str times \<or> length times \<le> 1 then ret (sorted_reverse requested_text entries)
          else if list_all (\<lambda>t. number_of t \<noteq> None) times then ret (sorted_reverse requested_number entries)
          else raise (TypeError ''not supported between instances'')) (\<lambda>entries.
       ret (JSONResponse 200 (JObj [(''join_requests'', JArr entries), (''total'', JInt (int (length entries)))]), file))))))"

definition check_file :: "string \<Rightarrow> nat list option \<Rightarrow> (json \<times> nat list option) io" where
  "check_file tenant_id file = bnd (get_request_file tenant_id file) (\<lambda>entry. bnd (jindex entry ''status'') (\<lambda>status.
     if status = JStr ''approved'' then raise (HTTPException 409 ''Already approved.'')
     else if status = JStr ''rejected'' then raise (HTTPException 409 ''Request was rejected. Reset it before approving.'')
     else ret (entry, file)))"

definition update_items :: "(string \<times> json) list \<Rightarrow> json \<Rightarrow> json" where
  "update_items qs j = (case j of JObj ps \<Rightarrow> JObj (dict_update ps qs) | _ \<Rightarrow> j)"

text \<open>\<open>store[tenant_id].update(\<dots>)\<close> and \<open>save_store(store)\<close>; the items hold the time, and only an object has an \<open>update\<close>.\<close>

definition update_method :: "json \<Rightarrow> ((string \<times> json) list \<Rightarrow> json) io" where
  "update_method j = (case j of JObj _ \<Rightarrow> ret (\<lambda>qs. update_items qs j)
     | _ \<Rightarrow> raise (AttributeError (squoted (type_name j) @ '' object has no attribute '' @ squoted ''update'')))"

definition update_file :: "string \<Rightarrow> (instant \<Rightarrow> (string \<times> json) list) \<Rightarrow> nat list option \<Rightarrow> nat list option io" where
  "update_file tenant_id items file = bnd (load_joins_file file) (\<lambda>store. bnd (jindex store tenant_id) (\<lambda>entry.
     bnd (update_method entry) (\<lambda>update. bnd now_utc (\<lambda>now. bnd (asks dump_file) (\<lambda>dump.
       ret (Some (dump False (set_item tenant_id (update (items now)) store))))))))"

definition reject_file :: "string \<Rightarrow> string \<Rightarrow> nat list option \<Rightarrow> (reply \<times> nat list option) io" where
  "reject_file tenant_id reason file = thn get_cdm_admin (bnd (get_request_file tenant_id file) (\<lambda>entry.
     bnd (jindex entry ''status'') (\<lambda>status.
       if status = JStr ''approved'' then raise (HTTPException 409 ''Cannot reject an already approved request.'')
       else bnd (update_file tenant_id (\<lambda>now. [(''status'', JStr ''rejected''), (''rejected_at'', JStr (isoformat now)),
              (''rejected_reason'', JStr (str_or reason ''Rejected by provider admin.''))]) file)
         (\<lambda>file. ret (JSONResponse 200 (JObj [(''tenant_id'', JStr tenant_id), (''status'', JStr ''rejected'')]), file)))))"

definition commit_file :: "settings \<Rightarrow> string \<Rightarrow> provision_bundle \<Rightarrow> nat list option \<Rightarrow> (reply \<times> nat list option) io" where
  "commit_file s tenant_id b file = bnd (update_file tenant_id (\<lambda>now.
       [(''status'', JStr ''approved''), (''approved_at'', JStr (isoformat now)), (''signed_cert'', bn_signed_cert b),
        (''root_ca_cert'', bn_root_ca_cert b), (''rabbitmq_url'', JStr (rabbitmq_mgmt_url s)), (''rabbitmq_vhost'', JStr tenant_id),
        (''rabbitmq_user'', JStr (mqtt_user tenant_id)), (''mqtt_bridge_cert'', bn_mqtt_bridge_cert b),
        (''cdm_idp_client_id'', JStr (bn_client_id b)), (''cdm_idp_client_secret'', JStr (bn_client_secret b)),
        (''cdm_discovery_url'', JStr (discovery_url s))]) file)
     (\<lambda>file. ret (JSONResponse 200 (JObj [(''tenant_id'', JStr tenant_id), (''status'', JStr ''approved''),
        (''results'', str_dict (bn_results b)), (''errors'', str_dict (bn_errors b)),
        (''bundle'', JObj [(''signed_cert'', bn_signed_cert b), (''root_ca_cert'', bn_root_ca_cert b),
           (''rabbitmq_url'', JStr (rabbitmq_mgmt_url s)), (''rabbitmq_vhost'', JStr tenant_id),
           (''rabbitmq_user'', JStr (mqtt_user tenant_id)), (''mqtt_bridge_cert'', bn_mqtt_bridge_cert b),
           (''cdm_idp_client_id'', JStr (bn_client_id b)), (''cdm_idp_client_secret'', JStr (bn_client_secret b)),
           (''cdm_discovery_url'', JStr (discovery_url s))])]), file))"

definition status_file :: "string \<Rightarrow> nat list option \<Rightarrow> (join_status_response \<times> nat list option) io" where
  "status_file tenant_id file = bnd (get_request_file tenant_id file) (\<lambda>entry.
     let opt = (\<lambda>k. bnd (jget entry k JNull) as_opt_str) in
     bnd (bnd (jindex entry ''status'') as_str) (\<lambda>status. bnd (opt ''signed_cert'') (\<lambda>signed. bnd (opt ''root_ca_cert'') (\<lambda>root.
     bnd (opt ''rabbitmq_url'') (\<lambda>url. bnd (opt ''rabbitmq_vhost'') (\<lambda>vhost. bnd (opt ''rabbitmq_user'') (\<lambda>user.
     bnd (opt ''mqtt_bridge_cert'') (\<lambda>mqtt. bnd (opt ''cdm_idp_client_id'') (\<lambda>cid. bnd (opt ''cdm_idp_client_secret'') (\<lambda>secret.
     bnd (opt ''cdm_discovery_url'') (\<lambda>disc. bnd (opt ''wg_server_pubkey'') (\<lambda>pub. bnd (opt ''wg_server_endpoint'') (\<lambda>ep.
     bnd (opt ''wg_client_ip'') (\<lambda>ip. bnd (opt ''rejected_reason'') (\<lambda>reason.
       ret (\<lparr>js_tenant_id = tenant_id, js_status = status, js_signed_cert = signed, js_root_ca_cert = root,
         js_rabbitmq_url = url, js_rabbitmq_vhost = vhost, js_rabbitmq_user = user, js_mqtt_bridge_cert = mqtt,
         js_cdm_idp_client_id = cid, js_cdm_idp_client_secret = secret, js_cdm_discovery_url = disc,
         js_wg_server_pubkey = pub, js_wg_server_endpoint = ep, js_wg_client_ip = ip, js_rejected_reason = reason\<rparr>, file))))))))))))))))"

section \<open>The file of a store\<close>

definition join_file_bytes :: "env \<Rightarrow> world \<Rightarrow> nat list option" where
  "join_file_bytes e w = map_option (\<lambda>d. dump_file e False (store_json entry_json d)) (w_joins w)"

definition without_joins :: "world \<Rightarrow> world" where
  "without_joins w = w\<lparr>w_joins := None\<rparr>"

definition join_dates_ok :: "world \<Rightarrow> bool" where
  "join_dates_ok w \<longleftrightarrow> dict_wf (joins w) \<and> list_all join_entry_plain (dict_values (joins w))"

lemma join_file_bytes_set [simp]: "join_file_bytes e (w\<lparr>w_joins := Some d\<rparr>) = Some (dump_file e False (store_json entry_json d))"
  by (simp add: join_file_bytes_def)

lemma load_join_file: "join_dates_ok w \<Longrightarrow> load_file e (join_file_bytes e w) = Inr (store_json entry_json (joins w))"
  by (cases "w_joins w") (simp_all add: join_file_bytes_def joins_def join_dates_ok_def load_dump join_codec.plain_store,
      simp add: load_file_def store_json_def)

lemma load_joins_run: "join_dates_ok w \<Longrightarrow> bnd (load_joins_file (join_file_bytes e w)) f e w' = f (store_json entry_json (joins w)) e w'"
  by (simp add: load_joins_file_def lift_sum_def load_join_file bnd_def asks_def ret_def)

section \<open>Entries\<close>

lemma entry_items:
  "truth (entry_json x)" "\<not> truth JNull" "entry_json x \<noteq> JNull"
  "jindex (entry_json x) ''status'' = ret (JStr (join_status_text (je_status x)))"
  "jget (entry_json x) ''status'' d = ret (JStr (join_status_text (je_status x)))"
  "jget (entry_json x) ''requested_at'' d = ret (JStr (isoformat (je_requested_at x)))"
  "str_field (entry_json x) ''requested_at'' = Some (isoformat (je_requested_at x))"
  by (simp_all add: entry_json_def truth_def jindex_def jget_def)

lemma entry_options:
  "jget (entry_json x) ''signed_cert'' d = ret (je_signed_cert x)" "jget (entry_json x) ''root_ca_cert'' d = ret (je_root_ca_cert x)"
  "jget (entry_json x) ''mqtt_bridge_cert'' d = ret (je_mqtt_bridge_cert x)"
  "jget (entry_json x) ''rabbitmq_url'' d = ret (opt_json (je_rabbitmq_url x))"
  "jget (entry_json x) ''rabbitmq_vhost'' d = ret (opt_json (je_rabbitmq_vhost x))"
  "jget (entry_json x) ''rabbitmq_user'' d = ret (opt_json (je_rabbitmq_user x))"
  "jget (entry_json x) ''cdm_idp_client_id'' d = ret (opt_json (je_cdm_idp_client_id x))"
  "jget (entry_json x) ''cdm_idp_client_secret'' d = ret (opt_json (je_cdm_idp_client_secret x))"
  "jget (entry_json x) ''cdm_discovery_url'' d = ret (opt_json (je_cdm_discovery_url x))"
  "jget (entry_json x) ''wg_server_pubkey'' d = ret (opt_json (je_wg_server_pubkey x))"
  "jget (entry_json x) ''wg_server_endpoint'' d = ret (opt_json (je_wg_server_endpoint x))"
  "jget (entry_json x) ''wg_client_ip'' d = ret (opt_json (je_wg_client_ip x))"
  "jget (entry_json x) ''rejected_reason'' d = ret (opt_json (je_rejected_reason x))"
  by (simp_all add: entry_json_def jget_def)

lemma as_opt_str_opt: "as_opt_str (opt_json x) = ret x"
  by (auto simp: as_opt_str_def opt_json_def as_str_def ret_def bnd_def split: option.split)

lemma as_opt_str_cases:
  obtains (valid) v where "as_opt_str j = ret v" | (invalid) x where "as_opt_str j = raise x"
  by (cases j) (simp_all add: as_opt_str_def as_str_def run_bnd_ret run_bnd_raise)

lemma status_text_eq [simp]:
  "join_status_text s = ''approved'' \<longleftrightarrow> s = Approved" "join_status_text s = ''rejected'' \<longleftrightarrow> s = Rejected"
  by (cases s; simp add: join_status_text_def)+

lemma submitted_entry: "submitted_json t p now = entry_json (new_join_entry t p now)"
  by (simp add: submitted_json_def entry_json_def new_join_entry_def opt_json_def opt_time_def join_status_text_def)

lemma update_method_entry: "update_method (entry_json x) = ret (\<lambda>qs. update_items qs (entry_json x))"
  by (simp add: update_method_def entry_json_def)

lemma rejected_items:
  "update_items [(''status'', JStr ''rejected''), (''rejected_at'', JStr (isoformat now)),
     (''rejected_reason'', JStr (str_or reason ''Rejected by provider admin.''))] (entry_json x) = entry_json (rejected_entry reason now x)"
  by (simp add: update_items_def entry_json_def rejected_entry_def dict_update_def dict_set_def opt_json_def opt_time_def join_status_text_def)

lemma approved_items:
  "update_items [(''status'', JStr ''approved''), (''approved_at'', JStr (isoformat now)), (''signed_cert'', bn_signed_cert b),
     (''root_ca_cert'', bn_root_ca_cert b), (''rabbitmq_url'', JStr (rabbitmq_mgmt_url s)), (''rabbitmq_vhost'', JStr t),
     (''rabbitmq_user'', JStr (mqtt_user t)), (''mqtt_bridge_cert'', bn_mqtt_bridge_cert b),
     (''cdm_idp_client_id'', JStr (bn_client_id b)), (''cdm_idp_client_secret'', JStr (bn_client_secret b)),
     (''cdm_discovery_url'', JStr (discovery_url s))] (entry_json x) = entry_json (approved_entry s t b now x)"
  by (simp add: update_items_def entry_json_def approved_entry_def dict_update_def dict_set_def opt_json_def opt_time_def join_status_text_def)

lemma get_request_file_run:
  "join_dates_ok w \<Longrightarrow> bnd (get_request_file t (join_file_bytes e w)) f e w' = (case dict_get (joins w) t of
     None \<Rightarrow> (Inl (HTTPException 404 (''No JOIN request found for tenant '' @ squoted t)), w') | Some x \<Rightarrow> f (entry_json x) e w')"
  by (simp add: get_request_file_def bnd_assoc load_joins_run store_json_def jget_def store_json_get run_simps entry_items
      split: option.split)

lemma update_file_run:
  assumes "join_dates_ok w" "dict_get (joins w) t = Some x" "update_items (items (e_now e (w_ticks w'))) (entry_json x) = entry_json y"
  shows "update_file t items (join_file_bytes e w) e w' =
    (Inr (Some (dump_file e False (store_json entry_json (dict_set t y (joins w))))), w'\<lparr>w_ticks := Suc (w_ticks w')\<rparr>)"
  using assms(2,3)
  by (simp add: update_file_def load_joins_run [OF assms(1)] update_method_entry run_bnd_ret jindex_def store_json_def store_json_get run_simps set_item_def store_json_set)

lemma update_file_none:
  assumes "join_dates_ok w" "dict_get (joins w) t = None"
  shows "update_file t items (join_file_bytes e w) e w' = (Inl (KeyError (repr_str t)), w')"
  using assms(2) by (simp add: update_file_def load_joins_run [OF assms(1)] jindex_def store_json_def store_json_get run_simps)

section \<open>Each handler\<close>

lemma without_joins_simps [simp]:
  "w_session (without_joins w) = w_session w" "w_ticks (without_joins w) = w_ticks w" "session_ok (without_joins w) = session_ok w"
  "is_cdm_admin (without_joins w) = is_cdm_admin w" "session_user (without_joins w) = session_user w"
  "without_joins (w\<lparr>w_joins := j\<rparr>) = without_joins w" "without_joins (w\<lparr>w_ticks := n\<rparr>) = (without_joins w)\<lparr>w_ticks := n\<rparr>"
  by (simp_all add: without_joins_def session_ok_def is_cdm_admin_def session_user_def)

lemma guard_bnd: "session_ok w \<Longrightarrow> bnd get_cdm_admin (\<lambda>_. m) e w = m e w" "session_ok w \<Longrightarrow> thn get_cdm_admin m e w = m e w"
  by (simp_all add: thn_def bnd_value [OF guard_run])

lemma get_request_bnd:
  "bnd (get_request t) f e w = (case dict_get (joins w) t of
     None \<Rightarrow> (Inl (HTTPException 404 (''No JOIN request found for tenant '' @ squoted t)), w) | Some x \<Rightarrow> f x e w)"
  by (simp add: get_request_def bnd_assoc join_file.load_bnd run_simps split: option.split)

lemma submit_file_refines:
  assumes "join_dates_ok w" "submit_join_request t p e w = (r, w')"
  shows "submit_file t p (join_file_bytes e w) e (without_joins w) = (map_sum id (\<lambda>x. (x, join_file_bytes e w')) r, without_joins w')"
proof (cases "valid_tenant_id t")
  case False
  with assms(2) show ?thesis by (auto simp: submit_join_request_def submit_file_def check_tenant_id_def run_simps)
next
  case True
  have a: "already_approved t (store_json entry_json (joins w)) = ret (\<exists>x. dict_get (joins w) t = Some x \<and> je_status x = Approved)"
    by (cases "dict_get (joins w) t") (simp_all add: already_approved_def store_json_def store_json_get jindex_def run_bnd_ret entry_items)
  show ?thesis
    using assms(2) True
    by (cases "dict_get (joins w) t")
      (auto simp: submit_join_request_def submit_file_def check_tenant_id_def run_simps load_joins_run [OF assms(1)] a [unfolded store_json_def] join_file.load_bnd
        join_file.save_thn save_store_def submitted_entry set_item_def store_json_def store_json_set split: if_splits)
qed

lemma check_file_refines:
  assumes "join_dates_ok w" "approve_check t e w = (r, w')"
  shows "check_file t (join_file_bytes e w) e (without_joins w) = (map_sum id (\<lambda>x. (entry_json x, join_file_bytes e w')) r, without_joins w')"
  using assms(2)
  by (auto simp: approve_check_def check_file_def get_request_bnd get_request_file_run [OF assms(1)] run_simps entry_items
      split: option.splits if_splits)

lemma reject_file_refines:
  assumes "join_dates_ok w" "session_ok w" "reject_join_request t reason e w = (r, w')"
  shows "reject_file t reason (join_file_bytes e w) e (without_joins w) = (map_sum id (\<lambda>x. (x, join_file_bytes e w')) r, without_joins w')"
proof (cases "dict_get (joins w) t")
  case None
  with assms show ?thesis
    by (auto simp: reject_join_request_def reject_file_def guard_bnd get_request_bnd get_request_file_run)
next
  case (Some x)
  let ?items = "\<lambda>now. [(''status'', JStr ''rejected''), (''rejected_at'', JStr (isoformat now)),
    (''rejected_reason'', JStr (str_or reason ''Rejected by provider admin.''))]"
  have u: "update_file t ?items (join_file_bytes e w) e (without_joins w) = (Inr (Some (dump_file e False (store_json entry_json
      (dict_set t (rejected_entry reason (e_now e (w_ticks w)) x) (joins w))))), (without_joins w)\<lparr>w_ticks := Suc (w_ticks w)\<rparr>)"
    by (rule update_file_run [OF assms(1) Some, of _ _ "without_joins w", simplified]) (rule rejected_items)
  show ?thesis
    using assms(2,3) Some
    by (auto simp: reject_join_request_def reject_file_def guard_bnd get_request_bnd get_request_file_run [OF assms(1)] run_simps entry_items
        join_file.load_bnd join_file.save_thn save_store_def bnd_value [where m = "update_file t ?items (join_file_bytes e w)", OF u] split: if_splits)
qed

lemma commit_file_refines:
  assumes "join_dates_ok w" "approve_commit s t b e w = (r, w')"
  shows "commit_file s t b (join_file_bytes e w) e (without_joins w) = (map_sum id (\<lambda>x. (x, join_file_bytes e w')) r, without_joins w')"
proof (cases "dict_get (joins w) t")
  case None
  with assms show ?thesis
    by (auto simp: commit_run commit_file_def bnd_raise [OF update_file_none])
next
  case x: (Some x)
  let ?items = "\<lambda>now. [(''status'', JStr ''approved''), (''approved_at'', JStr (isoformat now)), (''signed_cert'', bn_signed_cert b),
    (''root_ca_cert'', bn_root_ca_cert b), (''rabbitmq_url'', JStr (rabbitmq_mgmt_url s)), (''rabbitmq_vhost'', JStr t),
    (''rabbitmq_user'', JStr (mqtt_user t)), (''mqtt_bridge_cert'', bn_mqtt_bridge_cert b),
    (''cdm_idp_client_id'', JStr (bn_client_id b)), (''cdm_idp_client_secret'', JStr (bn_client_secret b)),
    (''cdm_discovery_url'', JStr (discovery_url s))]"
  have u: "update_file t ?items (join_file_bytes e w) e (without_joins w) = (Inr (Some (dump_file e False (store_json entry_json
      (dict_set t (approved_entry s t b (e_now e (w_ticks w)) x) (joins w))))), (without_joins w)\<lparr>w_ticks := Suc (w_ticks w)\<rparr>)"
    by (rule update_file_run [OF assms(1) x, of _ _ "without_joins w", simplified]) (rule approved_items)
  show ?thesis
    using assms(2) x
    by (auto simp: approve_commit_def commit_file_def run_simps join_file.load_bnd join_file.save_thn save_store_def bnd_value [where m = "update_file t ?items (join_file_bytes e w)", OF u])
qed

lemma status_file_refines:
  assumes "join_dates_ok w" "get_join_status t e w = (r, w')"
  shows "status_file t (join_file_bytes e w) e (without_joins w) = (map_sum id (\<lambda>x. (x, join_file_bytes e w')) r, without_joins w')"
proof (cases "dict_get (joins w) t")
  case None
  with assms show ?thesis by (auto simp: get_join_status_def status_file_def get_request_bnd get_request_file_run)
next
  case (Some x)
  let ?file = "join_file_bytes e w"
  define answer where "answer = bnd (as_opt_str (je_signed_cert x)) (\<lambda>signed. bnd (as_opt_str (je_root_ca_cert x)) (\<lambda>root.
     bnd (as_opt_str (je_mqtt_bridge_cert x)) (\<lambda>mqtt.
       ret \<lparr>js_tenant_id = t, js_status = join_status_text (je_status x), js_signed_cert = signed,
         js_root_ca_cert = root, js_rabbitmq_url = je_rabbitmq_url x, js_rabbitmq_vhost = je_rabbitmq_vhost x,
         js_rabbitmq_user = je_rabbitmq_user x, js_mqtt_bridge_cert = mqtt, js_cdm_idp_client_id = je_cdm_idp_client_id x,
         js_cdm_idp_client_secret = je_cdm_idp_client_secret x, js_cdm_discovery_url = je_cdm_discovery_url x,
         js_wg_server_pubkey = je_wg_server_pubkey x, js_wg_server_endpoint = je_wg_server_endpoint x,
         js_wg_client_ip = je_wg_client_ip x, js_rejected_reason = je_rejected_reason x\<rparr>)))"
  have model: "get_join_status t e w = answer e w"
    by (simp add: get_join_status_def get_request_bnd Some answer_def)
  have on_file: "status_file t ?file e v = bnd answer (\<lambda>x. ret (x, ?file)) e v" for v
    by (simp add: status_file_def get_request_file_run [OF assms(1)] Some Let_def run_bnd_ret entry_items entry_options
        as_opt_str_opt as_str_def bnd_assoc answer_def)
  have "(\<exists>v. answer = ret v) \<or> (\<exists>x. answer = raise x)"
    unfolding answer_def
    by (cases rule: as_opt_str_cases [of "je_signed_cert x"]; cases rule: as_opt_str_cases [of "je_root_ca_cert x"];
        cases rule: as_opt_str_cases [of "je_mqtt_bridge_cert x"]; simp add: run_bnd_ret run_bnd_raise; blast)
  with assms(2) show ?thesis by (auto simp: model on_file run_simps)
qed

lemma map_io_ret: "map_io (\<lambda>x. ret (f x)) xs = ret (map f xs)"
  by (induction xs) (simp_all add: run_bnd_ret)

lemma sorted_reverse_map: "sorted_reverse f (map h xs) = map h (sorted_reverse (\<lambda>x. f (h x)) xs)"
proof -
  have "sort_key f (map h ys) = map h (sort_key (\<lambda>x. f (h x)) ys)" for ys
  proof (induction ys)
    case (Cons y ys)
    have "insort_key f (h y) (map h zs) = map h (insort_key (\<lambda>x. f (h x)) y zs)" for zs by (induction zs) auto
    with Cons show ?case by simp
  qed simp
  then show ?thesis by (simp add: sorted_reverse_def rev_map)
qed

lemma list_file_refines:
  assumes "join_dates_ok w" "session_ok w" "list_join_requests e w = (r, w')"
  shows "list_file (join_file_bytes e w) e (without_joins w) = (map_sum id (\<lambda>x. (x, join_file_bytes e w')) r, without_joins w')"
proof -
  let ?ds = "dict_values (joins w)"
  have v: "dict_values (map (\<lambda>(k, v). (k, entry_json v)) (joins w)) = map entry_json ?ds"
    by (simp add: dict_values_def case_prod_unfold)
  have m: "map_io (\<lambda>x. jget x ''requested_at'' (JStr [])) (map entry_json ds) = ret (map (\<lambda>x. JStr (isoformat (je_requested_at x))) ds)" for ds
    by (induction ds) (simp_all add: entry_items run_bnd_ret)
  have t: "isoformat (je_requested_at x) < isoformat (je_requested_at y) \<longleftrightarrow> je_requested_at x < je_requested_at y"
    if "x \<in> set ?ds" "y \<in> set ?ds" for x y
    using assms(1) that isoformat_less [of "je_requested_at x" "je_requested_at y"] isoformat_less [of "je_requested_at y" "je_requested_at x"]
    by (auto simp: join_dates_ok_def list_all_iff join_entry_plain_def time_ok_def) (metis less_asym linorder_neqE)
  have "sorted_reverse requested_text (map entry_json ?ds) = map entry_json (by_request_time (joins w))"
    unfolding sorted_reverse_map by_request_time_def
    by (subst sorted_reverse_times [where g = je_requested_at]) (simp_all add: requested_text_def entry_items t)
  then have "list_file (join_file_bytes e w) e (without_joins w) = (Inr (JSONResponse 200 (JObj
      [(''join_requests'', JArr (map entry_json (by_request_time (joins w)))),
       (''total'', JInt (int (length (by_request_time (joins w)))))]), join_file_bytes e w), without_joins w)"
    using assms(2) by (simp add: list_file_def guard_bnd load_joins_run [OF assms(1)] store_json_def values_of_def run_bnd_ret v m
        Let_def is_str_def list_all_iff) (simp add: run_simps)
  moreover have "list_join_requests e w = (Inr (JSONResponse 200 (JObj [(''join_requests'', JArr (map entry_json (by_request_time (joins w)))),
       (''total'', JInt (int (length (by_request_time (joins w)))))])), w)"
    using assms(2) by (simp add: list_join_requests_def guard_bnd join_file.load_bnd run_simps Let_def)
  ultimately show ?thesis using assms(3) by auto
qed

section \<open>Any sequence of calls\<close>

datatype join_call = Submit string join_request_payload | ListAll | Check string | Commit string provision_bundle
  | Reject string string | Poll string

datatype join_answer = Replied reply | Found json | Polled join_status_response

definition record_join :: "settings \<Rightarrow> join_call \<Rightarrow> (exn + join_answer) io" where
  "record_join s c = attempt (case c of Submit t p \<Rightarrow> bnd (submit_join_request t p) (\<lambda>r. ret (Replied r))
     | ListAll \<Rightarrow> bnd list_join_requests (\<lambda>r. ret (Replied r))
     | Check t \<Rightarrow> bnd (approve_check t) (\<lambda>x. ret (Found (entry_json x)))
     | Commit t b \<Rightarrow> bnd (approve_commit s t b) (\<lambda>r. ret (Replied r))
     | Reject t reason \<Rightarrow> bnd (reject_join_request t reason) (\<lambda>r. ret (Replied r))
     | Poll t \<Rightarrow> bnd (get_join_status t) (\<lambda>r. ret (Polled r)))"

text \<open>A handler that raises leaves the file.\<close>

definition file_attempt :: "('a \<Rightarrow> join_answer) \<Rightarrow> (nat list option \<Rightarrow> ('a \<times> nat list option) io) \<Rightarrow>
    nat list option \<Rightarrow> ((exn + join_answer) \<times> nat list option) io" where
  "file_attempt g h bytes = (\<lambda>e w. case h bytes e w of (Inl x, w') \<Rightarrow> (Inr (Inl x, bytes), w')
     | (Inr (a, bytes'), w') \<Rightarrow> (Inr (Inr (g a), bytes'), w'))"

definition file_join :: "settings \<Rightarrow> join_call \<Rightarrow> nat list option \<Rightarrow> ((exn + join_answer) \<times> nat list option) io" where
  "file_join s c = (case c of Submit t p \<Rightarrow> file_attempt Replied (submit_file t p)
     | ListAll \<Rightarrow> file_attempt Replied list_file
     | Check t \<Rightarrow> file_attempt Found (check_file t)
     | Commit t b \<Rightarrow> file_attempt Replied (commit_file s t b)
     | Reject t reason \<Rightarrow> file_attempt Replied (reject_file t reason)
     | Poll t \<Rightarrow> file_attempt Polled (status_file t))"

fun record_joins :: "settings \<Rightarrow> join_call list \<Rightarrow> (exn + join_answer) list io" where
  "record_joins s [] = ret []"
| "record_joins s (c # cs) = bnd (record_join s c) (\<lambda>r. bnd (record_joins s cs) (\<lambda>rs. ret (r # rs)))"

fun file_joins :: "settings \<Rightarrow> join_call list \<Rightarrow> nat list option \<Rightarrow> ((exn + join_answer) list \<times> nat list option) io" where
  "file_joins s [] bytes = ret ([], bytes)"
| "file_joins s (c # cs) bytes = bnd (file_join s c bytes) (\<lambda>(r, bytes). bnd (file_joins s cs bytes) (\<lambda>(rs, bytes). ret (r # rs, bytes)))"

text \<open>A commit stores JSON values the services sent; \<open>plain_json\<close> says that they are values JSON text can hold.\<close>

definition call_plain :: "join_call \<Rightarrow> bool" where
  "call_plain c = (case c of Commit t b \<Rightarrow> plain_json (bn_signed_cert b) \<and> plain_json (bn_root_ca_cert b) \<and> plain_json (bn_mqtt_bridge_cert b)
     | _ \<Rightarrow> True)"

lemma join_dates_set: "join_dates_ok w \<Longrightarrow> join_entry_plain x \<Longrightarrow> joins w' = dict_set t x (joins w) \<Longrightarrow> join_dates_ok w'"
  using dict_values_set [of t x "joins w"] by (auto simp: join_dates_ok_def list_all_iff)

lemma join_dates_at: "join_dates_ok w \<Longrightarrow> dict_get (joins w) t = Some x \<Longrightarrow> join_entry_plain x"
  using dict_values_iff [of "joins w" x] by (auto simp: join_dates_ok_def list_all_iff)

lemma join_dates_same: "join_dates_ok w \<Longrightarrow> joins w' = joins w \<Longrightarrow> join_dates_ok w'"
  by (simp add: join_dates_ok_def)

lemma clock_times: "clock_ok e \<Longrightarrow> time_ok (e_now e n)"
  by (simp add: clock_ok_def)

text \<open>A handler keeps the store well formed and the session, and changes nothing when it raises.\<close>

definition keeps_joins :: "world \<Rightarrow> exn + 'a \<Rightarrow> world \<Rightarrow> bool" where
  "keeps_joins w r w' \<longleftrightarrow> (join_dates_ok w \<longrightarrow> join_dates_ok w') \<and> session_ok w' = session_ok w \<and> (\<forall>x. r = Inl x \<longrightarrow> w' = w)"

lemma keeps_joins_same: "keeps_joins w r w"
  by (simp add: keeps_joins_def)

lemma keeps_joins_set:
  assumes "w' = w\<lparr>w_ticks := n, w_joins := Some (dict_set t x (joins w))\<rparr>" "join_dates_ok w \<Longrightarrow> join_entry_plain x" "r = Inr y"
  shows "keeps_joins w r w'"
  using assms join_dates_set [of w x w' t] by (auto simp: keeps_joins_def session_ok_def session_user_def)

lemma join_calls_keep:
  assumes "clock_ok e"
  shows "submit_join_request t p e w = (r, w') \<Longrightarrow> keeps_joins w r w'"
    and "reject_join_request t reason e w = (r, w') \<Longrightarrow> keeps_joins w r w'"
    and "approve_commit s t b e w = (r, w') \<Longrightarrow> call_plain (Commit t b) \<Longrightarrow> keeps_joins w r w'"
proof -
  note plain = join_entry_plain_def new_join_entry_def rejected_entry_def approved_entry_def opt_ok_def
    clock_times [OF assms] call_plain_def
  show "keeps_joins w r w'" if "submit_join_request t p e w = (r, w')"
    using that
  proof (cases rule: submit_cases)
    case stored
    then obtain j where "r = Inr j" by blast
    with stored show ?thesis
      by (intro keeps_joins_set [where x = "new_join_entry t p (e_now e (w_ticks w))"]) (simp_all add: plain)
  qed (simp_all add: keeps_joins_same)
  show "keeps_joins w r w'" if "reject_join_request t reason e w = (r, w')"
    using that
  proof (cases rule: reject_cases)
    case (rejected x)
    then obtain j where "r = Inr j" by blast
    with rejected join_dates_at [of w t x] show ?thesis
      by (intro keeps_joins_set [where x = "rejected_entry reason (e_now e (w_ticks w)) x"]) (simp_all add: plain)
  qed (simp add: keeps_joins_same)
  show "keeps_joins w r w'" if "approve_commit s t b e w = (r, w')" "call_plain (Commit t b)"
  proof (cases "dict_get (joins w) t")
    case None
    with that(1) commit_run [of s t b e w] show ?thesis by (simp add: keeps_joins_same)
  next
    case (Some x)
    then obtain j where "fst (approve_commit s t b e w) = Inr j" using commit_reply by blast
    with Some that join_dates_at [of w t x] commit_run [of s t b e w] show ?thesis
      by (intro keeps_joins_set [where x = "approved_entry s t b (e_now e (w_ticks w)) x"]) (simp_all add: plain)
  qed
qed

lemma pure_join_calls:
  "approve_check t e w = (r, w') \<Longrightarrow> w' = w" "get_join_status t e w = (p, w') \<Longrightarrow> w' = w"
  "list_join_requests e w = (q, w') \<Longrightarrow> w' = w"
proof -
  show "w' = w" if "approve_check t e w = (r, w')"
    using that by (auto simp: approve_check_def get_request_bnd run_simps split: option.splits if_splits)
  show "w' = w" if "list_join_requests e w = (q, w')"
    using guard_ignored [OF that [unfolded list_join_requests_def]] by (auto simp: join_file.load_bnd run_simps Let_def)
  have status: "snd (bnd (as_opt_str j) f e w) = w" if "\<And>a. snd (f a e w) = w" for j and f :: "_ \<Rightarrow> join_status_response io"
    by (cases rule: as_opt_str_cases [of j]) (simp_all add: that run_bnd_ret run_bnd_raise, simp add: run_simps)
  show "w' = w" if "get_join_status t e w = (p, w')"
  proof -
    have "snd (get_join_status t e w) = w"
      unfolding get_join_status_def get_request_bnd
      by (cases "dict_get (joins w) t") (simp_all add: status run_simps)
    then show ?thesis by (simp add: that)
  qed
qed

lemma attempt_bnd_ret: "m e w = (r, w') \<Longrightarrow> attempt (bnd m (\<lambda>x. ret (g x))) e w = (Inr (map_sum id g r), w')"
  by (cases r) (simp_all add: attempt_def bnd_def ret_def)

lemma join_call_step:
  assumes "m e w = (x, w1)" "keeps_joins w x w1"
    "h (join_file_bytes e w) e (without_joins w) = (map_sum id (\<lambda>a. (f a, join_file_bytes e w1)) x, without_joins w1)"
    "record_join s c = attempt (bnd m (\<lambda>a. ret (g (f a))))" "file_join s c = file_attempt g h"
    "record_join s c e w = (Inr r, w')" "join_dates_ok w" "session_ok w"
  shows "file_join s c (join_file_bytes e w) e (without_joins w) = (Inr (r, join_file_bytes e w'), without_joins w') \<and>
    join_dates_ok w' \<and> session_ok w'"
proof -
  have r: "r = map_sum id (\<lambda>a. g (f a)) x" "w' = w1"
    using assms(6) attempt_bnd_ret [of m e w x w1 "\<lambda>a. g (f a)", OF assms(1)] by (simp_all add: assms(4))
  have "file_join s c (join_file_bytes e w) e (without_joins w) = (Inr (r, join_file_bytes e w'), without_joins w')"
    using assms(2) by (cases x) (simp_all add: assms(5) file_attempt_def assms(3) r keeps_joins_def)
  with assms(2,7,8) r show ?thesis by (simp add: keeps_joins_def)
qed

lemma record_join_refines:
  assumes "clock_ok e" "join_dates_ok w" "session_ok w" "call_plain c" "record_join s c e w = (Inr r, w')"
  shows "file_join s c (join_file_bytes e w) e (without_joins w) = (Inr (r, join_file_bytes e w'), without_joins w') \<and>
    join_dates_ok w' \<and> session_ok w'"
proof (cases c)
  case (Submit t p)
  obtain x w1 where x: "submit_join_request t p e w = (x, w1)" by fastforce
  show ?thesis
    by (rule join_call_step [where m = "submit_join_request t p" and h = "submit_file t p" and g = Replied and f = "(\<lambda>a. a)",
          OF x join_calls_keep(1) [OF assms(1) x] submit_file_refines [OF assms(2) x] _ _ assms(5,2,3)])
      (simp_all add: Submit record_join_def file_join_def)
next
  case ListAll
  obtain x w1 where x: "list_join_requests e w = (x, w1)" by fastforce
  have k: "keeps_joins w x w1" using pure_join_calls(3) [OF x] by (simp add: keeps_joins_same)
  show ?thesis
    by (rule join_call_step [where m = "list_join_requests" and h = "list_file" and g = Replied and f = "(\<lambda>a. a)",
          OF x k list_file_refines [OF assms(2,3) x] _ _ assms(5,2,3)])
      (simp_all add: ListAll record_join_def file_join_def)
next
  case (Check t)
  obtain x w1 where x: "approve_check t e w = (x, w1)" by fastforce
  have k: "keeps_joins w x w1" using pure_join_calls(1) [OF x] by (simp add: keeps_joins_same)
  show ?thesis
    by (rule join_call_step [where m = "approve_check t" and h = "check_file t" and g = Found and f = "entry_json",
          OF x k check_file_refines [OF assms(2) x] _ _ assms(5,2,3)])
      (simp_all add: Check record_join_def file_join_def)
next
  case (Commit t b)
  obtain x w1 where x: "approve_commit s t b e w = (x, w1)" by fastforce
  have k: "keeps_joins w x w1" using join_calls_keep(3) [OF assms(1) x] assms(4) Commit by simp
  show ?thesis
    by (rule join_call_step [where m = "approve_commit s t b" and h = "commit_file s t b" and g = Replied and f = "(\<lambda>a. a)",
          OF x k commit_file_refines [OF assms(2) x] _ _ assms(5,2,3)])
      (simp_all add: Commit record_join_def file_join_def)
next
  case (Reject t reason)
  obtain x w1 where x: "reject_join_request t reason e w = (x, w1)" by fastforce
  show ?thesis
    by (rule join_call_step [where m = "reject_join_request t reason" and h = "reject_file t reason" and g = Replied and f = "(\<lambda>a. a)",
          OF x join_calls_keep(2) [OF assms(1) x] reject_file_refines [OF assms(2,3) x] _ _ assms(5,2,3)])
      (simp_all add: Reject record_join_def file_join_def)
next
  case (Poll t)
  obtain x w1 where x: "get_join_status t e w = (x, w1)" by fastforce
  have k: "keeps_joins w x w1" using pure_join_calls(2) [OF x] by (simp add: keeps_joins_same)
  show ?thesis
    by (rule join_call_step [where m = "get_join_status t" and h = "status_file t" and g = Polled and f = "(\<lambda>a. a)",
          OF x k status_file_refines [OF assms(2) x] _ _ assms(5,2,3)])
      (simp_all add: Poll record_join_def file_join_def)
qed

lemma record_join_returns: "\<exists>r w'. record_join s c e w = (Inr r, w')"
  by (auto simp: record_join_def attempt_def split: prod.split)

text \<open>C20. C20.
  The handlers of Join on records and the code of \<open>routers/join.py\<close> on its JSON file do the same, for any
  sequence of submissions, lists, checks, commits, rejections and polls: the same replies and the same file.
\<close>

theorem join_file_refines:
  assumes "clock_ok e" "join_dates_ok w" "session_ok w" "list_all call_plain cs" "record_joins s cs e w = (Inr rs, w')"
  shows "file_joins s cs (join_file_bytes e w) e (without_joins w) = (Inr (rs, join_file_bytes e w'), without_joins w')"
  using assms(2-)
proof (induction cs arbitrary: w rs)
  case Nil
  then show ?case by (simp add: run_simps)
next
  case (Cons c cs)
  obtain r w1 where r: "record_join s c e w = (Inr r, w1)" using record_join_returns by blast
  with Cons.prems(4) obtain rs1 where rs: "record_joins s cs e w1 = (Inr rs1, w')" "rs = r # rs1"
    by (auto simp: bnd_def ret_def split: sum.splits prod.splits)
  have p: "call_plain c" "list_all call_plain cs" using Cons.prems(3) by simp_all
  note step = record_join_refines [OF assms(1) Cons.prems(1,2) p(1) r]
  then show ?case
    using Cons.IH [OF _ _ p(2) rs(1)] rs(2) by (simp add: bnd_def run_simps)
qed

end
