(* ===== verification/PeersFile.thy ===== *)
theory PeersFile
  imports StoreFiles "HOL-Library.Sublist"
begin

text \<open>
  \<open>allocate_ip\<close> of \<open>clients/wireguard.py\<close> on the JSON file of the peers, as the code has it: any document may be in the
  file. It does what the allocator of WireGuard does on the dictionary, and it fails for ever once a crash has emptied
  the file.
\<close>

section \<open>Allocation\<close>

text \<open>\<open>ipaddress.ip_address(v)\<close> of a JSON value: \<open>None\<close> is an IPv6 address, which is no host of the subnet.\<close>

definition int_ip :: "int \<Rightarrow> exn + ipv4 option" where
  "int_ip i = (if 0 \<le> i \<and> i < 2 ^ 32 then Inr (Some (word_of_int i)) else if 0 \<le> i \<and> i < 2 ^ 128 then Inr None
     else Inl (ValueError (dec_int i @ '' does not appear to be an IPv4 or IPv6 address'')))"

definition json_ip :: "json \<Rightarrow> exn + ipv4 option" where
  "json_ip v = (case v of JStr s \<Rightarrow> map_sum id Some (ip_address s) | JInt i \<Rightarrow> int_ip i | JBool b \<Rightarrow> int_ip (of_bool b)
     | _ \<Rightarrow> Inl (ValueError ''does not appear to be an IPv4 or IPv6 address''))"

fun json_ips :: "json list \<Rightarrow> exn + ipv4 option list" where
  "json_ips [] = Inr []"
| "json_ips (v # vs) = (case json_ip v of Inl x \<Rightarrow> Inl x
     | Inr a \<Rightarrow> (case json_ips vs of Inl x \<Rightarrow> Inl x | Inr as \<Rightarrow> Inr (a # as)))"

text \<open>\<open>device_id in peers\<close>, \<open>peers[device_id]\<close> and \<open>peers.values()\<close> of any document.\<close>

definition find_peer :: "string \<Rightarrow> json \<Rightarrow> json option io" where
  "find_peer device_id doc = (case doc of JObj ps \<Rightarrow> ret (dict_get ps device_id)
     | JArr xs \<Rightarrow> if JStr device_id \<in> set xs then bnd (jindex doc device_id) (\<lambda>v. ret (Some v)) else ret None
     | JStr s \<Rightarrow> if sublist device_id s then bnd (jindex doc device_id) (\<lambda>v. ret (Some v)) else ret None
     | _ \<Rightarrow> raise (TypeError (''argument of type '' @ squoted (type_name doc) @ '' is not iterable'')))"

definition peer_values :: "json \<Rightarrow> json list io" where
  "peer_values doc = (case doc of JObj ps \<Rightarrow> ret (dict_values ps)
     | _ \<Rightarrow> raise (AttributeError (squoted (type_name doc) @ '' object has no attribute '' @ squoted ''values'')))"

definition allocate_file :: "wg_config \<Rightarrow> string \<Rightarrow> nat list option \<Rightarrow> (json \<times> nat list option) io" where
  "allocate_file c device_id file = bnd (asks load_file) (\<lambda>loadf. bnd (lift_sum (loadf file)) (\<lambda>peers.
     bnd (find_peer device_id peers) (\<lambda>known. case known of Some ip \<Rightarrow> ret (ip, file)
     | None \<Rightarrow> bnd (peer_values peers) (\<lambda>vs. bnd (lift_sum (json_ips vs)) (\<lambda>ips.
         let used = Some (wc_server_ip c) # ips in
         case find (\<lambda>host. Some host \<notin> set used) (hosts (wc_subnet c)) of
           Some host \<Rightarrow> bnd (asks dump_file) (\<lambda>dump.
             ret (JStr (ip_str host), Some (dump True (set_item device_id (JStr (ip_str host)) peers))))
         | None \<Rightarrow> raise (WireGuardError (no_available_ips c)))))))"

section \<open>Refinement\<close>

definition peers_bytes :: "env \<Rightarrow> world \<Rightarrow> nat list option" where
  "peers_bytes e w = map_option (\<lambda>d. dump_file e True (store_json JStr d)) (w_peers w)"

definition without_peers :: "world \<Rightarrow> world" where
  "without_peers w = w\<lparr>w_peers := None\<rparr>"

lemma load_peers_file: "dict_wf (peers w) \<Longrightarrow> load_file e (peers_bytes e w) = Inr (store_json JStr (peers w))"
  by (cases "w_peers w") (simp_all add: peers_bytes_def peers_def load_dump peer_codec.plain_store list_all_iff,
      simp add: load_file_def store_json_def)

lemma json_ips_strings: "json_ips (map JStr ss) = map_sum id (map Some) (parse_ips ss)"
  by (induction ss) (auto simp: json_ip_def split: sum.split)

lemma allocate_file_refines:
  assumes "dict_wf (peers w)" "allocate_ip c d e w = (r, w')"
  shows "allocate_file c d (peers_bytes e w) e (without_peers w) = (map_sum id (\<lambda>ip. (JStr ip, peers_bytes e w')) r, without_peers w')"
proof -
  have v: "dict_values (map (\<lambda>(k, v). (k, JStr v)) (peers w)) = map JStr (dict_values (peers w))"
    by (simp add: dict_values_def case_prod_unfold)
  have l: "bnd load_peers f e w = f (peers w) e w" for f :: "_ \<Rightarrow> string io"
    by (simp add: load_peers_def peers_def bnd_def gets_def)
  have u: "Some h \<in> Some ` S \<longleftrightarrow> h \<in> S" for h :: ipv4 and S by auto
  show ?thesis
  proof (cases "dict_get (peers w) d")
    case (Some ip)
    with assms(2) have "r = Inr ip" "w' = w" by (auto simp: allocate_ip_def l run_simps)
    with Some show ?thesis
      by (simp add: allocate_file_def run_simps load_peers_file [OF assms(1)] find_peer_def store_json_def store_json_get lift_sum_def)
  next
    case None
    note run = assms(2) [unfolded allocate_ip_def l None option.case]
    have step: "allocate_file c d (peers_bytes e w) e v = bnd (lift_sum (json_ips (map JStr (dict_values (peers w))))) (\<lambda>ips.
         case find (\<lambda>host. Some host \<notin> set (Some (wc_server_ip c) # ips)) (hosts (wc_subnet c)) of
           Some host \<Rightarrow> bnd (asks dump_file) (\<lambda>dump. ret (JStr (ip_str host),
             Some (dump True (set_item d (JStr (ip_str host)) (JObj (map (\<lambda>(k, v). (k, JStr v)) (peers w)))))))
         | None \<Rightarrow> raise (WireGuardError (no_available_ips c))) e v" for v
      using None by (simp add: allocate_file_def run_simps load_peers_file [OF assms(1)] find_peer_def store_json_def store_json_get
          peer_values_def v Let_def lift_sum_def)
    show ?thesis
    proof (cases "parse_ips (dict_values (peers w))")
      case (Inl x)
      with run step show ?thesis by (auto simp: json_ips_strings lift_sum_def run_simps)
    next
      case (Inr ips)
      with run step show ?thesis
        by (cases "find (\<lambda>host. host \<notin> set (wc_server_ip c # ips)) (hosts (wc_subnet c))")
          (auto simp: json_ips_strings lift_sum_def run_simps u Let_def set_item_def store_json_def store_json_set save_peers_def
            peers_bytes_def without_peers_def)
    qed
  qed
qed

text \<open>Saving the peers in place can empty the file, and then no device gets an address any more.\<close>

lemma crash_stops_allocation:
  "\<exists>st\<in>set (crash_states (save_peers_ops e path (store_json JStr d)) fs).
     \<forall>c device w. allocate_file c device (dict_get st path) e w = (Inl (ValueError ''Expecting value''), w)"
proof -
  obtain st where st: "st \<in> set (crash_states (save_peers_ops e path (store_json JStr d)) fs)"
    "load_file e (dict_get st path) = Inl (ValueError ''Expecting value'')" using crash_loses_peers by blast
  have "allocate_file c device (dict_get st path) e w = (Inl (ValueError ''Expecting value''), w)" for c device w
    by (simp add: allocate_file_def lift_sum_def run_simps st(2))
  with st(1) show ?thesis by blast
qed

end
