(* ===== verification/StoreWitnesses.thy ===== *)
theory StoreWitnesses
  imports SampleRuns JoinFile PeersFile
begin

text \<open>The properties of the files, applied to concrete stores.\<close>

definition epoch_env :: env where
  "epoch_env = sample_env\<lparr>e_now := (\<lambda>_. 0)\<rparr>"

lemma epoch_clock: "clock_ok epoch_env"
  by (simp add: clock_ok_def epoch_env_def time_ok_def day_us_def epoch_ordinal_def max_ordinal_def hours_def join_key_ttl_hours_def)

lemma sample_dates: "key_dates_ok sample_world"
  by (simp add: key_dates_ok_def sample_keys dict_wf_def dict_values_def key_times_ok_def new_key_entry_def time_ok_def opt_ok_def
      day_us_def epoch_ordinal_def max_ordinal_def hours_def join_key_ttl_hours_def)

lemma key_file_refines_witness:
  "\<exists>x f w'. file_calls [PresentKey sample_key, PresentKey sample_key] (key_file_bytes epoch_env sample_world) epoch_env
       (without_keys sample_world) = (Inr ([Inr (key_json x), Inl (not_open_error Used)], f), w') \<and>
     ke_tenant_id x = ''acme'' \<and> ke_status x = Used \<and> load_file epoch_env f = Inr (store_json key_json [(sample_key, x)])"
proof -
  let ?e = "epoch_env" let ?x = "(new_key_entry sample_key ''acme'' ''Acme'' 0)\<lparr>ke_status := Used, ke_used_at := Some 0\<rparr>"
  have now: "e_now ?e n = 0" for n by (simp add: epoch_env_def)
  have c: "validate_and_consume sample_key ?e sample_world = (Inr ?x,
      sample_world\<lparr>w_ticks := Suc (Suc (w_ticks sample_world)), w_keys := Some [(sample_key, ?x)]\<rparr>)" (is "_ = (_, ?w)")
    using consume_valid [OF sample_key_open(1,2), of ?e]
    by (simp add: now sample_keys dict_set_def) (simp add: new_key_entry_def hours_def join_key_ttl_hours_def)
  have "validate_and_consume sample_key ?e ?w = (Inl (not_open_error Used), ?w)"
    by (rule consume_closed [where ent = ?x, simplified]) simp
  with c have r: "record_calls [PresentKey sample_key, PresentKey sample_key] ?e sample_world =
      (Inr [Inr (key_json ?x), Inl (not_open_error Used)], ?w)"
    by (simp add: record_call_def attempt_def bnd_def ret_def)
  have "key_dates_ok ?w" using consume_dates [OF epoch_clock sample_dates c] .
  from load_key_file [OF this, of ?e] key_file_refines [OF epoch_clock sample_dates r] show ?thesis
    by (intro exI [of _ ?x] exI [of _ "key_file_bytes ?e ?w"] exI [of _ "without_keys ?w"]) (simp add: new_key_entry_def)
qed

lemma crash_keeps_stores_witness:
  "load_file sample_env (dict_get [(''/data/join_keys.keys.tmp'', [123])] ''/data/join_keys.json'') \<in>
     {Inr (JObj []), Inr (JObj [(''K'', JNull)])}"
proof -
  let ?data = "JObj [(''K'', JNull)]"
  have p: "plain_json ?data" by (simp add: dict_wf_def)
  have s: "with_suffix (join_keys_db_path default_settings) ''.keys.tmp'' = ''/data/join_keys.keys.tmp''"
      "with_suffix (join_requests_db_path default_settings) ''.tmp'' = ''/data/join_requests.tmp''"
      "join_keys_db_path default_settings = ''/data/join_keys.json''" "join_requests_db_path default_settings = ''/data/join_requests.json''"
    by code_simp+
  obtain r where r: "dump_file sample_env False ?data = 123 # r" "r \<noteq> []"
    by (simp add: dump_file_def write_text_def json_dumps_def utf8_def new_line_def)
  have n: "1 \<in> set [0..<length (123 # r)]" "take 1 (123 # r) = [123]" using r(2) by (simp_all del: upt_Suc)
  have "dict_set ''/data/join_keys.keys.tmp'' [123] [] \<in> set (map (\<lambda>n. dict_set ''/data/join_keys.keys.tmp'' (take n (123 # r)) []) [0..<length (123 # r)])"
    unfolding set_map by (rule image_eqI [OF _ n(1)]) (simp only: n(2))
  then have "[(''/data/join_keys.keys.tmp'', [123])] \<in> set (crash_states (save_keys_ops sample_env default_settings ?data) [])"
    by (simp add: save_keys_ops_def Let_def s s(1) [unfolded s(3)] r(1) dict_set_def del: upt_Suc)
  with crash_keeps_stores [OF p, of default_settings sample_env "[]"] s show ?thesis
    by (auto simp: load_file_def)
qed

text \<open>A submission, a rejection, and an approval that comes too late, on an empty directory.\<close>

lemma join_file_refines_witness:
  "\<exists>x f w'. file_joins default_settings [Submit ''acme'' sample_request, Reject ''acme'' ''no'', Check ''acme''] None epoch_env
       (without_joins empty_world) = (Inr ([Inr (Replied (JSONResponse 202 (JObj [(''status'', JStr ''pending''),
         (''tenant_id'', JStr ''acme''), (''message'', JStr ''JOIN request received. Awaiting Provider Admin approval.''),
         (''poll_url'', JStr ''/portal/admin/tenants/acme/join-status'')]))),
       Inr (Replied (JSONResponse 200 (JObj [(''tenant_id'', JStr ''acme''), (''status'', JStr ''rejected'')]))),
       Inl (HTTPException 409 ''Request was rejected. Reset it before approving.'')], f), w') \<and>
     je_status x = Rejected \<and> load_file epoch_env f = Inr (store_json entry_json [(''acme'', x)])"
proof -
  let ?e = "epoch_env" let ?x = "rejected_entry ''no'' 0 (new_join_entry ''acme'' sample_request 0)"
  let ?w1 = "empty_world\<lparr>w_ticks := 1, w_joins := Some [(''acme'', new_join_entry ''acme'' sample_request 0)]\<rparr>"
  let ?w2 = "empty_world\<lparr>w_ticks := 2, w_joins := Some [(''acme'', ?x)]\<rparr>"
  have now: "e_now ?e n = 0" for n by (simp add: epoch_env_def)
  have s: "session_ok empty_world" "session_ok (empty_world\<lparr>w_ticks := n, w_joins := j\<rparr>)" for n j
    by (simp_all add: session_ok_def session_user_def empty_world_def)
  have d: "join_dates_ok empty_world" by (simp add: join_dates_ok_def joins_def empty_world_def dict_wf_def dict_values_def)
  have 1: "submit_join_request ''acme'' sample_request ?e empty_world = (Inr (JSONResponse 202 (JObj [(''status'', JStr ''pending''),
         (''tenant_id'', JStr ''acme''), (''message'', JStr ''JOIN request received. Awaiting Provider Admin approval.''),
         (''poll_url'', JStr ''/portal/admin/tenants/acme/join-status'')])), ?w1)"
    using sample_valid by (simp add: submit_join_request_def check_tenant_id_def run_simps join_file.load_bnd join_file.save_thn
        save_store_def now joins_def empty_world_def dict_set_def)
  have 2: "reject_join_request ''acme'' ''no'' ?e ?w1 = (Inr (JSONResponse 200 (JObj [(''tenant_id'', JStr ''acme''), (''status'', JStr ''rejected'')])), ?w2)"
    by (simp add: reject_join_request_def guard_bnd s(2) get_request_bnd join_file.load_bnd join_file.save_thn save_store_def
        run_simps now dict_set_def) (simp add: new_join_entry_def)
  have 3: "approve_check ''acme'' ?e ?w2 = (Inl (HTTPException 409 ''Request was rejected. Reset it before approving.''), ?w2)"
    by (simp add: approve_check_def get_request_bnd run_simps rejected_entry_def)
  have r: "record_joins default_settings [Submit ''acme'' sample_request, Reject ''acme'' ''no'', Check ''acme''] ?e empty_world =
     (Inr [Inr (Replied (JSONResponse 202 (JObj [(''status'', JStr ''pending''),
         (''tenant_id'', JStr ''acme''), (''message'', JStr ''JOIN request received. Awaiting Provider Admin approval.''),
         (''poll_url'', JStr ''/portal/admin/tenants/acme/join-status'')]))),
       Inr (Replied (JSONResponse 200 (JObj [(''tenant_id'', JStr ''acme''), (''status'', JStr ''rejected'')]))),
       Inl (HTTPException 409 ''Request was rejected. Reset it before approving.'')], ?w2)"
    by (simp add: record_join_def attempt_def bnd_def ret_def 1 2 3 del: One_nat_def)
  have "join_dates_ok ?w2"
    using join_calls_keep(1) [OF epoch_clock 1] join_calls_keep(2) [OF epoch_clock 2] d by (simp add: keeps_joins_def)
  from load_join_file [OF this, of ?e]
  have "load_file ?e (join_file_bytes ?e ?w2) = Inr (store_json entry_json [(''acme'', ?x)])" by simp
  moreover have "join_file_bytes ?e empty_world = None" by (simp add: join_file_bytes_def empty_world_def)
  ultimately show ?thesis
    using join_file_refines [OF epoch_clock d s(1) _ r]
    by (intro exI [of _ ?x] exI [of _ "join_file_bytes ?e ?w2"] exI [of _ "without_joins ?w2"])
      (simp add: call_plain_def rejected_entry_def del: file_joins.simps join_file_bytes_set)
qed

end
