(* ===== verification/MonitorMain.thy ===== *)
theory MonitorMain
  imports Monitor JsonPrint
begin

text \<open>
  \<open>provider-stack/system-monitor/monitor.py\<close>, the script around the readings: its configuration, the TLS context
  and the MQTT client it sets up, its callbacks, the endless loop and the clean-up. The script is a sequence of
  calls to libraries and reads of files. What a call answers, an exception or the interrupt of the user among
  it, is an arbitrary function of the calls before. Messages of the log are the arguments of the call, which the
  library formats. The endless loop is run for any number of iterations.
\<close>

section \<open>Configuration\<close>

record monitor_config =
  mqtt_host :: string
  mqtt_port :: int
  mqtt_topic :: string
  tls_ca :: string
  tls_cert :: string
  tls_key :: string
  interval :: int

definition getenv :: "(string, string) dict \<Rightarrow> string \<Rightarrow> string \<Rightarrow> string" where
  "getenv environ k d = (case dict_get environ k of None \<Rightarrow> d | Some v \<Rightarrow> v)"

definition read_config :: "(string, string) dict \<Rightarrow> proc_error + monitor_config" where
  "read_config environ = sum_bind (parse_int (getenv environ ''MQTT_PORT'' ''8883'')) (\<lambda>port.
     sum_bind (parse_int (getenv environ ''INTERVAL'' ''5'')) (\<lambda>seconds.
       Inr \<lparr>mqtt_host = getenv environ ''MQTT_HOST'' ''rabbitmq'', mqtt_port = port,
         mqtt_topic = getenv environ ''MQTT_TOPIC'' ''cdm/provider/system'',
         tls_ca = getenv environ ''TLS_CA'' ''/tls/ca.crt'', tls_cert = getenv environ ''TLS_CERT'' ''/tls/system-monitor.crt'',
         tls_key = getenv environ ''TLS_KEY'' ''/tls/system-monitor.key'', interval = seconds\<rparr>))"

section \<open>Calls\<close>

datatype log_level = Info | Warning | Error

datatype call =
    Log log_level string "json list"
  | NewClient string string bool
  | SetOnConnect
  | SetOnDisconnect
  | NewTlsClientContext
  | VerifyMode string
  | CheckHostname bool
  | LoadVerifyLocations string
  | LoadCertChain string string
  | TlsSetContext
  | ConnectAsync string int int
  | LoopStart
  | ReadFile string
  | Publish string string int bool
  | Sleep int
  | LoopStop
  | Disconnect

datatype script_exn = KeyboardInterrupt | Reading proc_error | LibraryError string

datatype answer = Done | Contents string | Rc int | Raises script_exn

type_synonym library = "call list \<Rightarrow> call \<Rightarrow> answer"

type_synonym 'a script = "library \<Rightarrow> call list \<Rightarrow> (script_exn + 'a) \<times> call list"

definition yields :: "'a \<Rightarrow> 'a script" where
  "yields a = (\<lambda>lib cs. (Inr a, cs))"

definition seq :: "'a script \<Rightarrow> ('a \<Rightarrow> 'b script) \<Rightarrow> 'b script" where
  "seq m f = (\<lambda>lib cs. case m lib cs of (Inl x, cs') \<Rightarrow> (Inl x, cs') | (Inr a, cs') \<Rightarrow> f a lib cs')"

definition invoke :: "call \<Rightarrow> answer script" where
  "invoke c = (\<lambda>lib cs. (case lib cs c of Raises x \<Rightarrow> Inl x | r \<Rightarrow> Inr r, cs @ [c]))"

fun invoke_all :: "call list \<Rightarrow> unit script" where
  "invoke_all [] = yields ()"
| "invoke_all (c # cs) = seq (invoke c) (\<lambda>_. invoke_all cs)"

definition reading :: "proc_error + 'a \<Rightarrow> 'a script" where
  "reading r = (\<lambda>lib cs. (case r of Inl x \<Rightarrow> Inl (Reading x) | Inr a \<Rightarrow> Inr a, cs))"

definition contents :: "answer \<Rightarrow> string" where
  "contents r = (case r of Contents s \<Rightarrow> s | _ \<Rightarrow> [])"

definition rc :: "answer \<Rightarrow> int" where
  "rc r = (case r of Rc n \<Rightarrow> n | _ \<Rightarrow> 0)"

section \<open>The callbacks\<close>

definition on_connect :: "monitor_config \<Rightarrow> int \<Rightarrow> call" where
  "on_connect c reason_code = (if reason_code = 0
     then Log Info ''Connected to %s:%d (topic: %s)'' [JStr (mqtt_host c), JInt (mqtt_port c), JStr (mqtt_topic c)]
     else Log Error (''Connection refused '' @ en_dash @ '' reason code %s'') [JInt reason_code])"

definition on_disconnect :: "int \<Rightarrow> call list" where
  "on_disconnect reason_code = (if reason_code \<noteq> 0
     then [Log Warning (''Unexpected disconnect (%s) '' @ en_dash @ '' reconnecting'' @ [CHR 0xE2, CHR 0x80, CHR 0xA6]) [JInt reason_code]] else [])"

section \<open>The script\<close>

definition setup_calls :: "monitor_config \<Rightarrow> call list" where
  "setup_calls c =
     [Log Info ''Starting system-monitor (interval=%ds)'' [JInt (interval c)],
      Log Info ''Broker: tls://%s:%d'' [JStr (mqtt_host c), JInt (mqtt_port c)],
      Log Info ''Cert:   %s'' [JStr (tls_cert c)],
      NewClient ''system-monitor'' ''MQTTv311'' True, SetOnConnect, SetOnDisconnect,
      NewTlsClientContext, VerifyMode ''CERT_REQUIRED'', CheckHostname True, LoadVerifyLocations (tls_ca c),
      LoadCertChain (tls_cert c) (tls_key c), TlsSetContext,
      ConnectAsync (mqtt_host c) (mqtt_port c) 60, LoopStart]"

definition publish_call :: "(pyfloat \<Rightarrow> string) \<Rightarrow> monitor_config \<Rightarrow> cpu_load \<Rightarrow> memory \<Rightarrow> call" where
  "publish_call fr c load mem = Publish (mqtt_topic c) (json_dumps fr True None (payload_json load mem)) 1 False"

definition publish_log :: "cpu_load \<Rightarrow> memory \<Rightarrow> int \<Rightarrow> call" where
  "publish_log load mem n = (if n = 0
     then Log Info (''Published '' @ en_dash @ '' cpu_1m=%.2f  mem_used=%.1f%%'') [JFloat (cpu_load_1m load), JFloat (mem_used_percent mem)]
     else Log Warning (''Publish failed (rc=%d) '' @ en_dash @ '' broker not yet ready'') [JInt n])"

definition iteration :: "(pyfloat \<Rightarrow> string) \<Rightarrow> monitor_config \<Rightarrow> answer script" where
  "iteration fr c = seq (invoke (ReadFile ''/proc/loadavg'')) (\<lambda>a. seq (reading (read_cpu_load (contents a))) (\<lambda>load.
     seq (invoke (ReadFile ''/proc/meminfo'')) (\<lambda>b. seq (reading (read_memory (contents b))) (\<lambda>mem.
       seq (invoke (publish_call fr c load mem)) (\<lambda>r. seq (invoke (publish_log load mem (rc r))) (\<lambda>_.
         invoke (Sleep (interval c))))))))"

fun publish_loop :: "(pyfloat \<Rightarrow> string) \<Rightarrow> monitor_config \<Rightarrow> nat \<Rightarrow> unit script" where
  "publish_loop fr c 0 = yields ()"
| "publish_loop fr c (Suc n) = seq (iteration fr c) (\<lambda>_. publish_loop fr c n)"

text \<open>
  \<open>main\<close> until it has done \<open>n\<close> iterations: \<^const>\<open>None\<close> when it is still running then, or how it ended. An
  exception of the clean-up replaces the one that ended the loop.
\<close>

definition shut_down :: "script_exn \<Rightarrow> unit script" where
  "shut_down x = (\<lambda>lib cs. case (if x = KeyboardInterrupt then seq (invoke (Log Info ''Shutting down.'' [])) (\<lambda>_. yields ()) lib cs
       else (Inl x, cs)) of (r, cs') \<Rightarrow>
     (case invoke_all [LoopStop, Disconnect] lib cs' of (Inl y, cs'') \<Rightarrow> (Inl y, cs'') | (Inr _, cs'') \<Rightarrow> (r, cs'')))"

definition monitor_main :: "(pyfloat \<Rightarrow> string) \<Rightarrow> monitor_config \<Rightarrow> nat \<Rightarrow> library \<Rightarrow> (script_exn + unit) option \<times> call list" where
  "monitor_main fr c n lib = (case invoke_all (setup_calls c) lib [] of (Inl x, cs) \<Rightarrow> (Some (Inl x), cs)
     | (Inr _, cs) \<Rightarrow> (case publish_loop fr c n lib cs of (Inr _, cs') \<Rightarrow> (None, cs')
         | (Inl x, cs') \<Rightarrow> (case shut_down x lib cs' of (r, cs'') \<Rightarrow> (Some r, cs''))))"

section \<open>What the script does\<close>

text \<open>A message holds what was read just before it, is sent to the configured topic, and not before the set-up is complete.\<close>

definition publish_ok :: "(pyfloat \<Rightarrow> string) \<Rightarrow> monitor_config \<Rightarrow> library \<Rightarrow> call list \<Rightarrow> call \<Rightarrow> bool" where
  "publish_ok fr c lib before x \<longleftrightarrow> (\<exists>pre load mem. before = setup_calls c @ pre @ [ReadFile ''/proc/loadavg'', ReadFile ''/proc/meminfo''] \<and>
     read_cpu_load (contents (lib (setup_calls c @ pre) (ReadFile ''/proc/loadavg''))) = Inr load \<and>
     read_memory (contents (lib (setup_calls c @ pre @ [ReadFile ''/proc/loadavg'']) (ReadFile ''/proc/meminfo''))) = Inr mem \<and>
     x = publish_call fr c load mem)"

definition is_publish :: "call \<Rightarrow> bool" where
  "is_publish x = (case x of Publish _ _ _ _ \<Rightarrow> True | _ \<Rightarrow> False)"

definition publishes_ok :: "(pyfloat \<Rightarrow> string) \<Rightarrow> monitor_config \<Rightarrow> library \<Rightarrow> call list \<Rightarrow> bool" where
  "publishes_ok fr c lib cs \<longleftrightarrow> (\<forall>before x after. cs = before @ x # after \<longrightarrow> is_publish x \<longrightarrow> publish_ok fr c lib before x)"

lemma publishes_ok_snoc: "publishes_ok fr c lib (cs @ [x]) \<longleftrightarrow> publishes_ok fr c lib cs \<and> (is_publish x \<longrightarrow> publish_ok fr c lib cs x)"
proof (intro iffI conjI impI)
  assume ok: "publishes_ok fr c lib (cs @ [x])"
  have "cs @ [x] = before @ y # (after @ [x])" if "cs = before @ y # after" for before y after using that by simp
  with ok show "publishes_ok fr c lib cs" unfolding publishes_ok_def by blast
  show "publish_ok fr c lib cs x" if "is_publish x" using ok that unfolding publishes_ok_def by blast
next
  assume ok: "publishes_ok fr c lib cs \<and> (is_publish x \<longrightarrow> publish_ok fr c lib cs x)"
  have "publish_ok fr c lib before y" if "cs @ [x] = before @ y # after" "is_publish y" for before y after
    using that ok by (cases after rule: rev_cases) (auto simp: publishes_ok_def simp flip: append_assoc append_Cons)
  then show "publishes_ok fr c lib (cs @ [x])" unfolding publishes_ok_def by blast
qed

lemma publishes_ok_others: "list_all (\<lambda>x. \<not> is_publish x) xs \<Longrightarrow> publishes_ok fr c lib cs \<Longrightarrow> publishes_ok fr c lib (cs @ xs)"
proof (induction xs arbitrary: cs)
  case (Cons x xs)
  then have "publishes_ok fr c lib (cs @ [x])" by (simp add: publishes_ok_snoc)
  with Cons.IH [of "cs @ [x]"] Cons.prems show ?case by simp
qed simp

lemma seqE:
  assumes "seq m f lib cs = (r, cs')"
  obtains (stops) x where "m lib cs = (Inl x, cs')" "r = Inl x"
  | (goes_on) a cs1 where "m lib cs = (Inr a, cs1)" "f a lib cs1 = (r, cs')"
  using assms by (auto simp: seq_def split: sum.splits prod.splits)

lemma invoke_result:
  "invoke x lib cs = (Inl y, cs') \<longleftrightarrow> cs' = cs @ [x] \<and> lib cs x = Raises y"
  "invoke x lib cs = (Inr v, cs') \<longleftrightarrow> cs' = cs @ [x] \<and> v = lib cs x \<and> (\<forall>y. lib cs x \<noteq> Raises y)"
  by (auto simp: invoke_def split: answer.splits)

lemma invoke_calls: "invoke x lib cs = (r, cs') \<Longrightarrow> cs' = cs @ [x]"
  by (simp add: invoke_def)

lemma reading_result:
  "reading m lib cs = (Inr a, cs') \<longleftrightarrow> cs' = cs \<and> m = Inr a"
  "reading m lib cs = (Inl x, cs') \<longleftrightarrow> cs' = cs \<and> (\<exists>y. m = Inl y \<and> x = Reading y)"
  by (auto simp: reading_def split: sum.splits)

lemma invoke_all_calls: "invoke_all xs lib cs = (r, cs') \<Longrightarrow> \<exists>k. cs' = cs @ take k xs \<and> (\<forall>u. r = Inr u \<longrightarrow> take k xs = xs)"
proof (induction xs arbitrary: cs)
  case (Cons x xs)
  show ?case
  proof (cases "lib cs x")
    case (Raises y)
    with Cons.prems show ?thesis by (auto simp: seq_def invoke_def intro!: exI [of _ 1])
  next
    case Done
    with Cons.prems Cons.IH [of "cs @ [x]"] obtain k where "cs' = cs @ x # take k xs \<and> (\<forall>u. r = Inr u \<longrightarrow> take k xs = xs)"
      by (auto simp: seq_def invoke_def)
    then show ?thesis by (intro exI [of _ "Suc k"]) simp
  next
    case (Contents z)
    with Cons.prems Cons.IH [of "cs @ [x]"] obtain k where "cs' = cs @ x # take k xs \<and> (\<forall>u. r = Inr u \<longrightarrow> take k xs = xs)"
      by (auto simp: seq_def invoke_def)
    then show ?thesis by (intro exI [of _ "Suc k"]) simp
  next
    case (Rc z)
    with Cons.prems Cons.IH [of "cs @ [x]"] obtain k where "cs' = cs @ x # take k xs \<and> (\<forall>u. r = Inr u \<longrightarrow> take k xs = xs)"
      by (auto simp: seq_def invoke_def)
    then show ?thesis by (intro exI [of _ "Suc k"]) simp
  qed
qed (simp add: yields_def)

text \<open>How an iteration can end.\<close>

lemma iteration_cases:
  assumes "iteration fr c lib cs = (r, cs')"
  obtains (unread) k x where "cs' = cs @ take k [ReadFile ''/proc/loadavg'', ReadFile ''/proc/meminfo'']" "r = Inl x"
  | (published) load mem n k where
      "read_cpu_load (contents (lib cs (ReadFile ''/proc/loadavg''))) = Inr load"
      "read_memory (contents (lib (cs @ [ReadFile ''/proc/loadavg'']) (ReadFile ''/proc/meminfo''))) = Inr mem"
      "cs' = cs @ [ReadFile ''/proc/loadavg'', ReadFile ''/proc/meminfo'', publish_call fr c load mem] @
        take k [publish_log load mem n, Sleep (interval c)]"
  using assms unfolding iteration_def
  apply (elim seqE)
  subgoal by (rule unread [of 1]) (simp_all add: invoke_result)
  subgoal by (rule unread [of 1]) (simp_all add: invoke_result reading_result)
  subgoal by (rule unread [of 2]) (simp_all add: invoke_result reading_result)
  subgoal by (rule unread [of 2]) (simp_all add: invoke_result reading_result)
  subgoal by (rule published [where k = 0]) (simp_all add: invoke_result reading_result)
  subgoal by (rule published [where k = 1]) (simp_all add: invoke_result reading_result)
  subgoal by (drule invoke_calls, rule published [where k = 2]) (simp_all add: invoke_result reading_result)
  done

text \<open>Why it ends: the last call raised, or it was the reading of a file whose contents can not be parsed.\<close>

definition ended_by :: "library \<Rightarrow> call list \<Rightarrow> script_exn \<Rightarrow> bool" where
  "ended_by lib cs x \<longleftrightarrow> (\<exists>h y. cs = h @ [y] \<and> (lib h y = Raises x \<or>
     (\<exists>z. x = Reading z \<and> (y = ReadFile ''/proc/loadavg'' \<and> read_cpu_load (contents (lib h y)) = Inl z \<or>
        y = ReadFile ''/proc/meminfo'' \<and> read_memory (contents (lib h y)) = Inl z))))"

lemma iteration_ended: "iteration fr c lib cs = (Inl x, cs') \<Longrightarrow> ended_by lib cs' x"
  unfolding iteration_def ended_by_def
  by (elim seqE) (auto simp: invoke_result reading_result)

lemma publish_calls [simp]: "is_publish (publish_call fr c load mem)" "\<not> is_publish (publish_log load mem n)"
  "list_all (\<lambda>x. \<not> is_publish x) (take k (setup_calls c))" "\<not> is_publish (Sleep i)" "\<not> is_publish (ReadFile p)"
  "list_all (\<lambda>x. \<not> is_publish x) (setup_calls c)" "\<not> is_publish (Log l t a)" "\<not> is_publish LoopStop" "\<not> is_publish Disconnect"
  by (simp_all add: publish_call_def publish_log_def is_publish_def)
    (auto simp: list_all_iff setup_calls_def is_publish_def dest!: in_set_takeD)

lemma publishes_ok_Nil [simp]: "publishes_ok fr c lib []"
  by (simp add: publishes_ok_def)

definition running_ok :: "(pyfloat \<Rightarrow> string) \<Rightarrow> monitor_config \<Rightarrow> library \<Rightarrow> call list \<Rightarrow> bool" where
  "running_ok fr c lib cs \<longleftrightarrow> publishes_ok fr c lib cs \<and> (\<exists>pre. cs = setup_calls c @ pre)"

lemma iteration_ok:
  assumes "running_ok fr c lib cs" "iteration fr c lib cs = (r, cs')"
  shows "running_ok fr c lib cs'"
  using assms(2)
proof (cases rule: iteration_cases)
  case (unread k x)
  have "list_all (\<lambda>x. \<not> is_publish x) (take k [ReadFile ''/proc/loadavg'', ReadFile ''/proc/meminfo''])"
    by (auto simp: list_all_iff is_publish_def dest!: in_set_takeD)
  with unread assms(1) show ?thesis by (auto simp: running_ok_def publishes_ok_others)
next
  case (published load mem n k)
  obtain pre where pre: "cs = setup_calls c @ pre" and ok: "publishes_ok fr c lib cs"
    using assms(1) by (auto simp: running_ok_def)
  let ?h = "cs @ [ReadFile ''/proc/loadavg'', ReadFile ''/proc/meminfo'']"
  have "publishes_ok fr c lib ?h" using ok by (rule publishes_ok_others [rotated]) (simp add: is_publish_def)
  moreover have "publish_ok fr c lib ?h (publish_call fr c load mem)"
    using published(1,2) by (auto simp: publish_ok_def pre)
  ultimately have "publishes_ok fr c lib (?h @ [publish_call fr c load mem])" unfolding publishes_ok_snoc by blast
  moreover have "list_all (\<lambda>x. \<not> is_publish x) (take k [publish_log load mem n, Sleep (interval c)])"
    by (auto simp: list_all_iff dest!: in_set_takeD)
  ultimately have "publishes_ok fr c lib ((?h @ [publish_call fr c load mem]) @ take k [publish_log load mem n, Sleep (interval c)])"
    by (rule publishes_ok_others [rotated])
  with published(3) show ?thesis by (simp add: running_ok_def pre)
qed

lemma loop_ok: "running_ok fr c lib cs \<Longrightarrow> publish_loop fr c n lib cs = (r, cs') \<Longrightarrow> running_ok fr c lib cs'"
proof (induction n arbitrary: cs)
  case (Suc n)
  from Suc.prems(2) show ?case
    unfolding publish_loop.simps by (elim seqE) (use Suc iteration_ok in blast)+
qed (simp add: yields_def)

lemma loop_ended: "publish_loop fr c n lib cs = (Inl x, cs') \<Longrightarrow> ended_by lib cs' x"
proof (induction n arbitrary: cs)
  case (Suc n)
  from Suc.prems show ?case
    unfolding publish_loop.simps by (elim seqE) (use Suc.IH iteration_ended in auto)
qed (simp add: yields_def)

lemma clean_up_calls:
  assumes "invoke_all [LoopStop, Disconnect] lib cs = (r, cs')"
  shows "cs' = cs @ [LoopStop] \<and> r \<noteq> Inr () \<or> cs' = cs @ [LoopStop, Disconnect]"
  using assms by (auto simp: seq_def invoke_def yields_def split: answer.splits prod.splits sum.splits)

lemma shut_down_calls:
  assumes "shut_down x lib cs = (r, cs')"
  obtains l where "l = [] \<or> l = [Log Info ''Shutting down.'' []]" "cs' = cs @ l @ [LoopStop] \<and> r \<noteq> Inr () \<or> cs' = cs @ l @ [LoopStop, Disconnect]"
    "r = Inr () \<longrightarrow> x = KeyboardInterrupt"
proof -
  let ?log = "Log Info ''Shutting down.'' []"
  have "\<exists>q l. (if x = KeyboardInterrupt then seq (invoke ?log) (\<lambda>_. yields ()) lib cs else (Inl x, cs)) = (q, cs @ l) \<and>
      (l = [] \<or> l = [?log]) \<and> (q = Inr () \<longrightarrow> x = KeyboardInterrupt)"
    by (cases "x = KeyboardInterrupt"; cases "lib cs ?log") (auto simp: seq_def invoke_def yields_def)
  then obtain q l where l: "(if x = KeyboardInterrupt then seq (invoke ?log) (\<lambda>_. yields ()) lib cs else (Inl x, cs)) = (q, cs @ l)"
    "l = [] \<or> l = [?log]" "q = Inr () \<longrightarrow> x = KeyboardInterrupt" by blast
  obtain p cs2 where p: "invoke_all [LoopStop, Disconnect] lib (cs @ l) = (p, cs2)" by (cases "invoke_all [LoopStop, Disconnect] lib (cs @ l)")
  from assms have "cs' = cs2" "r = (case p of Inl y \<Rightarrow> Inl y | Inr _ \<Rightarrow> q)"
    by (auto simp: shut_down_def l(1) p simp del: invoke_all.simps split: sum.splits)
  with that [OF l(2)] l(3) clean_up_calls [OF p] show ?thesis by (auto split: sum.splits)
qed

lemma setup_ok: "invoke_all (setup_calls c) lib [] = (Inr u, cs) \<Longrightarrow> running_ok fr c lib cs \<and> cs = setup_calls c"
  using invoke_all_calls [of "setup_calls c" lib "[]" "Inr u" cs] publishes_ok_others [of "setup_calls c" fr c lib "[]"]
  by (auto simp: running_ok_def)

lemma main_cases:
  assumes "monitor_main fr c n lib = (r, cs)"
  obtains (not_started) x k where "r = Some (Inl x)" "cs = take k (setup_calls c)" "invoke_all (setup_calls c) lib [] = (Inl x, cs)"
  | (running) "r = None" "running_ok fr c lib cs"
  | (stopped) x cs1 l q where "r = Some q" "running_ok fr c lib cs1" "ended_by lib cs1 x" "l = [] \<or> l = [Log Info ''Shutting down.'' []]"
      "cs = cs1 @ l @ [LoopStop] \<and> q \<noteq> Inr () \<or> cs = cs1 @ l @ [LoopStop, Disconnect]" "q = Inr () \<longrightarrow> x = KeyboardInterrupt"
proof (cases "invoke_all (setup_calls c) lib []")
  case (Pair s cs0)
  show ?thesis
  proof (cases s)
    case (Inl x)
    then show ?thesis using Pair assms invoke_all_calls [OF Pair] that(1) by (auto simp: monitor_main_def)
  next
    case (Inr u)
    with setup_ok Pair have ok: "running_ok fr c lib cs0" by blast
    obtain p cs1 where p: "publish_loop fr c n lib cs0 = (p, cs1)" by (cases "publish_loop fr c n lib cs0")
    note ok1 = loop_ok [OF ok p]
    show ?thesis
    proof (cases p)
      case (Inr v)
      with Pair \<open>s = Inr u\<close> p assms ok1 show ?thesis by (intro that(2)) (auto simp: monitor_main_def)
    next
      case (Inl x)
      obtain q cs2 where q: "shut_down x lib cs1 = (q, cs2)" by (cases "shut_down x lib cs1")
      with Pair \<open>s = Inr u\<close> p Inl assms have "r = Some q" "cs = cs2" by (auto simp: monitor_main_def)
      with q shut_down_calls [OF q] loop_ended [OF p [unfolded Inl]] ok1 show ?thesis
        by (metis that(3))
    qed
  qed
qed

lemma main_publishes:
  assumes "monitor_main fr c n lib = (r, before @ Publish topic message qos retain # after)"
  shows "publish_ok fr c lib before (Publish topic message qos retain)"
proof -
  have "publishes_ok fr c lib (before @ Publish topic message qos retain # after)"
    using assms
  proof (cases rule: main_cases)
    case (not_started x k)
    then show ?thesis using publishes_ok_others [of _ fr c lib "[]"] by simp
  next
    case running
    then show ?thesis by (simp add: running_ok_def)
  next
    case (stopped x cs1 l q)
    then obtain m where "before @ Publish topic message qos retain # after = cs1 @ l @ m" "m = [LoopStop] \<or> m = [LoopStop, Disconnect]" by blast
    with stopped(2,4) publishes_ok_others [of "l @ m" fr c lib cs1] show ?thesis by (auto simp: running_ok_def)
  qed
  then show ?thesis unfolding publishes_ok_def by (simp add: is_publish_def)
qed

section \<open>Properties\<close>

text \<open>C38. 
  Whatever the libraries answer, every message the monitor publishes goes to the configured topic and holds the
  CPU load and the memory that it read just before, and it is sent only after the whole set-up: the TLS
  context verifies the broker's certificate and host name against the configured CA.
\<close>

theorem monitor_publishes_what_it_read:
  assumes "monitor_main fr c n lib = (r, before @ Publish topic message qos retain # after)"
  shows "\<exists>pre load mem. before = setup_calls c @ pre @ [ReadFile ''/proc/loadavg'', ReadFile ''/proc/meminfo''] \<and>
    read_cpu_load (contents (lib (setup_calls c @ pre) (ReadFile ''/proc/loadavg''))) = Inr load \<and>
    read_memory (contents (lib (setup_calls c @ pre @ [ReadFile ''/proc/loadavg'']) (ReadFile ''/proc/meminfo''))) = Inr mem \<and>
    {VerifyMode ''CERT_REQUIRED'', CheckHostname True, LoadVerifyLocations (tls_ca c), TlsSetContext} \<subseteq> set before \<and>
    topic = mqtt_topic c \<and> message = json_dumps fr True None (payload_json load mem) \<and> qos = 1 \<and> \<not> retain"
proof -
  from main_publishes [OF assms] obtain pre load mem where
    b: "before = setup_calls c @ pre @ [ReadFile ''/proc/loadavg'', ReadFile ''/proc/meminfo'']" and
    m: "read_cpu_load (contents (lib (setup_calls c @ pre) (ReadFile ''/proc/loadavg''))) = Inr load"
      "read_memory (contents (lib (setup_calls c @ pre @ [ReadFile ''/proc/loadavg'']) (ReadFile ''/proc/meminfo''))) = Inr mem"
      "Publish topic message qos retain = publish_call fr c load mem"
    unfolding publish_ok_def by blast
  have "{VerifyMode ''CERT_REQUIRED'', CheckHostname True, LoadVerifyLocations (tls_ca c), TlsSetContext} \<subseteq> set before"
    by (simp add: b setup_calls_def)
  with b m show ?thesis by (auto simp: publish_call_def)
qed

text \<open>C39. 
  Once its network thread is started, the monitor ends only when a call raises or a reading can not be parsed; it
  then stops the thread last of all, or disconnects after that, and it returns normally only when the user
  interrupted it.
\<close>

theorem monitor_stops_cleanly:
  assumes "monitor_main fr c n lib = (Some r, cs)" "invoke_all (setup_calls c) lib [] = (Inr u, cs0)"
  shows "\<exists>running x l. ended_by lib running x \<and> (l = [] \<or> l = [Log Info ''Shutting down.'' []]) \<and>
    (cs = running @ l @ [LoopStop] \<and> r \<noteq> Inr () \<or> cs = running @ l @ [LoopStop, Disconnect]) \<and>
    (r = Inr () \<longrightarrow> x = KeyboardInterrupt)"
  using assms by (cases rule: main_cases [OF assms(1)]) auto

end
