(* ===== verification/ScriptWitnesses.thy ===== *)
theory ScriptWitnesses
  imports MonitorMain
begin

text \<open>The properties of the monitor's script, applied to a run with a library that is interrupted in the second iteration.\<close>

section \<open>Script\<close>

definition sample_library :: library where
  "sample_library h x = (case x of ReadFile p \<Rightarrow> if length h = 19 then Raises KeyboardInterrupt
       else if p = ''/proc/loadavg'' then Contents ''0.10 0.20 0.30 1/100 42'' else Contents ''MemTotal: 4 kB\<newline>MemAvailable: 1 kB\<newline>''
     | Publish _ _ _ _ \<Rightarrow> Rc 4 | _ \<Rightarrow> Done)"

definition sample_config :: monitor_config where
  "sample_config = \<lparr>mqtt_host = ''rabbitmq'', mqtt_port = 8883, mqtt_topic = ''cdm/provider/system'', tls_ca = ''/tls/ca.crt'',
     tls_cert = ''/tls/system-monitor.crt'', tls_key = ''/tls/system-monitor.key'', interval = 5\<rparr>"

lemma sample_config_default: "read_config [] = Inr sample_config"
  by code_simp

lemma sample_script:
  obtains load mem where
    "monitor_main fr sample_config 1 sample_library = (None, (setup_calls sample_config @ [ReadFile ''/proc/loadavg'', ReadFile ''/proc/meminfo'']) @
       publish_call fr sample_config load mem # [publish_log load mem 4, Sleep 5])"
    "monitor_main fr sample_config 2 sample_library = (Some (Inr ()), (setup_calls sample_config @ [ReadFile ''/proc/loadavg'', ReadFile ''/proc/meminfo'',
       publish_call fr sample_config load mem, publish_log load mem 4, Sleep 5, ReadFile ''/proc/loadavg'', Log Info ''Shutting down.'' [], LoopStop, Disconnect]))"
proof -
  have "words ''0.10 0.20 0.30 1/100 42'' = [''0.10'', ''0.20'', ''0.30'', ''1/100'', ''42'']" by code_simp
  moreover obtain a b c where "parse_float ''0.10'' = Inr a" "parse_float ''0.20'' = Inr b" "parse_float ''0.30'' = Inr c"
    by (simp add: parse_float_def unsigned_def strip_def c_space_def c_digit_def Let_def)
  ultimately obtain load where l: "read_cpu_load ''0.10 0.20 0.30 1/100 42'' = Inr load"
    by (simp add: read_cpu_load_def float_at_def at_index_def sum_bind_def Let_def)
  have "mem_info (file_lines ''MemTotal: 4 kB\<newline>MemAvailable: 1 kB\<newline>'') [] = Inr [(''MemTotal'', 4), (''MemAvailable'', 1)]" by code_simp
  then obtain mem where m: "read_memory ''MemTotal: 4 kB\<newline>MemAvailable: 1 kB\<newline>'' = Inr mem"
    by (simp add: read_memory_def sum_bind_def info_at_def Let_def)
  have s: "invoke_all (setup_calls sample_config) sample_library [] = (Inr (), setup_calls sample_config)" "length (setup_calls sample_config) = 14"
    by (simp_all add: setup_calls_def seq_def invoke_def yields_def sample_library_def)
  have i: "iteration fr sample_config sample_library cs = (Inr Done, cs @ [ReadFile ''/proc/loadavg'', ReadFile ''/proc/meminfo'',
       publish_call fr sample_config load mem, publish_log load mem 4, Sleep 5])" if "length cs = 14" for cs
    using that l m by (simp add: iteration_def seq_def invoke_def reading_def sample_library_def contents_def rc_def publish_call_def publish_log_def
        sample_config_def)
  have j: "iteration fr sample_config sample_library cs = (Inl KeyboardInterrupt, cs @ [ReadFile ''/proc/loadavg''])" if "length cs = 19" for cs
    using that by (simp add: iteration_def seq_def invoke_def sample_library_def)
  have 1: "publish_loop fr sample_config 1 sample_library (setup_calls sample_config) = (Inr (), setup_calls sample_config @
      [ReadFile ''/proc/loadavg'', ReadFile ''/proc/meminfo'', publish_call fr sample_config load mem, publish_log load mem 4, Sleep 5])"
    by (simp add: seq_def i s(2) yields_def)
  have 2: "publish_loop fr sample_config 2 sample_library (setup_calls sample_config) = (Inl KeyboardInterrupt, setup_calls sample_config @
      [ReadFile ''/proc/loadavg'', ReadFile ''/proc/meminfo'', publish_call fr sample_config load mem, publish_log load mem 4, Sleep 5,
       ReadFile ''/proc/loadavg''])"
    by (simp add: numeral_2_eq_2 seq_def i j s(2) yields_def)
  have 3: "shut_down KeyboardInterrupt sample_library cs = (Inr (), cs @ [Log Info ''Shutting down.'' [], LoopStop, Disconnect])" for cs
    by (simp add: shut_down_def seq_def invoke_def yields_def sample_library_def)
  show ?thesis by (rule that [of load mem]) (simp_all add: monitor_main_def s(1) 1 [simplified One_nat_def] 2 3 del: publish_loop.simps)
qed

lemma monitor_publishes_what_it_read_witness:
  "\<exists>before message after. monitor_main (\<lambda>f. ''0.5'') sample_config 1 sample_library =
     (None, before @ Publish ''cdm/provider/system'' message 1 False # after) \<and> last before = ReadFile ''/proc/meminfo''"
proof -
  obtain load mem where "monitor_main (\<lambda>f. ''0.5'') sample_config 1 sample_library = (None, (setup_calls sample_config @
      [ReadFile ''/proc/loadavg'', ReadFile ''/proc/meminfo'']) @ publish_call (\<lambda>f. ''0.5'') sample_config load mem # [publish_log load mem 4, Sleep 5])"
    by (rule sample_script)
  moreover have "\<exists>message. publish_call (\<lambda>f. ''0.5'') sample_config load mem = Publish ''cdm/provider/system'' message 1 False"
    by (simp add: publish_call_def sample_config_def)
  ultimately obtain before message after where r: "monitor_main (\<lambda>f. ''0.5'') sample_config 1 sample_library =
      (None, before @ Publish ''cdm/provider/system'' message 1 False # after)"
    by metis
  from r monitor_publishes_what_it_read [OF r] show ?thesis by fastforce
qed

lemma monitor_stops_cleanly_witness:
  "\<exists>cs running x. monitor_main (\<lambda>f. ''0.5'') sample_config 2 sample_library = (Some (Inr ()), cs) \<and> ended_by sample_library running x \<and> x = KeyboardInterrupt"
proof -
  obtain cs where r: "monitor_main (\<lambda>f. ''0.5'') sample_config 2 sample_library = (Some (Inr ()), cs)"
    by (rule sample_script)
  have s: "invoke_all (setup_calls sample_config) sample_library [] = (Inr (), setup_calls sample_config)"
    by (simp add: setup_calls_def seq_def invoke_def yields_def sample_library_def)
  from r monitor_stops_cleanly [OF r s] show ?thesis by blast
qed

end
